(* ===== verification/Prelude.thy ===== *)
theory Prelude
  imports Main "HOL-Library.Char_ord" "HOL-Library.List_Lexorder" "HOL-Library.Sublist" "HOL-Library.Multiset"
begin

text \<open>
  Shared vocabulary of the development.

  \<^item> Results: a Go call returning \<open>(T, error)\<close> is a value of \<open>'e + 'a\<close>, \<open>Inl\<close> the error;
    \<open>ebind\<close> is the early return \<open>if err != nil { return ..., err }\<close>.
  \<^item> Strings: Go strings are byte sequences, here \<open>string\<close> (a list of 8-bit characters), compared
    byte-wise by the lexicographic \<open>linorder\<close> of the imported theories. The operations of package
    \<open>strings\<close> that the code uses are defined here.
  \<^item> Maps: a Go map is a partial function. A \<open>range\<close> loop over a map visits the keys in an order
    that the language leaves open, so every such loop takes that order as an argument;
    \<open>range_order\<close> is what the language promises about it.
\<close>

named_theorems go_simps \<open>unfolding rules for the library operations of the source language\<close>
named_theorems inv_intros \<open>introduction rules for component invariants\<close>

type_synonym ('e, 'a) result = "'e + 'a"

subsection \<open>Results\<close>

definition ebind :: "'e + 'a \<Rightarrow> ('a \<Rightarrow> 'e + 'b) \<Rightarrow> 'e + 'b" where
  "ebind r f = (case r of Inl e \<Rightarrow> Inl e | Inr x \<Rightarrow> f x)"

lemma ebind_simps [simp]:
  "ebind (Inl e) f = Inl e"
  "ebind (Inr x) f = f x"
  by (simp_all add: ebind_def)

lemma ebind_eq_Inr: "ebind r f = Inr y \<longleftrightarrow> (\<exists>x. r = Inr x \<and> f x = Inr y)"
  by (cases r) auto

lemma ebind_eq_Inl: "ebind r f = Inl e \<longleftrightarrow> r = Inl e \<or> (\<exists>x. r = Inr x \<and> f x = Inl e)"
  by (cases r) auto

definition map_error :: "('e \<Rightarrow> 'f) \<Rightarrow> 'e + 'a \<Rightarrow> 'f + 'a" where
  "map_error g r = (case r of Inl e \<Rightarrow> Inl (g e) | Inr x \<Rightarrow> Inr x)"

lemma map_error_simps [simp]:
  "map_error g (Inl e) = Inl (g e)"
  "map_error g (Inr x) = Inr x"
  by (simp_all add: map_error_def)

lemma map_error_eq_Inr [simp]: "map_error g r = Inr x \<longleftrightarrow> r = Inr x"
  by (cases r) auto

lemma map_error_eq_Inl: "map_error g r = Inl e \<longleftrightarrow> (\<exists>e'. r = Inl e' \<and> e = g e')"
  by (cases r) auto

text \<open>\<open>guard c e\<close> is \<open>if !c { return e }\<close>.\<close>

definition guard :: "bool \<Rightarrow> 'e \<Rightarrow> 'e + unit" where
  "guard c e = (if c then Inr () else Inl e)"

lemma guard_simps [simp]:
  "guard True e = Inr ()"
  "guard c e = Inr u \<longleftrightarrow> c"
  "guard c e = Inl e' \<longleftrightarrow> \<not> c \<and> e' = e"
  by (auto simp: guard_def)

text \<open>A loop that maps a fallible step over a list and stops at the first error.\<close>

fun emap :: "('a \<Rightarrow> 'e + 'b) \<Rightarrow> 'a list \<Rightarrow> 'e + 'b list" where
  "emap f [] = Inr []"
| "emap f (x # xs) = ebind (f x) (\<lambda>y. ebind (emap f xs) (\<lambda>ys. Inr (y # ys)))"

lemma emap_Inr_iff: "emap f xs = Inr ys \<longleftrightarrow> list_all2 (\<lambda>x y. f x = Inr y) xs ys"
  by (induction xs arbitrary: ys) (auto simp: ebind_eq_Inr list_all2_Cons1)

lemma emap_all_Inr: "(\<And>x. x \<in> set xs \<Longrightarrow> f x = Inr (g x)) \<Longrightarrow> emap f xs = Inr (map g xs)"
  by (induction xs) auto

lemma emap_Inl_witness: "emap f xs = Inl e \<Longrightarrow> \<exists>x\<in>set xs. f x = Inl e"
  by (induction xs) (auto simp: ebind_eq_Inl)

subsection \<open>Go strings\<close>

definition has_prefix :: "string \<Rightarrow> string \<Rightarrow> bool" where
  "has_prefix s p \<longleftrightarrow> take (length p) s = p"

definition has_suffix :: "string \<Rightarrow> string \<Rightarrow> bool" where
  "has_suffix s p \<longleftrightarrow> length p \<le> length s \<and> drop (length s - length p) s = p"

definition trim_prefix :: "string \<Rightarrow> string \<Rightarrow> string" where
  "trim_prefix s p = (if has_prefix s p then drop (length p) s else s)"

definition trim_suffix :: "string \<Rightarrow> string \<Rightarrow> string" where
  "trim_suffix s p = (if has_suffix s p then take (length s - length p) s else s)"

text \<open>\<open>strings.Index\<close>: the least position of the substring, if any.\<close>

fun str_index :: "string \<Rightarrow> string \<Rightarrow> nat option" where
  "str_index [] p = (if p = [] then Some 0 else None)"
| "str_index (c # s) p = (if has_prefix (c # s) p then Some 0 else map_option Suc (str_index s p))"

text \<open>\<open>strings.LastIndex\<close>: the greatest position of the substring, if any.\<close>

fun str_last_index :: "string \<Rightarrow> string \<Rightarrow> nat option" where
  "str_last_index [] p = (if p = [] then Some 0 else None)"
| "str_last_index (c # s) p = (case str_last_index s p of
       Some i \<Rightarrow> Some (Suc i)
     | None \<Rightarrow> (if has_prefix (c # s) p then Some 0 else None))"

definition str_contains :: "string \<Rightarrow> string \<Rightarrow> bool" where
  "str_contains s p \<longleftrightarrow> str_index s p \<noteq> None"

definition contains_any :: "string \<Rightarrow> string \<Rightarrow> bool" where
  "contains_any s cs \<longleftrightarrow> (\<exists>c \<in> set s. c \<in> set cs)"

text \<open>\<open>strings.Split\<close> on a one-byte separator: always at least one field.\<close>

fun split_on :: "char \<Rightarrow> string \<Rightarrow> string list" where
  "split_on d [] = [[]]"
| "split_on d (c # s) = (if c = d then [] # split_on d s
     else (case split_on d s of [] \<Rightarrow> [[c]] | f # fs \<Rightarrow> (c # f) # fs))"

fun join_with :: "string \<Rightarrow> string list \<Rightarrow> string" where
  "join_with sep [] = []"
| "join_with sep [s] = s"
| "join_with sep (s # t # ss) = s @ sep @ join_with sep (t # ss)"

text \<open>\<open>strings.TrimSpace\<close> on the ASCII white space.\<close>

definition is_space :: "char \<Rightarrow> bool" where
  "is_space c \<longleftrightarrow> c \<in> set [CHR '' '', CHR 0x09, CHR 0x0A, CHR 0x0B, CHR 0x0C, CHR 0x0D]"

definition trim_space :: "string \<Rightarrow> string" where
  "trim_space s = rev (dropWhile is_space (rev (dropWhile is_space s)))"

lemma has_prefix_iff: "has_prefix s p \<longleftrightarrow> (\<exists>r. s = p @ r)"
  unfolding has_prefix_def by (metis append_eq_conv_conj append_take_drop_id)

lemma has_suffix_iff: "has_suffix s p \<longleftrightarrow> (\<exists>r. s = r @ p)"
  unfolding has_suffix_def by (auto, metis append_take_drop_id)

lemma has_prefix_append [simp]: "has_prefix (p @ r) p"
  by (auto simp: has_prefix_iff)

lemma has_suffix_append [simp]: "has_suffix (r @ p) p"
  by (auto simp: has_suffix_iff)

lemma trim_suffix_append [simp]: "trim_suffix (r @ p) p = r"
  by (simp add: trim_suffix_def)

lemma str_index_Some: "str_index s p = Some i \<Longrightarrow> s = take i s @ p @ drop (i + length p) s"
proof (induction s p arbitrary: i rule: str_index.induct)
  case (2 c s p)
  then show ?case
    by (auto simp: has_prefix_iff split: if_splits)
qed (auto split: if_splits)

lemma str_last_index_Some: "str_last_index s p = Some i \<Longrightarrow> s = take i s @ p @ drop (i + length p) s"
proof (induction s p arbitrary: i rule: str_last_index.induct)
  case (2 c s p)
  then show ?case
    by (auto simp: has_prefix_iff split: option.splits if_splits)
qed (auto split: if_splits)

lemma str_index_append: "str_index (a @ p @ b) p \<noteq> None"
  by (induction a) (auto simp: has_prefix_iff intro: exI [of _ b] split: list.splits, (cases p; cases b; auto simp: has_prefix_def)+)

lemma str_contains_iff: "str_contains s p \<longleftrightarrow> (\<exists>a b. s = a @ p @ b)"
proof
  assume "str_contains s p"
  then obtain i where "str_index s p = Some i" by (auto simp: str_contains_def)
  then show "\<exists>a b. s = a @ p @ b" by (metis str_index_Some)
next
  assume "\<exists>a b. s = a @ p @ b"
  then show "str_contains s p" using str_index_append by (auto simp: str_contains_def)
qed

lemma split_on_nonempty [simp]: "split_on d s \<noteq> []"
  by (induction s) (auto split: list.splits)

lemma split_on_no_sep: "f \<in> set (split_on d s) \<Longrightarrow> d \<notin> set f"
  by (induction s arbitrary: f) (fastforce split: list.splits if_splits)+

lemma join_split: "join_with [d] (split_on d s) = s"
proof (induction s)
  case (Cons c s)
  then show ?case
    by (cases "split_on d s"; cases "tl (split_on d s)") (auto split: list.splits)
qed simp

text \<open>\<open>%d\<close> of a non-negative number.\<close>

fun show_nat :: "nat \<Rightarrow> string" where
  "show_nat n = (if n < 10 then [char_of (48 + n)] else show_nat (n div 10) @ [char_of (48 + n mod 10)])"

declare show_nat.simps [simp del]

subsection \<open>Maps and range loops\<close>

definition range_order :: "('k \<rightharpoonup> 'v) \<Rightarrow> 'k list \<Rightarrow> bool" where
  "range_order m ks \<longleftrightarrow> distinct ks \<and> set ks = dom m"

lemma range_orderD [dest]: "range_order m ks \<Longrightarrow> distinct ks \<and> set ks = dom m"
  by (simp add: range_order_def)

text \<open>\<open>m[k]\<close> on a map of slices: a missing key reads as the empty slice.\<close>

definition slice_at :: "('k \<rightharpoonup> 'v list) \<Rightarrow> 'k \<Rightarrow> 'v list" where
  "slice_at m k = (case m k of None \<Rightarrow> [] | Some vs \<Rightarrow> vs)"

text \<open>\<open>m[k] = append(m[k], v)\<close>.\<close>

definition append_at :: "('k \<rightharpoonup> 'v list) \<Rightarrow> 'k \<Rightarrow> 'v \<Rightarrow> ('k \<rightharpoonup> 'v list)" where
  "append_at m k v = m(k \<mapsto> slice_at m k @ [v])"

text \<open>The loops that group values under keys: one \<open>append_at\<close> per visited pair.\<close>

definition group_pairs :: "('k \<times> 'v) list \<Rightarrow> ('k \<rightharpoonup> 'v list)" where
  "group_pairs kvs = foldl (\<lambda>m (k, v). append_at m k v) Map.empty kvs"

lemma slice_at_append_at: "slice_at (append_at m k v) k' = slice_at m k' @ (if k' = k then [v] else [])"
  by (simp add: append_at_def slice_at_def)

lemma foldl_append_at:
  "slice_at (foldl (\<lambda>m (k, v). append_at m k v) m kvs) k' = slice_at m k' @ map snd (filter (\<lambda>p. fst p = k') kvs)"
  by (induction kvs arbitrary: m) (auto simp: slice_at_append_at)

lemma slice_at_group_pairs: "slice_at (group_pairs kvs) k = map snd (filter (\<lambda>p. fst p = k) kvs)"
  unfolding group_pairs_def foldl_append_at by (simp add: slice_at_def)

lemma dom_foldl_append_at: "dom (foldl (\<lambda>m (k, v). append_at m k v) m kvs) = dom m \<union> fst ` set kvs"
  by (induction kvs arbitrary: m) (auto simp: append_at_def)

lemma dom_group_pairs: "dom (group_pairs kvs) = fst ` set kvs"
  unfolding group_pairs_def dom_foldl_append_at by simp

lemma group_pairs_Some:
  "group_pairs kvs k = Some vs \<longleftrightarrow> vs = map snd (filter (\<lambda>p. fst p = k) kvs) \<and> k \<in> fst ` set kvs"
  using slice_at_group_pairs [of kvs k] dom_group_pairs [of kvs]
  by (auto simp: slice_at_def split: option.splits)

subsection \<open>Sorting\<close>

lemma sort_key_eqI:
  assumes "distinct xs" "distinct ys" "set xs = set ys" "inj_on f (set xs)"
  shows "sort_key f xs = sort_key f ys"
proof (rule properties_for_sort_key)
  show "mset (sort_key f ys) = mset xs"
    using assms by (simp add: set_eq_iff_mset_eq_distinct)
  show "filter (\<lambda>y. f k = f y) (sort_key f ys) = filter (\<lambda>x. f k = f x) xs" if "k \<in> set (sort_key f ys)" for k
  proof -
    have "filter (\<lambda>y. f k = f y) zs = [k]" if "distinct zs" "k \<in> set zs" "set zs = set xs" for zs
    proof -
      have "set (filter (\<lambda>y. f k = f y) zs) = {k}"
        using that assms(4) by (auto simp: inj_on_def)
      then show ?thesis
        using that(1) by (metis distinct_filter distinct_singleton empty_set list.simps(15) set_eq_iff_mset_eq_distinct mset_single_iff_right mset.simps)
    qed
    then show ?thesis using assms that by (metis distinct_sort set_sort)
  qed
  show "sorted (map f (sort_key f ys))" by simp
qed

end
