(* ===== verification/Bundle_Spec.thy ===== *)
theory Bundle_Spec
  imports Prelude
begin

text \<open>
  The bundle definition, \<open>pkg/bundle/spec\<close>: the structs of \<open>bundle.go\<close> as records, the errors of
  \<open>errors.go\<close> as one datatype with its messages, and \<open>UDSBundle.Validate\<close> of \<open>validation.go\<close>.
  \<open>Validate\<close> collects errors and returns \<open>errors.Join\<close> of them, which is nil exactly for the
  empty list, so the model returns the list. \<open>bundle_ok\<close> is the abstract specification of a valid
  bundle; \<open>validate_Nil_iff\<close> says that \<open>Validate\<close> decides it.
\<close>

record uds_block =
  bundle_api_version :: string

record metadata =
  md_name :: string
  md_description :: string
  md_version :: string

record keyless_signature_verification =
  certificate_identity :: string
  certificate_identity_regexp :: string
  certificate_oidc_issuer :: string
  certificate_oidc_issuer_regexp :: string
  trusted_root :: string
  insecure_ignore_tlog :: bool
  insecure_ignore_sct :: bool
  use_signed_timestamps :: bool

record package_signature_verification =
  sv_verify :: "bool option"
  sv_public_key :: string
  sv_keyless :: "keyless_signature_verification option"

record package_ref =
  ref_name :: string

record package =
  pkg_name :: string
  pkg_source :: string
  pkg_namespace :: string
  pkg_depends_on :: "package_ref list"
  pkg_values_files :: "string list"
  pkg_optional_components :: "string list"
  pkg_signature_verification :: "package_signature_verification option"

record uds_bundle =
  uds :: uds_block
  metadata :: metadata
  packages :: "package list"

abbreviation dep_names :: "package \<Rightarrow> string list" where
  "dep_names p \<equiv> map ref_name (pkg_depends_on p)"

datatype spec_error =
    BundleAPIVersionRequired
  | MetadataNameRequired
  | PackagesRequired
  | UnsupportedBundleAPIVersion string string
  | PackageNameRequired nat
  | InvalidPackageName nat string
  | DuplicatePackageName nat string
  | PackageSourceRequired string
  | SelfDependency string
  | UnknownDependency string string
  | EmptyOptionalComponent string
  | DuplicateOptionalComponent string string

text \<open>The messages; \<open>q\<close> is the \<open>%q\<close> verb of package \<open>fmt\<close>.\<close>

fun spec_error_message :: "(string \<Rightarrow> string) \<Rightarrow> spec_error \<Rightarrow> string" where
  "spec_error_message q BundleAPIVersionRequired = ''uds.bundle_api_version is required''"
| "spec_error_message q MetadataNameRequired = ''metadata.name is required''"
| "spec_error_message q PackagesRequired = ''at least one package is required''"
| "spec_error_message q (UnsupportedBundleAPIVersion a e) =
     ''uds.bundle_api_version '' @ q a @ '' is not supported; expected '' @ q e"
| "spec_error_message q (PackageNameRequired i) =
     ''package['' @ show_nat i @ '']: name (block label) is required''"
| "spec_error_message q (InvalidPackageName i n) =
     ''package['' @ show_nat i @ '']: name '' @ q n @ '' must not contain path separators or be a dot path''"
| "spec_error_message q (DuplicatePackageName i n) =
     ''package['' @ show_nat i @ '']: duplicate package name '' @ q n"
| "spec_error_message q (PackageSourceRequired p) = ''package '' @ q p @ '': source is required''"
| "spec_error_message q (SelfDependency p) = ''package '' @ q p @ '': cannot depend on itself''"
| "spec_error_message q (UnknownDependency p d) =
     ''package '' @ q p @ '': depends_on references unknown package '' @ q d"
| "spec_error_message q (EmptyOptionalComponent p) =
     ''package '' @ q p @ '': optional_components contains empty string''"
| "spec_error_message q (DuplicateOptionalComponent p c) =
     ''package '' @ q p @ '': duplicate optional component '' @ q c"

subsection \<open>Validate\<close>

definition supported_api_version :: string where
  "supported_api_version = ''uds.dev/v1alpha1''"

fun contains_package :: "package list \<Rightarrow> string \<Rightarrow> bool" where
  "contains_package [] n = False"
| "contains_package (p # ps) n = (if pkg_name p = n then True else contains_package ps n)"

definition validate_header :: "uds_bundle \<Rightarrow> spec_error list" where
  "validate_header b =
     (if bundle_api_version (uds b) = [] then [BundleAPIVersionRequired]
      else if bundle_api_version (uds b) \<noteq> supported_api_version
      then [UnsupportedBundleAPIVersion (bundle_api_version (uds b)) supported_api_version]
      else []) @
     (if md_name (metadata b) = [] then [MetadataNameRequired] else []) @
     (if length (packages b) = 0 then [PackagesRequired] else [])"

definition validate_dependency :: "package list \<Rightarrow> package \<Rightarrow> package_ref \<Rightarrow> spec_error list" where
  "validate_dependency ps p dep =
     (if ref_name dep = pkg_name p then [SelfDependency (pkg_name p)] else []) @
     (if \<not> contains_package ps (ref_name dep) then [UnknownDependency (pkg_name p) (ref_name dep)] else [])"

text \<open>The loop over the optional components; \<open>seen\<close> is the map \<open>componentNames\<close>.\<close>

fun validate_components :: "string \<Rightarrow> (string \<Rightarrow> bool) \<Rightarrow> string list \<Rightarrow> spec_error list" where
  "validate_components p seen [] = []"
| "validate_components p seen (c # cs) =
     (if c = [] then [EmptyOptionalComponent p] else []) @
     (if seen c then [DuplicateOptionalComponent p c] else []) @
     validate_components p (seen(c := True)) cs"

text \<open>The loop over the packages; \<open>seen\<close> is the map \<open>packageNames\<close>, \<open>i\<close> the index.\<close>

fun validate_packages :: "package list \<Rightarrow> nat \<Rightarrow> (string \<Rightarrow> bool) \<Rightarrow> package list \<Rightarrow> spec_error list" where
  "validate_packages all i seen [] = []"
| "validate_packages all i seen (p # ps) =
     (if pkg_name p = [] then [PackageNameRequired i] else []) @
     (if contains_any (pkg_name p) [CHR 0x2F, CHR 0x5C] \<or> pkg_name p = ''.'' \<or> pkg_name p = ''..''
      then [InvalidPackageName i (pkg_name p)] else []) @
     (if seen (pkg_name p) then [DuplicatePackageName i (pkg_name p)] else []) @
     (if pkg_source p = [] then [PackageSourceRequired (pkg_name p)] else []) @
     concat (map (validate_dependency all p) (pkg_depends_on p)) @
     validate_components (pkg_name p) (\<lambda>_. False) (pkg_optional_components p) @
     validate_packages all (Suc i) (seen(pkg_name p := True)) ps"

definition validate :: "uds_bundle \<Rightarrow> spec_error list" where
  "validate b = validate_header b @ validate_packages (packages b) 0 (\<lambda>_. False) (packages b)"

subsection \<open>What a valid bundle is\<close>

definition safe_package_name :: "string \<Rightarrow> bool" where
  "safe_package_name n \<longleftrightarrow> n \<noteq> [] \<and> CHR 0x2F \<notin> set n \<and> CHR 0x5C \<notin> set n \<and> n \<noteq> ''.'' \<and> n \<noteq> ''..''"

definition package_ok :: "string set \<Rightarrow> package \<Rightarrow> bool" where
  "package_ok names p \<longleftrightarrow> safe_package_name (pkg_name p) \<and> pkg_source p \<noteq> [] \<and>
     set (dep_names p) \<subseteq> names - {pkg_name p} \<and>
     distinct (pkg_optional_components p) \<and> [] \<notin> set (pkg_optional_components p)"

definition bundle_ok :: "uds_bundle \<Rightarrow> bool" where
  "bundle_ok b \<longleftrightarrow> bundle_api_version (uds b) = supported_api_version \<and> md_name (metadata b) \<noteq> [] \<and>
     packages b \<noteq> [] \<and> distinct (map pkg_name (packages b)) \<and>
     (\<forall>p \<in> set (packages b). package_ok (pkg_name ` set (packages b)) p)"

lemma contains_package_iff: "contains_package ps n \<longleftrightarrow> n \<in> pkg_name ` set ps"
  by (induction ps) auto

lemma validate_components_Nil:
  "validate_components p seen cs = [] \<longleftrightarrow> distinct cs \<and> [] \<notin> set cs \<and> (\<forall>c \<in> set cs. \<not> seen c)"
proof (induction cs arbitrary: seen)
  case (Cons c cs)
  then show ?case by (cases "c = []"; cases "seen c") (simp_all, blast)
qed simp

lemma validate_dependency_Nil:
  "validate_dependency ps p d = [] \<longleftrightarrow> ref_name d \<in> pkg_name ` set ps - {pkg_name p}"
  by (simp add: validate_dependency_def contains_package_iff)

lemma validate_dependencies_Nil:
  "(\<forall>d \<in> set ds. validate_dependency ps p d = []) \<longleftrightarrow>
   set (map ref_name ds) \<subseteq> pkg_name ` set ps - {pkg_name p}"
  unfolding validate_dependency_Nil by (simp only: set_map image_subset_iff)

lemma unsafe_name:
  "n \<noteq> [] \<Longrightarrow> \<not> (contains_any n [CHR 0x2F, CHR 0x5C] \<or> n = ''.'' \<or> n = ''..'') \<longleftrightarrow> safe_package_name n"
  by (auto simp: safe_package_name_def contains_any_def)

lemma if_Nil_iff [simp]: "(if c then [x] else []) = [] \<longleftrightarrow> \<not> c"
  by simp

lemma validate_packages_Nil:
  "validate_packages all i seen ps = [] \<longleftrightarrow>
   distinct (map pkg_name ps) \<and> (\<forall>p \<in> set ps. package_ok (pkg_name ` set all) p \<and> \<not> seen (pkg_name p))"
proof (induction ps arbitrary: i seen)
  case (Cons p ps)
  have "validate_packages all i seen (p # ps) = [] \<longleftrightarrow>
      pkg_name p \<noteq> [] \<and> \<not> (contains_any (pkg_name p) [CHR 0x2F, CHR 0x5C] \<or> pkg_name p = ''.'' \<or> pkg_name p = ''..'') \<and>
      \<not> seen (pkg_name p) \<and> pkg_source p \<noteq> [] \<and>
      (\<forall>d \<in> set (pkg_depends_on p). validate_dependency all p d = []) \<and>
      validate_components (pkg_name p) (\<lambda>_. False) (pkg_optional_components p) = [] \<and>
      validate_packages all (Suc i) (seen(pkg_name p := True)) ps = []"
    by (simp only: validate_packages.simps append_is_Nil_conv if_Nil_iff concat_eq_Nil_conv set_map ball_simps HOL.simp_thms)
  also have "\<dots> \<longleftrightarrow> package_ok (pkg_name ` set all) p \<and> \<not> seen (pkg_name p) \<and>
      validate_packages all (Suc i) (seen(pkg_name p := True)) ps = []"
    unfolding validate_dependencies_Nil validate_components_Nil package_ok_def
    using unsafe_name [of "pkg_name p"] by (auto simp: safe_package_name_def simp del: set_map)
  also have "\<dots> \<longleftrightarrow> distinct (map pkg_name (p # ps)) \<and>
      (\<forall>q \<in> set (p # ps). package_ok (pkg_name ` set all) q \<and> \<not> seen (pkg_name q))"
    unfolding Cons.IH by (simp add: image_iff) metis
  finally show ?case .
qed simp

lemma validate_header_Nil:
  "validate_header b = [] \<longleftrightarrow> bundle_api_version (uds b) = supported_api_version \<and>
   md_name (metadata b) \<noteq> [] \<and> packages b \<noteq> []"
  by (auto simp: validate_header_def supported_api_version_def)

lemma validate_iff_bundle_ok: "validate b = [] \<longleftrightarrow> bundle_ok b"
  by (simp add: validate_def validate_header_Nil validate_packages_Nil bundle_ok_def)

text \<open>A duplicated name is reported at the index of its second occurrence, for every error list.\<close>

lemma validate_packages_dup:
  "DuplicatePackageName j n \<in> set (validate_packages all i seen ps) \<longleftrightarrow>
   (\<exists>k < length ps. j = i + k \<and> pkg_name (ps ! k) = n \<and> (seen n \<or> n \<in> pkg_name ` set (take k ps)))"
proof (induction ps arbitrary: i seen)
  case (Cons p ps)
  have dep: "DuplicatePackageName j n \<notin> set (validate_dependency all p d)" for d
    by (auto simp: validate_dependency_def)
  have comp: "DuplicatePackageName j n \<notin> set (validate_components q s cs)" for q s cs
    by (induction cs arbitrary: s) auto
  have "DuplicatePackageName j n \<in> set (validate_packages all i seen (p # ps)) \<longleftrightarrow>
      (seen n \<and> j = i \<and> pkg_name p = n) \<or>
      DuplicatePackageName j n \<in> set (validate_packages all (Suc i) (seen(pkg_name p := True)) ps)"
    by (auto simp: dep comp)
  also have "\<dots> \<longleftrightarrow> (\<exists>k < length (p # ps). j = i + k \<and> pkg_name ((p # ps) ! k) = n \<and>
      (seen n \<or> n \<in> pkg_name ` set (take k (p # ps))))"
    unfolding Cons.IH by (auto simp: less_Suc_eq_0_disj)
  finally show ?case .
qed simp

subsection \<open>Properties\<close>

text \<open>C5. \<open>UDSBundle.Validate\<close> returns nil exactly for the bundles that satisfy every constraint:
  the supported API version, a metadata name, at least one package, distinct package names that
  are safe as path elements, a source for every package, dependencies that name other packages of
  the bundle, and optional components that are non-empty and distinct.\<close>

theorem validate_Nil_iff:
  "validate b = [] \<longleftrightarrow>
     bundle_api_version (uds b) = ''uds.dev/v1alpha1'' \<and> md_name (metadata b) \<noteq> [] \<and> packages b \<noteq> [] \<and>
     distinct (map pkg_name (packages b)) \<and>
     (\<forall>p \<in> set (packages b).
        safe_package_name (pkg_name p) \<and> pkg_source p \<noteq> [] \<and>
        set (dep_names p) \<subseteq> pkg_name ` set (packages b) - {pkg_name p} \<and>
        distinct (pkg_optional_components p) \<and> [] \<notin> set (pkg_optional_components p))"
  by (simp add: validate_iff_bundle_ok bundle_ok_def package_ok_def supported_api_version_def)

definition sample_package :: "string \<Rightarrow> string list \<Rightarrow> package" where
  "sample_package n ds = \<lparr>pkg_name = n, pkg_source = ''src'', pkg_namespace = [],
     pkg_depends_on = map (\<lambda>r. \<lparr>ref_name = r\<rparr>) ds, pkg_values_files = [], pkg_optional_components = [],
     pkg_signature_verification = None\<rparr>"

theorem validate_Nil_iff_witness:
  "validate \<lparr>uds = \<lparr>bundle_api_version = ''uds.dev/v1alpha1''\<rparr>,
     metadata = \<lparr>md_name = ''x'', md_description = [], md_version = []\<rparr>,
     packages = [sample_package ''a'' [], sample_package ''b'' [''a'']]\<rparr> = []"
  unfolding validate_Nil_iff by (simp add: sample_package_def safe_package_name_def)

end
