(* ===== verification/Dependency.thy ===== *)
theory Dependency
  imports Bundle_Spec
begin

text \<open>
  The package dependency graph, \<open>internal/bundle/dependency.go\<close>: construction with cycle detection
  by depth-first search, Kahn's algorithm with levels, level filtering, name validation and the two
  safety queries. Go maps are visited in an order the language leaves open, so every loop over a map
  takes the order of that loop as an argument (\<open>ord\<close>), and the theorems hold for every order that
  enumerates the keys once. The debug output on \<open>streams\<close> is not modelled.
\<close>

datatype index_key = KeyString string | KeyOther

text \<open>\<open>hcl.Traverser\<close>: the implementations the code distinguishes.\<close>

datatype traverser = TraverseRoot string | TraverseAttr string | TraverseIndex index_key | TraverseOther

type_synonym hcl_traversal = "traverser list"

record package_traversal =
  pt_package :: package
  pt_traversal :: hcl_traversal

record dag =
  dag_packages :: "string \<rightharpoonup> package_traversal"
  dag_edges :: "string \<rightharpoonup> hcl_traversal list"

datatype dep_error =
    UnknownPackageDependency string string
  | DependencyCycleAt string string
  | DependencyCycle
  | PackageNotInBundle string
  | UnknownPackages "string list" "string list"
  | BuildDependencyGraphFailed string dep_error

text \<open>\<open>errors.Is(err, ErrDependencyCycle)\<close>.\<close>

fun is_cycle_error :: "dep_error \<Rightarrow> bool" where
  "is_cycle_error (DependencyCycleAt _ _) = True"
| "is_cycle_error DependencyCycle = True"
| "is_cycle_error (BuildDependencyGraphFailed _ e) = is_cycle_error e"
| "is_cycle_error _ = False"

definition traversal_to_name :: "hcl_traversal \<Rightarrow> string" where
  "traversal_to_name trav = (case trav of _ # TraverseAttr n # _ \<Rightarrow> n | _ \<Rightarrow> [])"

definition package_traversal_of :: "package \<Rightarrow> package_traversal" where
  "package_traversal_of p = \<lparr>pt_package = p, pt_traversal = [TraverseRoot ''package'', TraverseAttr (pkg_name p)]\<rparr>"

definition collect_packages :: "package list \<Rightarrow> (string \<rightharpoonup> package_traversal)" where
  "collect_packages ps = foldl (\<lambda>m p. m(pkg_name p \<mapsto> package_traversal_of p)) Map.empty ps"

fun collect_deps :: "(string \<rightharpoonup> package_traversal) \<Rightarrow> string \<Rightarrow> package_ref list \<Rightarrow> (dep_error, hcl_traversal list) result" where
  "collect_deps m n [] = Inr []"
| "collect_deps m n (r # rs) = (case m (ref_name r) of
       None \<Rightarrow> Inl (UnknownPackageDependency n (ref_name r))
     | Some dep \<Rightarrow> ebind (collect_deps m n rs) (\<lambda>ts. Inr (pt_traversal dep # ts)))"

fun collect_edges :: "(string \<rightharpoonup> package_traversal) \<Rightarrow> string list \<Rightarrow> (string \<rightharpoonup> hcl_traversal list) \<Rightarrow>
    (dep_error, string \<rightharpoonup> hcl_traversal list) result" where
  "collect_edges m [] es = Inr es"
| "collect_edges m (k # ks) es = (case m k of
       None \<Rightarrow> collect_edges m ks es
     | Some pt \<Rightarrow> ebind (collect_deps m (pkg_name (pt_package pt)) (pkg_depends_on (pt_package pt)))
         (\<lambda>ts. collect_edges m ks (es(pkg_name (pt_package pt) \<mapsto> ts))))"

subsection \<open>Cycle detection\<close>

record dfs_state =
  visited :: "string \<Rightarrow> bool"
  rec_stack :: "string \<Rightarrow> bool"

text \<open>
  The closure \<open>dfs\<close> and the loop over the dependencies in its body. The recursion depth is bounded by
  fuel; \<open>None\<close> is running out of it, which \<open>dfs_fuel_enough\<close> excludes for the fuel
  \<open>detect_cycles\<close> passes (the number of packages).
\<close>

function dfs :: "nat \<Rightarrow> dag \<Rightarrow> string \<Rightarrow> dfs_state \<Rightarrow> (dep_error, dfs_state) result option"
  and dfs_deps :: "nat \<Rightarrow> dag \<Rightarrow> string \<Rightarrow> hcl_traversal list \<Rightarrow> dfs_state \<Rightarrow> (dep_error, dfs_state) result option" where
  "dfs 0 d name s = None"
| "dfs (Suc k) d name s =
     (case dfs_deps k d name (slice_at (dag_edges d) name)
             (s\<lparr>visited := (visited s)(name := True), rec_stack := (rec_stack s)(name := True)\<rparr>) of
        Some (Inr s') \<Rightarrow> Some (Inr (s'\<lparr>rec_stack := (rec_stack s')(name := False)\<rparr>))
      | r \<Rightarrow> r)"
| "dfs_deps k d name [] s = Some (Inr s)"
| "dfs_deps k d name (t # ts) s =
     (if \<not> visited s (traversal_to_name t) then
        (case dfs k d (traversal_to_name t) s of
           Some (Inr s') \<Rightarrow> dfs_deps k d name ts s'
         | r \<Rightarrow> r)
      else if rec_stack s (traversal_to_name t) then Some (Inl (DependencyCycleAt name (traversal_to_name t)))
      else dfs_deps k d name ts s)"
  by pat_completeness auto
termination
  by (relation "measures [\<lambda>x. case x of Inl (k, _) \<Rightarrow> k | Inr (k, _) \<Rightarrow> k,
        \<lambda>x. case x of Inl _ \<Rightarrow> 0 | Inr (_, _, _, ts, _) \<Rightarrow> Suc (length ts)]") auto

fun dfs_all :: "nat \<Rightarrow> dag \<Rightarrow> string list \<Rightarrow> dfs_state \<Rightarrow> (dep_error, dfs_state) result option" where
  "dfs_all k d [] s = Some (Inr s)"
| "dfs_all k d (n # ns) s =
     (if \<not> visited s n then
        (case dfs k d n s of Some (Inr s') \<Rightarrow> dfs_all k d ns s' | r \<Rightarrow> r)
      else dfs_all k d ns s)"

definition detect_cycles :: "dag \<Rightarrow> string list \<Rightarrow> (dep_error, unit) result option" where
  "detect_cycles d ord = map_option (\<lambda>r. ebind r (\<lambda>_. Inr ()))
     (dfs_all (length ord) d ord \<lparr>visited = (\<lambda>_. False), rec_stack = (\<lambda>_. False)\<rparr>)"

text \<open>\<open>ord1\<close> is the order of the loop that builds the edges, \<open>ord2\<close> that of \<open>detectCycles\<close>.\<close>

definition build_dependency_graph :: "string list \<Rightarrow> string list \<Rightarrow> uds_bundle \<Rightarrow> (dep_error, dag) result option" where
  "build_dependency_graph ord1 ord2 b =
     (let m = collect_packages (packages b) in
      case collect_edges m ord1 Map.empty of
        Inl e \<Rightarrow> Some (Inl e)
      | Inr es \<Rightarrow>
          (let d = \<lparr>dag_packages = m, dag_edges = es\<rparr> in
           map_option (\<lambda>r. ebind r (\<lambda>_. Inr d)) (detect_cycles d ord2)))"

subsection \<open>Topological levels\<close>

definition deps_of :: "dag \<Rightarrow> string \<Rightarrow> string list" where
  "deps_of d n = map traversal_to_name (slice_at (dag_edges d) n)"

definition initial_in_degree :: "dag \<Rightarrow> string list \<Rightarrow> (string \<rightharpoonup> int)" where
  "initial_in_degree d ord = foldl (\<lambda>m n. m(n \<mapsto> int (length (slice_at (dag_edges d) n)))) Map.empty ord"

definition dependents_of :: "dag \<Rightarrow> string list \<Rightarrow> (string \<rightharpoonup> string list)" where
  "dependents_of d ord = group_pairs
     (concat (map (\<lambda>n. map (\<lambda>t. (traversal_to_name t, n)) (slice_at (dag_edges d) n)) ord))"

fun current_level :: "dag \<Rightarrow> (string \<rightharpoonup> int) \<Rightarrow> string list \<Rightarrow> package list" where
  "current_level d deg [] = []"
| "current_level d deg (n # ns) =
     (case (deg n, dag_packages d n) of
        (Some v, Some pt) \<Rightarrow> if v = 0 then pt_package pt # current_level d deg ns else current_level d deg ns
      | _ \<Rightarrow> current_level d deg ns)"

fun decrement_dependents :: "string list \<Rightarrow> (string \<rightharpoonup> int) \<Rightarrow> (string \<rightharpoonup> int)" where
  "decrement_dependents [] deg = deg"
| "decrement_dependents (n # ns) deg =
     (case deg n of
        Some v \<Rightarrow> if v > 0 then decrement_dependents ns (deg(n \<mapsto> v - 1)) else decrement_dependents ns deg
      | None \<Rightarrow> decrement_dependents ns deg)"

fun remove_level :: "(string \<rightharpoonup> string list) \<Rightarrow> package list \<Rightarrow> (string \<rightharpoonup> int) \<Rightarrow> (string \<rightharpoonup> int)" where
  "remove_level dependents [] deg = deg"
| "remove_level dependents (p # ps) deg =
     remove_level dependents ps
       (decrement_dependents (slice_at dependents (pkg_name p)) (deg(pkg_name p \<mapsto> -1)))"

text \<open>The loop \<open>for remaining > 0\<close>; \<open>ord i\<close> is the order in which its \<open>i\<close>-th round visits \<open>inDegree\<close>.\<close>

function levels_loop :: "dag \<Rightarrow> (nat \<Rightarrow> string list) \<Rightarrow> (string \<rightharpoonup> string list) \<Rightarrow> nat \<Rightarrow> (string \<rightharpoonup> int) \<Rightarrow> int \<Rightarrow>
    package list list \<Rightarrow> (dep_error, package list list) result" where
  "levels_loop d ord dependents i deg remaining levels =
     (if remaining > 0 then
        (let cur = current_level d deg (ord i) in
         if length cur = 0 then Inl DependencyCycle
         else (let lvl = sort_key pkg_name cur in
               levels_loop d ord dependents (Suc i) (remove_level dependents lvl deg)
                 (remaining - int (length lvl)) (levels @ [lvl])))
      else Inr levels)"
  by pat_completeness auto
termination
  by (relation "measure (\<lambda>(d, ord, dependents, i, deg, remaining, levels). nat remaining)") auto

declare levels_loop.simps [simp del]

definition topological_levels :: "(nat \<Rightarrow> string list) \<Rightarrow> dag \<Rightarrow> (dep_error, package list list) result" where
  "topological_levels ord d =
     levels_loop d (\<lambda>i. ord (i + 2)) (dependents_of d (ord 1)) 0 (initial_in_degree d (ord 0))
       (int (card (dom (dag_packages d)))) []"

definition topological_sort :: "(nat \<Rightarrow> string list) \<Rightarrow> dag \<Rightarrow> (dep_error, package list) result" where
  "topological_sort ord d = ebind (topological_levels ord d) (\<lambda>levels. Inr (concat levels))"

fun find_level :: "string \<Rightarrow> int \<Rightarrow> package list list \<Rightarrow> int" where
  "find_level name i [] = -1"
| "find_level name i (l # ls) = (if \<exists>p \<in> set l. pkg_name p = name then i else find_level name (i + 1) ls)"

definition level :: "(nat \<Rightarrow> string list) \<Rightarrow> dag \<Rightarrow> string \<Rightarrow> int" where
  "level ord d name = (case topological_levels ord d of Inl _ \<Rightarrow> -1 | Inr levels \<Rightarrow> find_level name 0 levels)"

definition traversal :: "dag \<Rightarrow> string \<Rightarrow> hcl_traversal option" where
  "traversal d name = map_option pt_traversal (dag_packages d name)"

subsection \<open>Selections\<close>

text \<open>\<open>ord\<close> is the order in which the map \<open>requested\<close> is visited when it is checked.\<close>

definition filter_levels :: "string list \<Rightarrow> package list list \<Rightarrow> string list \<Rightarrow> (dep_error, package list list) result" where
  "filter_levels ord levels names =
     (if length names = 0 then Inr levels
      else case find (\<lambda>n. \<not> (\<exists>l \<in> set levels. \<exists>p \<in> set l. pkg_name p = n)) ord of
             Some n \<Rightarrow> Inl (PackageNotInBundle n)
           | None \<Rightarrow> Inr (filter (\<lambda>l. length l > 0) (map (filter (\<lambda>p. pkg_name p \<in> set names)) levels)))"

definition validate_package_names :: "string list \<Rightarrow> package list \<Rightarrow> (dep_error, unit) result" where
  "validate_package_names names ps =
     (if length names = 0 then Inr ()
      else (let known = map pkg_name ps; unknown = filter (\<lambda>n. n \<notin> set known) names in
            if length unknown > 0 then Inl (UnknownPackages unknown (sort known)) else Inr ()))"

definition sort_values :: "('k \<rightharpoonup> string list) \<Rightarrow> ('k \<rightharpoonup> string list)" where
  "sort_values m = (\<lambda>k. map_option sort (m k))"

definition dependent_blockers :: "string list \<Rightarrow> dag \<Rightarrow> string list \<Rightarrow> (string \<rightharpoonup> string list)" where
  "dependent_blockers ord d remove = sort_values (group_pairs
     (concat (map (\<lambda>n. if n \<in> set remove then []
        else map (\<lambda>dep. (dep, n)) (filter (\<lambda>dep. dep \<in> set remove) (deps_of d n))) ord)))"

definition missing_dependencies :: "string list \<Rightarrow> dag \<Rightarrow> string list \<Rightarrow> (string \<rightharpoonup> string list)" where
  "missing_dependencies ord d selected = sort_values (group_pairs
     (concat (map (\<lambda>n. if n \<notin> set selected then []
        else map (\<lambda>dep. (n, dep)) (filter (\<lambda>dep. dep \<notin> set selected) (deps_of d n))) ord)))"

definition violations_with :: "(dag \<Rightarrow> string list \<Rightarrow> (string \<rightharpoonup> string list)) \<Rightarrow> string list \<Rightarrow> string list \<Rightarrow>
    uds_bundle \<Rightarrow> string list \<Rightarrow> (dep_error, string \<rightharpoonup> string list) result option" where
  "violations_with query ord1 ord2 b names =
     (if length names = 0 then Some (Inr Map.empty)
      else map_option (\<lambda>r. ebind (map_error (BuildDependencyGraphFailed (md_name (metadata b))) r)
                                 (\<lambda>d. Inr (query d names)))
             (build_dependency_graph ord1 ord2 b))"

definition removal_violations where
  "removal_violations ord1 ord2 ord3 b names = violations_with (dependent_blockers ord3) ord1 ord2 b names"

definition deploy_violations where
  "deploy_violations ord1 ord2 ord3 b names = violations_with (missing_dependencies ord3) ord1 ord2 b names"

end
