(* ===== verification/Dependency_Cycles.thy ===== *)
theory Dependency_Cycles
  imports Dependency
begin

text \<open>
  Correctness of graph construction and of \<open>detectCycles\<close>. The depth-first search colours nodes:
  \<open>black\<close> nodes are visited and off the recursion stack. \<open>dfs_inv\<close> says that the black nodes are
  closed under the edges and lie on no cycle; \<open>on_path\<close> says that every node of the stack reaches
  the node being explored, so that an edge back to the stack closes a cycle.
\<close>

definition edge_rel :: "dag \<Rightarrow> (string \<times> string) set" where
  "edge_rel d = {(n, m). m \<in> set (deps_of d n)}"

definition dag_ok :: "dag \<Rightarrow> bool" where
  "dag_ok d \<longleftrightarrow> finite (dom (dag_packages d)) \<and> dom (dag_edges d) = dom (dag_packages d) \<and>
     (\<forall>n pt. dag_packages d n = Some pt \<longrightarrow> pkg_name (pt_package pt) = n) \<and>
     (\<forall>n. set (deps_of d n) \<subseteq> dom (dag_packages d))"

lemma edge_rel_iff [simp]: "(n, m) \<in> edge_rel d \<longleftrightarrow> m \<in> set (deps_of d n)"
  by (simp add: edge_rel_def)

lemma dag_okD:
  assumes "dag_ok d"
  shows "finite (dom (dag_packages d))" and "dom (dag_edges d) = dom (dag_packages d)"
    and "dag_packages d n = Some pt \<Longrightarrow> pkg_name (pt_package pt) = n"
    and "m \<in> set (deps_of d n) \<Longrightarrow> m \<in> dom (dag_packages d)"
  using assms by (auto simp: dag_ok_def)

lemma deps_of_outside: "dag_ok d \<Longrightarrow> n \<notin> dom (dag_packages d) \<Longrightarrow> deps_of d n = []"
  by (auto simp: dag_ok_def deps_of_def slice_at_def domIff split: option.splits)

subsection \<open>Construction\<close>

lemma traversal_to_name_of [simp]: "traversal_to_name (pt_traversal (package_traversal_of p)) = pkg_name p"
  by (simp add: traversal_to_name_def package_traversal_of_def)

lemma pt_package_of [simp]: "pt_package (package_traversal_of p) = p"
  by (simp add: package_traversal_of_def)

lemma collect_packages_snoc:
  "collect_packages (ps @ [p]) = (collect_packages ps)(pkg_name p \<mapsto> package_traversal_of p)"
  by (simp add: collect_packages_def)

lemma collect_packages_Some:
  "collect_packages ps n = Some pt \<Longrightarrow> \<exists>p \<in> set ps. pkg_name p = n \<and> pt = package_traversal_of p"
  by (induction ps rule: rev_induct) (auto simp: collect_packages_snoc split: if_splits, simp add: collect_packages_def)

lemma dom_collect_packages [simp]: "dom (collect_packages ps) = pkg_name ` set ps"
  by (induction ps rule: rev_induct) (simp add: collect_packages_def, simp add: collect_packages_snoc del: fun_upd_apply)

lemma collect_packages_None: "collect_packages ps n = None \<longleftrightarrow> n \<notin> pkg_name ` set ps"
  using dom_collect_packages [of ps] by (metis domIff)

lemma collect_packages_distinct:
  "distinct (map pkg_name ps) \<Longrightarrow> p \<in> set ps \<Longrightarrow> collect_packages ps (pkg_name p) = Some (package_traversal_of p)"
  by (induction ps rule: rev_induct) (auto simp: collect_packages_snoc image_iff)

lemma collect_packages_name:
  "collect_packages ps n = Some pt \<Longrightarrow> pkg_name (pt_package pt) = n \<and> traversal_to_name (pt_traversal pt) = n"
  by (auto dest: collect_packages_Some)

lemma collect_deps_Inr:
  assumes "collect_deps (collect_packages ps) n rs = Inr ts"
  shows "map traversal_to_name ts = map ref_name rs \<and> ref_name ` set rs \<subseteq> pkg_name ` set ps"
  using assms
proof (induction rs arbitrary: ts)
  case (Cons r rs)
  then obtain pt ts' where pt: "collect_packages ps (ref_name r) = Some pt"
    and ts': "collect_deps (collect_packages ps) n rs = Inr ts'" "ts = pt_traversal pt # ts'"
    by (auto simp: ebind_eq_Inr split: option.splits)
  have "ref_name r \<in> dom (collect_packages ps)" using pt by (rule domI)
  then show ?case using Cons.IH [OF ts'(1)] collect_packages_name [OF pt] ts'(2) by simp
qed simp

lemma collect_deps_total:
  "ref_name ` set rs \<subseteq> pkg_name ` set ps \<Longrightarrow> \<exists>ts. collect_deps (collect_packages ps) n rs = Inr ts"
proof (induction rs)
  case (Cons r rs)
  have "ref_name r \<in> dom (collect_packages ps)" using Cons.prems by simp
  then obtain pt where "collect_packages ps (ref_name r) = Some pt" by blast
  then show ?case using Cons by auto
qed simp

lemma collect_deps_Inl:
  "collect_deps (collect_packages ps) n rs = Inl e \<Longrightarrow>
   \<exists>r \<in> set rs. e = UnknownPackageDependency n (ref_name r) \<and> ref_name r \<notin> pkg_name ` set ps"
proof (induction rs)
  case (Cons r rs)
  show ?case
  proof (cases "collect_packages ps (ref_name r)")
    case None
    then show ?thesis using Cons.prems collect_packages_None [of ps "ref_name r"] by auto
  next
    case (Some pt)
    then show ?thesis using Cons by (auto simp: ebind_eq_Inl)
  qed
qed simp

lemma collect_edges_Inr:
  assumes "collect_edges (collect_packages ps) ks es = Inr es'" and "set ks \<subseteq> pkg_name ` set ps"
  shows "dom es' = dom es \<union> set ks \<and>
     (\<forall>n. if n \<in> set ks then (\<exists>pt ts. collect_packages ps n = Some pt \<and> es' n = Some ts \<and>
             collect_deps (collect_packages ps) n (pkg_depends_on (pt_package pt)) = Inr ts)
          else es' n = es n)"
  using assms
proof (induction ks arbitrary: es)
  case (Cons k ks)
  have "k \<in> dom (collect_packages ps)" using Cons.prems(2) by simp
  then obtain pt where pt: "collect_packages ps k = Some pt" by blast
  then have nm: "pkg_name (pt_package pt) = k" using collect_packages_name by blast
  then obtain ts where ts: "collect_deps (collect_packages ps) k (pkg_depends_on (pt_package pt)) = Inr ts"
    and rest: "collect_edges (collect_packages ps) ks (es(k \<mapsto> ts)) = Inr es'"
    using Cons.prems(1) pt by (auto simp: ebind_eq_Inr)
  have IH: "dom es' = dom (es(k \<mapsto> ts)) \<union> set ks \<and>
     (\<forall>n. if n \<in> set ks then (\<exists>pt ts. collect_packages ps n = Some pt \<and> es' n = Some ts \<and>
             collect_deps (collect_packages ps) n (pkg_depends_on (pt_package pt)) = Inr ts)
          else es' n = (es(k \<mapsto> ts)) n)"
    by (rule Cons.IH [OF rest]) (use Cons.prems(2) in simp)
  show ?case
  proof (intro conjI allI)
    show "dom es' = dom es \<union> set (k # ks)" using IH by (simp del: fun_upd_apply)
    show "if n \<in> set (k # ks) then (\<exists>pt ts. collect_packages ps n = Some pt \<and> es' n = Some ts \<and>
        collect_deps (collect_packages ps) n (pkg_depends_on (pt_package pt)) = Inr ts) else es' n = es n" for n
      using IH [THEN conjunct2, THEN spec, of n] pt ts by (cases "n \<in> set ks"; cases "n = k") auto
  qed
qed simp

lemma collect_edges_Inl:
  assumes "collect_edges (collect_packages ps) ks es = Inl e"
  shows "\<exists>p \<in> set ps. \<exists>r \<in> set (pkg_depends_on p).
     e = UnknownPackageDependency (pkg_name p) (ref_name r) \<and> ref_name r \<notin> pkg_name ` set ps"
  using assms
proof (induction ks arbitrary: es)
  case (Cons k ks)
  show ?case
  proof (cases "collect_packages ps k")
    case None
    then show ?thesis using Cons by simp
  next
    case (Some pt)
    then obtain p where p: "p \<in> set ps" "pt = package_traversal_of p" by (auto dest: collect_packages_Some)
    show ?thesis
    proof (cases "collect_deps (collect_packages ps) (pkg_name p) (pkg_depends_on p)")
      case (Inl e')
      then show ?thesis using Cons.prems Some p collect_deps_Inl [OF Inl] by auto
    next
      case (Inr ts)
      then show ?thesis using Cons Some p by simp
    qed
  qed
qed simp

text \<open>The edges of the constructed graph are the declared dependencies of the (last) package of a name.\<close>

lemma collect_edges_dag_ok:
  assumes "range_order (collect_packages ps) ord" and "collect_edges (collect_packages ps) ord Map.empty = Inr es"
  shows "dag_ok \<lparr>dag_packages = collect_packages ps, dag_edges = es\<rparr>"
    and "collect_packages ps n = Some pt \<Longrightarrow>
      deps_of \<lparr>dag_packages = collect_packages ps, dag_edges = es\<rparr> n = dep_names (pt_package pt)"
proof -
  let ?d = "\<lparr>dag_packages = collect_packages ps, dag_edges = es\<rparr>"
  have ks: "set ord = pkg_name ` set ps" using assms(1) by (auto simp: range_order_def)
  note E = collect_edges_Inr [OF assms(2) equalityD1 [OF ks]]
  have deps: "deps_of ?d n = dep_names (pt_package pt)" and sub: "set (dep_names (pt_package pt)) \<subseteq> pkg_name ` set ps"
    if "collect_packages ps n = Some pt" for n pt
  proof -
    have "n \<in> set ord" using that ks dom_collect_packages [of ps] by (metis domI)
    with E [THEN conjunct2, THEN spec, of n] that obtain ts where "es n = Some ts" "collect_deps (collect_packages ps) n (pkg_depends_on (pt_package pt)) = Inr ts"
      by auto
    then show "deps_of ?d n = dep_names (pt_package pt)" "set (dep_names (pt_package pt)) \<subseteq> pkg_name ` set ps"
      using collect_deps_Inr by (auto simp: deps_of_def slice_at_def)
  qed
  have dom: "dom es = pkg_name ` set ps" using E ks by auto
  have "set (deps_of ?d n) \<subseteq> pkg_name ` set ps" for n
  proof (cases "collect_packages ps n")
    case None
    then have "es n = None" using dom dom_collect_packages [of ps] by blast
    then show ?thesis by (simp add: deps_of_def slice_at_def)
  qed (use deps sub in auto)
  then show "dag_ok ?d" using dom collect_packages_name by (auto simp: dag_ok_def)
  show "collect_packages ps n = Some pt \<Longrightarrow> deps_of ?d n = dep_names (pt_package pt)" by (rule deps)
qed

subsection \<open>Depth-first search\<close>

definition black :: "dfs_state \<Rightarrow> string set" where
  "black s = {n. visited s n \<and> \<not> rec_stack s n}"

definition dfs_inv :: "dag \<Rightarrow> dfs_state \<Rightarrow> bool" where
  "dfs_inv d s \<longleftrightarrow> (\<forall>n. rec_stack s n \<longrightarrow> visited s n) \<and>
     (\<forall>n \<in> black s. set (deps_of d n) \<subseteq> black s \<and> (n, n) \<notin> (edge_rel d)\<^sup>+)"

definition on_path :: "dag \<Rightarrow> dfs_state \<Rightarrow> string \<Rightarrow> bool" where
  "on_path d s m \<longleftrightarrow> (\<forall>n. rec_stack s n \<longrightarrow> (n, m) \<in> (edge_rel d)\<^sup>*)"

definition dfs_ext :: "dfs_state \<Rightarrow> dfs_state \<Rightarrow> bool" where
  "dfs_ext s s' \<longleftrightarrow> rec_stack s' = rec_stack s \<and> (\<forall>n. visited s n \<longrightarrow> visited s' n)"

lemma dfs_ext_refl [simp]: "dfs_ext s s"
  by (simp add: dfs_ext_def)

lemma dfs_ext_trans: "dfs_ext s t \<Longrightarrow> dfs_ext t u \<Longrightarrow> dfs_ext s u"
  by (simp add: dfs_ext_def)

lemma dfs_ext_black: "dfs_ext s t \<Longrightarrow> black s \<subseteq> black t"
  by (auto simp: dfs_ext_def black_def)

lemma black_trancl: "(n, m) \<in> (edge_rel d)\<^sup>+ \<Longrightarrow> dfs_inv d s \<Longrightarrow> n \<in> black s \<Longrightarrow> m \<in> black s"
  by (induction rule: trancl_induct) (auto simp: dfs_inv_def)

abbreviation enter :: "dfs_state \<Rightarrow> string \<Rightarrow> dfs_state" where
  "enter s n \<equiv> s\<lparr>visited := (visited s)(n := True), rec_stack := (rec_stack s)(n := True)\<rparr>"

abbreviation leave :: "dfs_state \<Rightarrow> string \<Rightarrow> dfs_state" where
  "leave s n \<equiv> s\<lparr>rec_stack := (rec_stack s)(n := False)\<rparr>"

lemma enter_inv:
  assumes inv: "dfs_inv d s" and new: "\<not> visited s n"
  shows "dfs_inv d (enter s n)"
proof -
  from assms have "black (enter s n) = black s" by (auto simp: black_def dfs_inv_def)
  with inv show ?thesis by (auto simp: dfs_inv_def)
qed

lemma leave_inv:
  assumes inv: "dfs_inv d s" and on: "rec_stack s n" and deps: "set (deps_of d n) \<subseteq> black s"
  shows "dfs_inv d (leave s n)"
proof -
  have n: "n \<notin> black s" "visited s n" using on inv by (auto simp: black_def dfs_inv_def)
  then have blk: "black (leave s n) = insert n (black s)" by (auto simp: black_def)
  have "(n, n) \<notin> (edge_rel d)\<^sup>+"
  proof
    assume "(n, n) \<in> (edge_rel d)\<^sup>+"
    then consider "(n, n) \<in> edge_rel d" | m where "(n, m) \<in> edge_rel d" "(m, n) \<in> (edge_rel d)\<^sup>+"
      by (metis converse_tranclE)
    then show False using deps n inv black_trancl by cases auto
  qed
  with inv deps show ?thesis unfolding dfs_inv_def blk by (auto simp: dfs_inv_def split: if_splits)
qed

text \<open>What a call returns: an extended state with the node black, or a cycle of the graph.\<close>

lemma dfs_post:
  "dfs k d name s = Some r \<Longrightarrow> dfs_inv d s \<Longrightarrow> on_path d s name \<Longrightarrow> \<not> visited s name \<Longrightarrow>
     (case r of Inr s' \<Rightarrow> dfs_inv d s' \<and> dfs_ext s s' \<and> name \<in> black s'
      | Inl e \<Rightarrow> \<exists>a b. e = DependencyCycleAt a b \<and> b \<in> set (deps_of d a) \<and> (b, a) \<in> (edge_rel d)\<^sup>*)"
  "dfs_deps k d name ts s = Some r' \<Longrightarrow> dfs_inv d s \<Longrightarrow> on_path d s name \<Longrightarrow> rec_stack s name \<Longrightarrow>
     set (map traversal_to_name ts) \<subseteq> set (deps_of d name) \<Longrightarrow>
     (case r' of Inr s' \<Rightarrow> dfs_inv d s' \<and> dfs_ext s s' \<and> set (map traversal_to_name ts) \<subseteq> black s'
      | Inl e \<Rightarrow> \<exists>a b. e = DependencyCycleAt a b \<and> b \<in> set (deps_of d a) \<and> (b, a) \<in> (edge_rel d)\<^sup>*)"
proof (induction k d name s and k d name ts s arbitrary: r and r' rule: dfs_dfs_deps.induct)
  case (2 k d name s)
  let ?s = "enter s name"
  obtain r1 where r1: "dfs_deps k d name (slice_at (dag_edges d) name) ?s = Some r1"
    using "2.prems"(1) by (auto split: option.splits sum.splits)
  have vs: "\<not> rec_stack s name" using "2.prems" by (auto simp: dfs_inv_def)
  have path: "on_path d ?s name" using "2.prems"(3) by (simp add: on_path_def)
  have post: "(case r1 of Inr s' \<Rightarrow> dfs_inv d s' \<and> dfs_ext ?s s' \<and> set (deps_of d name) \<subseteq> black s'
      | Inl e \<Rightarrow> \<exists>a b. e = DependencyCycleAt a b \<and> b \<in> set (deps_of d a) \<and> (b, a) \<in> (edge_rel d)\<^sup>*)"
    unfolding deps_of_def set_map [symmetric]
    by (rule "2.IH" [OF r1 enter_inv [OF "2.prems"(2,4)] path, unfolded deps_of_def]) simp_all
  show ?case
  proof (cases r1)
    case (Inl e)
    then show ?thesis using post r1 "2.prems"(1) by auto
  next
    case (Inr s')
    have r: "r = Inr (leave s' name)" using "2.prems"(1) r1 Inr by auto
    have on: "rec_stack s' name" and inv: "dfs_inv d s'" using post Inr by (auto simp: dfs_ext_def)
    have "dfs_inv d (leave s' name)" using leave_inv [OF inv on] post Inr by simp
    moreover have "dfs_ext s (leave s' name)" using post Inr vs by (auto simp: dfs_ext_def fun_eq_iff)
    moreover have "name \<in> black (leave s' name)" using on inv by (simp add: black_def dfs_inv_def)
    ultimately show ?thesis using r by simp
  qed
next
  case (4 k d name t ts s)
  let ?m = "traversal_to_name t"
  have m: "?m \<in> set (deps_of d name)" and ts: "set (map traversal_to_name ts) \<subseteq> set (deps_of d name)"
    using "4.prems"(5) by auto
  consider (new) "\<not> visited s ?m" | (stack) "visited s ?m" "rec_stack s ?m" | (off) "visited s ?m" "\<not> rec_stack s ?m"
    by blast
  then show ?case
  proof cases
    case new
    obtain r1 where r1: "dfs k d ?m s = Some r1" using "4.prems"(1) new by (auto split: option.splits sum.splits)
    have "on_path d s ?m" using "4.prems"(3) m unfolding on_path_def by (meson edge_rel_iff rtrancl.rtrancl_into_rtrancl)
    note post = "4.IH"(1) [OF new r1 "4.prems"(2) this new]
    show ?thesis
    proof (cases r1)
      case (Inl e)
      then show ?thesis using post r1 "4.prems"(1) new by auto
    next
      case (Inr s1)
      have rest: "dfs_deps k d name ts s1 = Some r'" using "4.prems"(1) new r1 Inr by simp
      have s1: "dfs_inv d s1" "dfs_ext s s1" "?m \<in> black s1" using post Inr by auto
      then have "on_path d s1 name" "rec_stack s1 name" using "4.prems" by (auto simp: on_path_def dfs_ext_def)
      note post2 = "4.IH"(2) [OF new r1 Inr rest s1(1) this ts]
      show ?thesis
      proof (cases r')
        case (Inr s2)
        then have s2: "dfs_inv d s2" "dfs_ext s1 s2" "set (map traversal_to_name ts) \<subseteq> black s2" using post2 by simp_all
        then have "dfs_ext s s2" "?m \<in> black s2" using s1 dfs_ext_trans dfs_ext_black by blast+
        then show ?thesis using Inr s2 by simp
      qed (use post2 in simp)
    qed
  next
    case stack
    then have r': "r' = Inl (DependencyCycleAt name ?m)" using "4.prems"(1) by simp
    have "(?m, name) \<in> (edge_rel d)\<^sup>*" using "4.prems"(3) stack by (simp add: on_path_def)
    then show ?thesis using r' m by auto
  next
    case off
    then have rest: "dfs_deps k d name ts s = Some r'" using "4.prems"(1) by simp
    have "?m \<in> black s" using off by (simp add: black_def)
    have post: "case r' of Inr s' \<Rightarrow> dfs_inv d s' \<and> dfs_ext s s' \<and> set (map traversal_to_name ts) \<subseteq> black s'
      | Inl e \<Rightarrow> \<exists>a b. e = DependencyCycleAt a b \<and> b \<in> set (deps_of d a) \<and> (b, a) \<in> (edge_rel d)\<^sup>*"
      by (rule "4.IH"(3) [OF _ _ rest "4.prems"(2-4) ts]) (use off in simp_all)
    show ?thesis
    proof (cases r')
      case (Inr s2)
      then have s2: "dfs_inv d s2" "dfs_ext s s2" "set (map traversal_to_name ts) \<subseteq> black s2" using post by simp_all
      then have "?m \<in> black s2" using \<open>?m \<in> black s\<close> dfs_ext_black by blast
      then show ?thesis using Inr s2 by simp
    qed (use post in simp)
  qed
qed auto

lemma cycle_at_cyclic:
  "b \<in> set (deps_of d a) \<Longrightarrow> (b, a) \<in> (edge_rel d)\<^sup>* \<Longrightarrow> \<not> acyclic (edge_rel d)"
  unfolding acyclic_def by (metis edge_rel_iff rtrancl_into_trancl2)

lemma dfs_all_post:
  assumes "dfs_all k d ns s = Some r" and "dfs_inv d s" and "\<forall>n. \<not> rec_stack s n"
  shows "case r of Inr s' \<Rightarrow> dfs_inv d s' \<and> (\<forall>n. \<not> rec_stack s' n) \<and> dfs_ext s s' \<and> set ns \<subseteq> black s'
    | Inl e \<Rightarrow> is_cycle_error e \<and> \<not> acyclic (edge_rel d)"
  using assms
proof (induction ns arbitrary: s)
  case (Cons n ns)
  show ?case
  proof (cases "visited s n")
    case True
    then have "n \<in> black s" using Cons.prems by (simp add: black_def)
    note post = Cons.IH [OF _ Cons.prems(2,3)]
    show ?thesis
    proof (cases r)
      case (Inr s2)
      then have "dfs_inv d s2 \<and> (\<forall>n. \<not> rec_stack s2 n) \<and> dfs_ext s s2 \<and> set ns \<subseteq> black s2"
        using post Cons.prems(1) True by simp
      then show ?thesis using Inr \<open>n \<in> black s\<close> dfs_ext_black by auto
    qed (use post Cons.prems(1) True in simp)
  next
    case False
    then obtain r1 where r1: "dfs k d n s = Some r1" using Cons.prems(1) by (auto split: option.splits sum.splits)
    have "on_path d s n" using Cons.prems(3) by (simp add: on_path_def)
    note post = dfs_post(1) [OF r1 Cons.prems(2) this False]
    show ?thesis
    proof (cases r1)
      case (Inl e)
      then show ?thesis using post r1 Cons.prems(1) False cycle_at_cyclic by auto
    next
      case (Inr s1)
      then have rest: "dfs_all k d ns s1 = Some r" using Cons.prems(1) False r1 by simp
      have s1: "dfs_inv d s1" "dfs_ext s s1" "n \<in> black s1" using post Inr by auto
      then have "\<forall>n. \<not> rec_stack s1 n" using Cons.prems(3) by (simp add: dfs_ext_def)
      note post2 = Cons.IH [OF rest s1(1) this]
      show ?thesis
      proof (cases r)
        case (Inr s2)
        then have s2: "dfs_inv d s2 \<and> (\<forall>n. \<not> rec_stack s2 n) \<and> dfs_ext s1 s2 \<and> set ns \<subseteq> black s2"
          using post2 by simp
        then have "dfs_ext s s2" "n \<in> black s2" using s1 dfs_ext_trans dfs_ext_black by blast+
        then show ?thesis using Inr s2 by simp
      qed (use post2 in simp)
    qed
  qed
qed (auto split: sum.splits)

subsection \<open>Enough fuel\<close>

definition unvisited :: "dag \<Rightarrow> dfs_state \<Rightarrow> string set" where
  "unvisited d s = {n \<in> dom (dag_packages d). \<not> visited s n}"

lemma unvisited_enter:
  assumes "dag_ok d" "n \<in> unvisited d s"
  shows "card (unvisited d (enter s n)) < card (unvisited d s)"
proof (rule psubset_card_mono)
  show "finite (unvisited d s)" using assms by (simp add: unvisited_def dag_ok_def)
  show "unvisited d (enter s n) \<subset> unvisited d s" using assms(2) by (auto simp: unvisited_def)
qed

lemma unvisited_mono:
  assumes "dag_ok d" "\<forall>n. visited s n \<longrightarrow> visited s' n"
  shows "card (unvisited d s') \<le> card (unvisited d s)"
  using assms by (intro card_mono) (auto simp: unvisited_def dag_ok_def)

lemma dfs_visited_mono:
  "dfs k d name s = Some (Inr s') \<Longrightarrow> visited s n \<Longrightarrow> visited s' n"
  "dfs_deps k d name ts s = Some (Inr s'') \<Longrightarrow> visited s n \<Longrightarrow> visited s'' n"
proof (induction k d name s and k d name ts s arbitrary: s' and s'' rule: dfs_dfs_deps.induct)
  case (2 k d name s)
  then obtain t where t: "dfs_deps k d name (slice_at (dag_edges d) name) (enter s name) = Some (Inr t)"
      "s' = leave t name"
    by (auto split: option.splits sum.splits)
  then have "visited t n" using "2.IH" "2.prems"(2) by simp
  then show ?case using t by simp
next
  case (4 k d name t ts s)
  show ?case
  proof (cases "visited s (traversal_to_name t)")
    case True
    then show ?thesis using "4.IH"(3) "4.prems" by (simp split: if_splits)
  next
    case False
    then obtain s1 where "dfs k d (traversal_to_name t) s = Some (Inr s1)" "dfs_deps k d name ts s1 = Some (Inr s'')"
      using "4.prems"(1) by (auto split: option.splits sum.splits)
    then show ?thesis using "4.IH"(1) "4.IH"(2) "4.prems"(2) False by blast
  qed
qed auto

lemma dfs_fuel_enough:
  "dag_ok d \<Longrightarrow> name \<in> unvisited d s \<Longrightarrow> card (unvisited d s) \<le> k \<Longrightarrow> dfs k d name s \<noteq> None"
  "dag_ok d \<Longrightarrow> set (map traversal_to_name ts) \<subseteq> dom (dag_packages d) \<Longrightarrow> card (unvisited d s) \<le> k \<Longrightarrow>
     dfs_deps k d name ts s \<noteq> None"
proof (induction k d name s and k d name ts s rule: dfs_dfs_deps.induct)
  case (1 d name s)
  then show ?case by (auto simp: dag_ok_def unvisited_def)
next
  case (2 k d name s)
  have "card (unvisited d (enter s name)) \<le> k" using unvisited_enter [OF "2.prems"(1,2)] "2.prems"(3) by simp
  moreover have "set (map traversal_to_name (slice_at (dag_edges d) name)) \<subseteq> dom (dag_packages d)"
    using dag_okD(4) [OF "2.prems"(1)] by (auto simp: deps_of_def)
  ultimately show ?case using "2.IH" "2.prems"(1) by (auto split: option.splits sum.splits)
next
  case (4 k d name t ts s)
  show ?case
  proof (cases "visited s (traversal_to_name t)")
    case True
    then show ?thesis using "4.IH"(3) "4.prems" by simp
  next
    case False
    then obtain r where r: "dfs k d (traversal_to_name t) s = Some r"
      using "4.IH"(1) "4.prems" by (auto simp: unvisited_def)
    show ?thesis
    proof (cases r)
      case (Inr s1)
      have "card (unvisited d s1) \<le> k"
        using unvisited_mono [OF "4.prems"(1)] dfs_visited_mono(1) r Inr "4.prems"(3) by (metis le_trans)
      then show ?thesis using "4.IH"(2) [OF False r Inr "4.prems"(1)] "4.prems"(2) False r Inr by simp
    qed (use False r in simp)
  qed
qed simp

lemma dfs_all_fuel:
  assumes "dag_ok d" "set ns \<subseteq> dom (dag_packages d)" "card (unvisited d s) \<le> k"
  shows "dfs_all k d ns s \<noteq> None"
  using assms
proof (induction ns arbitrary: s)
  case (Cons n ns)
  show ?case
  proof (cases "visited s n")
    case False
    then obtain r where r: "dfs k d n s = Some r" using Cons.prems dfs_fuel_enough(1) [of d n s k]
      by (auto simp: unvisited_def)
    show ?thesis
    proof (cases r)
      case (Inr s1)
      have "card (unvisited d s1) \<le> k"
        using unvisited_mono [OF Cons.prems(1)] dfs_visited_mono(1) r Inr Cons.prems(3) by (metis le_trans)
      then show ?thesis using Cons r Inr False by simp
    qed (use False r in simp)
  qed (use Cons in simp)
qed simp

lemma unvisited_init:
  assumes "range_order (dag_packages d) ord"
  shows "card (unvisited d \<lparr>visited = (\<lambda>_. False), rec_stack = (\<lambda>_. False)\<rparr>) = length ord"
  using assms by (auto simp: unvisited_def range_order_def simp flip: distinct_card)

lemma detect_cycles_cases:
  assumes ok: "dag_ok d" and ord: "range_order (dag_packages d) ord"
  obtains (acyclic) "detect_cycles d ord = Some (Inr ())" "acyclic (edge_rel d)"
  | (cyclic) e where "detect_cycles d ord = Some (Inl e)" "is_cycle_error e" "\<not> acyclic (edge_rel d)"
proof -
  let ?s = "\<lparr>visited = (\<lambda>_. False), rec_stack = (\<lambda>_. False)\<rparr>"
  have "set ord = dom (dag_packages d)" using ord by auto
  then obtain r where r: "dfs_all (length ord) d ord ?s = Some r"
    using dfs_all_fuel [OF ok, of ord ?s "length ord"] unvisited_init [OF ord] by auto
  have "dfs_inv d ?s" by (simp add: dfs_inv_def black_def)
  note post = dfs_all_post [OF r this]
  show thesis
  proof (cases r)
    case (Inl e)
    then show thesis using post r cyclic by (simp add: detect_cycles_def)
  next
    case (Inr s')
    have "acyclic (edge_rel d)"
    proof (rule acyclicI, rule allI, rule notI)
      fix n assume c: "(n, n) \<in> (edge_rel d)\<^sup>+"
      then obtain m where "(n, m) \<in> edge_rel d" by (metis converse_tranclE)
      then have "n \<in> dom (dag_packages d)" using deps_of_outside [OF ok] by fastforce
      then have "n \<in> black s'" using post Inr ord by auto
      then show False using c post Inr by (simp add: dfs_inv_def)
    qed
    then show thesis using r Inr acyclic by (simp add: detect_cycles_def)
  qed
qed

end
