(* ===== verification/Dependency_Levels.thy ===== *)
theory Dependency_Levels
  imports Dependency_Cycles
begin

text \<open>
  Correctness of \<open>TopologicalLevels\<close>. The specification \<open>waves\<close> works on sets: each round takes all
  remaining packages whose dependencies are done, sorted by name. \<open>levels_loop_refines\<close> shows that
  the in-degree bookkeeping of Kahn's algorithm computes it: \<open>deg_inv\<close> says that the in-degree of a
  remaining package is the number of its unmet dependencies and that of a done package is -1.
\<close>

definition ready :: "dag \<Rightarrow> string set \<Rightarrow> string set" where
  "ready d P = {n \<in> dom (dag_packages d) - P. set (deps_of d n) \<subseteq> P}"

definition package_at :: "dag \<Rightarrow> string \<Rightarrow> package" where
  "package_at d n = pt_package (the (dag_packages d n))"

definition wave :: "dag \<Rightarrow> string set \<Rightarrow> package list" where
  "wave d P = map (package_at d) (sorted_list_of_set (ready d P))"

fun waves :: "nat \<Rightarrow> dag \<Rightarrow> string set \<Rightarrow> (dep_error, package list list) result" where
  "waves 0 d P = (if dom (dag_packages d) \<subseteq> P then Inr [] else Inl DependencyCycle)"
| "waves (Suc k) d P =
     (if dom (dag_packages d) \<subseteq> P then Inr []
      else if ready d P = {} then Inl DependencyCycle
      else ebind (waves k d (P \<union> ready d P)) (\<lambda>ls. Inr (wave d P # ls)))"

lemma finite_ready: "dag_ok d \<Longrightarrow> finite (ready d P)"
  by (simp add: ready_def dag_ok_def)

lemma package_at_name: "dag_ok d \<Longrightarrow> n \<in> dom (dag_packages d) \<Longrightarrow> pkg_name (package_at d n) = n"
  by (auto simp: package_at_def dag_ok_def)

lemma wave_names:
  assumes "dag_ok d"
  shows "map pkg_name (wave d P) = sorted_list_of_set (ready d P)"
proof -
  have "\<forall>n \<in> set (sorted_list_of_set (ready d P)). pkg_name (package_at d n) = n"
    using package_at_name [OF assms] finite_ready [OF assms] by (auto simp: ready_def)
  then show ?thesis by (simp add: wave_def map_idI)
qed

lemma set_wave_names: "dag_ok d \<Longrightarrow> pkg_name ` set (wave d P) = ready d P"
  using wave_names [of d P] finite_ready [of d P] by (metis list.set_map sorted_list_of_set.set_sorted_key_list_of_set)

subsection \<open>Degrees\<close>

definition deg_inv :: "dag \<Rightarrow> string set \<Rightarrow> (string \<rightharpoonup> int) \<Rightarrow> bool" where
  "deg_inv d P deg \<longleftrightarrow> (\<forall>n \<in> dom (dag_packages d).
     deg n = Some (if n \<in> P then -1 else int (length (filter (\<lambda>m. m \<notin> P) (deps_of d n)))))"

lemma foldl_upd_at: "foldl (\<lambda>m n. m(n \<mapsto> f n)) m ns x = (if x \<in> set ns then Some (f x) else m x)"
  by (induction ns arbitrary: m) auto

lemma deg_inv_initial:
  assumes "range_order (dag_packages d) ord"
  shows "deg_inv d {} (initial_in_degree d ord)"
  using range_orderD [OF assms] unfolding deg_inv_def initial_in_degree_def foldl_upd_at
  by (simp add: deps_of_def)

lemma decrement_dependents_at:
  "decrement_dependents ns deg n = (case deg n of None \<Rightarrow> None
     | Some v \<Rightarrow> Some (if v > 0 then max 0 (v - int (count_list ns n)) else v))"
proof (induction ns arbitrary: deg)
  case (Cons m ns)
  show ?case
  proof (cases "deg m")
    case None
    then show ?thesis by (cases "m = n") (simp_all add: Cons.IH split: option.splits)
  next
    case (Some v)
    then show ?thesis
      by (cases "m = n"; cases "v > 0") (simp_all add: Cons.IH del: fun_upd_apply split: option.splits, auto simp: max_def)
  qed
qed (simp split: option.splits)

lemma filter_count: "length (filter (\<lambda>x. x = n) xs) = count_list xs n"
  by (induction xs) auto

lemma count_pairs:
  "distinct ord \<Longrightarrow>
   length (filter (\<lambda>p. p = (m, n)) (concat (map (\<lambda>n. map (\<lambda>t. (traversal_to_name t, n)) (slice_at (dag_edges d) n)) ord))) =
   (if n \<in> set ord then count_list (deps_of d n) m else 0)"
proof (induction ord)
  case (Cons k ks)
  have "length (filter (\<lambda>p. p = (m, n)) (map (\<lambda>t. (traversal_to_name t, k)) ts)) =
      (if k = n then count_list (map traversal_to_name ts) m else 0)" for ts
    by (induction ts) auto
  with Cons show ?case by (auto simp: deps_of_def)
qed simp

definition dependents_ok :: "dag \<Rightarrow> (string \<rightharpoonup> string list) \<Rightarrow> bool" where
  "dependents_ok d D \<longleftrightarrow> (\<forall>n \<in> dom (dag_packages d). \<forall>m. count_list (slice_at D m) n = count_list (deps_of d n) m)"

lemma dependents_ok: "range_order (dag_packages d) ord \<Longrightarrow> dependents_ok d (dependents_of d ord)"
  unfolding dependents_ok_def
proof (intro ballI allI)
  fix n m assume ord: "range_order (dag_packages d) ord" and n: "n \<in> dom (dag_packages d)"
  have "count_list (slice_at (dependents_of d ord) m) n =
      length (filter (\<lambda>p. p = (m, n)) (concat (map (\<lambda>n. map (\<lambda>t. (traversal_to_name t, n)) (slice_at (dag_edges d) n)) ord)))"
    unfolding dependents_of_def slice_at_group_pairs filter_count [symmetric]
    by (simp add: filter_map comp_def conj_commute prod_eq_iff)
  then show "count_list (slice_at (dependents_of d ord) m) n = count_list (deps_of d n) m"
    using count_pairs [of ord m n d] range_orderD [OF ord] n by simp
qed

lemma filter_split_count:
  "p \<notin> P \<Longrightarrow> length (filter (\<lambda>m. m \<notin> P) xs) = length (filter (\<lambda>m. m \<notin> insert p P) xs) + count_list xs p"
  by (induction xs) auto

text \<open>Taking one package out of the graph.\<close>

lemma deg_inv_step:
  assumes "deg_inv d P deg" "dependents_ok d D" "p \<notin> P"
  shows "deg_inv d (insert p P) (decrement_dependents (slice_at D p) (deg(p \<mapsto> -1)))"
  unfolding deg_inv_def
proof (rule ballI)
  fix n assume n: "n \<in> dom (dag_packages d)"
  then have deg: "deg n = Some (if n \<in> P then -1 else int (length (filter (\<lambda>m. m \<notin> P) (deps_of d n))))"
    and cnt: "count_list (slice_at D p) n = count_list (deps_of d n) p"
    using assms by (auto simp: deg_inv_def dependents_ok_def)
  show "decrement_dependents (slice_at D p) (deg(p \<mapsto> -1)) n =
      Some (if n \<in> insert p P then -1 else int (length (filter (\<lambda>m. m \<notin> insert p P) (deps_of d n))))"
    unfolding decrement_dependents_at cnt using deg filter_split_count [OF assms(3), of "deps_of d n"] by auto
qed

lemma deg_inv_remove_level:
  assumes "deg_inv d P deg" "dependents_ok d D" "distinct (map pkg_name ps)" "P \<inter> pkg_name ` set ps = {}"
  shows "deg_inv d (P \<union> pkg_name ` set ps) (remove_level D ps deg)"
  using assms
proof (induction ps arbitrary: P deg)
  case (Cons p ps)
  have "deg_inv d (insert (pkg_name p) P \<union> pkg_name ` set ps)
      (remove_level D ps (decrement_dependents (slice_at D (pkg_name p)) (deg(pkg_name p \<mapsto> -1))))"
    using Cons.prems by (intro Cons.IH deg_inv_step) auto
  then show ?case by simp
qed simp

lemma current_level_eq:
  assumes "deg_inv d P deg" "set ns \<subseteq> dom (dag_packages d)"
  shows "current_level d deg ns = map (package_at d) (filter (\<lambda>n. n \<in> ready d P) ns)"
  using assms(2)
proof (induction ns)
  case (Cons n ns)
  then obtain pt where pt: "dag_packages d n = Some pt" by auto
  have deg: "deg n = Some (if n \<in> P then -1 else int (length (filter (\<lambda>m. m \<notin> P) (deps_of d n))))"
    using assms(1) domI [of "dag_packages d", OF pt] unfolding deg_inv_def by blast
  have "n \<in> ready d P \<longleftrightarrow> n \<notin> P \<and> filter (\<lambda>m. m \<notin> P) (deps_of d n) = []"
    using pt by (auto simp: ready_def filter_empty_conv)
  then show ?case using Cons deg pt by (auto simp: package_at_def)
qed simp

lemma sorted_level_eq_wave:
  assumes "dag_ok d" "deg_inv d P deg" "range_order (dag_packages d) ord"
  shows "sort_key pkg_name (current_level d deg ord) = wave d P"
proof -
  have ord: "distinct ord" "set ord = dom (dag_packages d)" using assms(3) by auto
  have inj: "inj_on (package_at d) (dom (dag_packages d))"
    by (rule inj_on_inverseI [of _ pkg_name]) (rule package_at_name [OF assms(1)])
  have inj2: "inj_on pkg_name (package_at d ` dom (dag_packages d))"
    by (rule inj_on_inverseI [of _ "package_at d"]) (use package_at_name [OF assms(1)] in force)
  have sub: "ready d P \<subseteq> dom (dag_packages d)" by (auto simp: ready_def)
  have "sort_key pkg_name (current_level d deg ord) = sort_key pkg_name (wave d P)"
  proof (rule sort_key_eqI)
    have cur: "current_level d deg ord = map (package_at d) (filter (\<lambda>n. n \<in> ready d P) ord)"
      using current_level_eq [OF assms(2)] ord by simp
    have flt: "set (filter (\<lambda>n. n \<in> ready d P) ord) = ready d P" using sub ord by auto
    show "set (current_level d deg ord) = set (wave d P)"
      unfolding cur wave_def set_map flt using finite_ready [OF assms(1)] by simp
    show "distinct (current_level d deg ord)"
      unfolding cur distinct_map flt using ord inj_on_subset [OF inj sub] by simp
    show "distinct (wave d P)"
      unfolding wave_def distinct_map using inj_on_subset [OF inj sub] finite_ready [OF assms(1)] by simp
    show "inj_on pkg_name (set (current_level d deg ord))"
      unfolding cur set_map flt by (rule inj_on_subset [OF inj2]) (use sub in blast)
  qed
  also have "\<dots> = wave d P" using wave_names [OF assms(1), of P] by (intro sort_key_id_if_sorted) simp
  finally show ?thesis .
qed

subsection \<open>The loop computes the waves\<close>

lemma levels_loop_refines:
  assumes ok: "dag_ok d" and D: "dependents_ok d D" and ord: "\<And>i. range_order (dag_packages d) (ord i)"
    and "deg_inv d P deg" "card (dom (dag_packages d) - P) \<le> k"
  shows "levels_loop d ord D i deg (int (card (dom (dag_packages d) - P))) acc =
     ebind (waves k d P) (\<lambda>ls. Inr (acc @ ls))"
  using assms(4-5)
proof (induction k arbitrary: P deg i acc)
  case 0
  then have "card (dom (dag_packages d) - P) = 0" "dom (dag_packages d) \<subseteq> P"
    using dag_okD(1) [OF ok] by (simp_all add: Diff_eq_empty_iff)
  then show ?case by (subst levels_loop.simps) simp
next
  case (Suc k)
  let ?V = "dom (dag_packages d)"
  have fin: "finite (?V - P)" using dag_okD(1) [OF ok] by simp
  note lvl = sorted_level_eq_wave [OF ok Suc.prems(1) ord, of i]
  have len: "length (current_level d deg (ord i)) = card (ready d P)"
    using arg_cong [OF lvl, of length] by (simp add: wave_def)
  show ?case
  proof (cases "?V \<subseteq> P")
    case True
    then have "card (?V - P) = 0" by (simp add: Diff_eq_empty_iff [THEN iffD2])
    with True show ?thesis by (subst levels_loop.simps) simp
  next
    case False
    then have pos: "card (?V - P) > 0" using fin by (simp add: card_gt_0_iff)
    show ?thesis
    proof (cases "ready d P = {}")
      case True
      with False pos len show ?thesis by (subst levels_loop.simps) (simp add: Let_def)
    next
      case rdy: False
      let ?P = "P \<union> ready d P"
      have names: "pkg_name ` set (wave d P) = ready d P" by (rule set_wave_names [OF ok])
      have inv: "deg_inv d ?P (remove_level D (wave d P) deg)"
        using deg_inv_remove_level [OF Suc.prems(1) D, of "wave d P"] names
        by (auto simp: wave_names [OF ok] ready_def)
      have split: "card (?V - P) = card (?V - ?P) + card (ready d P)"
      proof -
        have "?V - P = (?V - ?P) \<union> ready d P" "(?V - ?P) \<inter> ready d P = {}" by (auto simp: ready_def)
        then show ?thesis using fin card_Un_disjoint [of "?V - ?P" "ready d P"] finite_ready [OF ok] by (metis finite_Un)
      qed
      have "card (ready d P) > 0" using rdy finite_ready [OF ok] by (simp add: card_gt_0_iff)
      then have le: "card (?V - ?P) \<le> k" using split Suc.prems(2) by linarith
      have ne: "current_level d deg (ord i) \<noteq> []" using len \<open>card (ready d P) > 0\<close> by auto
      have ll: "length (wave d P) = card (ready d P)" by (simp add: wave_def)
      have rem: "int (card (?V - P)) - int (card (ready d P)) = int (card (?V - ?P))" using split by simp
      have "levels_loop d ord D i deg (int (card (?V - P))) acc =
          levels_loop d ord D (Suc i) (remove_level D (wave d P) deg) (int (card (?V - ?P))) (acc @ [wave d P])"
        using pos ne by (subst levels_loop.simps) (simp add: Let_def lvl ll rem del: of_nat_diff)
      also have "\<dots> = ebind (waves k d ?P) (\<lambda>ls. Inr (acc @ wave d P # ls))"
        using Suc.IH [OF inv le] by simp
      also have "\<dots> = ebind (waves (Suc k) d P) (\<lambda>ls. Inr (acc @ ls))"
        using False rdy by (cases "waves k d ?P") simp_all
      finally show ?thesis .
    qed
  qed
qed

lemma topological_levels_waves:
  assumes "dag_ok d" "\<And>i. range_order (dag_packages d) (ord i)"
  shows "topological_levels ord d = waves (card (dom (dag_packages d))) d {}"
proof -
  have "topological_levels ord d = ebind (waves (card (dom (dag_packages d))) d {}) (\<lambda>ls. Inr ([] @ ls))"
    using levels_loop_refines [OF assms(1) dependents_ok [OF assms(2)], of "\<lambda>i. ord (i + 2)" "{}"
        "initial_in_degree d (ord 0)" "card (dom (dag_packages d))" _ 0 "[]"]
      deg_inv_initial [OF assms(2)] assms(2) by (simp add: topological_levels_def)
  then show ?thesis by (cases "waves (card (dom (dag_packages d))) d {}") simp_all
qed

subsection \<open>What the waves are\<close>

fun levels_from :: "dag \<Rightarrow> string set \<Rightarrow> package list list \<Rightarrow> bool" where
  "levels_from d P [] \<longleftrightarrow> dom (dag_packages d) \<subseteq> P"
| "levels_from d P (l # ls) \<longleftrightarrow> l = wave d P \<and> ready d P \<noteq> {} \<and> levels_from d (P \<union> ready d P) ls"

lemma waves_levels_from: "waves k d P = Inr ls \<Longrightarrow> levels_from d P ls"
  by (induction k d P arbitrary: ls rule: waves.induct) (auto simp: ebind_eq_Inr split: if_splits)

lemma waves_Inl: "waves k d P = Inl e \<Longrightarrow> e = DependencyCycle"
  by (induction k d P rule: waves.induct) (auto simp: ebind_eq_Inl split: if_splits)

abbreviation level_names :: "package list list \<Rightarrow> string set" where
  "level_names ls \<equiv> pkg_name ` set (concat ls)"

lemma levels_from_complete:
  assumes ok: "dag_ok d" and "levels_from d P ls"
  shows "level_names ls = dom (dag_packages d) - P" and "distinct (map pkg_name (concat ls))"
  using assms(2)
proof (induction ls arbitrary: P)
  case (Cons l ls)
  {
    case 1
    then show ?case using Cons.IH(1) [of "P \<union> ready d P"] set_wave_names [OF ok, of P]
      by (auto simp: image_Un ready_def)
  next
    case 2
    then have "level_names ls = dom (dag_packages d) - (P \<union> ready d P)" "l = wave d P"
      using Cons.IH(1) by auto
    then show ?case using Cons.IH(2) 2 set_wave_names [OF ok, of P] wave_names [OF ok, of P] finite_ready [OF ok, of P]
      by (auto simp: distinct_append)
  }
qed auto

lemma levels_from_sorted:
  "dag_ok d \<Longrightarrow> levels_from d P ls \<Longrightarrow> l \<in> set ls \<Longrightarrow> l \<noteq> [] \<and> sorted (map pkg_name l)"
  by (induction d P ls rule: levels_from.induct) (auto simp: wave_names finite_ready, auto simp: wave_def finite_ready)

lemma level_names_take_Suc: "level_names (take (Suc i) (l # ls)) = pkg_name ` set l \<union> level_names (take i ls)"
  by (simp add: image_Un)

lemma levels_from_deps:
  assumes ok: "dag_ok d" and "levels_from d P ls" "i < length ls" "p \<in> set (ls ! i)"
  shows "set (deps_of d (pkg_name p)) \<subseteq> P \<union> level_names (take i ls) \<and>
    (i > 0 \<longrightarrow> (\<exists>m \<in> set (deps_of d (pkg_name p)). m \<in> pkg_name ` set (ls ! (i - 1)))) \<and>
    pkg_name p \<in> dom (dag_packages d) \<and> p = package_at d (pkg_name p)"
  using assms(2-4)
proof (induction ls arbitrary: P i)
  case (Cons l ls)
  have l: "l = wave d P" and rest: "levels_from d (P \<union> ready d P) ls" using Cons.prems by auto
  have nl: "pkg_name ` set l = ready d P" using set_wave_names [OF ok] l by simp
  show ?case
  proof (cases i)
    case 0
    then obtain n where n: "n \<in> ready d P" "p = package_at d n"
      using Cons.prems(3) l finite_ready [OF ok, of P] by (auto simp: wave_def)
    then have "pkg_name p = n" using package_at_name [OF ok, of n] by (auto simp: ready_def)
    then show ?thesis using n 0 by (auto simp: ready_def)
  next
    case (Suc j)
    then have j: "j < length ls" "p \<in> set (ls ! j)" using Cons.prems by auto
    note IH = Cons.IH [OF rest j]
    have "\<exists>m \<in> set (deps_of d (pkg_name p)). m \<in> pkg_name ` set ((l # ls) ! j)"
    proof (cases j)
      case 0
      then obtain ls' where "ls = wave d (P \<union> ready d P) # ls'" "pkg_name p \<in> ready d (P \<union> ready d P)"
        using rest j set_wave_names [OF ok, of "P \<union> ready d P"] by (cases ls) auto
      then have "pkg_name p \<in> dom (dag_packages d) - P" "pkg_name p \<notin> ready d P"
        "set (deps_of d (pkg_name p)) \<subseteq> P \<union> ready d P" by (auto simp: ready_def)
      moreover from this obtain m where "m \<in> set (deps_of d (pkg_name p))" "m \<notin> P" by (auto simp: ready_def)
      ultimately have "m \<in> set (deps_of d (pkg_name p))" "m \<in> ready d P" by blast+
      then show ?thesis using nl 0 by auto
    next
      case (Suc k)
      then show ?thesis using IH by simp
    qed
    then show ?thesis using IH Suc nl level_names_take_Suc [of j l ls] by auto
  qed
qed simp

lemma levels_from_acyclic:
  assumes "levels_from d P ls" "dag_ok d" "\<forall>n \<in> P. set (deps_of d n) \<subseteq> P \<and> (n, n) \<notin> (edge_rel d)\<^sup>+"
  shows "acyclic (edge_rel d)"
  using assms
proof (induction d P ls rule: levels_from.induct)
  case (1 d P)
  have "(n, n) \<notin> (edge_rel d)\<^sup>+" for n
  proof
    assume c: "(n, n) \<in> (edge_rel d)\<^sup>+"
    then obtain m where "(n, m) \<in> edge_rel d" by (metis converse_tranclE)
    then have "n \<in> P" using deps_of_outside [OF "1.prems"(2)] "1.prems"(1) by fastforce
    then show False using c "1.prems" by blast
  qed
  then show ?case by (simp add: acyclic_def)
next
  case (2 d P l ls)
  have closed: "(n, m) \<in> (edge_rel d)\<^sup>+ \<Longrightarrow> n \<in> P \<Longrightarrow> m \<in> P" for n m
    by (induction rule: trancl_induct) (use "2.prems"(3) in auto)
  have "(n, n) \<notin> (edge_rel d)\<^sup>+" if n: "n \<in> ready d P" for n
  proof
    assume "(n, n) \<in> (edge_rel d)\<^sup>+"
    then consider "(n, n) \<in> edge_rel d" | m where "(n, m) \<in> edge_rel d" "(m, n) \<in> (edge_rel d)\<^sup>+"
      by (metis converse_tranclE)
    then show False using n closed by cases (auto simp: ready_def)
  qed
  then show ?case using "2.prems" by (intro "2.IH") (auto simp: ready_def)
qed

lemma finite_edge_rel: "dag_ok d \<Longrightarrow> finite (edge_rel d)"
proof (rule finite_subset)
  assume ok: "dag_ok d"
  show "edge_rel d \<subseteq> dom (dag_packages d) \<times> dom (dag_packages d)"
  proof (rule subrelI)
    fix n m assume e: "(n, m) \<in> edge_rel d"
    then have "n \<in> dom (dag_packages d)" using deps_of_outside [OF ok, of n] by fastforce
    then show "(n, m) \<in> dom (dag_packages d) \<times> dom (dag_packages d)" using e dag_okD(4) [OF ok, of m n] by simp
  qed
  show "finite (dom (dag_packages d) \<times> dom (dag_packages d))" using dag_okD(1) [OF ok] by simp
qed

lemma ready_nonempty:
  assumes "dag_ok d" "acyclic (edge_rel d)" "\<not> dom (dag_packages d) \<subseteq> P"
  shows "ready d P \<noteq> {}"
proof -
  have "wf ((edge_rel d)\<inverse>)" using assms finite_edge_rel finite_acyclic_wf_converse by blast
  then obtain z where "z \<in> dom (dag_packages d) - P" "\<forall>y. (y, z) \<in> (edge_rel d)\<inverse> \<longrightarrow> y \<notin> dom (dag_packages d) - P"
    using assms(3) by (metis Diff_eq_empty_iff all_not_in_conv wfE_min)
  then have "z \<in> ready d P" using dag_okD(4) [OF assms(1)] by (auto simp: ready_def)
  then show ?thesis by blast
qed

lemma waves_total:
  assumes "dag_ok d" "acyclic (edge_rel d)" "card (dom (dag_packages d) - P) \<le> k"
  shows "\<exists>ls. waves k d P = Inr ls"
  using assms(3)
proof (induction k arbitrary: P)
  case 0
  then show ?case using dag_okD(1) [OF assms(1)] by (simp add: Diff_eq_empty_iff)
next
  case (Suc k)
  show ?case
  proof (cases "dom (dag_packages d) \<subseteq> P")
    case False
    let ?P = "P \<union> ready d P"
    have r: "ready d P \<noteq> {}" by (rule ready_nonempty [OF assms(1,2) False])
    then have "dom (dag_packages d) - ?P \<subset> dom (dag_packages d) - P" by (auto simp: ready_def)
    then have "card (dom (dag_packages d) - ?P) < card (dom (dag_packages d) - P)"
      using dag_okD(1) [OF assms(1)] by (intro psubset_card_mono) auto
    then show ?thesis using Suc.IH [of ?P] Suc.prems False r by auto
  qed simp
qed

end
