(* ===== verification/Dependency_Plan.thy ===== *)
theory Dependency_Plan
  imports Dependency_Levels
begin

text \<open>
  What the graph component promises its clients. The locale \<open>deployment_plan\<close> is the interface the
  deployer and the remover rely on: a list of levels that partitions the packages and in which every
  dependency sits in an earlier level. It is interpreted on \<open>topological_levels\<close>. The properties of
  the component follow: construction succeeds exactly on acyclic declarations, the plan is a partition
  into earliest levels, it does not depend on map iteration order, and the safety queries of the
  deploy and remove commands guarantee dependency-closed selections.
\<close>

definition declared_deps :: "uds_bundle \<Rightarrow> (string \<times> string) set" where
  "declared_deps b = {(pkg_name p, ref_name r) | p r. p \<in> set (packages b) \<and> r \<in> set (pkg_depends_on p)}"

definition orders_ok :: "dag \<Rightarrow> (nat \<Rightarrow> string list) \<Rightarrow> bool" where
  "orders_ok d ord \<longleftrightarrow> (\<forall>i. range_order (dag_packages d) (ord i))"

subsection \<open>The interface of a deployment plan\<close>

locale deployment_plan =
  fixes plan :: "'g \<Rightarrow> ('e, package list list) result"
    and nodes :: "'g \<Rightarrow> string set"
    and deps :: "'g \<Rightarrow> string \<Rightarrow> string set"
    and ok :: "'g \<Rightarrow> bool"
  assumes plan_partition: "ok g \<Longrightarrow> plan g = Inr ls \<Longrightarrow> level_names ls = nodes g \<and> distinct (map pkg_name (concat ls))"
    and plan_ordered: "ok g \<Longrightarrow> plan g = Inr ls \<Longrightarrow> i < length ls \<Longrightarrow> p \<in> set (ls ! i) \<Longrightarrow>
      deps g (pkg_name p) \<subseteq> level_names (take i ls)"
begin

lemma plan_prefix:
  assumes "ok g" "plan g = Inr ls" "concat ls = xs @ p # ys"
  shows "deps g (pkg_name p) \<subseteq> pkg_name ` set xs"
proof -
  have "\<exists>i < length ls. p \<in> set (ls ! i) \<and> set (concat (take i ls)) \<subseteq> set xs"
    using assms(3)
  proof (induction ls arbitrary: xs)
    case (Cons l ls)
    show ?case
    proof (cases "length l \<le> length xs")
      case True
      define zs where "zs = drop (length l) xs"
      have "l @ concat ls = xs @ p # ys" using Cons.prems by simp
      then have "l = take (length l) xs" "concat ls = zs @ p # ys"
        using True by (simp_all add: append_eq_conv_conj zs_def)
      then have "xs = l @ zs" using zs_def by (metis append_take_drop_id)
      obtain i where i: "i < length ls" "p \<in> set (ls ! i)" "set (concat (take i ls)) \<subseteq> set zs"
        using Cons.IH [OF \<open>concat ls = zs @ p # ys\<close>] by blast
      have "set (concat (take (Suc i) (l # ls))) \<subseteq> set xs" using i(3) \<open>xs = l @ zs\<close> by auto
      then show ?thesis using i by (intro exI [of _ "Suc i"]) simp
    next
      case False
      have "(l @ concat ls) ! length xs = p" using Cons.prems by simp
      then have "p \<in> set l" using False by (metis linorder_not_le nth_append nth_mem)
      then show ?thesis by (intro exI [of _ 0]) simp
    qed
  qed simp
  then obtain i where i: "i < length ls" "p \<in> set (ls ! i)" "set (concat (take i ls)) \<subseteq> set xs" by blast
  then have "level_names (take i ls) \<subseteq> pkg_name ` set xs" by (intro image_mono)
  then show ?thesis using plan_ordered [OF assms(1,2) i(1,2)] by blast
qed

lemma plan_no_dep_within_level:
  assumes "ok g" "plan g = Inr ls" "i < length ls" "p \<in> set (ls ! i)" "q \<in> set (ls ! i)"
  shows "pkg_name q \<notin> deps g (pkg_name p)"
proof
  assume "pkg_name q \<in> deps g (pkg_name p)"
  then have "pkg_name q \<in> level_names (take i ls)" using plan_ordered [OF assms(1-4)] by blast
  moreover have "ls = take i ls @ ls ! i # drop (Suc i) ls" using assms(3) by (rule id_take_nth_drop)
  then have "concat ls = concat (take i ls) @ ls ! i @ concat (drop (Suc i) ls)"
    by (metis concat.simps(2) concat_append)
  then have "distinct (map pkg_name (concat (take i ls)) @ map pkg_name (ls ! i) @ map pkg_name (concat (drop (Suc i) ls)))"
    using plan_partition [OF assms(1,2)] by simp
  then have "level_names (take i ls) \<inter> pkg_name ` set (ls ! i) = {}"
    unfolding distinct_append set_map set_append by blast
  ultimately show False using assms(5) by blast
qed

text \<open>When the levels are walked backwards, a package comes after everything that depends on it.\<close>

lemma later_in_reversed_levels:
  assumes "concat (rev ls) = xs @ p # ys" "q \<in> set (p # ys)"
  shows "\<exists>i < length ls. q \<in> set (ls ! i) \<and> p \<in> set (concat (drop i ls))"
  using assms
proof (induction ls arbitrary: ys)
  case (Cons l ls)
  have split: "concat (rev ls) @ l = xs @ p # ys" using Cons.prems(1) by simp
  show ?case
  proof (cases "q \<in> set l")
    case True
    have "p \<in> set (concat (rev ls) @ l)" unfolding split by simp
    then show ?thesis using True by (intro exI [of _ 0]) auto
  next
    case False
    then have "length l \<le> length ys" using split Cons.prems(2)
      by (auto simp: append_eq_append_conv2 append_eq_Cons_conv)
    then obtain zs where "ys = zs @ l" "concat (rev ls) = xs @ p # zs"
      using split by (auto simp: append_eq_append_conv2 append_eq_Cons_conv Cons_eq_append_conv)
    then obtain i where "i < length ls" "q \<in> set (ls ! i)" "p \<in> set (concat (drop i ls))"
      using Cons.IH [of zs] Cons.prems(2) False by auto
    then show ?thesis by (intro exI [of _ "Suc i"]) simp
  qed
qed simp

lemma plan_reverse:
  assumes "ok g" "plan g = Inr ls" "concat (rev ls) = xs @ p # ys" "q \<in> set (p # ys)"
  shows "pkg_name p \<notin> deps g (pkg_name q)"
proof
  assume dep: "pkg_name p \<in> deps g (pkg_name q)"
  obtain i where i: "i < length ls" "q \<in> set (ls ! i)" "p \<in> set (concat (drop i ls))"
    using later_in_reversed_levels [OF assms(3,4)] by blast
  then have "pkg_name p \<in> level_names (take i ls)" using plan_ordered [OF assms(1,2)] dep by blast
  moreover have "distinct (map pkg_name (concat (take i ls) @ concat (drop i ls)))"
    using plan_partition [OF assms(1,2)] by (metis append_take_drop_id concat_append)
  ultimately show False using i(3) by (auto simp del: set_concat)
qed

end

lemma topological_levels_from:
  assumes "dag_ok d" "orders_ok d ord" "topological_levels ord d = Inr ls"
  shows "levels_from d {} ls"
  using assms topological_levels_waves [OF assms(1)] waves_levels_from by (metis orders_ok_def)

interpretation topo: deployment_plan
  "\<lambda>(d, ord). topological_levels ord d" "\<lambda>(d, ord). dom (dag_packages d)"
  "\<lambda>(d, ord) n. set (deps_of d n)" "\<lambda>(d, ord). dag_ok d \<and> orders_ok d ord"
proof (unfold_locales, goal_cases)
  case (1 g ls)
  then show ?case using levels_from_complete [of "fst g" "{}" ls] topological_levels_from by (cases g) auto
next
  case (2 g ls i p)
  then show ?case using levels_from_deps [of "fst g" "{}" ls i p] topological_levels_from by (cases g) auto
qed

subsection \<open>Graphs of bundles\<close>

definition dag_of :: "uds_bundle \<Rightarrow> dag \<Rightarrow> bool" where
  "dag_of b d \<longleftrightarrow> dag_ok d \<and> dag_packages d = collect_packages (packages b) \<and>
     (\<forall>p \<in> set (packages b). deps_of d (pkg_name p) = dep_names p)"

lemma dag_of_edge_rel:
  assumes "dag_of b d"
  shows "edge_rel d = declared_deps b"
proof (rule set_eqI, clarify)
  fix n m
  show "(n, m) \<in> edge_rel d \<longleftrightarrow> (n, m) \<in> declared_deps b"
  proof
    assume e: "(n, m) \<in> edge_rel d"
    then have "n \<in> dom (dag_packages d)" using assms deps_of_outside [of d n] by (fastforce simp: dag_of_def)
    then obtain p where p: "p \<in> set (packages b)" "n = pkg_name p" using assms by (auto simp: dag_of_def)
    then obtain r where "r \<in> set (pkg_depends_on p)" "m = ref_name r" using e assms by (auto simp: dag_of_def)
    then show "(n, m) \<in> declared_deps b" unfolding declared_deps_def using p by blast
  next
    assume "(n, m) \<in> declared_deps b"
    then obtain p r where "p \<in> set (packages b)" "r \<in> set (pkg_depends_on p)" "n = pkg_name p" "m = ref_name r"
      by (auto simp: declared_deps_def)
    then show "(n, m) \<in> edge_rel d" using assms by (simp add: dag_of_def)
  qed
qed

lemma build_dependency_graph_cases:
  assumes ok: "bundle_ok b" and ord1: "range_order (collect_packages (packages b)) ord1"
    and ord2: "range_order (collect_packages (packages b)) ord2"
  obtains (acyclic) d where "build_dependency_graph ord1 ord2 b = Some (Inr d)" "dag_of b d" "acyclic (declared_deps b)"
  | (cyclic) e where "build_dependency_graph ord1 ord2 b = Some (Inl e)" "is_cycle_error e" "\<not> acyclic (declared_deps b)"
proof -
  let ?m = "collect_packages (packages b)"
  have known: "r \<in> set (pkg_depends_on p) \<Longrightarrow> p \<in> set (packages b) \<Longrightarrow> ref_name r \<in> pkg_name ` set (packages b)" for p r
    using ok by (auto simp: bundle_ok_def package_ok_def)
  obtain es where es: "collect_edges ?m ord1 Map.empty = Inr es"
    using collect_edges_Inl [of "packages b" ord1 Map.empty] known by (cases "collect_edges ?m ord1 Map.empty") blast+
  define d where "d = \<lparr>dag_packages = ?m, dag_edges = es\<rparr>"
  have "deps_of d (pkg_name p) = dep_names p" if "p \<in> set (packages b)" for p
    using collect_edges_dag_ok(2) [OF ord1 es, of "pkg_name p"] collect_packages_distinct [OF _ that] ok
    by (simp add: d_def bundle_ok_def)
  then have of: "dag_of b d" using collect_edges_dag_ok(1) [OF ord1 es] by (simp add: dag_of_def d_def)
  then have okd: "dag_ok d" "range_order (dag_packages d) ord2" using ord2 by (auto simp: dag_of_def d_def)
  have build: "build_dependency_graph ord1 ord2 b = map_option (\<lambda>r. ebind r (\<lambda>_. Inr d)) (detect_cycles d ord2)"
    using es by (simp add: build_dependency_graph_def d_def Let_def)
  from okd show thesis
  proof (cases rule: detect_cycles_cases)
    case acyclic
    then show thesis using build of dag_of_edge_rel [OF of] that(1) by simp
  next
    case (cyclic e)
    then show thesis using build dag_of_edge_rel [OF of] that(2) by simp
  qed
qed

lemma build_dependency_graph_dag_of:
  assumes "bundle_ok b" "range_order (collect_packages (packages b)) ord1"
    "range_order (collect_packages (packages b)) ord2" "build_dependency_graph ord1 ord2 b = Some (Inr d)"
  shows "dag_of b d"
  using assms(1-3) by (cases rule: build_dependency_graph_cases) (use assms(4) in auto)

subsection \<open>Selections\<close>

lemma concat_filter_levels:
  "concat (filter (\<lambda>l. length l > 0) (map (filter P) ls)) = filter P (concat ls)"
  by (induction ls) (auto simp: filter_empty_conv)

lemma filter_levels_Inr:
  assumes "names \<noteq> []" "set ord = set names"
  shows "filter_levels ord ls names = Inr ls' \<longleftrightarrow>
    set names \<subseteq> level_names ls \<and> ls' = filter (\<lambda>l. length l > 0) (map (filter (\<lambda>p. pkg_name p \<in> set names)) ls)"
proof -
  have mem: "(\<exists>l\<in>set ls. \<exists>p\<in>set l. pkg_name p = n) \<longleftrightarrow> n \<in> level_names ls" for n by auto
  show ?thesis
  proof (cases "set names \<subseteq> level_names ls")
    case True
    then have "find (\<lambda>n. n \<notin> level_names ls) ord = None" using assms(2) by (auto simp: find_None_iff)
    then show ?thesis unfolding filter_levels_def mem using True assms(1) by auto
  next
    case False
    then have "find (\<lambda>n. n \<notin> level_names ls) ord \<noteq> None" using assms(2) by (auto simp: find_None_iff)
    then show ?thesis unfolding filter_levels_def mem using False assms(1) by auto
  qed
qed

lemma validate_package_names_ok:
  "validate_package_names names ps = Inr () \<longleftrightarrow> set names \<subseteq> pkg_name ` set ps"
  by (auto simp: validate_package_names_def Let_def filter_empty_conv)

lemma group_pairs_empty: "group_pairs kvs = Map.empty \<longleftrightarrow> kvs = []"
  using dom_group_pairs [of kvs] by (metis dom_eq_empty_conv image_is_empty set_empty)

lemma sort_values_empty: "sort_values m = Map.empty \<longleftrightarrow> m = Map.empty"
  by (auto simp: sort_values_def fun_eq_iff)

text \<open>The pairs a grouping loop visits for one key.\<close>

lemma pairs_by_source:
  "distinct ord \<Longrightarrow>
   map snd (filter (\<lambda>p. fst p = n) (concat (map (\<lambda>k. if Q k then [] else map (\<lambda>m. (k, m)) (F k)) ord))) =
   (if n \<in> set ord \<and> \<not> Q n then F n else [])"
proof (induction ord)
  case (Cons k ks)
  have flt: "filter (\<lambda>p. fst p = n) (map (\<lambda>m. (k, m)) xs) = (if k = n then map (\<lambda>m. (k, m)) xs else [])"
    for xs :: "'b list" by (induction xs) auto
  show ?case using Cons by (auto simp: flt comp_def)
qed simp

lemma missing_dependencies_at:
  assumes "range_order (dag_packages d) ord"
  shows "missing_dependencies ord d sel n =
    (if n \<in> dom (dag_packages d) \<and> n \<in> set sel \<and> \<not> set (deps_of d n) \<subseteq> set sel
     then Some (sort (filter (\<lambda>m. m \<notin> set sel) (deps_of d n))) else None)"
proof -
  define kvs where "kvs = concat (map (\<lambda>n. if n \<notin> set sel then []
        else map (\<lambda>dep. (n, dep)) (filter (\<lambda>dep. dep \<notin> set sel) (deps_of d n))) ord)"
  have at: "map snd (filter (\<lambda>p. fst p = n) kvs) =
      (if n \<in> dom (dag_packages d) \<and> n \<in> set sel then filter (\<lambda>m. m \<notin> set sel) (deps_of d n) else [])"
    using pairs_by_source [of ord n "\<lambda>n. n \<notin> set sel" "\<lambda>n. filter (\<lambda>dep. dep \<notin> set sel) (deps_of d n)"]
      range_orderD [OF assms] by (simp add: kvs_def)
  have mem: "n \<in> fst ` set kvs \<longleftrightarrow> n \<in> dom (dag_packages d) \<and> n \<in> set sel \<and> \<not> set (deps_of d n) \<subseteq> set sel"
  proof -
    have "n \<in> fst ` set kvs \<longleftrightarrow> map snd (filter (\<lambda>p. fst p = n) kvs) \<noteq> []" by (force simp: filter_empty_conv)
    then show ?thesis unfolding at by (auto simp: filter_empty_conv)
  qed
  show ?thesis
  proof (cases "n \<in> fst ` set kvs")
    case True
    then have "group_pairs kvs n = Some (map snd (filter (\<lambda>p. fst p = n) kvs))" by (simp add: group_pairs_Some)
    then show ?thesis using at mem True by (simp add: missing_dependencies_def sort_values_def flip: kvs_def)
  next
    case False
    then have "group_pairs kvs n = None" by (metis dom_group_pairs domIff)
    then show ?thesis using mem False by (auto simp: missing_dependencies_def sort_values_def simp flip: kvs_def)
  qed
qed

lemma dependent_blockers_empty:
  assumes "range_order (dag_packages d) ord"
  shows "dependent_blockers ord d rm = Map.empty \<longleftrightarrow>
    (\<forall>n \<in> dom (dag_packages d) - set rm. set (deps_of d n) \<inter> set rm = {})"
proof -
  have "concat (map (\<lambda>n. if n \<in> set rm then []
        else map (\<lambda>dep. (dep, n)) (filter (\<lambda>dep. dep \<in> set rm) (deps_of d n))) ns) = [] \<longleftrightarrow>
      (\<forall>n \<in> set ns - set rm. set (deps_of d n) \<inter> set rm = {})" for ns
    by (induction ns) (auto simp: filter_empty_conv)
  then show ?thesis using range_orderD [OF assms]
    by (simp add: dependent_blockers_def sort_values_empty group_pairs_empty del: concat_eq_Nil_conv)
qed

lemma missing_dependencies_empty:
  assumes "range_order (dag_packages d) ord"
  shows "missing_dependencies ord d sel = Map.empty \<longleftrightarrow>
    (\<forall>n \<in> dom (dag_packages d) \<inter> set sel. set (deps_of d n) \<subseteq> set sel)"
  using missing_dependencies_at [OF assms, of sel] by (auto simp: fun_eq_iff split: if_splits)

lemma set_blockers_at:
  assumes "range_order (dag_packages d) ord"
  shows "set (slice_at (dependent_blockers ord d rm) m) =
    {n \<in> dom (dag_packages d). n \<notin> set rm \<and> m \<in> set rm \<and> m \<in> set (deps_of d n)}"
proof -
  have "set (slice_at (sort_values M) m) = set (slice_at M m)" for M :: "string \<rightharpoonup> string list"
    by (simp add: slice_at_def sort_values_def split: option.splits)
  then show ?thesis
    using range_orderD [OF assms] unfolding dependent_blockers_def
    by (auto simp: slice_at_group_pairs image_iff split: if_splits)
qed

end
