(* ===== verification/Dependency_Properties.thy ===== *)
theory Dependency_Properties
  imports Dependency_Plan
begin

text \<open>
  The properties of the dependency component, over bundles that passed \<open>Validate\<close>, with witnesses on
  a diamond-shaped bundle (\<open>d\<close> needs \<open>b\<close> and \<open>c\<close>, which need \<open>a\<close>).
\<close>

definition mk_bundle :: "package list \<Rightarrow> uds_bundle" where
  "mk_bundle ps = \<lparr>uds = \<lparr>bundle_api_version = ''uds.dev/v1alpha1''\<rparr>,
     metadata = \<lparr>md_name = ''x'', md_description = [], md_version = []\<rparr>, packages = ps\<rparr>"

definition diamond :: uds_bundle where
  "diamond = mk_bundle [sample_package ''d'' [''b'', ''c''], sample_package ''c'' [''a''], sample_package ''b'' [''a''], sample_package ''a'' []]"

definition diamond_order :: "string list" where
  "diamond_order = [''c'', ''a'', ''d'', ''b'']"

definition diamond_dag :: dag where
  "diamond_dag = (case build_dependency_graph diamond_order diamond_order diamond of
     Some (Inr d) \<Rightarrow> d | _ \<Rightarrow> \<lparr>dag_packages = Map.empty, dag_edges = Map.empty\<rparr>)"

lemmas diamond_simps = diamond_def diamond_order_def mk_bundle_def sample_package_def

lemma diamond_valid: "validate diamond = []"
  by (simp add: diamond_simps validate_def validate_header_def supported_api_version_def validate_dependency_def contains_any_def)

lemma diamond_range: "range_order (collect_packages (packages diamond)) diamond_order"
  unfolding range_order_def dom_collect_packages by (auto simp: diamond_simps)

lemma declared_deps_concat:
  "declared_deps b = set (concat (map (\<lambda>p. map (\<lambda>r. (pkg_name p, ref_name r)) (pkg_depends_on p)) (packages b)))"
  by (force simp: declared_deps_def)

lemma diamond_declared: "declared_deps diamond = {(''d'', ''b''), (''d'', ''c''), (''c'', ''a''), (''b'', ''a'')}"
  unfolding declared_deps_concat by (simp add: diamond_simps)

lemma diamond_acyclic: "acyclic (declared_deps diamond)"
proof -
  define rank :: "string \<Rightarrow> nat" where "rank n = (if n = ''d'' then 2 else if n = ''a'' then 0 else 1)" for n
  have "declared_deps diamond \<subseteq> (measure rank)\<inverse>" unfolding diamond_declared by (auto simp: rank_def)
  then show ?thesis using acyclic_subset wf_acyclic wf_measure acyclic_converse by metis
qed

lemma diamond_build:
  "build_dependency_graph diamond_order diamond_order diamond = Some (Inr diamond_dag)" "dag_of diamond diamond_dag"
proof -
  have ok: "bundle_ok diamond" using diamond_valid validate_iff_bundle_ok by blast
  obtain d where d: "build_dependency_graph diamond_order diamond_order diamond = Some (Inr d)"
    using build_dependency_graph_cases [OF ok diamond_range diamond_range] diamond_acyclic by metis
  then show b: "build_dependency_graph diamond_order diamond_order diamond = Some (Inr diamond_dag)"
    by (simp add: diamond_dag_def)
  then show "dag_of diamond diamond_dag" using build_dependency_graph_dag_of [OF ok diamond_range diamond_range] by blast
qed

lemma diamond_orders: "orders_ok diamond_dag (\<lambda>_. diamond_order)"
  using diamond_range diamond_build(2) by (simp add: orders_ok_def dag_of_def)

subsection \<open>Construction\<close>

text \<open>C1. \<open>BuildDependencyGraph\<close> on a validated bundle returns, whatever the map iteration orders; it
  returns the graph of the declared dependencies exactly when they are acyclic, and otherwise an
  error that wraps \<open>ErrDependencyCycle\<close>.\<close>

theorem build_dependency_graph_acyclic_iff:
  assumes "validate b = []" "range_order (collect_packages (packages b)) ord1"
    "range_order (collect_packages (packages b)) ord2"
  shows "if acyclic (declared_deps b)
     then \<exists>d. build_dependency_graph ord1 ord2 b = Some (Inr d) \<and>
            dag_packages d = collect_packages (packages b) \<and>
            (\<forall>p \<in> set (packages b). deps_of d (pkg_name p) = dep_names p)
     else \<exists>e. build_dependency_graph ord1 ord2 b = Some (Inl e) \<and> is_cycle_error e"
proof -
  have ok: "bundle_ok b" using assms(1) validate_iff_bundle_ok by blast
  from ok assms(2,3) show ?thesis by (cases rule: build_dependency_graph_cases) (auto simp: dag_of_def)
qed

theorem build_dependency_graph_acyclic_iff_witness:
  "\<exists>d. build_dependency_graph diamond_order diamond_order diamond = Some (Inr d)"
  using build_dependency_graph_acyclic_iff [OF diamond_valid diamond_range diamond_range] diamond_acyclic by auto

subsection \<open>Levels\<close>

lemma in_concat_nth:
  assumes "p \<in> set (concat ls)"
  obtains i where "i < length ls" "p \<in> set (ls ! i)"
proof -
  obtain l where "l \<in> set ls" "p \<in> set l" using assms by auto
  then show thesis using that by (metis in_set_conv_nth)
qed

lemma plan_of_bundle:
  assumes "dag_of b d" "bundle_ok b" "acyclic (edge_rel d)" "orders_ok d ord"
  obtains ls where "topological_levels ord d = Inr ls" "levels_from d {} ls"
    "set (concat ls) = set (packages b)" "distinct (map pkg_name (concat ls))"
    "\<And>p. p \<in> set (packages b) \<Longrightarrow> deps_of d (pkg_name p) = dep_names p"
proof -
  have ok: "dag_ok d" using assms(1) by (simp add: dag_of_def)
  have "topological_levels ord d = waves (card (dom (dag_packages d))) d {}"
    using topological_levels_waves [OF ok] assms(4) by (simp add: orders_ok_def)
  then obtain ls where ls: "topological_levels ord d = Inr ls"
    using waves_total [OF ok assms(3), of "{}"] by auto
  then have lf: "levels_from d {} ls" using topological_levels_from ok assms(4) by blast
  have dom: "dom (dag_packages d) = pkg_name ` set (packages b)" using assms(1) by (simp add: dag_of_def)
  have inb: "p \<in> set (packages b)" if p: "p \<in> set (concat ls)" for p
  proof -
    obtain i where "i < length ls" "p \<in> set (ls ! i)" using p by (rule in_concat_nth)
    then have p: "pkg_name p \<in> dom (dag_packages d)" "p = package_at d (pkg_name p)" using levels_from_deps [OF ok lf] by blast+
    then obtain q where q: "q \<in> set (packages b)" "pkg_name q = pkg_name p" unfolding dom by auto
    then have "dag_packages d (pkg_name p) = Some (package_traversal_of q)"
      using collect_packages_distinct [of "packages b" q] assms(1,2) by (simp add: dag_of_def bundle_ok_def)
    then have "package_at d (pkg_name p) = q" by (simp add: package_at_def)
    then show "p \<in> set (packages b)" using q(1) p(2) by metis
  qed
  have "set (concat ls) = set (packages b)"
  proof (intro set_eqI iffI)
    fix p assume p: "p \<in> set (packages b)"
    then obtain q where q: "q \<in> set (concat ls)" "pkg_name q = pkg_name p"
      using levels_from_complete(1) [OF ok lf] dom by (metis Diff_empty image_iff)
    then have "q = p" using inb p assms(2) by (auto simp: bundle_ok_def distinct_map inj_on_def)
    then show "p \<in> set (concat ls)" using q by simp
  qed (rule inb)
  then show thesis using that [OF ls lf] levels_from_complete(2) [OF ok lf] assms(1) by (simp add: dag_of_def)
qed

lemma built_plan:
  assumes "validate b = []" "range_order (collect_packages (packages b)) ord1"
    "range_order (collect_packages (packages b)) ord2" "build_dependency_graph ord1 ord2 b = Some (Inr d)"
  shows "dag_of b d" "bundle_ok b" "acyclic (edge_rel d)"
proof -
  show ok: "bundle_ok b" using assms(1) validate_iff_bundle_ok by blast
  show of: "dag_of b d" using build_dependency_graph_dag_of [OF ok assms(2-4)] .
  from ok assms(2,3) show "acyclic (edge_rel d)"
    by (cases rule: build_dependency_graph_cases) (use assms(4) dag_of_edge_rel [OF of] in auto)
qed

lemma in_take_levels: "n \<in> level_names (take i ls) \<longleftrightarrow> (\<exists>j < i. j < length ls \<and> n \<in> pkg_name ` set (ls ! j))"
proof
  assume "n \<in> level_names (take i ls)"
  then obtain l where "l \<in> set (take i ls)" "n \<in> pkg_name ` set l" by auto
  then show "\<exists>j < i. j < length ls \<and> n \<in> pkg_name ` set (ls ! j)" by (auto simp: in_set_conv_nth)
next
  assume "\<exists>j < i. j < length ls \<and> n \<in> pkg_name ` set (ls ! j)"
  then obtain j where "j < i" "j < length ls" "n \<in> pkg_name ` set (ls ! j)" by blast
  moreover from this have "ls ! j \<in> set (take i ls)" by (auto simp: in_set_conv_nth intro!: exI [of _ j])
  ultimately show "n \<in> level_names (take i ls)" by auto
qed

text \<open>C2. On the graph of a validated bundle \<open>TopologicalLevels\<close> succeeds and returns a partition of the
  bundle's packages into non-empty levels sorted by name, in which every dependency of a package lies
  in an earlier level and, for a level other than the first, some dependency lies in the level just
  before: each package is deployed in the earliest possible wave.\<close>

theorem topological_levels_correct:
  assumes "validate b = []" "range_order (collect_packages (packages b)) ord1"
    "range_order (collect_packages (packages b)) ord2" "build_dependency_graph ord1 ord2 b = Some (Inr d)"
    "orders_ok d ord"
  shows "\<exists>ls. topological_levels ord d = Inr ls \<and> set (concat ls) = set (packages b) \<and>
     distinct (map pkg_name (concat ls)) \<and> (\<forall>l \<in> set ls. l \<noteq> [] \<and> sorted (map pkg_name l)) \<and>
     (\<forall>i < length ls. \<forall>p \<in> set (ls ! i).
        (\<forall>m \<in> set (dep_names p). \<exists>j < i. m \<in> pkg_name ` set (ls ! j)) \<and>
        (i > 0 \<longrightarrow> (\<exists>m \<in> set (dep_names p). m \<in> pkg_name ` set (ls ! (i - 1)))))"
proof -
  note bp = built_plan [OF assms(1-4)]
  have ok: "dag_ok d" using bp(1) by (simp add: dag_of_def)
  obtain ls where ls: "topological_levels ord d = Inr ls" "levels_from d {} ls" "set (concat ls) = set (packages b)"
    "distinct (map pkg_name (concat ls))" and deps: "\<And>p. p \<in> set (packages b) \<Longrightarrow> deps_of d (pkg_name p) = dep_names p"
    using plan_of_bundle [OF bp assms(5)] by metis
  have "(\<forall>m \<in> set (dep_names p). \<exists>j < i. m \<in> pkg_name ` set (ls ! j)) \<and>
        (i > 0 \<longrightarrow> (\<exists>m \<in> set (dep_names p). m \<in> pkg_name ` set (ls ! (i - 1))))"
    if ip: "i < length ls" "p \<in> set (ls ! i)" for i p
  proof -
    have "p \<in> set (concat ls)" using ip nth_mem by auto
    then have "deps_of d (pkg_name p) = dep_names p" using ls(3) deps by blast
    then have *: "set (dep_names p) \<subseteq> level_names (take i ls)"
      "i > 0 \<longrightarrow> (\<exists>m \<in> set (dep_names p). m \<in> pkg_name ` set (ls ! (i - 1)))"
      using levels_from_deps [OF ok ls(2) ip] by simp_all
    then show ?thesis using in_take_levels [of _ i ls] by blast
  qed
  then show ?thesis using ls levels_from_sorted [OF ok ls(2)] by blast
qed

theorem topological_levels_correct_witness:
  "\<exists>ls. topological_levels (\<lambda>_. diamond_order) diamond_dag = Inr ls \<and> set (concat ls) = set (packages diamond)"
  using topological_levels_correct [OF diamond_valid diamond_range diamond_range diamond_build(1) diamond_orders] by blast

text \<open>C3. The levels do not depend on the order in which Go happens to iterate its maps: any two runs
  of \<open>TopologicalLevels\<close> on the same graph return the same result, errors included.\<close>

theorem topological_levels_deterministic:
  assumes "validate b = []" "range_order (collect_packages (packages b)) ord1"
    "range_order (collect_packages (packages b)) ord2" "build_dependency_graph ord1 ord2 b = Some (Inr d)"
    "orders_ok d ord" "orders_ok d ord'"
  shows "topological_levels ord d = topological_levels ord' d"
  using built_plan(1) [OF assms(1-4)] topological_levels_waves [of d] assms(5,6)
  by (simp add: dag_of_def orders_ok_def)

theorem topological_levels_deterministic_witness:
  "topological_levels (\<lambda>_. diamond_order) diamond_dag = topological_levels (\<lambda>i. if even i then diamond_order else rev diamond_order) diamond_dag"
proof (rule topological_levels_deterministic [OF diamond_valid diamond_range diamond_range diamond_build(1) diamond_orders])
  show "orders_ok diamond_dag (\<lambda>i. if even i then diamond_order else rev diamond_order)"
    using diamond_orders by (auto simp: orders_ok_def range_order_def)
qed

lemma find_level_at:
  assumes "distinct (map pkg_name (concat ls))" "i < length ls" "n \<in> pkg_name ` set (ls ! i)"
  shows "find_level n k ls = k + int i"
  using assms
proof (induction ls arbitrary: i k)
  case (Cons l ls)
  show ?case
  proof (cases i)
    case 0
    then show ?thesis using Cons.prems by auto
  next
    case (Suc j)
    then have "ls ! j \<in> set ls" using Cons.prems by simp
    then have "set (ls ! j) \<subseteq> set (concat ls)" by auto
    then have "n \<in> level_names ls" using Cons.prems(3) Suc by auto
    then have "\<not> (\<exists>p \<in> set l. pkg_name p = n)" using Cons.prems(1) by auto
    then show ?thesis using Cons.IH [of j "k + 1"] Cons.prems Suc by simp
  qed
qed simp

text \<open>\<open>DAG.Level\<close> of a package of a validated bundle is 0 when it has no dependencies and otherwise
  one more than the greatest level of its dependencies, that is the length of the longest dependency
  chain below it.\<close>

lemma level_longest_chain:
  assumes "validate b = []" "range_order (collect_packages (packages b)) ord1"
    "range_order (collect_packages (packages b)) ord2" "build_dependency_graph ord1 ord2 b = Some (Inr d)"
    "orders_ok d ord" "p \<in> set (packages b)"
  shows "level ord d (pkg_name p) =
     (if dep_names p = [] then 0 else 1 + Max (level ord d ` set (dep_names p)))"
proof -
  note bp = built_plan [OF assms(1-4)]
  have ok: "dag_ok d" using bp(1) by (simp add: dag_of_def)
  obtain ls where ls: "topological_levels ord d = Inr ls" "levels_from d {} ls" "set (concat ls) = set (packages b)"
    "distinct (map pkg_name (concat ls))" and deps: "\<And>p. p \<in> set (packages b) \<Longrightarrow> deps_of d (pkg_name p) = dep_names p"
    using plan_of_bundle [OF bp assms(5)] by metis
  have at: "level ord d n = int i" if "i < length ls" "n \<in> pkg_name ` set (ls ! i)" for i n
    using find_level_at [OF ls(4) that, of 0] ls(1) by (simp add: level_def)
  have "p \<in> set (concat ls)" using ls(3) assms(6) by simp
  then obtain i where i: "i < length ls" "p \<in> set (ls ! i)" by (rule in_concat_nth)
  then have lp: "level ord d (pkg_name p) = int i" using at by blast
  have below: "set (dep_names p) \<subseteq> level_names (take i ls)"
    and tight: "i > 0 \<longrightarrow> (\<exists>m \<in> set (dep_names p). m \<in> pkg_name ` set (ls ! (i - 1)))"
    using levels_from_deps [OF ok ls(2) i] deps [OF assms(6)] by simp_all
  have lt: "level ord d m < int i" if "m \<in> set (dep_names p)" for m
  proof -
    have "m \<in> level_names (take i ls)" using below that by blast
    then obtain j where "j < i" "j < length ls" "m \<in> pkg_name ` set (ls ! j)" using in_take_levels by blast
    then show ?thesis using at by simp
  qed
  show ?thesis
  proof (cases "dep_names p = []")
    case True
    then have "i = 0" using tight by (metis empty_iff list.set(1) neq0_conv)
    then show ?thesis using lp True by simp
  next
    case False
    then have "i > 0" using below by (cases i) auto
    then obtain m where m: "m \<in> set (dep_names p)" "m \<in> pkg_name ` set (ls ! (i - 1))" using tight by blast
    then have "level ord d m = int i - 1" using at [of "i - 1" m] i(1) \<open>i > 0\<close> by simp
    then have "Max (level ord d ` set (dep_names p)) = int i - 1"
      using lt m(1) by (intro Max_eqI) force+
    then show ?thesis using lp False by simp
  qed
qed

lemma level_longest_chain_witness:
  "level (\<lambda>_. diamond_order) diamond_dag ''d'' =
     1 + Max (level (\<lambda>_. diamond_order) diamond_dag ` {''b'', ''c''})"
  using level_longest_chain [OF diamond_valid diamond_range diamond_range diamond_build(1) diamond_orders,
      of "sample_package ''d'' [''b'', ''c'']"]
  by (simp add: diamond_def mk_bundle_def) (simp add: sample_package_def)

subsection \<open>Safe selections\<close>

lemma order_in_filter:
  "filter P cs = xs @ p # ys \<Longrightarrow> \<exists>us vs. cs = us @ p # vs \<and> filter P us = xs"
proof (induction cs arbitrary: xs)
  case (Cons c cs)
  show ?case
  proof (cases "P c \<and> xs = []")
    case True
    then show ?thesis using Cons.prems by (intro exI [of _ "[]"] exI [of _ cs]) simp
  next
    case False
    then obtain xs' where x: "filter P cs = xs' @ p # ys" "xs = (if P c then [c] else []) @ xs'"
      using Cons.prems by (cases xs) (auto split: if_splits)
    then obtain us vs where "cs = us @ p # vs" "filter P us = xs'" using Cons.IH by blast
    then show ?thesis using x(2) by (intro exI [of _ "c # us"] exI [of _ vs]) simp
  qed
qed simp

text \<open>When \<open>DeployViolations\<close> finds nothing for a selection of known packages, \<open>FilterLevels\<close> keeps
  exactly the selected packages, and in the resulting order every package comes after all of its
  dependencies: nothing is deployed before, or without, what it needs.\<close>

lemma deploy_selection_closed:
  assumes "validate b = []" "range_order (collect_packages (packages b)) ord1"
    "range_order (collect_packages (packages b)) ord2" "range_order (collect_packages (packages b)) ord3"
    "deploy_violations ord1 ord2 ord3 b names = Some (Inr Map.empty)" "names \<noteq> []"
    "build_dependency_graph ord1 ord2 b = Some (Inr d)" "orders_ok d ord"
    "validate_package_names names (packages b) = Inr ()" "set ord4 = set names"
  shows "\<exists>ls ls'. topological_levels ord d = Inr ls \<and> filter_levels ord4 ls names = Inr ls' \<and>
     pkg_name ` set (concat ls') = set names \<and>
     (\<forall>xs p ys. concat ls' = xs @ p # ys \<longrightarrow> set (dep_names p) \<subseteq> pkg_name ` set xs)"
proof -
  note bp = built_plan [OF assms(1-3,7)]
  have ok: "dag_ok d" using bp(1) by (simp add: dag_of_def)
  obtain ls where ls: "topological_levels ord d = Inr ls" "levels_from d {} ls" "set (concat ls) = set (packages b)"
    "distinct (map pkg_name (concat ls))" and deps: "\<And>p. p \<in> set (packages b) \<Longrightarrow> deps_of d (pkg_name p) = dep_names p"
    using plan_of_bundle [OF bp assms(8)] by metis
  have known: "set names \<subseteq> level_names ls" using assms(9) validate_package_names_ok ls(3) by metis
  define ls' where "ls' = filter (\<lambda>l. length l > 0) (map (filter (\<lambda>p. pkg_name p \<in> set names)) ls)"
  have fl: "filter_levels ord4 ls names = Inr ls'"
    using filter_levels_Inr [OF assms(6,10)] known unfolding ls'_def by blast
  have cs: "concat ls' = filter (\<lambda>p. pkg_name p \<in> set names) (concat ls)"
    unfolding ls'_def by (rule concat_filter_levels)
  have "missing_dependencies ord3 d names = Map.empty"
    using assms(5,6,7) by (auto simp: deploy_violations_def violations_with_def)
  then have closed: "\<forall>n \<in> dom (dag_packages d) \<inter> set names. set (deps_of d n) \<subseteq> set names"
    using missing_dependencies_empty assms(4) bp(1) by (simp add: dag_of_def)
  have "set (dep_names p) \<subseteq> pkg_name ` set xs" if sp: "concat ls' = xs @ p # ys" for xs p ys
  proof -
    obtain us vs where uv: "concat ls = us @ p # vs" "filter (\<lambda>p. pkg_name p \<in> set names) us = xs"
      using order_in_filter [of "\<lambda>p. pkg_name p \<in> set names" "concat ls" xs p ys] sp cs by auto
    have "p \<in> set (concat ls')" using sp by simp
    then have p: "p \<in> set (packages b)" "pkg_name p \<in> set names" using cs ls(3) by auto
    have "set (dep_names p) \<subseteq> pkg_name ` set us"
      using topo.plan_prefix [of "(d, ord)" ls us p vs] ok assms(8) ls(1) uv(1) deps [OF p(1)] by simp
    moreover have "pkg_name p \<in> dom (dag_packages d)" using p(1) bp(1) by (simp add: dag_of_def)
    then have "set (deps_of d (pkg_name p)) \<subseteq> set names" using closed p(2) by blast
    then have "set (dep_names p) \<subseteq> set names" unfolding deps [OF p(1)] .
    ultimately have "\<exists>q \<in> set us. pkg_name q = m \<and> pkg_name q \<in> set names" if "m \<in> set (dep_names p)" for m
      using that by blast
    then show ?thesis unfolding uv(2) [symmetric] by force
  qed
  moreover have "pkg_name ` set (concat ls') = set names"
  proof
    show "set names \<subseteq> pkg_name ` set (concat ls')"
    proof
      fix n assume n: "n \<in> set names"
      then obtain p where "p \<in> set (concat ls)" "pkg_name p = n" using known by blast
      then show "n \<in> pkg_name ` set (concat ls')" unfolding cs set_filter using n by blast
    qed
  qed (use cs in auto)
  ultimately show ?thesis using ls(1) fl by blast
qed

lemma deploy_selection_closed_witness:
  "\<exists>ls ls'. topological_levels (\<lambda>_. diamond_order) diamond_dag = Inr ls \<and>
     filter_levels [''a'', ''b''] ls [''b'', ''a''] = Inr ls' \<and> pkg_name ` set (concat ls') = set [''b'', ''a'']"
proof -
  have "range_order (dag_packages diamond_dag) diamond_order" using diamond_orders by (simp add: orders_ok_def)
  moreover have "set (deps_of diamond_dag n) \<subseteq> {''b'', ''a''}"
    if n: "n \<in> dom (dag_packages diamond_dag) \<inter> {''b'', ''a''}" for n
  proof -
    have "sample_package ''b'' [''a''] \<in> set (packages diamond)" "sample_package ''a'' [] \<in> set (packages diamond)"
      by (simp_all add: diamond_def mk_bundle_def)
    then have "deps_of diamond_dag ''b'' = [''a'']" "deps_of diamond_dag ''a'' = []"
      using diamond_build(2) by (auto simp: dag_of_def sample_package_def)
    then show ?thesis using n by auto
  qed
  ultimately have none: "missing_dependencies diamond_order diamond_dag [''b'', ''a''] = Map.empty"
    by (simp add: missing_dependencies_empty)
  have v: "deploy_violations diamond_order diamond_order diamond_order diamond [''b'', ''a''] = Some (Inr Map.empty)"
    using diamond_build(1) none by (simp add: deploy_violations_def violations_with_def)
  have n: "validate_package_names [''b'', ''a''] (packages diamond) = Inr ()"
    by (simp add: validate_package_names_def diamond_simps)
  have "set [''a'', ''b''] = set [''b'', ''a'']" by (simp add: insert_commute)
  from deploy_selection_closed [OF diamond_valid diamond_range diamond_range diamond_range v list.distinct(2) diamond_build(1) diamond_orders n this]
  obtain ls ls' where "topological_levels (\<lambda>_. diamond_order) diamond_dag = Inr ls"
    "filter_levels [''a'', ''b''] ls [''b'', ''a''] = Inr ls'" "pkg_name ` set (concat ls') = set [''b'', ''a'']"
    by (elim exE conjE)
  then show ?thesis by (intro exI conjI)
qed

text \<open>C4. \<open>RemovalViolations\<close> finds nothing for a selection exactly when no package that stays in the bundle
  depends on a selected one; when it finds something, it lists for a selected package precisely the
  remaining packages that depend on it directly.\<close>

theorem removal_violations_correct:
  assumes "validate b = []" "range_order (collect_packages (packages b)) ord1"
    "range_order (collect_packages (packages b)) ord2" "range_order (collect_packages (packages b)) ord3"
    "acyclic (declared_deps b)" "names \<noteq> []"
  shows "\<exists>v. removal_violations ord1 ord2 ord3 b names = Some (Inr v) \<and>
     (v = Map.empty \<longleftrightarrow> (\<forall>p \<in> set (packages b). pkg_name p \<notin> set names \<longrightarrow> set (dep_names p) \<inter> set names = {})) \<and>
     (\<forall>n. set (slice_at v n) = {pkg_name p | p. p \<in> set (packages b) \<and> pkg_name p \<notin> set names \<and>
        n \<in> set names \<and> n \<in> set (dep_names p)})"
proof -
  have ok: "bundle_ok b" using assms(1) validate_iff_bundle_ok by blast
  obtain d where d: "build_dependency_graph ord1 ord2 b = Some (Inr d)" "dag_of b d"
    using build_dependency_graph_cases [OF ok assms(2,3)] assms(5) by metis
  then have ord: "range_order (dag_packages d) ord3" and dom: "dom (dag_packages d) = pkg_name ` set (packages b)"
    using assms(4) by (simp_all add: dag_of_def)
  have deps: "deps_of d (pkg_name p) = dep_names p" if "p \<in> set (packages b)" for p using d(2) that by (simp add: dag_of_def)
  let ?v = "dependent_blockers ord3 d names"
  have v: "removal_violations ord1 ord2 ord3 b names = Some (Inr ?v)"
    using d(1) assms(6) by (simp add: removal_violations_def violations_with_def)
  have img: "(\<forall>n \<in> f ` A - N. Q n) \<longleftrightarrow> (\<forall>p \<in> A. f p \<notin> N \<longrightarrow> Q (f p))" for f :: "package \<Rightarrow> string" and A N Q by blast
  have "?v = Map.empty \<longleftrightarrow> (\<forall>p \<in> set (packages b). pkg_name p \<notin> set names \<longrightarrow> set (dep_names p) \<inter> set names = {})"
    unfolding dependent_blockers_empty [OF ord] dom img using deps by (simp cong: ball_cong)
  moreover have "set (slice_at ?v n) = {pkg_name p | p. p \<in> set (packages b) \<and> pkg_name p \<notin> set names \<and>
        n \<in> set names \<and> n \<in> set (dep_names p)}" for n
    unfolding set_blockers_at [OF ord] dom using deps by auto
  ultimately show ?thesis using v by blast
qed

theorem removal_violations_correct_witness:
  "\<exists>v. removal_violations diamond_order diamond_order diamond_order diamond [''a''] = Some (Inr v) \<and> v \<noteq> Map.empty"
proof -
  obtain v where v: "removal_violations diamond_order diamond_order diamond_order diamond [''a''] = Some (Inr v)"
    "(v = Map.empty) = (\<forall>p \<in> set (packages diamond). pkg_name p \<notin> set [''a''] \<longrightarrow> set (dep_names p) \<inter> set [''a''] = {})"
    using removal_violations_correct [OF diamond_valid diamond_range diamond_range diamond_range diamond_acyclic, of "[''a'']"] by blast
  then have "v \<noteq> Map.empty" by (simp add: diamond_simps)
  then show ?thesis using v(1) by blast
qed

end
