(* ===== verification/Orchestrator.thy ===== *)
theory Orchestrator
  imports Dependency_Plan
begin

text \<open>
  The deploy orchestrator, \<open>internal/zarf/deploy_orchestrator.go\<close>: \<open>Run\<close> walks the levels, starts one
  goroutine per package of a level under an \<open>errgroup\<close> with a limit, stops scheduling after the first
  failure, lets running deploys finish and joins their errors. It is a step relation \<open>orch_step\<close> in which
  each shared-memory effect is a step of its own: the scheduling loop, every goroutine, and the
  cancellation of the parent context by the environment interleave freely. \<open>DeployPackage\<close> may return
  nil or any error. The log output is not modelled. The accumulator of
  \<open>internal/zarf/error_accumulator.go\<close> is the list \<open>o_errs\<close>.
\<close>

subsection \<open>The error accumulator\<close>

type_synonym 'e error_accumulator = "'e list"

definition acc_add :: "'e option \<Rightarrow> 'e error_accumulator \<Rightarrow> 'e error_accumulator" where
  "acc_add err acc = (case err of None \<Rightarrow> acc | Some e \<Rightarrow> acc @ [e])"

definition acc_err :: "'e error_accumulator \<Rightarrow> 'e list option" where
  "acc_err acc = (if acc = [] then None else Some acc)"

definition acc_len :: "'e error_accumulator \<Rightarrow> nat" where
  "acc_len acc = length acc"

lemma acc_add_Some [simp]: "acc_add (Some e) acc = acc @ [e]" "acc_add None acc = acc"
  by (simp_all add: acc_add_def)

lemma acc_err_simps [simp]: "acc_err acc = None \<longleftrightarrow> acc = []" "acc_err acc = Some es \<longleftrightarrow> acc \<noteq> [] \<and> es = acc"
  by (auto simp: acc_err_def)

subsection \<open>State\<close>

text \<open>
  A goroutine is \<open>Queued\<close> before it re-checks the group context, \<open>Deploying\<close> inside \<open>DeployPackage\<close>,
  \<open>Failing\<close> after it recorded its error and \<open>Exiting\<close> once its function returned but its slot is
  still held.
\<close>

datatype goroutine_state = Queued | Deploying | Failing | Exiting

datatype 'e run_result = RunOk | RunCancelled | RunErrors "(string \<times> 'e) list"

text \<open>
  Where \<open>Run\<close> is: at the head of the level loop, in the scheduling loop with packages left, blocked in
  \<open>g.Go\<close> with a package, in \<open>g.Wait\<close>, or returned.
\<close>

datatype 'e run_phase =
    LevelStart
  | Scheduling "package list"
  | Launching package "package list"
  | Draining
  | Returned "'e run_result"

record 'e orch =
  o_done :: "package list list"
  o_rest :: "package list list"
  o_phase :: "'e run_phase"
  o_gs :: "(package \<times> goroutine_state) list"
  o_errs :: "(package \<times> 'e) error_accumulator"
  o_gcancel :: bool
  o_ctx :: bool
  o_deployed :: "string set"
  o_calls :: "package list"

text \<open>\<open>o_calls\<close> is the history of the calls of \<open>DeployPackage\<close>; the code does not keep it.\<close>

definition orch_init :: "package list list \<Rightarrow> 'e orch" where
  "orch_init ls = \<lparr>o_done = [], o_rest = ls, o_phase = LevelStart, o_gs = [], o_errs = [], o_gcancel = False,
     o_ctx = False, o_deployed = {}, o_calls = []\<rparr>"

definition gctx_err :: "'e orch \<Rightarrow> bool" where
  "gctx_err s \<longleftrightarrow> o_ctx s \<or> o_gcancel s"

definition deployed_packages :: "package list list \<Rightarrow> 'e orch \<Rightarrow> string list" where
  "deployed_packages ls s = filter (\<lambda>n. n \<in> o_deployed s) (map pkg_name (concat ls))"

text \<open>\<open>packageDeployFailurePrefix\<close>: \<open>rng\<close> is \<open>packageSourceRange\<close> rendered, \<open>q\<close> the \<open>%q\<close> verb.\<close>

definition deploy_failure_prefix :: "(string \<Rightarrow> string) \<Rightarrow> (string \<Rightarrow> string option) \<Rightarrow> package \<Rightarrow> string" where
  "deploy_failure_prefix q rng p =
     (let pre = ''failed to deploy package '' @ q (pkg_name p) in
      case rng (pkg_name p) of None \<Rightarrow> pre | Some r \<Rightarrow> pre @ '' at '' @ r)"

text \<open>
  \<open>packageSourceRange\<close>: \<open>read_blocks\<close> is reading and parsing the bundle file, with the labels and the
  range of each \<open>package\<close> block, and \<open>None\<close> for a read or parse failure.
\<close>

definition package_source_range :: "(string \<Rightarrow> (string list \<times> 'r) list option) \<Rightarrow> string \<Rightarrow> string \<Rightarrow> 'r option" where
  "package_source_range read_blocks bundle_path name =
     (if bundle_path = [] then None
      else case read_blocks bundle_path of
        None \<Rightarrow> None
      | Some blocks \<Rightarrow> map_option snd (find (\<lambda>(labels, _). length labels = 1 \<and> labels ! 0 = name) blocks))"

subsection \<open>Steps\<close>

inductive orch_step :: "nat \<Rightarrow> (package \<Rightarrow> string) \<Rightarrow> 'e orch \<Rightarrow> 'e orch \<Rightarrow> bool"
  for c :: nat and pfx :: "package \<Rightarrow> string" where
  cancel_ctx: "\<not> o_ctx s \<Longrightarrow> orch_step c pfx s (s\<lparr>o_ctx := True\<rparr>)"
| all_done: "o_phase s = LevelStart \<Longrightarrow> o_rest s = [] \<Longrightarrow> orch_step c pfx s (s\<lparr>o_phase := Returned RunOk\<rparr>)"
| boundary_cancelled: "o_phase s = LevelStart \<Longrightarrow> o_rest s \<noteq> [] \<Longrightarrow> o_ctx s \<Longrightarrow>
    orch_step c pfx s (s\<lparr>o_phase := Returned RunCancelled\<rparr>)"
| start_level: "o_phase s = LevelStart \<Longrightarrow> o_rest s = l # ls \<Longrightarrow> \<not> o_ctx s \<Longrightarrow>
    orch_step c pfx s (s\<lparr>o_phase := Scheduling l, o_errs := [], o_gcancel := False\<rparr>)"
| break_level: "o_phase s = Scheduling (p # ps) \<Longrightarrow> gctx_err s \<Longrightarrow> orch_step c pfx s (s\<lparr>o_phase := Draining\<rparr>)"
| admit: "o_phase s = Scheduling (p # ps) \<Longrightarrow> \<not> gctx_err s \<Longrightarrow> orch_step c pfx s (s\<lparr>o_phase := Launching p ps\<rparr>)"
| scheduled_all: "o_phase s = Scheduling [] \<Longrightarrow> orch_step c pfx s (s\<lparr>o_phase := Draining\<rparr>)"
| launch: "o_phase s = Launching p ps \<Longrightarrow> length (o_gs s) < c \<Longrightarrow>
    orch_step c pfx s (s\<lparr>o_phase := Scheduling ps, o_gs := o_gs s @ [(p, Queued)]\<rparr>)"
| skip: "o_gs s = xs @ (p, Queued) # ys \<Longrightarrow> gctx_err s \<Longrightarrow>
    orch_step c pfx s (s\<lparr>o_gs := xs @ (p, Exiting) # ys, o_gcancel := True\<rparr>)"
| call_deploy: "o_gs s = xs @ (p, Queued) # ys \<Longrightarrow> \<not> gctx_err s \<Longrightarrow>
    orch_step c pfx s (s\<lparr>o_gs := xs @ (p, Deploying) # ys, o_calls := o_calls s @ [p]\<rparr>)"
| deploy_ok: "o_gs s = xs @ (p, Deploying) # ys \<Longrightarrow>
    orch_step c pfx s (s\<lparr>o_gs := xs @ (p, Exiting) # ys, o_deployed := insert (pkg_name p) (o_deployed s)\<rparr>)"
| deploy_fail: "o_gs s = xs @ (p, Deploying) # ys \<Longrightarrow>
    orch_step c pfx s (s\<lparr>o_gs := xs @ (p, Failing) # ys, o_errs := acc_add (Some (p, e)) (o_errs s)\<rparr>)"
| return_error: "o_gs s = xs @ (p, Failing) # ys \<Longrightarrow>
    orch_step c pfx s (s\<lparr>o_gs := xs @ (p, Exiting) # ys, o_gcancel := True\<rparr>)"
| release: "o_gs s = xs @ (p, Exiting) # ys \<Longrightarrow> orch_step c pfx s (s\<lparr>o_gs := xs @ ys\<rparr>)"
| level_failed: "o_phase s = Draining \<Longrightarrow> o_gs s = [] \<Longrightarrow> acc_err (o_errs s) = Some es \<Longrightarrow>
    orch_step c pfx s (s\<lparr>o_phase := Returned (RunErrors (map (\<lambda>(p, e). (pfx p, e)) es))\<rparr>)"
| level_cancelled: "o_phase s = Draining \<Longrightarrow> o_gs s = [] \<Longrightarrow> acc_err (o_errs s) = None \<Longrightarrow> o_ctx s \<Longrightarrow>
    orch_step c pfx s (s\<lparr>o_phase := Returned RunCancelled\<rparr>)"
| level_complete: "o_phase s = Draining \<Longrightarrow> o_gs s = [] \<Longrightarrow> acc_err (o_errs s) = None \<Longrightarrow> \<not> o_ctx s \<Longrightarrow> o_rest s = l # ls \<Longrightarrow>
    orch_step c pfx s (s\<lparr>o_phase := LevelStart, o_done := o_done s @ [l], o_rest := ls\<rparr>)"

definition orch_run :: "nat \<Rightarrow> (package \<Rightarrow> string) \<Rightarrow> package list list \<Rightarrow> 'e orch \<Rightarrow> bool" where
  "orch_run c pfx ls s \<longleftrightarrow> (orch_step c pfx)\<^sup>*\<^sup>* (orch_init ls) s"

lemma orch_run_init: "orch_run c pfx ls (orch_init ls)"
  by (simp add: orch_run_def)

lemma orch_run_step: "orch_run c pfx ls s \<Longrightarrow> orch_step c pfx s t \<Longrightarrow> orch_run c pfx ls t"
  by (simp add: orch_run_def rtranclp.rtrancl_into_rtrancl)

lemma orch_run_induct [consumes 1, case_names init step]:
  assumes "orch_run c pfx ls s" "P (orch_init ls)"
    "\<And>s t. orch_run c pfx ls s \<Longrightarrow> orch_step c pfx s t \<Longrightarrow> P s \<Longrightarrow> P t"
  shows "P s"
  using assms(1) unfolding orch_run_def
  by (induction rule: rtranclp_induct) (use assms(2,3) in \<open>auto simp: orch_run_def\<close>)

end
