(* ===== verification/Orchestrator_Inv.thy ===== *)
theory Orchestrator_Inv
  imports Orchestrator
begin

text \<open>
  Invariants of the orchestrator, each preserved by every step and hence true in every reachable
  state: the concurrency limit, the bookkeeping of calls, results and errors, and the completeness of
  a level that drained without error.
\<close>

definition pending :: "'e orch \<Rightarrow> package list" where
  "pending s = (case o_phase s of Scheduling ps \<Rightarrow> ps | Launching p ps \<Rightarrow> p # ps | _ \<Rightarrow> [])"

definition in_level :: "'e orch \<Rightarrow> bool" where
  "in_level s \<longleftrightarrow> (case o_phase s of LevelStart \<Rightarrow> False | Returned _ \<Rightarrow> False | _ \<Rightarrow> True)"

definition unstarted :: "'e orch \<Rightarrow> package list" where
  "unstarted s = map fst (filter (\<lambda>(p, g). g = Queued) (o_gs s)) @ pending s"

named_theorems orch_simps

lemmas [orch_simps] = pending_def in_level_def unstarted_def gctx_err_def

text \<open>The control part.\<close>

definition ctl_inv :: "nat \<Rightarrow> package list list \<Rightarrow> 'e orch \<Rightarrow> bool" where
  "ctl_inv c ls s \<longleftrightarrow> length (o_gs s) \<le> c \<and> ls = o_done s @ o_rest s \<and>
     (in_level s \<longrightarrow> o_rest s \<noteq> []) \<and> (\<not> in_level s \<longrightarrow> o_gs s = []) \<and>
     set (pending s) \<union> fst ` set (o_gs s) \<subseteq> (if in_level s then set (hd (o_rest s)) else {})"

lemma ctl_inv_init: "ctl_inv c ls (orch_init ls)"
  by (simp add: ctl_inv_def orch_init_def orch_simps)

lemma ctl_inv_step: "orch_step c pfx s t \<Longrightarrow> ctl_inv c ls s \<Longrightarrow> ctl_inv c ls t"
  by (induction rule: orch_step.cases) (auto simp: ctl_inv_def orch_simps split: run_phase.splits if_splits)

lemma ctl_inv_run: "orch_run c pfx ls s \<Longrightarrow> ctl_inv c ls s"
  by (induction rule: orch_run_induct) (auto intro: ctl_inv_init ctl_inv_step)

text \<open>Every package is handed to at most one goroutine and deployed at most once.\<close>

definition once_inv :: "'e orch \<Rightarrow> bool" where
  "once_inv s \<longleftrightarrow> distinct (o_calls s @ unstarted s) \<and> distinct (map fst (o_gs s) @ pending s) \<and>
     set (o_calls s) \<subseteq> set (concat (o_done s)) \<union>
       (if o_phase s = LevelStart \<or> o_rest s = [] then {} else set (hd (o_rest s)))"

lemma once_inv_init: "once_inv (orch_init ls)"
  by (simp add: once_inv_def orch_init_def orch_simps)

lemma once_inv_step:
  assumes "orch_step c pfx s t" "once_inv s" "ctl_inv c ls s" "distinct (concat ls)"
  shows "once_inv t"
  using assms
proof (induction rule: orch_step.cases)
  case (start_level s l rest)
  then have "o_gs s = []" "set l \<inter> set (concat (o_done s)) = {}" "distinct l"
    by (auto simp: ctl_inv_def orch_simps)
  then show ?case using start_level by (auto simp: once_inv_def orch_simps)
next
  case (call_deploy s xs p ys)
  then have "in_level s" by (auto simp: ctl_inv_def)
  then show ?case using call_deploy by (auto simp: once_inv_def ctl_inv_def orch_simps split: run_phase.splits)
qed (auto simp: once_inv_def ctl_inv_def orch_simps split: run_phase.splits if_splits)

lemma once_inv_run:
  assumes "orch_run c pfx ls s" "distinct (concat ls)"
  shows "once_inv s"
  using assms by (induction rule: orch_run_induct) (auto intro: once_inv_init once_inv_step ctl_inv_run)

text \<open>
  A call that has begun ended well, ended with a recorded error, or is still running: the names
  deployed, the packages called, failed and running.
\<close>

definition res_ok :: "string set \<Rightarrow> package set \<Rightarrow> package set \<Rightarrow> package set \<Rightarrow> bool" where
  "res_ok D C F R \<longleftrightarrow> F \<subseteq> C \<and> R \<subseteq> C \<and> F \<inter> R = {} \<and> D = pkg_name ` (C - F - R)"

lemma res_ok_call:
  assumes "res_ok D C F R" "p \<notin> C"
  shows "res_ok D (insert p C) F (insert p R)"
proof -
  have "insert p C - F - insert p R = C - F - R" using assms(2) by blast
  then show ?thesis using assms by (auto simp: res_ok_def)
qed

lemma res_ok_fail:
  assumes "res_ok D C F R" "p \<in> R"
  shows "res_ok D C (insert p F) (R - {p})"
proof -
  have "C - insert p F - (R - {p}) = C - F - R" using assms(2) by blast
  then show ?thesis using assms by (auto simp: res_ok_def)
qed

lemma res_ok_deployed:
  assumes "res_ok D C F R" "p \<in> R"
  shows "res_ok (insert (pkg_name p) D) C F (R - {p})"
proof -
  have "C - F - (R - {p}) = insert p (C - F - R)" using assms by (auto simp: res_ok_def)
  then show ?thesis using assms by (auto simp: res_ok_def)
qed

definition deploying :: "'e orch \<Rightarrow> package set" where
  "deploying s = {p. (p, Deploying) \<in> set (o_gs s)}"

definition current :: "'e orch \<Rightarrow> package set" where
  "current s = (case o_rest s of [] \<Rightarrow> {} | l # _ \<Rightarrow> set l)"

lemma current_update [simp]:
  "current (s\<lparr>o_phase := ph\<rparr>) = current s" "current (s\<lparr>o_gs := gs\<rparr>) = current s" "current (s\<lparr>o_errs := es\<rparr>) = current s"
  "current (s\<lparr>o_gcancel := gc\<rparr>) = current s" "current (s\<lparr>o_ctx := x\<rparr>) = current s"
  "current (s\<lparr>o_deployed := D\<rparr>) = current s" "current (s\<lparr>o_calls := cs\<rparr>) = current s"
  by (simp_all add: current_def)

definition result_inv :: "'e orch \<Rightarrow> bool" where
  "result_inv s \<longleftrightarrow> res_ok (o_deployed s) (set (o_calls s)) (fst ` set (o_errs s)) (deploying s) \<and>
     (o_phase s = LevelStart \<longrightarrow> o_errs s = []) \<and> distinct (map fst (o_errs s)) \<and>
     fst ` set (o_errs s) \<subseteq> current s"

lemma result_inv_init: "result_inv (orch_init ls)"
  by (simp add: result_inv_def orch_init_def res_ok_def deploying_def)

lemma calls_in_levels: "once_inv s \<Longrightarrow> ctl_inv c ls s \<Longrightarrow> set (o_calls s) \<subseteq> set (concat ls)"
  by (fastforce simp: once_inv_def ctl_inv_def split: if_splits dest: hd_in_set)

lemma goroutines_in_level:
  assumes "ctl_inv c ls s" "(p, g) \<in> set (o_gs s)"
  shows "p \<in> current s \<and> p \<in> set (concat ls) \<and> o_phase s \<noteq> LevelStart"
proof -
  have "in_level s" using assms by (auto simp: ctl_inv_def)
  then have "o_rest s \<noteq> []" "p \<in> set (hd (o_rest s))" using assms by (force simp: ctl_inv_def)+
  then show ?thesis using assms(1) \<open>in_level s\<close> by (cases "o_rest s") (auto simp: ctl_inv_def orch_simps current_def)
qed

lemma one_goroutine:
  assumes "once_inv s" "o_gs s = xs @ (p, g) # ys"
  shows "(p, h) \<notin> set xs" "(p, h) \<notin> set ys"
proof -
  have "distinct (map fst (xs @ (p, g) # ys))" using assms unfolding once_inv_def by (metis distinct_append)
  then have "p \<notin> set (map fst xs)" "p \<notin> set (map fst ys)" by simp_all
  then show "(p, h) \<notin> set xs" "(p, h) \<notin> set ys" by (metis fst_conv image_eqI set_map)+
qed

lemma result_inv_step:
  assumes "orch_step c pfx s t" "result_inv s" "once_inv s" "ctl_inv c ls s"
  shows "result_inv t"
  using assms(1)
proof (cases rule: orch_step.cases)
  case (call_deploy xs p ys)
  have "p \<notin> set (o_calls s)" using assms(3) call_deploy by (auto simp: once_inv_def orch_simps)
  moreover have "deploying t = insert p (deploying s)" using call_deploy by (auto simp: deploying_def)
  ultimately show ?thesis using assms(2) call_deploy by (auto simp: result_inv_def res_ok_call split: if_splits)
next
  case (deploy_ok xs p ys)
  then have "p \<in> deploying s" "deploying t = deploying s - {p}"
    using one_goroutine [OF assms(3)] by (auto simp: deploying_def)
  then show ?thesis using assms(2) deploy_ok by (simp add: result_inv_def res_ok_deployed)
next
  case (deploy_fail xs p ys e)
  then have p: "p \<in> deploying s" "deploying t = deploying s - {p}"
    using one_goroutine [OF assms(3)] by (auto simp: deploying_def)
  then have "p \<notin> fst ` set (o_errs s)" using assms(2) by (auto simp: result_inv_def res_ok_def)
  then show ?thesis using assms(2) deploy_fail p res_ok_fail goroutines_in_level [OF assms(4), of p Deploying]
    by (simp add: result_inv_def)
next
  case (start_level l rest)
  then show ?thesis using assms(2) by (auto simp: result_inv_def deploying_def)
qed (use assms(2,4) in \<open>auto simp: result_inv_def deploying_def ctl_inv_def split: if_splits\<close>)

lemma result_inv_run:
  assumes "orch_run c pfx ls s" "distinct (concat ls)"
  shows "result_inv s"
  using assms by (induction rule: orch_run_induct) (auto intro: result_inv_init result_inv_step ctl_inv_run once_inv_run)

text \<open>A level that drains without error, in an uncancelled run, is deployed completely.\<close>

definition complete_inv :: "(package \<Rightarrow> string) \<Rightarrow> 'e orch \<Rightarrow> bool" where
  "complete_inv pfx s \<longleftrightarrow>
     (\<forall>p \<in> set (concat (o_done s)). pkg_name p \<in> o_deployed s) \<and>
     (in_level s \<and> o_errs s = [] \<and> \<not> o_ctx s \<longrightarrow> \<not> o_gcancel s \<and>
       (\<forall>p \<in> current s. pkg_name p \<in> o_deployed s \<or> (p, Queued) \<in> set (o_gs s) \<or> (p, Deploying) \<in> set (o_gs s) \<or>
          p \<in> set (pending s))) \<and>
     (\<forall>p. (p, Failing) \<in> set (o_gs s) \<longrightarrow> o_errs s \<noteq> []) \<and>
     (case o_phase s of
        Returned RunOk \<Rightarrow> o_rest s = []
      | Returned RunCancelled \<Rightarrow> o_ctx s
      | Returned (RunErrors es) \<Rightarrow> o_errs s \<noteq> [] \<and> es = map (\<lambda>(p, e). (pfx p, e)) (o_errs s)
      | _ \<Rightarrow> True)"

lemma complete_inv_init: "complete_inv pfx (orch_init ls)"
  by (simp add: complete_inv_def orch_init_def orch_simps)

lemma complete_inv_step:
  assumes "orch_step c pfx s t" "complete_inv pfx s" "ctl_inv c ls s"
  shows "complete_inv pfx t"
  using assms(1)
proof (cases rule: orch_step.cases)
  case (start_level l rest)
  then show ?thesis using assms(2,3) by (auto simp: complete_inv_def ctl_inv_def orch_simps current_def)
next
  case (level_complete l rest)
  then show ?thesis using assms(2) by (auto simp: complete_inv_def orch_simps current_def)
next
  case (deploy_ok xs p ys)
  then have "in_level s" using assms(3) by (auto simp: ctl_inv_def)
  then show ?thesis using assms(2) deploy_ok by (auto simp: complete_inv_def orch_simps split: run_phase.splits)
next
  case (deploy_fail xs p ys e)
  then have "in_level s" using assms(3) by (auto simp: ctl_inv_def)
  then show ?thesis using assms(2) deploy_fail by (auto simp: complete_inv_def orch_simps split: run_phase.splits)
qed (use assms(2,3) in \<open>auto simp: complete_inv_def ctl_inv_def orch_simps split: run_phase.splits run_result.splits\<close>)

lemma complete_inv_run: "orch_run c pfx ls s \<Longrightarrow> complete_inv pfx s"
  by (induction rule: orch_run_induct) (auto intro: complete_inv_init complete_inv_step ctl_inv_run)

end
