(* ===== verification/Orchestrator_Properties.thy ===== *)
theory Orchestrator_Properties
  imports Orchestrator_Inv Dependency_Properties
begin

text \<open>
  The properties of the deploy orchestrator: bounded parallelism and single deploys, dependencies
  deployed before dependents, what a returned \<open>Run\<close> guarantees, and its termination.
\<close>

subsection \<open>A sample run\<close>

text \<open>One level with one package, which is called and deploys; the run returns nil.\<close>

lemma first_call:
  assumes "ls = (p # ps) # rest" "0 < c"
  defines "s \<equiv> (orch_init ls)\<lparr>o_phase := Scheduling ps, o_gs := [(p, Queued)]\<rparr>"
  shows "orch_run c pfx ls s"
    and "orch_step c pfx s (s\<lparr>o_gs := [(p, Deploying)], o_calls := [p]\<rparr>)"
proof -
  note run = orch_run_step [where pfx = pfx]
  have "orch_run c pfx ls ((orch_init ls)\<lparr>o_phase := Scheduling (p # ps)\<rparr>)"
    using run [OF orch_run_init orch_step.start_level [of "orch_init ls" "p # ps" rest]] assms(1)
    by (simp add: orch_init_def)
  note this = run [OF this orch_step.admit [of _ p ps]]
  then have "orch_run c pfx ls ((orch_init ls)\<lparr>o_phase := Launching p ps\<rparr>)"
    by (simp add: gctx_err_def orch_init_def)
  from run [OF this orch_step.launch [of _ p ps]] show "orch_run c pfx ls s"
    using assms(2) by (simp add: s_def orch_init_def)
  show "orch_step c pfx s (s\<lparr>o_gs := [(p, Deploying)], o_calls := [p]\<rparr>)"
    using orch_step.call_deploy [of s "[]" p "[]" c pfx] by (simp add: s_def orch_init_def gctx_err_def)
qed

definition sample_end :: "package \<Rightarrow> 'e orch" where
  "sample_end p = \<lparr>o_done = [[p]], o_rest = [], o_phase = Returned RunOk, o_gs = [], o_errs = [], o_gcancel = False,
     o_ctx = False, o_deployed = {pkg_name p}, o_calls = [p]\<rparr>"

lemma sample_run: "0 < c \<Longrightarrow> orch_run c pfx [[p]] (sample_end p)"
proof -
  assume c: "0 < c"
  note run = orch_run_step [where pfx = pfx and c = c]
  note s = first_call [of "[[p]]" p "[]" "[]" c pfx, OF refl c]
  from run [OF run [OF s] orch_step.deploy_ok [of _ "[]" p "[]"]]
  have "orch_run c pfx [[p]] ((orch_init [[p]])\<lparr>o_phase := Scheduling [], o_gs := [(p, Exiting)], o_calls := [p], o_deployed := {pkg_name p}\<rparr>)"
    by (simp add: orch_init_def)
  from run [OF this orch_step.release [of _ "[]" p "[]"]]
  have "orch_run c pfx [[p]] ((orch_init [[p]])\<lparr>o_phase := Scheduling [], o_calls := [p], o_deployed := {pkg_name p}\<rparr>)"
    by (simp add: orch_init_def)
  from run [OF this orch_step.scheduled_all]
  have "orch_run c pfx [[p]] ((orch_init [[p]])\<lparr>o_phase := Draining, o_calls := [p], o_deployed := {pkg_name p}\<rparr>)"
    by (simp add: orch_init_def)
  from run [OF this orch_step.level_complete [of _ "[p]" "[]"]]
  have "orch_run c pfx [[p]] ((orch_init [[p]])\<lparr>o_done := [[p]], o_rest := [], o_calls := [p], o_deployed := {pkg_name p}\<rparr>)"
    by (simp add: orch_init_def)
  from run [OF this orch_step.all_done]
  show "orch_run c pfx [[p]] (sample_end p)" by (simp add: orch_init_def sample_end_def)
qed

subsection \<open>Bounded parallelism\<close>

text \<open>C8. At every moment of every run at most \<open>concurrency\<close> goroutines are alive, and no package is
  deployed twice.\<close>

theorem orchestrator_bounded:
  assumes "orch_run c pfx ls s" "distinct (map pkg_name (concat ls))"
  shows "length (o_gs s) \<le> c \<and> distinct (map pkg_name (o_calls s)) \<and> set (o_calls s) \<subseteq> set (concat ls)"
proof -
  have "distinct (concat ls)" using assms(2) distinct_map by blast
  then have inv: "ctl_inv c ls s" "once_inv s" using assms(1) ctl_inv_run once_inv_run by blast+
  have sub: "set (o_calls s) \<subseteq> set (concat ls)" using calls_in_levels inv by blast
  have "inj_on pkg_name (set (concat ls))" using assms(2) distinct_map by blast
  then have "distinct (map pkg_name (o_calls s))" using inv(2) sub by (auto simp: once_inv_def distinct_map intro: inj_on_subset)
  then show ?thesis using inv(1) sub by (simp add: ctl_inv_def)
qed

theorem orchestrator_bounded_witness:
  "length (o_gs (sample_end (sample_package ''a'' []) :: unit orch)) \<le> 1"
proof -
  have "orch_run 1 (\<lambda>_. []) [[sample_package ''a'' []]] (sample_end (sample_package ''a'' []) :: unit orch)"
    by (rule sample_run) simp
  from orchestrator_bounded [OF this] show ?thesis by simp
qed

subsection \<open>Order\<close>

lemma filtered_level:
  assumes "filter (\<lambda>l. length l > 0) (map (filter P) ls) = ds @ l' # rs"
  shows "\<exists>us l vs. ls = us @ l # vs \<and> l' = filter P l \<and> concat ds = filter P (concat us)"
  using assms
proof (induction ls arbitrary: ds)
  case (Cons k ks)
  show ?case
  proof (cases "filter P k = []")
    case True
    then have "filter (\<lambda>l. length l > 0) (map (filter P) ks) = ds @ l' # rs" using Cons.prems by simp
    then obtain us l vs where "ks = us @ l # vs" "l' = filter P l" "concat ds = filter P (concat us)" using Cons.IH by blast
    then show ?thesis using True by (intro exI [of _ "k # us"]) simp
  next
    case False
    show ?thesis
    proof (cases ds)
      case Nil
      then show ?thesis using False Cons.prems by (intro exI [of _ "[]"] exI [of _ k] exI [of _ ks]) auto
    next
      case (Cons d ds')
      then have "filter P k = d" "filter (\<lambda>l. length l > 0) (map (filter P) ks) = ds' @ l' # rs"
        using Cons.prems False by auto
      moreover obtain us l vs where "ks = us @ l # vs" "l' = filter P l" "concat ds' = filter P (concat us)"
        using calculation(2) Cons.IH by blast
      ultimately show ?thesis using Cons by (intro exI [of _ "k # us"]) simp
    qed
  qed
qed simp

lemma filter_levels_split:
  assumes "filter_levels ord ls names = Inr ls'" "set ord = set names" "ls' = ds @ l' # rs"
  shows "\<exists>us l vs. ls = us @ l # vs \<and> set l' \<subseteq> set l \<and>
     (\<forall>p \<in> set (concat us). names = [] \<or> pkg_name p \<in> set names \<longrightarrow> p \<in> set (concat ds))"
proof (cases "names = []")
  case True
  then have "ls = ds @ l' # rs" using assms by (simp add: filter_levels_def)
  then show ?thesis by blast
next
  case False
  then obtain us l vs where "ls = us @ l # vs" "l' = filter (\<lambda>p. pkg_name p \<in> set names) l"
      "concat ds = filter (\<lambda>p. pkg_name p \<in> set names) (concat us)"
    using assms filter_levels_Inr [OF False assms(2)] filtered_level by metis
  then show ?thesis using False by (intro exI [of _ us] exI [of _ l] exI [of _ vs]) auto
qed

lemma call_step:
  assumes "orch_step c pfx s t" "o_calls t = o_calls s @ [p]"
  shows "(p, Queued) \<in> set (o_gs s)" "\<not> gctx_err s"
  using assms by (auto elim!: orch_step.cases)

lemma call_deps:
  assumes "orch_run c pfx ls' s" "orch_step c pfx s t" "o_calls t = o_calls s @ [p]"
  obtains ds l' rs where "ls' = ds @ l' # rs" "p \<in> set l'" "pkg_name ` set (concat ds) \<subseteq> o_deployed s"
proof -
  have ctl: "ctl_inv c ls' s" using ctl_inv_run [OF assms(1)] .
  have p: "(p, Queued) \<in> set (o_gs s)" using call_step [OF assms(2,3)] by blast
  then have "p \<in> current s" using goroutines_in_level [OF ctl] by blast
  then obtain l' rs where "o_rest s = l' # rs" "p \<in> set l'" by (auto simp: current_def split: list.splits)
  moreover have "ls' = o_done s @ o_rest s" using ctl by (simp add: ctl_inv_def)
  moreover have "pkg_name ` set (concat (o_done s)) \<subseteq> o_deployed s"
    using complete_inv_run [OF assms(1)] unfolding complete_inv_def by blast
  ultimately show thesis using that by metis
qed

text \<open>C6. When the orchestrator, run over the filtered levels of a validated bundle, calls
  \<open>DeployPackage\<close> for a package, every dependency of it that is part of the selection is already
  deployed, however goroutines, failures and cancellation interleave.\<close>

theorem orchestrator_respects_dependencies:
  assumes "validate b = []" "range_order (collect_packages (packages b)) ord1"
    "range_order (collect_packages (packages b)) ord2" "build_dependency_graph ord1 ord2 b = Some (Inr d)"
    "orders_ok d ord" "topological_levels ord d = Inr ls" "filter_levels ord4 ls names = Inr ls'" "set ord4 = set names"
    "orch_run c pfx ls' s" "orch_step c pfx s t" "o_calls t = o_calls s @ [p]"
  shows "\<forall>m \<in> set (dep_names p). names = [] \<or> m \<in> set names \<longrightarrow> m \<in> o_deployed s"
proof (intro ballI impI)
  fix m assume m: "m \<in> set (dep_names p)" "names = [] \<or> m \<in> set names"
  note bp = built_plan [OF assms(1-4)]
  have ok: "dag_ok d" using bp(1) by (simp add: dag_of_def)
  obtain ls1 where "topological_levels ord d = Inr ls1" "set (concat ls1) = set (packages b)"
    and deps: "\<And>p. p \<in> set (packages b) \<Longrightarrow> deps_of d (pkg_name p) = dep_names p"
    using plan_of_bundle [OF bp assms(5)] by metis
  then have pk: "set (concat ls) = set (packages b)" using assms(6) by simp
  obtain ds l' rs where l': "ls' = ds @ l' # rs" "p \<in> set l'" "pkg_name ` set (concat ds) \<subseteq> o_deployed s"
    using call_deps [OF assms(9-11)] .
  obtain us l vs where l: "ls = us @ l # vs" "set l' \<subseteq> set l"
    "\<forall>p \<in> set (concat us). names = [] \<or> pkg_name p \<in> set names \<longrightarrow> p \<in> set (concat ds)"
    using filter_levels_split [OF assms(7,8) l'(1)] by blast
  have "p \<in> set (packages b)" using l l'(2) pk by auto
  then have "set (dep_names p) \<subseteq> level_names (take (length us) ls)"
    using topo.plan_ordered [of "(d, ord)" ls "length us" p] ok assms(5,6) l l'(2) deps by auto
  then have "m \<in> pkg_name ` set (concat us)" using m(1) l(1) by (simp add: subset_iff)
  then obtain q where "q \<in> set (concat us)" "pkg_name q = m" by blast
  then have "q \<in> set (concat ds)" using l(3) m(2) by blast
  then show "m \<in> o_deployed s" using l'(3) \<open>pkg_name q = m\<close> by blast
qed

theorem orchestrator_respects_dependencies_witness:
  "\<exists>ls p s t. topological_levels (\<lambda>_. diamond_order) diamond_dag = Inr ls \<and> p \<in> set (concat ls) \<and>
     orch_run 2 (\<lambda>_. []) ls (s :: unit orch) \<and> orch_step 2 (\<lambda>_. []) s t \<and> o_calls t = o_calls s @ [p] \<and>
     (\<forall>m \<in> set (dep_names p). m \<in> o_deployed s)"
proof -
  obtain ls where ls: "topological_levels (\<lambda>_. diamond_order) diamond_dag = Inr ls"
      "set (concat ls) = set (packages diamond)"
    using plan_of_bundle [OF built_plan [OF diamond_valid diamond_range diamond_range diamond_build(1)] diamond_orders] by metis
  moreover have "\<forall>l \<in> set ls. l \<noteq> []"
    using levels_from_sorted topological_levels_from ls(1) diamond_orders diamond_build(2) by (metis dag_of_def)
  moreover have "ls \<noteq> []" using ls(2) by (auto simp: diamond_def mk_bundle_def)
  ultimately obtain p ps rest where p: "ls = (p # ps) # rest" by (metis list.exhaust list.set_intros(1))
  define s :: "unit orch" where "s = (orch_init ls)\<lparr>o_phase := Scheduling ps, o_gs := [(p, Queued)]\<rparr>"
  define t where "t = s\<lparr>o_gs := [(p, Deploying)], o_calls := [p]\<rparr>"
  have run: "orch_run 2 (\<lambda>_. []) ls s" "orch_step 2 (\<lambda>_. []) s t"
    using first_call [OF p, of 2 "\<lambda>_. []"] by (simp_all add: s_def t_def)
  have call: "o_calls t = o_calls s @ [p]" by (simp add: s_def t_def orch_init_def)
  have "filter_levels [] ls [] = Inr ls" by (simp add: filter_levels_def)
  from orchestrator_respects_dependencies [OF diamond_valid diamond_range diamond_range diamond_build(1) diamond_orders
      ls(1) this refl run call]
  show ?thesis using ls(1) p run call by (intro exI conjI) auto
qed

subsection \<open>Results\<close>

lemma run_ok_deployed:
  assumes "orch_run c pfx ls s" "distinct (map pkg_name (concat ls))" "o_phase s = Returned r" "o_rest s = []"
  shows "o_errs s = [] \<and> o_deployed s = pkg_name ` set (concat ls)"
proof -
  have "distinct (concat ls)" using assms(2) distinct_map by blast
  then have inv: "ctl_inv c ls s" "once_inv s" "result_inv s" "complete_inv pfx s"
    using assms(1) ctl_inv_run once_inv_run result_inv_run complete_inv_run by blast+
  have gs: "o_gs s = []" and ls: "ls = o_done s @ o_rest s" using inv(1) assms(3) by (auto simp: ctl_inv_def orch_simps)
  have res: "o_deployed s = pkg_name ` (set (o_calls s) - fst ` set (o_errs s))" "fst ` set (o_errs s) \<subseteq> current s"
    using inv(3) gs by (auto simp: result_inv_def res_ok_def deploying_def)
  have "o_errs s = []" using assms(4) res(2) by (cases "o_errs s") (auto simp: current_def)
  moreover have "pkg_name ` set (concat (o_done s)) \<subseteq> o_deployed s" using inv(4) unfolding complete_inv_def by blast
  moreover have "set (o_calls s) \<subseteq> set (concat ls)" using calls_in_levels inv by blast
  then have "o_deployed s \<subseteq> pkg_name ` set (concat ls)" using res(1) by blast
  ultimately show ?thesis using assms(4) ls by auto
qed

text \<open>C7. When \<open>Run\<close> returns nil every package of every level is deployed; when it returns errors
  they are, one each, the failures of the packages of a single level whose calls failed, all packages
  of the earlier levels are deployed and no package of a later level was called; and it returns the
  context's error only after the context was cancelled. In every case the deployed packages are exactly
  those whose call succeeded, with none still running.\<close>

theorem orchestrator_result:
  assumes "orch_run c pfx ls s" "distinct (map pkg_name (concat ls))" "o_phase s = Returned r"
  shows "\<exists>failed. o_gs s = [] \<and> set (map fst failed) \<subseteq> set (o_calls s) \<and>
     o_deployed s = pkg_name ` (set (o_calls s) - set (map fst failed)) \<and>
     (case r of
        RunOk \<Rightarrow> failed = [] \<and> o_deployed s = pkg_name ` set (concat ls)
      | RunCancelled \<Rightarrow> o_ctx s
      | RunErrors es \<Rightarrow> failed \<noteq> [] \<and> es = map (\<lambda>(p, e). (pfx p, e)) failed \<and> distinct (map fst failed) \<and>
          (\<exists>ds l rs. ls = ds @ l # rs \<and> set (map fst failed) \<subseteq> set l \<and>
             pkg_name ` set (concat ds) \<subseteq> o_deployed s \<and> set (o_calls s) \<subseteq> set (concat (ds @ [l]))))"
proof -
  have "distinct (concat ls)" using assms(2) distinct_map by blast
  then have inv: "ctl_inv c ls s" "once_inv s" "result_inv s" "complete_inv pfx s"
    using assms(1) ctl_inv_run once_inv_run result_inv_run complete_inv_run by blast+
  have gs: "o_gs s = []" and ls: "ls = o_done s @ o_rest s" using inv(1) assms(3) by (auto simp: ctl_inv_def orch_simps)
  have res: "fst ` set (o_errs s) \<subseteq> set (o_calls s)" "o_deployed s = pkg_name ` (set (o_calls s) - fst ` set (o_errs s))"
    "distinct (map fst (o_errs s))" "fst ` set (o_errs s) \<subseteq> current s"
    using inv(3) gs by (auto simp: result_inv_def res_ok_def deploying_def)
  have fin: "pkg_name ` set (concat (o_done s)) \<subseteq> o_deployed s" using inv(4) unfolding complete_inv_def by blast
  have "case r of RunOk \<Rightarrow> o_rest s = [] | RunCancelled \<Rightarrow> o_ctx s
      | RunErrors es \<Rightarrow> o_errs s \<noteq> [] \<and> es = map (\<lambda>(p, e). (pfx p, e)) (o_errs s)"
    using inv(4) assms(3) by (simp add: complete_inv_def split: run_result.splits)
  moreover have "o_errs s = [] \<and> o_deployed s = pkg_name ` set (concat ls)" if "o_rest s = []"
    using run_ok_deployed [OF assms that] .
  moreover have "\<exists>ds l rs. ls = ds @ l # rs \<and> set (map fst (o_errs s)) \<subseteq> set l \<and>
      pkg_name ` set (concat ds) \<subseteq> o_deployed s \<and> set (o_calls s) \<subseteq> set (concat (ds @ [l]))" if ne: "o_errs s \<noteq> []"
  proof -
    obtain l rs where l: "o_rest s = l # rs" using ne res(4) by (cases "o_rest s") (auto simp: current_def)
    then have "set (o_calls s) \<subseteq> set (concat (o_done s @ [l]))" using inv(2) assms(3) by (auto simp: once_inv_def)
    then show ?thesis using l ls fin res(4) by (intro exI [of _ "o_done s"] exI [of _ l] exI [of _ rs]) (simp add: current_def)
  qed
  ultimately have "case r of
        RunOk \<Rightarrow> o_errs s = [] \<and> o_deployed s = pkg_name ` set (concat ls)
      | RunCancelled \<Rightarrow> o_ctx s
      | RunErrors es \<Rightarrow> o_errs s \<noteq> [] \<and> es = map (\<lambda>(p, e). (pfx p, e)) (o_errs s) \<and> distinct (map fst (o_errs s)) \<and>
          (\<exists>ds l rs. ls = ds @ l # rs \<and> set (map fst (o_errs s)) \<subseteq> set l \<and>
             pkg_name ` set (concat ds) \<subseteq> o_deployed s \<and> set (o_calls s) \<subseteq> set (concat (ds @ [l])))"
    using res(3) by (cases r) simp_all
  then show ?thesis using gs res(1,2) unfolding set_map [symmetric] by blast
qed

theorem orchestrator_result_witness:
  "o_deployed (sample_end (sample_package ''a'' []) :: unit orch) = {''a''}"
proof -
  have "orch_run 1 (\<lambda>_. []) [[sample_package ''a'' []]] (sample_end (sample_package ''a'' []) :: unit orch)"
    by (rule sample_run) simp
  from orchestrator_result [OF this, of RunOk] show ?thesis by (simp add: sample_end_def sample_package_def)
qed

subsection \<open>Termination\<close>

definition level_cost :: "package list \<Rightarrow> nat" where
  "level_cost l = 4 + 7 * length l"

fun goroutine_cost :: "package \<times> goroutine_state \<Rightarrow> nat" where
  "goroutine_cost (_, Queued) = 5"
| "goroutine_cost (_, Deploying) = 4"
| "goroutine_cost (_, Failing) = 3"
| "goroutine_cost (_, Exiting) = 2"

definition orch_cost :: "'e orch \<Rightarrow> nat" where
  "orch_cost s = (if o_ctx s then 0 else 1) + sum_list (map goroutine_cost (o_gs s)) +
     (case o_phase s of
        LevelStart \<Rightarrow> 1 + sum_list (map level_cost (o_rest s))
      | Scheduling ps \<Rightarrow> 4 + 7 * length ps + sum_list (map level_cost (tl (o_rest s)))
      | Launching p ps \<Rightarrow> 10 + 7 * length ps + sum_list (map level_cost (tl (o_rest s)))
      | Draining \<Rightarrow> 2 + sum_list (map level_cost (tl (o_rest s)))
      | Returned _ \<Rightarrow> 0)"

lemma orch_cost_decreases: "orch_step c pfx s t \<Longrightarrow> orch_cost t < orch_cost s"
  by (induction rule: orch_step.cases) (auto simp: orch_cost_def level_cost_def split: run_phase.splits)

lemma orch_cost_bound: "(orch_step c pfx ^^ n) s t \<Longrightarrow> n + orch_cost t \<le> orch_cost s"
proof (induction n arbitrary: t)
  case (Suc n)
  then obtain u where "(orch_step c pfx ^^ n) s u" "orch_step c pfx u t" by auto
  then show ?case using Suc.IH [of u] orch_cost_decreases [of c pfx u t] by simp
qed simp

lemma orch_progress:
  assumes "ctl_inv c ls s" "0 < c" "\<nexists>r. o_phase s = Returned r"
  shows "\<exists>t. orch_step c pfx s t \<and> o_ctx t = o_ctx s"
proof (cases "o_gs s")
  case (Cons g gs)
  obtain p st where "g = (p, st)" by fastforce
  then have gs: "o_gs s = [] @ (p, st) # gs" using Cons by simp
  show ?thesis
  proof (cases st)
    case Queued
    then show ?thesis using gs orch_step.skip [of s "[]" p gs c pfx] orch_step.call_deploy [of s "[]" p gs c pfx]
      by (cases "gctx_err s") fastforce+
  next
    case Deploying
    then show ?thesis using gs orch_step.deploy_ok [of s "[]" p gs c pfx] by fastforce
  next
    case Failing
    then show ?thesis using gs orch_step.return_error [of s "[]" p gs c pfx] by fastforce
  next
    case Exiting
    then show ?thesis using gs orch_step.release [of s "[]" p gs c pfx] by fastforce
  qed
next
  case Nil
  show ?thesis
  proof (cases "o_phase s")
    case LevelStart
    then show ?thesis
      using orch_step.all_done [of s c pfx] orch_step.boundary_cancelled [of s c pfx] orch_step.start_level [of s _ _ c pfx]
      by (cases "o_rest s"; cases "o_ctx s") fastforce+
  next
    case (Scheduling ps)
    then show ?thesis
      using orch_step.scheduled_all [of s c pfx] orch_step.break_level [of s _ _ c pfx] orch_step.admit [of s _ _ c pfx]
      by (cases ps; cases "gctx_err s") fastforce+
  next
    case (Launching p ps)
    then show ?thesis using orch_step.launch [of s p ps c pfx] Nil assms(2) by fastforce
  next
    case Draining
    obtain l rs where "o_rest s = l # rs"
      using assms(1) Draining by (cases "o_rest s") (auto simp: ctl_inv_def in_level_def)
    then show ?thesis
      using orch_step.level_failed [of s _ c pfx] orch_step.level_cancelled [of s c pfx]
        orch_step.level_complete [of s l rs c pfx] Draining Nil
      by (cases "acc_err (o_errs s)"; cases "o_ctx s") fastforce+
  next
    case (Returned r)
    then show ?thesis using assms(3) by blast
  qed
qed

text \<open>C9. \<open>Run\<close> never deadlocks and always returns: with a positive concurrency a state that has not
  returned has a step of the program itself, and a run over \<open>ls\<close> has at most
  \<open>2 + \<Sum> (4 + 7 \<sqdot> |l|)\<close> steps, whatever \<open>DeployPackage\<close> returns and whenever the context is
  cancelled.\<close>

theorem orchestrator_terminates:
  assumes "0 < c"
  shows "(orch_run c pfx ls s \<longrightarrow> (\<exists>r. o_phase s = Returned r) \<or> (\<exists>t. orch_step c pfx s t \<and> o_ctx t = o_ctx s)) \<and>
     ((orch_step c pfx ^^ n) (orch_init ls) s \<longrightarrow> n \<le> 2 + sum_list (map (\<lambda>l. 4 + 7 * length l) ls))"
proof (intro conjI impI)
  assume "orch_run c pfx ls s"
  then show "(\<exists>r. o_phase s = Returned r) \<or> (\<exists>t. orch_step c pfx s t \<and> o_ctx t = o_ctx s)"
    using orch_progress [OF ctl_inv_run assms] by blast
next
  assume "(orch_step c pfx ^^ n) (orch_init ls) s"
  then have "n \<le> orch_cost (orch_init ls :: 'a orch)" using orch_cost_bound by fastforce
  then show "n \<le> 2 + sum_list (map (\<lambda>l. 4 + 7 * length l) ls)"
    by (simp add: orch_cost_def orch_init_def level_cost_def [abs_def])
qed

theorem orchestrator_terminates_witness:
  "\<exists>t. orch_step 1 (\<lambda>_. []) (orch_init [[sample_package ''a'' []]] :: unit orch) t \<and> \<not> o_ctx t"
proof -
  have "orch_run 1 (\<lambda>_. []) [[sample_package ''a'' []]] (orch_init [[sample_package ''a'' []]] :: unit orch)"
    by (rule orch_run_init)
  then show ?thesis
    using orchestrator_terminates [of 1 "\<lambda>_. []" "[[sample_package ''a'' []]]" "orch_init [[sample_package ''a'' []]]" 0]
    by (auto simp: orch_init_def)
qed

end
