(* ===== verification/Variables.thy ===== *)
theory Variables
  imports Prelude
begin

text \<open>
  Configuration variables, \<open>internal/bundle/configuration.go\<close>: conversion from evaluated HCL values,
  deep copy, deep merge and flattening. A Go map is a list of entries sorted by key, which stands for
  its finite content: iteration order is not part of it, and where a loop's result can depend on it the
  order is an argument. A panic is \<open>None\<close>. The type \<open>'f\<close> is \<open>float64\<close>.
\<close>

subsection \<open>Finite maps as sorted entry lists\<close>

type_synonym 'v entries = "(string \<times> 'v) list"

fun put :: "string \<Rightarrow> 'v \<Rightarrow> 'v entries \<Rightarrow> 'v entries" where
  "put k v [] = [(k, v)]"
| "put k v ((l, w) # m) = (if k < l then (k, v) # (l, w) # m else if k = l then (k, v) # m else (l, w) # put k v m)"

definition sorted_keys :: "'v entries \<Rightarrow> bool" where
  "sorted_keys m \<longleftrightarrow> sorted_wrt (<) (map fst m)"

lemma set_put_keys: "fst ` set (put k v m) = insert k (fst ` set m)"
  by (induction k v m rule: put.induct) (simp_all add: insert_commute)

lemma sorted_keys_Cons [simp]: "sorted_keys ((k, v) # m) \<longleftrightarrow> sorted_keys m \<and> (\<forall>l \<in> set (map fst m). k < l)"
  by (auto simp: sorted_keys_def)

lemma sorted_keys_Nil [simp]: "sorted_keys []"
  by (simp add: sorted_keys_def)

lemma sorted_keys_put: "sorted_keys m \<Longrightarrow> sorted_keys (put k v m)"
proof (induction m)
  case (Cons e m)
  obtain l w where e: "e = (l, w)" by fastforce
  show ?case
  proof (cases "l < k")
    case True
    then have "put k v (e # m) = (l, w) # put k v m" by (auto simp: e)
    moreover have "\<forall>x \<in> set (map fst (put k v m)). l < x" using Cons.prems True unfolding set_map set_put_keys by (auto simp: e)
    ultimately show ?thesis using Cons by (simp add: e)
  next
    case False
    then show ?thesis using Cons.prems by (auto simp: e dest: order.strict_trans)
  qed
qed simp

lemma map_of_put: "sorted_keys m \<Longrightarrow> map_of (put k v m) = (map_of m)(k \<mapsto> v)"
  by (induction m) (auto simp: fun_upd_twist)

lemma sorted_keys_head:
  "sorted_keys ((k, v) # m) \<Longrightarrow> map_of m k = None"
  by (auto simp: map_of_eq_None_iff)

lemma sorted_keys_ext:
  assumes "sorted_keys m" "sorted_keys n" "map_of m = map_of n"
  shows "m = n"
proof -
  have k: "sorted (map fst m) \<and> distinct (map fst m)" "sorted (map fst n) \<and> distinct (map fst n)"
    using assms(1,2) by (simp_all add: sorted_keys_def strict_sorted_iff)
  then have "set m = set n" using assms(3) map_of_inject_set by blast
  moreover have "inj_on fst (set m \<union> set n)" using k calculation by (simp add: distinct_map)
  ultimately show ?thesis using k map_sorted_distinct_set_unique by blast
qed

subsection \<open>Values\<close>

text \<open>The named map types that occur: \<open>Variables\<close> of \<open>internal/bundle\<close>, \<open>Variables\<close> of
  \<open>pkg/bundle\<close>, and the unnamed \<open>map[string]any\<close>.\<close>

datatype map_kind = InternalVars | PublicVars | BareMap

text \<open>
  A dynamic value. \<open>VVars k None\<close> is a nil map. A nil and an empty slice are not distinguished.
  \<open>VOpaque\<close> is any other dynamic type.
\<close>

datatype 'f val =
    VStr string
  | VNum 'f
  | VBool bool
  | VVars map_kind "(string \<times> 'f val) list option"
  | VList "'f val list"
  | VOpaque

type_synonym 'f variables = "'f val entries option"

subsection \<open>From evaluated HCL\<close>

text \<open>\<open>cty.Value\<close>, as far as \<open>ctyValueToGo\<close> distinguishes it; attributes in sorted order.\<close>

datatype 'n cty =
    CNull
  | CUnknown
  | CStr string
  | CNum 'n
  | CBool bool
  | CObj "(string \<times> 'n cty) list"
  | CSeq "'n cty list"
  | COther string

datatype cty_error = NullValue | UnknownValue | UnsupportedType string | AtKey string cty_error | AtIndex nat cty_error

fun cty_value_to_go :: "('n \<Rightarrow> 'f) \<Rightarrow> 'n cty \<Rightarrow> (cty_error, 'f val) result"
  and cty_attrs_to_go :: "('n \<Rightarrow> 'f) \<Rightarrow> (string \<times> 'n cty) list \<Rightarrow> (cty_error, 'f val entries) result"
  and cty_elems_to_go :: "('n \<Rightarrow> 'f) \<Rightarrow> nat \<Rightarrow> 'n cty list \<Rightarrow> (cty_error, 'f val list) result" where
  "cty_value_to_go f64 CNull = Inl NullValue"
| "cty_value_to_go f64 CUnknown = Inl UnknownValue"
| "cty_value_to_go f64 (CStr s) = Inr (VStr s)"
| "cty_value_to_go f64 (CNum n) = Inr (VNum (f64 n))"
| "cty_value_to_go f64 (CBool b) = Inr (VBool b)"
| "cty_value_to_go f64 (CObj as) = ebind (cty_attrs_to_go f64 as) (\<lambda>m. Inr (VVars InternalVars (Some m)))"
| "cty_value_to_go f64 (CSeq es) = ebind (cty_elems_to_go f64 0 es) (\<lambda>vs. Inr (VList vs))"
| "cty_value_to_go f64 (COther ty) = Inl (UnsupportedType ty)"
| "cty_attrs_to_go f64 [] = Inr []"
| "cty_attrs_to_go f64 ((k, c) # as) =
     ebind (map_error (AtKey k) (cty_value_to_go f64 c)) (\<lambda>v. ebind (cty_attrs_to_go f64 as) (\<lambda>m. Inr ((k, v) # m)))"
| "cty_elems_to_go f64 i [] = Inr []"
| "cty_elems_to_go f64 i (c # cs) =
     ebind (map_error (AtIndex i) (cty_value_to_go f64 c)) (\<lambda>v. ebind (cty_elems_to_go f64 (Suc i) cs) (\<lambda>vs. Inr (v # vs)))"

subsection \<open>Copy and merge\<close>

fun deep_copy_any :: "'f val \<Rightarrow> 'f val option"
  and deep_copy_entries :: "'f val entries \<Rightarrow> 'f val entries option"
  and deep_copy_slice :: "'f val list \<Rightarrow> 'f val list option" where
  "deep_copy_any (VVars InternalVars None) = Some (VVars InternalVars None)"
| "deep_copy_any (VVars InternalVars (Some m)) = map_option (\<lambda>m'. VVars InternalVars (Some m')) (deep_copy_entries m)"
| "deep_copy_any (VVars BareMap m) = None"
| "deep_copy_any (VVars PublicVars m) = Some (VVars PublicVars m)"
| "deep_copy_any (VList vs) = map_option VList (deep_copy_slice vs)"
| "deep_copy_any (VStr s) = Some (VStr s)"
| "deep_copy_any (VNum n) = Some (VNum n)"
| "deep_copy_any (VBool b) = Some (VBool b)"
| "deep_copy_any VOpaque = Some VOpaque"
| "deep_copy_entries [] = Some []"
| "deep_copy_entries ((k, v) # m) =
     Option.bind (deep_copy_any v) (\<lambda>v'. map_option (\<lambda>m'. (k, v') # m') (deep_copy_entries m))"
| "deep_copy_slice [] = Some []"
| "deep_copy_slice (v # vs) = Option.bind (deep_copy_any v) (\<lambda>v'. map_option (\<lambda>vs'. v' # vs') (deep_copy_slice vs))"

definition deep_copy_variables :: "'f variables \<Rightarrow> 'f variables option" where
  "deep_copy_variables v = (case v of None \<Rightarrow> Some None | Some m \<Rightarrow> map_option Some (deep_copy_entries m))"

text \<open>\<open>deepMerge(dst, src)\<close>; the outer option is the panic, the inner one a nil \<open>dst\<close>, into which no
  entry can be assigned.\<close>

function (sequential) deep_merge :: "'f variables \<Rightarrow> 'f val entries \<Rightarrow> 'f variables option" where
  "deep_merge dst [] = Some dst"
| "deep_merge None (e # src) = None"
| "deep_merge (Some m) ((k, sv) # src) =
     (case (map_of m k, sv) of
        (Some (VVars InternalVars dm), VVars InternalVars sm) \<Rightarrow>
          Option.bind (deep_merge dm (case sm of None \<Rightarrow> [] | Some s \<Rightarrow> s))
            (\<lambda>dm'. deep_merge (Some (put k (VVars InternalVars dm') m)) src)
      | _ \<Rightarrow> Option.bind (deep_copy_any sv) (\<lambda>v. deep_merge (Some (put k v m)) src))"
  by pat_completeness auto
termination
  by (relation "measure (\<lambda>(dst, src). size_list (size_prod (\<lambda>_. 0) size) src)") (auto split: option.splits)

definition merge_variables :: "'f variables \<Rightarrow> 'f variables \<Rightarrow> 'f variables option" where
  "merge_variables base overrides =
     (if base = None \<and> overrides = None then Some None
      else Option.bind (deep_copy_variables base) (\<lambda>result.
        deep_merge (case result of None \<Rightarrow> Some [] | Some m \<Rightarrow> Some m)
          (case overrides of None \<Rightarrow> [] | Some m \<Rightarrow> m)))"

subsection \<open>Flatten\<close>

text \<open>\<open>strings.ToUpper\<close> is \<open>upper\<close>, \<open>strconv.FormatFloat(s, 'f', -1, 64)\<close> is \<open>fmt\<close>; \<open>ord\<close> is the
  order in which the loop visits the map.\<close>

definition format_bool :: "bool \<Rightarrow> string" where
  "format_bool b = (if b then ''true'' else ''false'')"

fun flatten_value :: "('f \<Rightarrow> string) \<Rightarrow> 'f val \<Rightarrow> string option" where
  "flatten_value fmt (VStr s) = Some s"
| "flatten_value fmt (VNum n) = Some (fmt n)"
| "flatten_value fmt (VBool b) = Some (format_bool b)"
| "flatten_value fmt _ = None"

fun flatten :: "(string \<Rightarrow> string) \<Rightarrow> ('f \<Rightarrow> string) \<Rightarrow> 'f val entries \<Rightarrow> (string \<rightharpoonup> string) \<Rightarrow> (string \<rightharpoonup> string)" where
  "flatten upper fmt [] out = out"
| "flatten upper fmt ((k, v) # ord) out =
     flatten upper fmt ord (case flatten_value fmt v of None \<Rightarrow> out | Some s \<Rightarrow> out(upper k \<mapsto> s))"

end
