(* ===== verification/Variables_Merge.thy ===== *)
theory Variables_Merge
  imports Variables
begin

text \<open>
  The merge of configuration variables. \<open>hcl_val\<close> is the shape of what the HCL parser produces; on it
  copying is the identity and \<open>deepMerge\<close> is the overlay described key by key by \<open>merge_at\<close>. The
  conversions between the two \<open>Variables\<close> types are inverse to each other and prepare every public
  value for a merge.
\<close>

subsection \<open>Shapes\<close>

fun hcl_val :: "'f val \<Rightarrow> bool"
  and hcl_entries :: "'f val entries \<Rightarrow> bool"
  and hcl_list :: "'f val list \<Rightarrow> bool" where
  "hcl_val (VVars k m) = (k = InternalVars \<and> (case m of None \<Rightarrow> False | Some es \<Rightarrow> sorted_keys es \<and> hcl_entries es))"
| "hcl_val (VList vs) = hcl_list vs"
| "hcl_val VOpaque = False"
| "hcl_val (VStr s) = True"
| "hcl_val (VNum n) = True"
| "hcl_val (VBool b) = True"
| "hcl_entries [] = True"
| "hcl_entries ((k, v) # m) = (hcl_val v \<and> hcl_entries m)"
| "hcl_list [] = True"
| "hcl_list (v # vs) = (hcl_val v \<and> hcl_list vs)"

text \<open>Values a merge can copy: no bare maps. Sorted keys are the representation invariant.\<close>

fun copyable :: "'f val \<Rightarrow> bool"
  and copyable_entries :: "'f val entries \<Rightarrow> bool"
  and copyable_list :: "'f val list \<Rightarrow> bool" where
  "copyable (VVars k m) = (case k of InternalVars \<Rightarrow> (case m of None \<Rightarrow> True | Some es \<Rightarrow> sorted_keys es \<and> copyable_entries es)
     | PublicVars \<Rightarrow> True | BareMap \<Rightarrow> False)"
| "copyable (VList vs) = copyable_list vs"
| "copyable VOpaque = True"
| "copyable (VStr s) = True"
| "copyable (VNum n) = True"
| "copyable (VBool b) = True"
| "copyable_entries [] = True"
| "copyable_entries ((k, v) # m) = (copyable v \<and> copyable_entries m)"
| "copyable_list [] = True"
| "copyable_list (v # vs) = (copyable v \<and> copyable_list vs)"

lemma hcl_copyable:
  fixes v :: "'f val" and m :: "'f val entries" and vs :: "'f val list"
  shows "hcl_val v \<Longrightarrow> copyable v" "hcl_entries m \<Longrightarrow> copyable_entries m" "hcl_list vs \<Longrightarrow> copyable_list vs"
  by (induction v and m and vs rule: hcl_val_hcl_entries_hcl_list.induct) (auto split: option.splits)

lemma deep_copy_id:
  fixes v :: "'f val" and m :: "'f val entries" and vs :: "'f val list"
  shows "copyable v \<Longrightarrow> deep_copy_any v = Some v"
  "copyable_entries m \<Longrightarrow> deep_copy_entries m = Some m"
  "copyable_list vs \<Longrightarrow> deep_copy_slice vs = Some vs"
  by (induction v and m and vs rule: deep_copy_any_deep_copy_entries_deep_copy_slice.induct) (auto split: option.splits)

lemma hcl_entriesD: "hcl_entries m \<Longrightarrow> (k, v) \<in> set m \<Longrightarrow> hcl_val v"
  by (induction m) auto

lemma hcl_entries_map_of: "hcl_entries m \<Longrightarrow> map_of m k = Some v \<Longrightarrow> hcl_val v"
  by (metis hcl_entriesD map_of_SomeD)

lemma hcl_entries_put: "hcl_entries m \<Longrightarrow> hcl_val v \<Longrightarrow> hcl_entries (put k v m)"
  by (induction k v m rule: put.induct) auto

subsection \<open>The merge\<close>

definition merged :: "'f val \<Rightarrow> 'f val \<Rightarrow> 'f val" where
  "merged v w = (case (v, w) of
     (VVars InternalVars (Some m), VVars InternalVars (Some n)) \<Rightarrow> VVars InternalVars (the (deep_merge (Some m) n))
   | _ \<Rightarrow> w)"

definition merge_at :: "'f val option \<Rightarrow> 'f val option \<Rightarrow> 'f val option" where
  "merge_at x y = (case (x, y) of (None, _) \<Rightarrow> y | (_, None) \<Rightarrow> x | (Some v, Some w) \<Rightarrow> Some (merged v w))"

lemma merge_at_None [simp]: "merge_at None y = y" "merge_at x None = x"
  by (auto simp: merge_at_def split: option.splits)

lemma deep_merge_entry:
  assumes "hcl_val sv" "\<forall>v. map_of m k = Some v \<longrightarrow> hcl_val v"
    "\<And>dm s. map_of m k = Some (VVars InternalVars (Some dm)) \<Longrightarrow> sv = VVars InternalVars (Some s) \<Longrightarrow>
       \<exists>r. deep_merge (Some dm) s = Some (Some r)"
  shows "deep_merge (Some m) ((k, sv) # src) = deep_merge (Some (put k (the (merge_at (map_of m k) (Some sv))) m)) src"
proof (cases "\<exists>dm s. map_of m k = Some (VVars InternalVars (Some dm)) \<and> sv = VVars InternalVars (Some s)")
  case True
  then show ?thesis using assms(3) by (fastforce simp: merge_at_def merged_def)
next
  case False
  moreover have "deep_copy_any sv = Some sv" using assms(1) hcl_copyable deep_copy_id by blast
  ultimately show ?thesis using assms(1,2)
    by (auto simp: merge_at_def merged_def split: option.splits val.splits map_kind.splits)
qed

lemma hcl_valD: "hcl_val (VVars InternalVars (Some m)) \<longleftrightarrow> sorted_keys m \<and> hcl_entries m"
  by simp

lemma hcl_merged:
  assumes "hcl_val v" "hcl_val w"
    "\<And>m n. v = VVars InternalVars (Some m) \<Longrightarrow> w = VVars InternalVars (Some n) \<Longrightarrow>
       \<exists>r. deep_merge (Some m) n = Some (Some r) \<and> sorted_keys r \<and> hcl_entries r"
  shows "hcl_val (merged v w)"
proof (cases "\<exists>m n. v = VVars InternalVars (Some m) \<and> w = VVars InternalVars (Some n)")
  case True
  then show ?thesis using assms(3) by (fastforce simp: merged_def)
next
  case False
  then show ?thesis using assms(1,2) by (auto simp: merged_def split: val.splits map_kind.splits option.splits)
qed

lemma deep_merge_hcl:
  assumes "sorted_keys m" "hcl_entries m" "sorted_keys src" "hcl_entries src"
  shows "\<exists>r. deep_merge (Some m) src = Some (Some r) \<and> sorted_keys r \<and> hcl_entries r \<and>
     (\<forall>k. map_of r k = merge_at (map_of m k) (map_of src k))"
  using assms
proof (induction "size_list (size_prod (\<lambda>_. 0) size) src" arbitrary: m src rule: less_induct)
  case less
  show ?case
  proof (cases src)
    case Nil
    then show ?thesis using less.prems by simp
  next
    case (Cons e src')
    obtain k sv where e: "e = (k, sv)" by fastforce
    have sv: "hcl_val sv" using less.prems Cons e by simp
    have nested: "\<exists>r. deep_merge (Some dm) s = Some (Some r) \<and> sorted_keys r \<and> hcl_entries r"
      if "map_of m k = Some (VVars InternalVars (Some dm))" "sv = VVars InternalVars (Some s)" for dm s
    proof -
      have "hcl_val (VVars InternalVars (Some dm))" using hcl_entries_map_of less.prems(2) that(1) by blast
      then show ?thesis using less.hyps [of s dm] sv that(2) unfolding Cons e by fastforce
    qed
    define v where "v = the (merge_at (map_of m k) (Some sv))"
    have "hcl_val v"
    proof (cases "map_of m k")
      case (Some w)
      then show ?thesis using hcl_merged [of w sv] hcl_entries_map_of [OF less.prems(2) Some] sv nested
        by (simp add: v_def merge_at_def)
    qed (simp add: v_def sv)
    then have ok: "sorted_keys (put k v m)" "hcl_entries (put k v m)"
      using less.prems by (simp_all add: sorted_keys_put hcl_entries_put)
    have step: "deep_merge (Some m) src = deep_merge (Some (put k v m)) src'"
      unfolding Cons e v_def by (rule deep_merge_entry [OF sv]) (use nested hcl_entries_map_of [OF less.prems(2)] in blast)+
    obtain r where r: "deep_merge (Some (put k v m)) src' = Some (Some r)" "sorted_keys r" "hcl_entries r"
      "\<forall>x. map_of r x = merge_at (map_of (put k v m) x) (map_of src' x)"
      using less.hyps [of src' "put k v m"] ok less.prems(3,4) by (auto simp: Cons e)
    have some: "merge_at (map_of m k) (Some sv) = Some v" by (simp add: v_def merge_at_def split: option.splits)
    have "map_of src' k = None" using less.prems(3) unfolding Cons e by (rule sorted_keys_head)
    then have "map_of r x = merge_at (map_of m x) (map_of src x)" for x
      using r(4) some by (cases "x = k") (simp_all add: Cons e map_of_put [OF less.prems(1)])
    then show ?thesis using r(1-3) step by (intro exI [of _ r]) simp
  qed
qed

definition overlay :: "'f val entries \<Rightarrow> 'f val entries \<Rightarrow> 'f val entries" where
  "overlay m n = the (the (deep_merge (Some m) n))"

lemma overlay:
  assumes "sorted_keys m" "hcl_entries m" "sorted_keys n" "hcl_entries n"
  shows "deep_merge (Some m) n = Some (Some (overlay m n))" "sorted_keys (overlay m n)" "hcl_entries (overlay m n)"
    "map_of (overlay m n) k = merge_at (map_of m k) (map_of n k)"
  using deep_merge_hcl [OF assms] by (auto simp: overlay_def)

lemma merged_simps:
  "hcl_val (VVars InternalVars (Some m)) \<Longrightarrow> hcl_val (VVars InternalVars (Some n)) \<Longrightarrow>
     merged (VVars InternalVars (Some m)) (VVars InternalVars (Some n)) = VVars InternalVars (Some (overlay m n))"
  "\<not> (\<exists>m n. v = VVars InternalVars (Some m) \<and> w = VVars InternalVars (Some n)) \<Longrightarrow> merged v w = w"
  using overlay [of m n] by (auto simp: merged_def split: val.splits map_kind.splits option.splits)

lemma merge_variables_hcl:
  assumes "sorted_keys m" "hcl_entries m" "sorted_keys n" "hcl_entries n"
  shows "merge_variables (Some m) (Some n) = Some (Some (overlay m n))"
    "merge_variables None (Some n) = Some (Some n)" "merge_variables (Some m) None = Some (Some m)"
proof -
  have c: "deep_copy_entries m = Some m" using hcl_copyable deep_copy_id assms by blast
  show "merge_variables (Some m) (Some n) = Some (Some (overlay m n))"
    using overlay [OF assms] by (simp add: merge_variables_def deep_copy_variables_def c)
  show "merge_variables (Some m) None = Some (Some m)"
    by (simp add: merge_variables_def deep_copy_variables_def c)
  have "map_of (overlay [] n) k = map_of n k" for k using overlay [of "[]" n] assms by simp
  then have "overlay [] n = n" using overlay [of "[]" n] assms by (intro sorted_keys_ext) (auto simp: fun_eq_iff)
  then show "merge_variables None (Some n) = Some (Some n)"
    using overlay [of "[]" n] assms by (simp add: merge_variables_def deep_copy_variables_def)
qed

subsection \<open>Idempotence\<close>

lemma size_map_of: "map_of m k = Some v \<Longrightarrow> size v < size_list (size_prod (\<lambda>_. 0) size) m"
  by (induction m) (fastforce split: if_splits)+

lemma overlay_self:
  "sorted_keys m \<Longrightarrow> hcl_entries m \<Longrightarrow> overlay m m = m"
proof (induction "size_list (size_prod (\<lambda>_. 0) size) m" arbitrary: m rule: less_induct)
  case less
  have "merged v v = v" if v: "map_of m k = Some v" for k v
  proof (cases "\<exists>s. v = VVars InternalVars (Some s)")
    case True
    then obtain s where s: "v = VVars InternalVars (Some s)" by blast
    have "hcl_val v" using hcl_entries_map_of less.prems v by blast
    then have "overlay s s = s" using less.hyps [of s] size_map_of [OF v] s by simp
    then show ?thesis using merged_simps(1) [of s s] \<open>hcl_val v\<close> s by simp
  next
    case False
    then show ?thesis using merged_simps(2) by blast
  qed
  then have "map_of (overlay m m) k = map_of m k" for k
    using overlay(4) [OF less.prems less.prems] by (cases "map_of m k") (simp_all add: merge_at_def)
  then show ?case using overlay(2) [OF less.prems less.prems] less.prems by (intro sorted_keys_ext) auto
qed

lemma overlay_absorb:
  "sorted_keys d \<Longrightarrow> hcl_entries d \<Longrightarrow> sorted_keys c \<Longrightarrow> hcl_entries c \<Longrightarrow> overlay d (overlay d c) = overlay d c"
proof (induction "size_list (size_prod (\<lambda>_. 0) size) c" arbitrary: c d rule: less_induct)
  case less
  note o = overlay [OF less.prems]
  note oo = overlay [OF less.prems(1,2) o(2,3)]
  have "merge_at (map_of d k) (merge_at (map_of d k) (map_of c k)) = merge_at (map_of d k) (map_of c k)" for k
  proof (cases "map_of d k")
    case (Some v)
    note v = hcl_entries_map_of [OF less.prems(2) Some]
    show ?thesis
    proof (cases "map_of c k")
      case None
      have "merged v v = v"
      proof (cases "\<exists>s. v = VVars InternalVars (Some s)")
        case True
        then show ?thesis using merged_simps(1) overlay_self v by (metis hcl_valD)
      qed (use merged_simps(2) in blast)
      then show ?thesis using Some None by (simp add: merge_at_def)
    next
      case c: (Some w)
      note w = hcl_entries_map_of [OF less.prems(4) c]
      have "merged v (merged v w) = merged v w"
      proof (cases "\<exists>m n. v = VVars InternalVars (Some m) \<and> w = VVars InternalVars (Some n)")
        case True
        then obtain m n where mn: "v = VVars InternalVars (Some m)" "w = VVars InternalVars (Some n)" by blast
        then have ok: "sorted_keys m" "hcl_entries m" "sorted_keys n" "hcl_entries n" using v w by simp_all
        then have "overlay m (overlay m n) = overlay m n" using less.hyps [of n m] size_map_of [OF c] mn(2) by simp
        then show ?thesis using merged_simps(1) [of m n] merged_simps(1) [of m "overlay m n"] overlay [OF ok] ok mn by simp
      next
        case False
        then have "merged v w = w" by (rule merged_simps(2))
        then show ?thesis by simp
      qed
      then show ?thesis using Some c by (simp add: merge_at_def)
    qed
  qed simp
  then have "map_of (overlay d (overlay d c)) k = map_of (overlay d c) k" for k using o(4) oo(4) by simp
  then show ?case using o(2) oo(2) by (intro sorted_keys_ext) auto
qed

end
