(* ===== verification/Paths.thy ===== *)
theory Paths
  imports Prelude
begin

text \<open>
  The lexical functions of Go's \<open>path/filepath\<close> on Unix that the program calls, the file status it
  asks for, and the check that keeps a layer title inside its destination directory
  (\<open>safeLayerDestinationPath\<close> of \<open>internal/zarf/layout.go\<close> and \<open>internal/artifact/verify.go\<close>).
  A path is read as its list of components.
\<close>

abbreviation slash :: char where
  "slash \<equiv> CHR 0x2F"

subsection \<open>Components\<close>

definition components :: "string \<Rightarrow> string list" where
  "components p = filter (\<lambda>c. c \<noteq> [] \<and> c \<noteq> ''.'') (split_on slash p)"

definition is_abs :: "string \<Rightarrow> bool" where
  "is_abs p \<longleftrightarrow> has_prefix p [slash]"

text \<open>Dot-dot removes the component before it; at the root it is dropped, otherwise it stays. The
  result is kept in reverse.\<close>

fun resolve :: "bool \<Rightarrow> string list \<Rightarrow> string list \<Rightarrow> string list" where
  "resolve rooted acc [] = rev acc"
| "resolve rooted acc (c # cs) =
     (if c = ''..'' then
        (case acc of
           [] \<Rightarrow> if rooted then resolve rooted [] cs else resolve rooted [c] cs
         | a # as \<Rightarrow> if a = ''..'' then resolve rooted (c # acc) cs else resolve rooted as cs)
      else resolve rooted (c # acc) cs)"

definition clean_components :: "string \<Rightarrow> string list" where
  "clean_components p = resolve (is_abs p) [] (components p)"

definition path_string :: "bool \<Rightarrow> string list \<Rightarrow> string" where
  "path_string rooted cs = (if rooted then slash # join_with [slash] cs
     else if cs = [] then ''.'' else join_with [slash] cs)"

subsection \<open>The functions of the library\<close>

definition path_clean :: "string \<Rightarrow> string" where
  "path_clean p = path_string (is_abs p) (clean_components p)"

definition path_join :: "string list \<Rightarrow> string" where
  "path_join es = (let es' = filter (\<lambda>e. e \<noteq> []) es in if es' = [] then [] else path_clean (join_with [slash] es'))"

definition path_base :: "string \<Rightarrow> string" where
  "path_base p = (if p = [] then ''.''
     else (let q = rev (dropWhile (\<lambda>c. c = slash) (rev p)) in
       if q = [] then [slash] else last (split_on slash q)))"

definition path_dir :: "string \<Rightarrow> string" where
  "path_dir p = path_clean (rev (dropWhile (\<lambda>c. c \<noteq> slash) (rev p)))"

text \<open>\<open>filepath.Abs\<close> in the working directory \<open>cwd\<close>.\<close>

definition path_abs :: "string \<Rightarrow> string \<Rightarrow> string" where
  "path_abs cwd p = (if is_abs p then path_clean p else path_join [cwd, p])"

fun strip_common :: "string list \<Rightarrow> string list \<Rightarrow> string list \<times> string list" where
  "strip_common (b # bs) (t # ts) = (if b = t then strip_common bs ts else (b # bs, t # ts))"
| "strip_common bs ts = (bs, ts)"

text \<open>\<open>filepath.Rel(base, target)\<close>; \<open>None\<close> when the one cannot be made relative to the other.\<close>

definition path_rel :: "string \<Rightarrow> string \<Rightarrow> string option" where
  "path_rel base target =
     (if is_abs base \<noteq> is_abs target then None
      else (let (bs, ts) = strip_common (clean_components base) (clean_components target) in
        if bs \<noteq> [] \<and> hd bs = ''..'' then None
        else Some (path_string False (map (\<lambda>_. ''..'') bs @ ts))))"

text \<open>What \<open>os.Stat\<close> reports.\<close>

datatype stat_result = StatDir | StatRegular | StatOther | StatNotExist | StatError

subsection \<open>Layer titles\<close>

datatype layer_path_error = ResolveLayerTitle string | CheckLayerTitle string | LayerPathEscape string

definition safe_layer_destination_path :: "string \<Rightarrow> string \<Rightarrow> string \<Rightarrow> string \<Rightarrow> (layer_path_error, string) result" where
  "safe_layer_destination_path cwd clean_dst_dir dst_dir title =
     (let dst = path_join [dst_dir, title];
          clean_dst = path_abs cwd (path_clean dst) in
      case path_rel clean_dst_dir clean_dst of
        None \<Rightarrow> Inl (CheckLayerTitle title)
      | Some rel \<Rightarrow> if rel = ''..'' \<or> has_prefix rel (''..'' @ [slash]) then Inl (LayerPathEscape title) else Inr dst)"

subsection \<open>Splitting and joining\<close>

lemma split_on_last: "d \<notin> set s \<Longrightarrow> split_on d s = [s]"
  by (induction s) auto

lemma split_on_step: "d \<notin> set s \<Longrightarrow> split_on d (s @ d # r) = s # split_on d r"
  by (induction s) auto

lemma join_with_Cons: "cs \<noteq> [] \<Longrightarrow> join_with sep (c # cs) = c @ sep @ join_with sep cs"
  by (cases cs) auto

lemma split_join:
  "cs \<noteq> [] \<Longrightarrow> \<forall>c \<in> set cs. d \<notin> set c \<Longrightarrow> split_on d (join_with [d] cs) = cs"
proof (induction cs)
  case (Cons c cs)
  then show ?case by (cases "cs = []") (simp_all add: split_on_last split_on_step join_with_Cons)
qed simp

definition plain :: "string list \<Rightarrow> bool" where
  "plain cs \<longleftrightarrow> (\<forall>c \<in> set cs. c \<noteq> [] \<and> c \<noteq> ''.'' \<and> slash \<notin> set c)"

lemma plain_simps [simp]: "plain []" "plain (c # cs) \<longleftrightarrow> c \<noteq> [] \<and> c \<noteq> ''.'' \<and> slash \<notin> set c \<and> plain cs"
  "plain (cs @ ds) \<longleftrightarrow> plain cs \<and> plain ds" "plain (rev cs) \<longleftrightarrow> plain cs"
  by (auto simp: plain_def)

lemma plain_components: "plain (components p)"
  unfolding plain_def components_def using split_on_no_sep by auto

lemma components_join: "plain cs \<Longrightarrow> components (join_with [slash] cs) = cs"
proof (cases "cs = []")
  case False
  assume "plain cs"
  then have "split_on slash (join_with [slash] cs) = cs" using False by (intro split_join) (auto simp: plain_def)
  then show ?thesis using \<open>plain cs\<close> by (simp add: components_def plain_def)
qed (simp add: components_def)

lemma components_slash: "components (slash # p) = components p"
  by (simp add: components_def)

lemma components_path_string: "plain cs \<Longrightarrow> components (path_string r cs) = cs"
  using components_join [of cs] by (auto simp: path_string_def components_slash) (simp add: components_def)

lemma is_abs_path_string: "plain cs \<Longrightarrow> is_abs (path_string r cs) = r"
proof -
  assume p: "plain cs"
  have "\<not> has_prefix (join_with [slash] cs) [slash]" if "cs \<noteq> []"
  proof -
    obtain c ds where cs: "cs = c # ds" using \<open>cs \<noteq> []\<close> by (cases cs) auto
    then obtain x c' where c: "c = x # c'" "x \<noteq> slash" using p by (cases c) auto
    have "\<exists>r. join_with [slash] cs = x # r" unfolding cs c by (cases ds) auto
    then show ?thesis using c(2) by (auto simp: has_prefix_def)
  qed
  then show ?thesis by (auto simp: path_string_def is_abs_def has_prefix_def)
qed

subsection \<open>Resolution\<close>

lemma resolve_append: "resolve r acc (cs @ ds) = resolve r (rev (resolve r acc cs)) ds"
  by (induction r acc cs rule: resolve.induct) (auto split: list.splits)

lemma resolve_plain: "plain acc \<Longrightarrow> plain cs \<Longrightarrow> plain (resolve r acc cs)"
  by (induction r acc cs rule: resolve.induct) (auto split: list.splits)

lemma resolve_rooted_no_dots:
  "''..'' \<notin> set acc \<Longrightarrow> ''..'' \<notin> set (resolve True acc cs)"
  by (induction True acc cs rule: resolve.induct) (auto split: list.splits)

lemma resolve_id: "''..'' \<notin> set cs \<Longrightarrow> resolve r acc cs = rev acc @ cs"
  by (induction r acc cs rule: resolve.induct) auto

lemma plain_clean_components: "plain (clean_components p)"
  by (simp add: clean_components_def resolve_plain plain_components)

lemma is_abs_path_clean [simp]: "is_abs (path_clean p) = is_abs p"
  by (simp add: path_clean_def is_abs_path_string plain_clean_components)

lemma components_path_clean: "components (path_clean p) = clean_components p"
  by (simp add: path_clean_def components_path_string plain_clean_components)

lemma clean_components_abs:
  "is_abs p \<Longrightarrow> ''..'' \<notin> set (clean_components p)"
  by (simp add: clean_components_def resolve_rooted_no_dots)

lemma clean_components_clean:
  "is_abs p \<Longrightarrow> clean_components (path_clean p) = clean_components p"
  by (subst clean_components_def) (simp add: components_path_clean resolve_id clean_components_abs)

lemma path_clean_clean: "is_abs p \<Longrightarrow> path_clean (path_clean p) = path_clean p"
  by (subst path_clean_def) (simp add: clean_components_clean, simp add: path_clean_def)

lemma strip_common_prefix: "strip_common bs ts = (bs', ts') \<Longrightarrow> \<exists>cs. bs = cs @ bs' \<and> ts = cs @ ts'"
  by (induction bs ts arbitrary: bs' ts' rule: strip_common.induct) (auto split: if_splits intro: exI [of _ "_ # _"])

lemma strip_common_all: "strip_common cs (cs @ ts) = ([], ts)"
  by (induction cs) auto

text \<open>Joining a title to a clean absolute directory.\<close>

lemma path_join_abs:
  assumes "is_abs d" "path_clean d = d"
  shows "path_join [d, t] = path_string True (resolve True (rev (clean_components d)) (components t))"
    "clean_components (path_join [d, t]) = resolve True (rev (clean_components d)) (components t)"
proof -
  have d: "d \<noteq> []" using assms(1) by (auto simp: is_abs_def has_prefix_def)
  have cd: "components d = clean_components d" using components_path_clean [of d] assms(2) by simp
  let ?cs = "resolve True (rev (clean_components d)) (components t)"
  have plain: "plain ?cs" by (simp add: resolve_plain plain_components plain_clean_components)
  show j: "path_join [d, t] = path_string True ?cs"
  proof (cases "t = []")
    case True
    have "components [] = []" by (simp add: components_def)
    then show ?thesis using True d assms by (simp add: path_join_def path_clean_def)
  next
    case False
    have "split_on slash (d @ slash # t) = split_on slash d @ split_on slash t"
      by (induction d) (auto split: list.splits simp: split_on_nonempty)
    then have "components (d @ slash # t) = clean_components d @ components t"
      using cd by (simp add: components_def)
    moreover have "is_abs (d @ slash # t)" using assms(1) d by (cases d) (auto simp: is_abs_def has_prefix_def)
    moreover have "resolve True [] (clean_components d) = clean_components d"
      using resolve_id [of "clean_components d" True "[]"] clean_components_abs [OF assms(1)] by simp
    ultimately show ?thesis using False d
      by (simp add: path_join_def path_clean_def clean_components_def [of "d @ slash # t"] resolve_append)
  qed
  have "''..'' \<notin> set ?cs" using clean_components_abs [OF assms(1)] by (intro resolve_rooted_no_dots) simp
  then show "clean_components (path_join [d, t]) = ?cs"
    unfolding j clean_components_def [of "path_string _ _"]
    by (simp add: components_path_string is_abs_path_string plain resolve_id)
qed

lemma path_string_escapes:
  assumes "plain ts" "''..'' \<notin> set ts"
  shows "(let rel = path_string False (map (\<lambda>_. ''..'') bs @ ts) in rel = ''..'' \<or> has_prefix rel (''..'' @ [slash])) \<longleftrightarrow> bs \<noteq> []"
proof (cases bs)
  case (Cons b bs')
  have "join_with [slash] (''..'' # cs) = ''..'' \<or> has_prefix (join_with [slash] (''..'' # cs)) (''..'' @ [slash])" for cs
    by (cases cs) (auto simp: has_prefix_iff)
  then show ?thesis using Cons by (simp add: path_string_def Let_def)
next
  case Nil
  have "\<not> (path_string False ts = ''..'' \<or> has_prefix (path_string False ts) (''..'' @ [slash]))"
  proof
    assume e: "path_string False ts = ''..'' \<or> has_prefix (path_string False ts) (''..'' @ [slash])"
    then obtain r where r: "path_string False ts = ''..'' \<or> path_string False ts = ''..'' @ slash # r"
      by (auto simp: has_prefix_iff)
    have "components ''..'' = [''..'']" "components (''..'' @ slash # r) = ''..'' # components r"
      by (simp_all add: components_def)
    then have "''..'' \<in> set (components (path_string False ts))" using r by auto
    then show False using components_path_string [OF assms(1)] assms(2) by simp
  qed
  then show ?thesis using Nil by simp
qed

text \<open>Both outcomes of the check, for a clean absolute directory.\<close>

lemma safe_layer_destination_path_cases:
  assumes "is_abs d" "path_clean d = d"
  shows "safe_layer_destination_path cwd d d title =
     (if \<exists>ts. clean_components (path_join [d, title]) = clean_components d @ ts
      then Inr (path_join [d, title]) else Inl (LayerPathEscape title))"
proof -
  let ?dst = "path_join [d, title]"
  have abs: "is_abs ?dst" and clean: "path_clean ?dst = ?dst"
  proof -
    have p: "plain (resolve True (rev (clean_components d)) (components title))"
      by (simp add: resolve_plain plain_components plain_clean_components)
    show abs: "is_abs ?dst" unfolding path_join_abs(1) [OF assms] by (rule is_abs_path_string [OF p, THEN iffD2]) simp
    show "path_clean ?dst = ?dst"
      using path_join_abs [OF assms, of title] abs by (simp add: path_clean_def)
  qed
  obtain bs ts where st: "strip_common (clean_components d) (clean_components ?dst) = (bs, ts)" by fastforce
  then obtain cs where cs: "clean_components d = cs @ bs" "clean_components ?dst = cs @ ts"
    using strip_common_prefix by blast
  have nodots: "''..'' \<notin> set (clean_components d)" "''..'' \<notin> set (clean_components ?dst)"
    using clean_components_abs assms(1) abs by blast+
  have "bs = [] \<or> hd bs \<noteq> ''..''" using nodots(1) cs(1) by (cases bs) auto
  then have rel: "path_rel d (path_abs cwd (path_clean ?dst)) = Some (path_string False (map (\<lambda>_. ''..'') bs @ ts))"
    using abs assms(1) clean st by (auto simp: path_rel_def path_abs_def)
  have "plain (clean_components ?dst)" by (rule plain_clean_components)
  then have ts: "plain ts" "''..'' \<notin> set ts" using cs(2) nodots(2) by auto
  have "(\<exists>us. clean_components ?dst = clean_components d @ us) \<longleftrightarrow> bs = []"
    using st strip_common_all [of "clean_components d"] cs by auto
  then show ?thesis
    using path_string_escapes [OF ts, of bs] rel by (simp add: safe_layer_destination_path_def Let_def)
qed

text \<open>C17. A layer whose title passes \<open>safeLayerDestinationPath\<close> is written beneath the destination
  directory: the cleaned path has the directory's components as a prefix. A title that leaves the
  directory is refused with the escape error, and every title without a dot-dot component passes.\<close>

theorem layer_stays_inside:
  assumes "is_abs d" "path_clean d = d"
  shows "(case safe_layer_destination_path cwd d d title of
       Inr dst \<Rightarrow> dst = path_join [d, title] \<and> (\<exists>ts. clean_components dst = clean_components d @ ts)
     | Inl e \<Rightarrow> e = LayerPathEscape title \<and> ''..'' \<in> set (components title) \<and>
         \<not> (\<exists>ts. clean_components (path_join [d, title]) = clean_components d @ ts))"
proof -
  have "\<exists>ts. clean_components (path_join [d, title]) = clean_components d @ ts" if "''..'' \<notin> set (components title)"
    using path_join_abs(2) [OF assms] that by (simp add: resolve_id)
  then show ?thesis using safe_layer_destination_path_cases [OF assms] by (auto split: sum.splits if_splits)
qed

theorem layer_stays_inside_witness:
  "safe_layer_destination_path ''/'' ''/tmp/x'' ''/tmp/x'' ''../y'' = Inl (LayerPathEscape ''../y'')"
proof -
  have d: "is_abs ''/tmp/x''" "path_clean ''/tmp/x'' = ''/tmp/x''" by code_simp+
  have "clean_components (path_join [''/tmp/x'', ''../y'']) = [''tmp'', ''y'']" "clean_components ''/tmp/x'' = [''tmp'', ''x'']"
    by code_simp+
  then show ?thesis using layer_stays_inside [OF d, where cwd = "''/''" and title = "''../y''"] by (auto split: sum.splits)
qed

end
