(* ===== verification/Config.thy ===== *)
theory Config
  imports Variables_Merge Paths
begin

text \<open>
  Configuration: the structures of \<open>internal/bundle/configuration.go\<close> and \<open>pkg/bundle/configuration.go\<close>,
  validation (\<open>internal/bundle/validation.go\<close>, \<open>internal/logger/logger.go\<close>), parsing of config and
  defaults files, the conversions between the internal and the public representation, and the layered
  resolution of \<open>internal/cli/bundle/config_resolver.go\<close>. The structs that several Go packages
  declare with the same fields are one record here.
\<close>

record config_options =
  log_level :: string
  architecture :: string
  plain_http :: bool
  skip_tls_verify :: bool
  tmp_dir :: string
  concurrency :: int

record keyless_verification =
  kv_certificate_identity :: string
  kv_certificate_identity_regexp :: string
  kv_certificate_oidc_issuer :: string
  kv_certificate_oidc_issuer_regexp :: string
  kv_trusted_root :: string

record verification_policy =
  vp_public_key :: string
  vp_keyless :: "keyless_verification option"

text \<open>\<open>UDSBundleConfig\<close> of \<open>internal/bundle\<close>; its \<open>Remain\<close> body is consumed by the parser.\<close>

record 'f internal_config =
  ic_options :: "config_options option"
  ic_signature :: "verification_policy option"
  ic_variables :: "'f variables"

record global_options =
  go_log_level :: string
  go_prompt :: bool

text \<open>\<open>UDSBundleConfig\<close> of \<open>pkg/bundle\<close>.\<close>

record 'f public_config =
  pc_global :: "global_options option"
  pc_options :: "config_options option"
  pc_signature :: "verification_policy option"
  pc_variables :: "'f variables"

text \<open>\<open>UDSBundleConfig\<close> of \<open>internal/zarf\<close>.\<close>

record 'f zarf_config =
  zc_options :: "config_options option"
  zc_variables :: "'f variables"

definition bundle_defaults_file_name :: string where
  "bundle_defaults_file_name = ''defaults.uds.hcl''"

definition bundle_file_name :: string where
  "bundle_file_name = ''bundle.uds.hcl''"

subsection \<open>Validation\<close>

datatype config_error =
    ConfigRequired
  | ConfigOptionsRequired
  | InvalidLogLevel string
  | InvalidConcurrency int
  | TmpDirMissing string
  | TmpDirUnreadable string
  | TmpDirNotDirectory string

definition max_concurrency :: int where
  "max_concurrency = 25"

datatype log_level_value = LevelDebug | LevelInfo | LevelWarn | LevelError

text \<open>\<open>ParseLevel\<close>; \<open>lower\<close> is \<open>strings.ToLower\<close>.\<close>

definition parse_level :: "(string \<Rightarrow> string) \<Rightarrow> string \<Rightarrow> (config_error, log_level_value) result" where
  "parse_level lower s =
     (if lower s = ''debug'' then Inr LevelDebug
      else if lower s = ''info'' then Inr LevelInfo
      else if lower s = ''warn'' \<or> lower s = ''warning'' then Inr LevelWarn
      else if lower s = ''error'' then Inr LevelError
      else Inl (InvalidLogLevel s))"

definition validate_log_level :: "(string \<Rightarrow> string) \<Rightarrow> string \<Rightarrow> (config_error, unit) result" where
  "validate_log_level lower l = (if l = [] then Inr () else ebind (parse_level lower l) (\<lambda>_. Inr ()))"

definition validate_concurrency :: "int \<Rightarrow> (config_error, unit) result" where
  "validate_concurrency c =
     (if c < 1 then Inl (InvalidConcurrency c) else if c > max_concurrency then Inl (InvalidConcurrency c) else Inr ())"

definition validate_tmp_dir :: "(string \<Rightarrow> stat_result) \<Rightarrow> string \<Rightarrow> (config_error, unit) result" where
  "validate_tmp_dir stat p =
     (if p = [] then Inr ()
      else case stat p of
        StatNotExist \<Rightarrow> Inl (TmpDirMissing p)
      | StatError \<Rightarrow> Inl (TmpDirUnreadable p)
      | StatDir \<Rightarrow> Inr ()
      | _ \<Rightarrow> Inl (TmpDirNotDirectory p))"

definition validate_options :: "(string \<Rightarrow> string) \<Rightarrow> (string \<Rightarrow> stat_result) \<Rightarrow> config_options \<Rightarrow> (config_error, unit) result" where
  "validate_options lower stat opts =
     ebind (validate_log_level lower (log_level opts)) (\<lambda>_.
     ebind (validate_concurrency (concurrency opts)) (\<lambda>_.
     validate_tmp_dir stat (tmp_dir opts)))"

text \<open>A nil pointer is \<open>None\<close>.\<close>

definition validate_config_structure :: "'f internal_config option \<Rightarrow> (config_error, config_options) result" where
  "validate_config_structure cfg = (case cfg of
       None \<Rightarrow> Inl ConfigRequired
     | Some c \<Rightarrow> (case ic_options c of None \<Rightarrow> Inl ConfigOptionsRequired | Some opts \<Rightarrow> Inr opts))"

definition validate_config :: "(string \<Rightarrow> string) \<Rightarrow> (string \<Rightarrow> stat_result) \<Rightarrow> 'f internal_config option \<Rightarrow> (config_error, unit) result" where
  "validate_config lower stat cfg = ebind (validate_config_structure cfg) (validate_options lower stat)"

definition options_ok :: "(string \<Rightarrow> string) \<Rightarrow> (string \<Rightarrow> stat_result) \<Rightarrow> config_options \<Rightarrow> bool" where
  "options_ok lower stat opts \<longleftrightarrow> 1 \<le> concurrency opts \<and> concurrency opts \<le> 25 \<and>
     (tmp_dir opts = [] \<or> stat (tmp_dir opts) = StatDir) \<and>
     (log_level opts = [] \<or> lower (log_level opts) \<in> {''debug'', ''info'', ''warn'', ''warning'', ''error''})"

lemma validate_options_ok: "validate_options lower stat opts = Inr () \<longleftrightarrow> options_ok lower stat opts"
  by (auto simp: validate_options_def validate_log_level_def parse_level_def validate_concurrency_def max_concurrency_def
      validate_tmp_dir_def options_ok_def split: stat_result.splits if_splits)

subsection \<open>Conversions\<close>

fun to_internal_value :: "'f val \<Rightarrow> 'f val"
  and to_internal_entries :: "'f val entries \<Rightarrow> 'f val entries"
  and to_internal_list :: "'f val list \<Rightarrow> 'f val list" where
  "to_internal_value (VVars k m) = (if k = InternalVars then VVars k m
     else VVars InternalVars (case m of None \<Rightarrow> None | Some es \<Rightarrow> Some (to_internal_entries es)))"
| "to_internal_value (VList vs) = VList (to_internal_list vs)"
| "to_internal_value (VStr s) = VStr s"
| "to_internal_value (VNum n) = VNum n"
| "to_internal_value (VBool b) = VBool b"
| "to_internal_value VOpaque = VOpaque"
| "to_internal_entries [] = []"
| "to_internal_entries ((k, v) # m) = (k, to_internal_value v) # to_internal_entries m"
| "to_internal_list [] = []"
| "to_internal_list (v # vs) = to_internal_value v # to_internal_list vs"

definition to_internal_variables :: "'f variables \<Rightarrow> 'f variables" where
  "to_internal_variables = map_option to_internal_entries"

fun from_internal_value :: "'f val \<Rightarrow> 'f val"
  and from_internal_entries :: "'f val entries \<Rightarrow> 'f val entries"
  and from_internal_list :: "'f val list \<Rightarrow> 'f val list" where
  "from_internal_value (VVars k m) = (if k = PublicVars then VVars k m
     else VVars PublicVars (case m of None \<Rightarrow> None | Some es \<Rightarrow> Some (from_internal_entries es)))"
| "from_internal_value (VList vs) = VList (from_internal_list vs)"
| "from_internal_value (VStr s) = VStr s"
| "from_internal_value (VNum n) = VNum n"
| "from_internal_value (VBool b) = VBool b"
| "from_internal_value VOpaque = VOpaque"
| "from_internal_entries [] = []"
| "from_internal_entries ((k, v) # m) = (k, from_internal_value v) # from_internal_entries m"
| "from_internal_list [] = []"
| "from_internal_list (v # vs) = from_internal_value v # from_internal_list vs"

definition from_internal_variables :: "'f variables \<Rightarrow> 'f variables" where
  "from_internal_variables = map_option from_internal_entries"

definition copy_options :: "config_options \<Rightarrow> config_options" where
  "copy_options o' = \<lparr>log_level = log_level o', architecture = architecture o', plain_http = plain_http o',
     skip_tls_verify = skip_tls_verify o', tmp_dir = tmp_dir o', concurrency = concurrency o'\<rparr>"

definition copy_policy :: "verification_policy \<Rightarrow> verification_policy" where
  "copy_policy p = \<lparr>vp_public_key = vp_public_key p, vp_keyless = (case vp_keyless p of None \<Rightarrow> None
     | Some k \<Rightarrow> Some \<lparr>kv_certificate_identity = kv_certificate_identity k,
         kv_certificate_identity_regexp = kv_certificate_identity_regexp k,
         kv_certificate_oidc_issuer = kv_certificate_oidc_issuer k,
         kv_certificate_oidc_issuer_regexp = kv_certificate_oidc_issuer_regexp k,
         kv_trusted_root = kv_trusted_root k\<rparr>)\<rparr>"

definition to_internal_config :: "'f public_config option \<Rightarrow> 'f internal_config option" where
  "to_internal_config = map_option (\<lambda>cfg. \<lparr>ic_options = map_option copy_options (pc_options cfg),
     ic_signature = map_option copy_policy (pc_signature cfg), ic_variables = to_internal_variables (pc_variables cfg)\<rparr>)"

text \<open>\<open>toZarfConfig\<close> retags only the outermost map; \<open>fromZarfConfig\<close> is its way back.\<close>

definition to_zarf_config :: "'f public_config option \<Rightarrow> 'f zarf_config option" where
  "to_zarf_config = map_option (\<lambda>cfg. \<lparr>zc_options = map_option copy_options (pc_options cfg), zc_variables = pc_variables cfg\<rparr>)"

definition from_zarf_config :: "'f zarf_config option \<Rightarrow> 'f public_config option" where
  "from_zarf_config = map_option (\<lambda>cfg. \<lparr>pc_global = None, pc_options = map_option copy_options (zc_options cfg),
     pc_signature = None, pc_variables = zc_variables cfg\<rparr>)"

definition to_bundle_hcl_config :: "'f zarf_config option \<Rightarrow> 'f internal_config option" where
  "to_bundle_hcl_config = map_option (\<lambda>cfg. \<lparr>ic_options = zc_options cfg, ic_signature = None, ic_variables = zc_variables cfg\<rparr>)"

definition zarf_validate_config :: "(string \<Rightarrow> string) \<Rightarrow> (string \<Rightarrow> stat_result) \<Rightarrow> 'f zarf_config option \<Rightarrow> (config_error, unit) result" where
  "zarf_validate_config lower stat cfg = validate_config lower stat (to_bundle_hcl_config cfg)"

definition public_validate_config :: "(string \<Rightarrow> string) \<Rightarrow> (string \<Rightarrow> stat_result) \<Rightarrow> 'f public_config option \<Rightarrow> (config_error, unit) result" where
  "public_validate_config lower stat cfg = validate_config lower stat (to_internal_config cfg)"

lemma copy_options_id [simp]: "copy_options o' = o'"
  by (simp add: copy_options_def)

lemma copy_policy_id [simp]: "copy_policy p = p"
  by (simp add: copy_policy_def split: option.splits)

end
