(* ===== verification/Config_Resolver.thy ===== *)
theory Config_Resolver
  imports Config
begin

text \<open>
  Reading configuration and resolving its layers: \<open>ParseBundleConfig\<close> and \<open>ParseDefaults\<close>
  (\<open>internal/bundle/configuration.go\<close>), \<open>AdjacentDefaultsPath\<close> and \<open>ResolveBundlePath\<close>, the
  \<open>ConfigResolver\<close> (\<open>internal/cli/bundle/config_resolver.go\<close>) and the defaults embedded in an
  artifact (\<open>pkg/bundle/deploy.go\<close>). The HCL library and the file system are the record \<open>hcl\<close>.
\<close>

subsection \<open>The HCL library\<close>

text \<open>
  \<open>h_read\<close> is \<open>os.ReadFile\<close>, \<open>h_parse\<close> is \<open>hclsyntax.ParseConfig\<close>; \<open>h_decode\<close> is \<open>gohcl.DecodeBody\<close>
  into \<open>UDSBundleConfig\<close> with the directory of the \<open>file\<close> function, giving the options, the policy and
  the \<open>variables\<close> attribute of the remaining body (an error is that of \<open>PartialContent\<close>);
  \<open>h_attributes\<close> is \<open>JustAttributes\<close>; \<open>h_value\<close> evaluates an expression, with \<open>file\<close> relative to a
  directory when it is available; \<open>h_syntax_body\<close> says whether the body is an \<open>hclsyntax.Body\<close> and
  \<open>h_file_calls\<close> whether a \<open>file\<close> call occurs in it.
\<close>

record ('e, 'file, 'expr, 'n) hcl =
  h_read :: "string \<Rightarrow> ('e, string) result"
  h_parse :: "string \<Rightarrow> string \<Rightarrow> ('e, 'file) result"
  h_decode :: "'file \<Rightarrow> string \<Rightarrow> ('e, config_options option \<times> verification_policy option \<times> ('e, 'expr option) result option) result"
  h_attributes :: "'file \<Rightarrow> ('e, (string \<times> 'expr) list) result"
  h_value :: "'expr \<Rightarrow> string option \<Rightarrow> ('e, 'n cty) result"
  h_syntax_body :: "'file \<Rightarrow> bool"
  h_file_calls :: "'file \<Rightarrow> bool"

datatype 'e parse_error =
    EmptyParameter string
  | ReadConfigFile string 'e
  | ParseConfigFailed string 'e
  | DecodeConfig string 'e
  | ReadVariables string 'e
  | EvaluateVariables string 'e
  | ConvertVariables string cty_error
  | VariablesNotObject
  | ReadDefaultsFile string 'e
  | ParseDefaultsFailed string 'e
  | InvalidDefaults string 'e
  | UnexpectedDefaultsAttribute string
  | UnexpectedHCLBody
  | FileFunctionUnavailable string

definition variables_object :: "'f val \<Rightarrow> ('e parse_error, 'f variables) result" where
  "variables_object v = (case v of VVars InternalVars m \<Rightarrow> Inr m | _ \<Rightarrow> Inl VariablesNotObject)"

definition extract_variables :: "('n \<Rightarrow> 'f) \<Rightarrow> ('e, 'file, 'expr, 'n) hcl \<Rightarrow> ('e, 'expr option) result \<Rightarrow> string option \<Rightarrow> string \<Rightarrow>
    ('e parse_error, 'f variables) result" where
  "extract_variables f64 h content dir source =
     ebind (map_error (ReadVariables source) content) (\<lambda>attr. case attr of
       None \<Rightarrow> Inr None
     | Some expr \<Rightarrow>
         ebind (map_error (EvaluateVariables source) (h_value h expr dir)) (\<lambda>c.
         ebind (map_error (ConvertVariables source) (cty_value_to_go f64 c)) variables_object))"

definition parse_bundle_config :: "('n \<Rightarrow> 'f) \<Rightarrow> ('e, 'file, 'expr, 'n) hcl \<Rightarrow> string \<Rightarrow> ('e parse_error, 'f internal_config) result" where
  "parse_bundle_config f64 h path =
     (if path = [] then Inl (EmptyParameter ''filePath'')
      else ebind (map_error (ReadConfigFile path) (h_read h path)) (\<lambda>src.
           ebind (map_error (ParseConfigFailed path) (h_parse h src path)) (\<lambda>file.
           ebind (map_error (DecodeConfig path) (h_decode h file (path_dir path))) (\<lambda>(opts, sig, remain).
             case remain of
               None \<Rightarrow> Inr \<lparr>ic_options = opts, ic_signature = sig, ic_variables = None\<rparr>
             | Some content \<Rightarrow>
                 ebind (extract_variables f64 h content (Some (path_dir path)) path) (\<lambda>vars.
                   Inr \<lparr>ic_options = opts, ic_signature = sig, ic_variables = vars\<rparr>)))))"

definition reject_file_function :: "('e, 'file, 'expr, 'n) hcl \<Rightarrow> 'file \<Rightarrow> string \<Rightarrow> ('e parse_error, unit) result" where
  "reject_file_function h file kind =
     (if \<not> h_syntax_body h file then Inl UnexpectedHCLBody
      else if h_file_calls h file then Inl (FileFunctionUnavailable kind) else Inr ())"

definition parse_defaults_content :: "('n \<Rightarrow> 'f) \<Rightarrow> ('e, 'file, 'expr, 'n) hcl \<Rightarrow> string \<Rightarrow> string \<Rightarrow> bool \<Rightarrow>
    ('e parse_error, 'f variables) result" where
  "parse_defaults_content f64 h src path allow_file =
     ebind (map_error (ParseDefaultsFailed path) (h_parse h src path)) (\<lambda>file.
     ebind (if \<not> allow_file then reject_file_function h file ''defaults.uds.hcl'' else Inr ()) (\<lambda>_.
     ebind (map_error (InvalidDefaults path) (h_attributes h file)) (\<lambda>attrs.
       case find (\<lambda>n. n \<noteq> ''variables'') (map fst attrs) of
         Some n \<Rightarrow> Inl (UnexpectedDefaultsAttribute n)
       | None \<Rightarrow> (case map_of attrs ''variables'' of
           None \<Rightarrow> Inr None
         | Some expr \<Rightarrow>
             ebind (map_error (EvaluateVariables path) (h_value h expr (if allow_file then Some (path_dir path) else None))) (\<lambda>c.
             ebind (map_error (ConvertVariables path) (cty_value_to_go f64 c)) variables_object)))))"

definition parse_defaults :: "('n \<Rightarrow> 'f) \<Rightarrow> ('e, 'file, 'expr, 'n) hcl \<Rightarrow> string \<Rightarrow> ('e parse_error, 'f variables) result" where
  "parse_defaults f64 h path =
     (if path = [] then Inl (EmptyParameter ''path'')
      else ebind (map_error (ReadDefaultsFile path) (h_read h path)) (\<lambda>src. parse_defaults_content f64 h src path True))"

definition parse_defaults_bytes :: "('n \<Rightarrow> 'f) \<Rightarrow> ('e, 'file, 'expr, 'n) hcl \<Rightarrow> string \<Rightarrow> ('e parse_error, 'f variables) result" where
  "parse_defaults_bytes f64 h src =
     (if length src = 0 then Inl (EmptyParameter ''src'')
      else parse_defaults_content f64 h src bundle_defaults_file_name False)"

subsection \<open>Paths of bundles\<close>

text \<open>\<open>None\<close> stands for the returned file system error.\<close>

definition adjacent_defaults_path :: "(string \<Rightarrow> stat_result) \<Rightarrow> string \<Rightarrow> string option" where
  "adjacent_defaults_path stat dir =
     (let p = path_join [dir, bundle_defaults_file_name] in
      case stat p of StatNotExist \<Rightarrow> Some [] | StatError \<Rightarrow> None | _ \<Rightarrow> Some p)"

definition resolve_bundle_path :: "(string \<Rightarrow> stat_result) \<Rightarrow> string \<Rightarrow> string" where
  "resolve_bundle_path stat ref =
     (case stat ref of StatDir \<Rightarrow> path_join [ref, bundle_file_name] | _ \<Rightarrow> ref)"

subsection \<open>Option layers\<close>

record cli_flags =
  f_config_path :: string
  f_log_level :: string
  f_log_level_changed :: bool
  f_architecture :: string
  f_architecture_changed :: bool
  f_plain_http :: bool
  f_plain_http_changed :: bool
  f_skip_tls :: bool
  f_skip_tls_changed :: bool
  f_tmp_dir :: string
  f_tmp_dir_changed :: bool
  f_concurrency :: int
  f_concurrency_changed :: bool
  f_prompt :: bool

text \<open>\<open>runtime.GOARCH\<close> and \<open>os.TempDir()\<close> are arguments.\<close>

definition default_options :: "string \<Rightarrow> string \<Rightarrow> config_options" where
  "default_options arch tmp = \<lparr>log_level = ''info'', architecture = arch, plain_http = False, skip_tls_verify = False,
     tmp_dir = tmp, concurrency = 10\<rparr>"

definition merge_hcl :: "config_options \<Rightarrow> config_options option \<Rightarrow> config_options" where
  "merge_hcl base hcl' = (case hcl' of None \<Rightarrow> base
     | Some h \<Rightarrow>
       (let b1 = if log_level h \<noteq> [] then base\<lparr>log_level := log_level h\<rparr> else base;
            b2 = if architecture h \<noteq> [] then b1\<lparr>architecture := architecture h\<rparr> else b1;
            b3 = if plain_http h then b2\<lparr>plain_http := plain_http h\<rparr> else b2;
            b4 = if skip_tls_verify h then b3\<lparr>skip_tls_verify := skip_tls_verify h\<rparr> else b3;
            b5 = if tmp_dir h \<noteq> [] then b4\<lparr>tmp_dir := tmp_dir h\<rparr> else b4
        in if concurrency h \<noteq> 0 then b5\<lparr>concurrency := concurrency h\<rparr> else b5))"

definition overlay_cli :: "cli_flags \<Rightarrow> config_options \<Rightarrow> config_options" where
  "overlay_cli f base =
     (let b1 = if f_log_level_changed f then base\<lparr>log_level := f_log_level f\<rparr> else base;
          b2 = if f_architecture_changed f then b1\<lparr>architecture := f_architecture f\<rparr> else b1;
          b3 = if f_plain_http_changed f then b2\<lparr>plain_http := f_plain_http f\<rparr> else b2;
          b4 = if f_skip_tls_changed f then b3\<lparr>skip_tls_verify := f_skip_tls f\<rparr> else b3;
          b5 = if f_tmp_dir_changed f then b4\<lparr>tmp_dir := f_tmp_dir f\<rparr> else b4
      in if f_concurrency_changed f then b5\<lparr>concurrency := f_concurrency f\<rparr> else b5)"

definition resolve_options :: "string \<Rightarrow> string \<Rightarrow> 'f public_config option \<Rightarrow> cli_flags \<Rightarrow> config_options" where
  "resolve_options arch tmp user f =
     (let base = default_options arch tmp;
          base' = (case user of None \<Rightarrow> base
            | Some cfg \<Rightarrow> (case pc_options cfg of None \<Rightarrow> base | Some opts \<Rightarrow> merge_hcl base (Some opts)))
      in overlay_cli f base')"

subsection \<open>Resolve\<close>

datatype 'e resolve_error =
    ParseConfigError "'e parse_error"
  | ResolveLogLevel string
  | AccessDefaults string
  | DefaultsError "'e parse_error"

text \<open>A panic of \<open>MergeVariables\<close> is \<open>None\<close>.\<close>

definition merge_public :: "'f variables \<Rightarrow> 'f variables \<Rightarrow> 'f variables option" where
  "merge_public base overrides =
     map_option from_internal_variables (merge_variables (to_internal_variables base) (to_internal_variables overrides))"

definition user_signature_verification :: "'f public_config option \<Rightarrow> verification_policy option" where
  "user_signature_verification cfg = (case cfg of None \<Rightarrow> None | Some c \<Rightarrow> pc_signature c)"

definition parse_user_config :: "('n \<Rightarrow> 'f) \<Rightarrow> ('e, 'file, 'expr, 'n) hcl \<Rightarrow> cli_flags \<Rightarrow>
    ('e resolve_error, 'f public_config option) result" where
  "parse_user_config f64 h f =
     (if f_config_path f = [] then Inr None
      else ebind (map_error ParseConfigError (parse_bundle_config f64 h (f_config_path f))) (\<lambda>cfg.
        Inr (Some \<lparr>pc_global = None, pc_options = map_option copy_options (ic_options cfg),
          pc_signature = map_option copy_policy (ic_signature cfg),
          pc_variables = from_internal_variables (ic_variables cfg)\<rparr>)))"

definition resolve_base :: "(string \<Rightarrow> string) \<Rightarrow> string \<Rightarrow> string \<Rightarrow> ('n \<Rightarrow> 'f) \<Rightarrow> ('e, 'file, 'expr, 'n) hcl \<Rightarrow> cli_flags \<Rightarrow>
    ('e resolve_error, 'f public_config \<times> string) result option" where
  "resolve_base lower arch tmp f64 h f =
     (case parse_user_config f64 h f of
        Inl e \<Rightarrow> Some (Inl e)
      | Inr user \<Rightarrow>
         (let options = resolve_options arch tmp user f in
          case parse_level lower (log_level options) of
            Inl _ \<Rightarrow> Some (Inl (ResolveLogLevel (log_level options)))
          | Inr _ \<Rightarrow>
             map_option (\<lambda>vars. Inr (\<lparr>pc_global = None, pc_options = Some options,
                 pc_signature = user_signature_verification user, pc_variables = vars\<rparr>, f_config_path f))
               (case user of None \<Rightarrow> Some None | Some cfg \<Rightarrow> merge_public None (pc_variables cfg))))"

definition load_bundle_defaults :: "(string \<Rightarrow> stat_result) \<Rightarrow> ('n \<Rightarrow> 'f) \<Rightarrow> ('e, 'file, 'expr, 'n) hcl \<Rightarrow> string \<Rightarrow>
    ('e resolve_error, 'f variables option) result" where
  "load_bundle_defaults stat f64 h bundle_path =
     (if bundle_path = [] then Inr None
      else if stat bundle_path \<in> {StatNotExist, StatError} then Inr None
      else (let dir = (if stat bundle_path = StatDir then bundle_path else path_dir bundle_path) in
        case adjacent_defaults_path stat dir of
          None \<Rightarrow> Inl (AccessDefaults dir)
        | Some p \<Rightarrow> if p = [] then Inr None
            else ebind (map_error DefaultsError (parse_defaults f64 h p)) (\<lambda>vars. Inr (Some (from_internal_variables vars)))))"

definition apply_bundle_defaults :: "(string \<Rightarrow> stat_result) \<Rightarrow> ('n \<Rightarrow> 'f) \<Rightarrow> ('e, 'file, 'expr, 'n) hcl \<Rightarrow> 'f public_config \<Rightarrow> string \<Rightarrow>
    ('e resolve_error, 'f public_config) result option" where
  "apply_bundle_defaults stat f64 h base bundle_path =
     (case load_bundle_defaults stat f64 h bundle_path of
        Inl e \<Rightarrow> Some (Inl e)
      | Inr defaults \<Rightarrow>
          map_option (\<lambda>vars. Inr \<lparr>pc_global = None, pc_options = pc_options base, pc_signature = pc_signature base, pc_variables = vars\<rparr>)
            (case defaults of Some d \<Rightarrow> merge_public d (pc_variables base) | None \<Rightarrow> merge_public None (pc_variables base)))"

definition resolve_config :: "(string \<Rightarrow> string) \<Rightarrow> (string \<Rightarrow> stat_result) \<Rightarrow> string \<Rightarrow> string \<Rightarrow> ('n \<Rightarrow> 'f) \<Rightarrow>
    ('e, 'file, 'expr, 'n) hcl \<Rightarrow> cli_flags \<Rightarrow> string \<Rightarrow> ('e resolve_error, 'f public_config \<times> string) result option" where
  "resolve_config lower stat arch tmp f64 h f bundle_path =
     Option.bind (resolve_base lower arch tmp f64 h f) (\<lambda>r. case r of
       Inl e \<Rightarrow> Some (Inl e)
     | Inr (base, config_path) \<Rightarrow>
         map_option (\<lambda>r. ebind r (\<lambda>resolved. Inr (resolved, config_path))) (apply_bundle_defaults stat f64 h base bundle_path))"

text \<open>\<open>applyEmbeddedDefaults\<close>; \<open>artifact\<close> says that the source is an artifact, whose defaults may not call
  \<open>file\<close>.\<close>

definition apply_embedded_defaults :: "('n \<Rightarrow> 'f) \<Rightarrow> ('e, 'file, 'expr, 'n) hcl \<Rightarrow> 'f public_config \<Rightarrow> string \<Rightarrow> bool \<Rightarrow>
    ('e parse_error, 'f public_config) result option" where
  "apply_embedded_defaults f64 h cfg defaults_path artifact =
     (case (if \<not> artifact then parse_defaults f64 h defaults_path
            else ebind (map_error (ReadDefaultsFile defaults_path) (h_read h defaults_path)) (parse_defaults_bytes f64 h)) of
        Inl e \<Rightarrow> Some (Inl e)
      | Inr defaults \<Rightarrow>
          map_option (\<lambda>vars. Inr (cfg\<lparr>pc_variables := from_internal_variables vars\<rparr>))
            (merge_variables defaults (to_internal_variables (pc_variables cfg))))"

end
