(* ===== verification/Config_Properties.thy ===== *)
theory Config_Properties
  imports Config_Resolver
begin

text \<open>
  Properties of configuration: the merge of variables key by key, its idempotence over defaults, the
  conversions between the two representations, precedence of the option layers, and validation.
\<close>

subsection \<open>Public values\<close>

fun pub_val :: "'f val \<Rightarrow> bool"
  and pub_entries :: "'f val entries \<Rightarrow> bool"
  and pub_list :: "'f val list \<Rightarrow> bool" where
  "pub_val (VVars k m) = (k = PublicVars \<and> (case m of None \<Rightarrow> False | Some es \<Rightarrow> sorted_keys es \<and> pub_entries es))"
| "pub_val (VList vs) = pub_list vs"
| "pub_val VOpaque = False"
| "pub_val (VStr s) = True"
| "pub_val (VNum n) = True"
| "pub_val (VBool b) = True"
| "pub_entries [] = True"
| "pub_entries ((k, v) # m) = (pub_val v \<and> pub_entries m)"
| "pub_list [] = True"
| "pub_list (v # vs) = (pub_val v \<and> pub_list vs)"

lemma keys_to_internal: "map fst (to_internal_entries m) = map fst m"
  by (induction m) auto

lemma keys_from_internal: "map fst (from_internal_entries m) = map fst m"
  by (induction m) auto

lemma sorted_keys_conv [simp]:
  "sorted_keys (to_internal_entries m) = sorted_keys m" "sorted_keys (from_internal_entries m) = sorted_keys m"
  by (simp_all add: sorted_keys_def keys_to_internal keys_from_internal)

lemma map_of_conv:
  "map_of (to_internal_entries m) k = map_option to_internal_value (map_of m k)"
  "map_of (from_internal_entries m) k = map_option from_internal_value (map_of m k)"
  by (induction m) auto

lemma from_hcl:
  fixes v :: "'f val" and m :: "'f val entries" and vs :: "'f val list"
  shows "hcl_val v \<Longrightarrow> pub_val (from_internal_value v) \<and> to_internal_value (from_internal_value v) = v"
    "hcl_entries m \<Longrightarrow> pub_entries (from_internal_entries m) \<and> to_internal_entries (from_internal_entries m) = m"
    "hcl_list vs \<Longrightarrow> pub_list (from_internal_list vs) \<and> to_internal_list (from_internal_list vs) = vs"
  by (induction v and m and vs rule: hcl_val_hcl_entries_hcl_list.induct) (auto split: option.splits)

lemma to_hcl:
  fixes v :: "'f val" and m :: "'f val entries" and vs :: "'f val list"
  shows "pub_val v \<Longrightarrow> hcl_val (to_internal_value v) \<and> from_internal_value (to_internal_value v) = v"
    "pub_entries m \<Longrightarrow> hcl_entries (to_internal_entries m) \<and> from_internal_entries (to_internal_entries m) = m"
    "pub_list vs \<Longrightarrow> hcl_list (to_internal_list vs) \<and> from_internal_list (to_internal_list vs) = vs"
  by (induction v and m and vs rule: pub_val_pub_entries_pub_list.induct) (auto split: option.splits)

definition pub_variables :: "'f variables \<Rightarrow> bool" where
  "pub_variables v \<longleftrightarrow> (case v of None \<Rightarrow> True | Some m \<Rightarrow> sorted_keys m \<and> pub_entries m)"

lemma pub_variables_simps [simp]: "pub_variables None" "pub_variables (Some m) \<longleftrightarrow> sorted_keys m \<and> pub_entries m"
  by (simp_all add: pub_variables_def)

text \<open>C18. The two representations of variables are converted into each other without loss: what the
  public API or the HCL parser produces survives a round trip.\<close>

theorem variables_roundtrip:
  fixes v :: "'f variables" and m :: "'f val entries"
  assumes "pub_variables v" "sorted_keys m" "hcl_entries m"
  shows "from_internal_variables (to_internal_variables v) = v \<and>
     to_internal_variables (from_internal_variables (Some m)) = Some m"
  using assms to_hcl(2) [of "the v"] from_hcl(2) [of m] by (cases v) (auto simp: to_internal_variables_def from_internal_variables_def)

theorem variables_roundtrip_witness:
  "from_internal_variables (to_internal_variables (Some [(''a'', VVars PublicVars (Some [(''b'', VNum (1 :: int))]))])) =
     Some [(''a'', VVars PublicVars (Some [(''b'', VNum 1)]))]"
  using variables_roundtrip [of "Some [(''a'', VVars PublicVars (Some [(''b'', VNum (1 :: int))]))]" "[]"] by (simp add: less_char_def)

subsection \<open>Merging\<close>

lemma merge_public_cases:
  assumes "pub_variables d" "pub_variables c"
  obtains (nil) "d = None" "c = None" "merge_public d c = Some None"
  | (left) m where "d = Some m" "c = None" "merge_public d c = Some (Some m)"
  | (right) n where "d = None" "c = Some n" "merge_public d c = Some (Some n)"
  | (both) m n where "d = Some m" "c = Some n"
      "merge_public d c = Some (Some (from_internal_entries (overlay (to_internal_entries m) (to_internal_entries n))))"
proof -
  have ok: "sorted_keys (to_internal_entries m)" "hcl_entries (to_internal_entries m)"
      "from_internal_entries (to_internal_entries m) = m" if "pub_variables (Some m)" for m :: "'a val entries"
    using that to_hcl(2) [of m] by simp_all
  show thesis
  proof (cases d; cases c)
    assume "d = None" "c = None"
    then show thesis using nil by (simp add: merge_public_def merge_variables_def to_internal_variables_def from_internal_variables_def)
  next
    fix n assume n: "d = None" "c = Some n"
    note o = ok [of n]
    then show thesis using right n assms merge_variables_hcl(2) [of "[]" "to_internal_entries n"]
      by (simp add: merge_public_def to_internal_variables_def from_internal_variables_def)
  next
    fix m assume m: "d = Some m" "c = None"
    note o = ok [of m]
    then show thesis using left m assms merge_variables_hcl(3) [of "to_internal_entries m" "[]"]
      by (simp add: merge_public_def to_internal_variables_def from_internal_variables_def)
  next
    fix m n assume mn: "d = Some m" "c = Some n"
    note o = ok [of m] ok [of n]
    then show thesis using both mn assms merge_variables_hcl(1) [of "to_internal_entries m" "to_internal_entries n"]
      by (simp add: merge_public_def to_internal_variables_def from_internal_variables_def)
  qed
qed

text \<open>C14. \<open>MergeVariables\<close> on parsed variables never panics and returns, at every key, the override's value
  unless only the base has one; where both have an object the two are merged in the same way, and
  everything else, lists included, is replaced as a whole.\<close>

theorem merge_variables_lookup:
  assumes "sorted_keys b" "hcl_entries b" "sorted_keys c" "hcl_entries c"
  shows "\<exists>r. merge_variables (Some b) (Some c) = Some (Some r) \<and> sorted_keys r \<and> hcl_entries r \<and>
     (\<forall>k. map_of r k = (case (map_of b k, map_of c k) of
        (None, y) \<Rightarrow> y
      | (Some x, None) \<Rightarrow> Some x
      | (Some (VVars InternalVars (Some m)), Some (VVars InternalVars (Some n))) \<Rightarrow>
          map_option (VVars InternalVars) (merge_variables (Some m) (Some n))
      | (Some x, Some y) \<Rightarrow> Some y))"
proof -
  note o = overlay [OF assms]
  have "merge_at (map_of b k) (map_of c k) = (case (map_of b k, map_of c k) of
        (None, y) \<Rightarrow> y
      | (Some x, None) \<Rightarrow> Some x
      | (Some (VVars InternalVars (Some m)), Some (VVars InternalVars (Some n))) \<Rightarrow>
          map_option (VVars InternalVars) (merge_variables (Some m) (Some n))
      | (Some x, Some y) \<Rightarrow> Some y)" for k
  proof (cases "\<exists>m n. map_of b k = Some (VVars InternalVars (Some m)) \<and> map_of c k = Some (VVars InternalVars (Some n))")
    case True
    then obtain m n where mn: "map_of b k = Some (VVars InternalVars (Some m))" "map_of c k = Some (VVars InternalVars (Some n))"
      by blast
    then have "hcl_val (VVars InternalVars (Some m))" "hcl_val (VVars InternalVars (Some n))"
      using hcl_entries_map_of assms by blast+
    then show ?thesis using merged_simps(1) [of m n] merge_variables_hcl(1) [of m n] mn by (simp add: merge_at_def)
  next
    case False
    then show ?thesis by (auto simp: merge_at_def merged_simps(2) split: option.splits val.splits map_kind.splits)
  qed
  then show ?thesis using o merge_variables_hcl(1) [OF assms] by (intro exI [of _ "overlay b c"]) simp
qed

theorem merge_variables_lookup_witness:
  "\<exists>r. merge_variables (Some [(''a'', VNum (1 :: int)), (''l'', VVars InternalVars (Some [(''x'', VNum 2)]))])
        (Some [(''l'', VVars InternalVars (Some [(''y'', VNum 3)]))]) = Some (Some r) \<and>
     map_of r ''a'' = Some (VNum 1) \<and> map_of r ''l'' = Some (VVars InternalVars (Some [(''x'', VNum 2), (''y'', VNum 3)]))"
proof -
  have "merge_variables (Some [(''x'', VNum (2 :: int))]) (Some [(''y'', VNum 3)]) = Some (Some [(''x'', VNum 2), (''y'', VNum 3)])"
    by (simp add: merge_variables_def deep_copy_variables_def less_char_def)
  then show ?thesis
    using merge_variables_lookup [of "[(''a'', VNum (1 :: int)), (''l'', VVars InternalVars (Some [(''x'', VNum 2)]))]"
        "[(''l'', VVars InternalVars (Some [(''y'', VNum 3)]))]"]
    by (auto simp: less_char_def)
qed

lemma defaults_idempotent_lemma:
  assumes "pub_variables d" "pub_variables c"
  shows "\<exists>r. merge_public d c = Some r \<and> pub_variables r \<and> merge_public d r = Some r"
  using assms
proof (cases rule: merge_public_cases)
  case (both m n)
  let ?m = "to_internal_entries m" and ?n = "to_internal_entries n"
  have ok: "sorted_keys ?m" "hcl_entries ?m" "sorted_keys ?n" "hcl_entries ?n"
    using both assms to_hcl(2) [of m] to_hcl(2) [of n] by simp_all
  note o = overlay [OF ok]
  let ?r = "from_internal_entries (overlay ?m ?n)"
  have r: "pub_variables (Some ?r)" "to_internal_entries ?r = overlay ?m ?n" using o from_hcl(2) by auto
  have "merge_public d (Some ?r) = Some (Some ?r)"
    using merge_variables_hcl(1) [OF ok(1,2) o(2,3)] overlay_absorb [OF ok] both r
    by (simp add: merge_public_def to_internal_variables_def from_internal_variables_def)
  then show ?thesis using both r by blast
next
  case (left m)
  let ?m = "to_internal_entries m"
  have ok: "sorted_keys ?m" "hcl_entries ?m" "from_internal_entries ?m = m" using left assms to_hcl(2) [of m] by simp_all
  then have "merge_public d (Some m) = Some (Some m)"
    using merge_variables_hcl(1) [OF ok(1,2) ok(1,2)] overlay_self [OF ok(1,2)] left
    by (simp add: merge_public_def to_internal_variables_def from_internal_variables_def)
  then show ?thesis using left assms by blast
next
  case (right n)
  then show ?thesis using assms by metis
qed (use assms in auto)

text \<open>Laying the same defaults under a configuration twice changes nothing, so the defaults that
  \<open>ConfigResolver.Resolve\<close> has applied and those \<open>Deploy\<close> applies again from the artifact agree.\<close>

lemma defaults_idempotent:
  assumes "pub_variables d" "pub_variables c"
  shows "\<exists>r. merge_public d c = Some r \<and> pub_variables r \<and> merge_public d r = Some r"
  using defaults_idempotent_lemma [OF assms] .

lemma defaults_idempotent_witness:
  "\<exists>r. merge_public (Some [(''a'', VNum (1 :: int))]) (Some [(''a'', VNum 2)]) = Some r \<and>
     merge_public (Some [(''a'', VNum 1)]) r = Some r"
  using defaults_idempotent [of "Some [(''a'', VNum (1 :: int))]" "Some [(''a'', VNum 2)]"] by auto

subsection \<open>From HCL to resolved configuration\<close>

fun cty_ok :: "'n cty \<Rightarrow> bool"
  and cty_attrs_ok :: "(string \<times> 'n cty) list \<Rightarrow> bool"
  and cty_list_ok :: "'n cty list \<Rightarrow> bool" where
  "cty_ok (CObj as) = (sorted_keys as \<and> cty_attrs_ok as)"
| "cty_ok (CSeq cs) = cty_list_ok cs"
| "cty_ok _ = True"
| "cty_attrs_ok [] = True"
| "cty_attrs_ok ((k, c) # as) = (cty_ok c \<and> cty_attrs_ok as)"
| "cty_list_ok [] = True"
| "cty_list_ok (c # cs) = (cty_ok c \<and> cty_list_ok cs)"

lemma cty_to_go_hcl:
  fixes c :: "'n cty" and as :: "(string \<times> 'n cty) list" and cs :: "'n cty list" and f64 :: "'n \<Rightarrow> 'f"
  shows "cty_ok c \<Longrightarrow> cty_value_to_go f64 c = Inr v \<Longrightarrow> hcl_val v"
    "cty_attrs_ok as \<Longrightarrow> cty_attrs_to_go f64 as = Inr m \<Longrightarrow> hcl_entries m \<and> map fst m = map fst as"
    "cty_list_ok cs \<Longrightarrow> cty_elems_to_go f64 i cs = Inr vs \<Longrightarrow> hcl_list vs"
  by (induction f64 c and f64 as and f64 i cs arbitrary: v and m and vs
      rule: cty_value_to_go_cty_attrs_to_go_cty_elems_to_go.induct)
    (fastforce simp: ebind_eq_Inr sorted_keys_def)+





subsection \<open>Resolve\<close>

definition hcl_ok :: "('e, 'file, 'expr, 'n) hcl \<Rightarrow> bool" where
  "hcl_ok h \<longleftrightarrow> (\<forall>expr dir c. h_value h expr dir = Inr c \<longrightarrow> cty_ok c)"

definition hcl_variables :: "'f variables \<Rightarrow> bool" where
  "hcl_variables v \<longleftrightarrow> (case v of None \<Rightarrow> True | Some m \<Rightarrow> sorted_keys m \<and> hcl_entries m)"

lemma hcl_variables_None [simp]: "hcl_variables None"
  by (simp add: hcl_variables_def)

lemma hcl_pub_variables: "hcl_variables v \<Longrightarrow> pub_variables (from_internal_variables v) \<and> to_internal_variables (from_internal_variables v) = v"
  using from_hcl(2) by (cases v) (auto simp: hcl_variables_def from_internal_variables_def to_internal_variables_def)

lemma variables_object_hcl: "hcl_val v \<Longrightarrow> variables_object v = Inr m \<Longrightarrow> hcl_variables m"
  by (auto simp: variables_object_def hcl_variables_def split: val.splits map_kind.splits option.splits)

lemma parse_bundle_config_hcl:
  assumes "hcl_ok h" "parse_bundle_config f64 h p = Inr cfg"
  shows "hcl_variables (ic_variables cfg)"
proof -
  have "hcl_variables vars" if "extract_variables f64 h content dir src = Inr vars" for content dir src vars
    using that assms(1) variables_object_hcl cty_to_go_hcl(1)
    by (fastforce simp: extract_variables_def hcl_ok_def ebind_eq_Inr hcl_variables_def split: option.splits)
  then show ?thesis using assms(2)
    by (auto simp: parse_bundle_config_def ebind_eq_Inr split: if_splits option.splits)
qed

lemma parse_defaults_content_hcl:
  assumes "hcl_ok h" "parse_defaults_content f64 h src p allow = Inr vars"
  shows "hcl_variables vars"
  using assms variables_object_hcl cty_to_go_hcl(1)
  by (fastforce simp: parse_defaults_content_def hcl_ok_def ebind_eq_Inr hcl_variables_def split: option.splits)

lemma parse_defaults_hcl: "hcl_ok h \<Longrightarrow> parse_defaults f64 h p = Inr vars \<Longrightarrow> hcl_variables vars"
  using parse_defaults_content_hcl by (auto simp: parse_defaults_def ebind_eq_Inr split: if_splits)

lemma merge_public_total: "pub_variables d \<Longrightarrow> pub_variables c \<Longrightarrow> \<exists>r. merge_public d c = Some r \<and> pub_variables r"
  using defaults_idempotent_lemma by blast

lemma resolve_base_total:
  assumes "hcl_ok h"
  shows "\<exists>r. resolve_base lower arch tmp f64 h f = Some r \<and> (\<forall>cfg p. r = Inr (cfg, p) \<longrightarrow> pub_variables (pc_variables cfg))"
proof (cases "parse_user_config f64 h f")
  case (Inr user)
  have "\<exists>r. (case user of None \<Rightarrow> Some None | Some cfg \<Rightarrow> merge_public None (pc_variables cfg)) = Some r \<and> pub_variables r"
  proof (cases user)
    case (Some cfg)
    then obtain ic where "parse_bundle_config f64 h (f_config_path f) = Inr ic" "pc_variables cfg = from_internal_variables (ic_variables ic)"
      using Inr by (auto simp: parse_user_config_def ebind_eq_Inr split: if_splits)
    then have "pub_variables (pc_variables cfg)" using parse_bundle_config_hcl [OF assms] hcl_pub_variables by metis
    then show ?thesis using Some merge_public_total [of None] by simp
  qed simp
  then show ?thesis using Inr by (auto simp: resolve_base_def Let_def split: sum.splits)
qed (simp add: resolve_base_def)

text \<open>C15. \<open>Resolve\<close> never panics, and the defaults \<open>Deploy\<close> applies again from the same defaults file leave
  the resolved configuration as it is.\<close>

theorem resolve_then_deploy_defaults:
  assumes "hcl_ok h" "stat dir = StatDir" "dir \<noteq> []" "adjacent_defaults_path stat dir = Some p" "p \<noteq> []"
  shows "\<exists>r. resolve_config lower stat arch tmp f64 h f dir = Some r \<and>
     (case r of Inl e \<Rightarrow> True
      | Inr (cfg, _) \<Rightarrow> apply_embedded_defaults f64 h cfg p False = Some (Inr cfg))"
proof -
  obtain rb where rb: "resolve_base lower arch tmp f64 h f = Some rb"
      "\<And>cfg q. rb = Inr (cfg, q) \<Longrightarrow> pub_variables (pc_variables cfg)"
    using resolve_base_total [OF assms(1)] by blast
  show ?thesis
  proof (cases rb)
    case (Inl e)
    then show ?thesis using rb(1) by (simp add: resolve_config_def)
  next
    case (Inr x)
    obtain base cp where x: "x = (base, cp)" by fastforce
    show ?thesis
    proof (cases "parse_defaults f64 h p")
      case (Inl e)
      then show ?thesis using rb(1) Inr x assms
        by (simp add: resolve_config_def apply_bundle_defaults_def load_bundle_defaults_def)
    next
      case d: (Inr vars)
      let ?d = "from_internal_variables vars"
      have pub: "pub_variables ?d" "to_internal_variables ?d = vars"
        using hcl_pub_variables parse_defaults_hcl [OF assms(1) d] by blast+
      obtain r where r: "merge_public ?d (pc_variables base) = Some r" "merge_public ?d r = Some r"
        using defaults_idempotent_lemma [OF pub(1) rb(2)] Inr x by blast
      then have "\<exists>w. merge_variables vars (to_internal_variables r) = Some w \<and> from_internal_variables w = r"
        using pub(2) by (simp add: merge_public_def)
      then show ?thesis using rb(1) Inr x assms d r
        by (auto simp: resolve_config_def apply_bundle_defaults_def load_bundle_defaults_def apply_embedded_defaults_def)
    qed
  qed
qed

text \<open>A small file system and HCL library: \<open>d/defaults.uds.hcl\<close> sets \<open>a = 1\<close>, \<open>cfg\<close> sets \<open>a = 2\<close>.\<close>

definition sample_hcl :: "(unit, string, int, int) hcl" where
  "sample_hcl = \<lparr>h_read = (\<lambda>p. Inr p), h_parse = (\<lambda>src p. Inr src),
     h_decode = (\<lambda>file dir. Inr (None, None, Some (Inr (Some 2)))),
     h_attributes = (\<lambda>file. Inr [(''variables'', 1)]),
     h_value = (\<lambda>e dir. Inr (CObj [(''a'', CNum e)])),
     h_syntax_body = (\<lambda>_. True), h_file_calls = (\<lambda>_. False)\<rparr>"

definition sample_stat :: "string \<Rightarrow> stat_result" where
  "sample_stat p = (if p = ''d'' then StatDir else if p = ''d/defaults.uds.hcl'' then StatRegular else StatNotExist)"

definition sample_flags :: cli_flags where
  "sample_flags = \<lparr>f_config_path = ''cfg'', f_log_level = [], f_log_level_changed = False, f_architecture = [],
     f_architecture_changed = False, f_plain_http = False, f_plain_http_changed = False, f_skip_tls = False,
     f_skip_tls_changed = False, f_tmp_dir = [], f_tmp_dir_changed = False, f_concurrency = 3,
     f_concurrency_changed = True, f_prompt = False\<rparr>"

theorem resolve_then_deploy_defaults_witness:
  "\<exists>cfg q. resolve_config (\<lambda>s. s) sample_stat ''amd64'' ''/tmp'' (\<lambda>n :: int. n) sample_hcl sample_flags ''d'' = Some (Inr (cfg, q)) \<and>
     pc_variables cfg = Some [(''a'', VNum 2)] \<and>
     apply_embedded_defaults (\<lambda>n. n) sample_hcl cfg ''d/defaults.uds.hcl'' False = Some (Inr cfg)"
proof -
  have h: "hcl_ok sample_hcl" by (auto simp: hcl_ok_def sample_hcl_def)
  have p: "path_join [''d'', bundle_defaults_file_name] = ''d/defaults.uds.hcl''" by code_simp
  have s: "sample_stat ''d'' = StatDir" "adjacent_defaults_path sample_stat ''d'' = Some ''d/defaults.uds.hcl''"
    by (simp_all add: sample_stat_def adjacent_defaults_path_def p)
  have "\<exists>cfg q. resolve_config (\<lambda>s. s) sample_stat ''amd64'' ''/tmp'' (\<lambda>n :: int. n) sample_hcl sample_flags ''d'' = Some (Inr (cfg, q)) \<and>
     pc_variables cfg = Some [(''a'', VNum 2)]"
    by (simp add: resolve_config_def resolve_base_def parse_user_config_def parse_bundle_config_def sample_hcl_def sample_flags_def
        extract_variables_def variables_object_def from_internal_variables_def to_internal_variables_def resolve_options_def
        default_options_def overlay_cli_def parse_level_def merge_public_def merge_variables_def deep_copy_variables_def
        apply_bundle_defaults_def load_bundle_defaults_def s parse_defaults_def parse_defaults_content_def)
  moreover have "\<exists>r. resolve_config (\<lambda>s. s) sample_stat ''amd64'' ''/tmp'' (\<lambda>n :: int. n) sample_hcl sample_flags ''d'' = Some r \<and>
     (case r of Inl e \<Rightarrow> True
      | Inr (cfg, _) \<Rightarrow> apply_embedded_defaults (\<lambda>n. n) sample_hcl cfg ''d/defaults.uds.hcl'' False = Some (Inr cfg))"
    by (rule resolve_then_deploy_defaults [OF h s(1) _ s(2)]) simp_all
  ultimately show ?thesis by auto
qed

text \<open>The precedence of the option layers: an explicitly set CLI flag wins, then a non-zero value of
  the \<open>options\<close> block of \<open>config.uds.hcl\<close>, then the built-in default.\<close>

lemma option_precedence:
  "resolve_options arch tmp user f =
     (let h = Option.bind user pc_options;
          layer = (\<lambda>changed flag get is_set dflt. if changed then flag
            else (case h of Some opts \<Rightarrow> if is_set (get opts) then get opts else dflt | None \<Rightarrow> dflt));
          text = (\<lambda>changed flag get dflt. if changed then flag
            else (case h of Some opts \<Rightarrow> if get opts \<noteq> [] then get opts else dflt | None \<Rightarrow> dflt))
      in \<lparr>log_level = text (f_log_level_changed f) (f_log_level f) log_level ''info'',
          architecture = text (f_architecture_changed f) (f_architecture f) architecture arch,
          plain_http = layer (f_plain_http_changed f) (f_plain_http f) plain_http (\<lambda>b. b) False,
          skip_tls_verify = layer (f_skip_tls_changed f) (f_skip_tls f) skip_tls_verify (\<lambda>b. b) False,
          tmp_dir = text (f_tmp_dir_changed f) (f_tmp_dir f) tmp_dir tmp,
          concurrency = (if f_concurrency_changed f then f_concurrency f
            else (case h of Some opts \<Rightarrow> if concurrency opts \<noteq> 0 then concurrency opts else 10 | None \<Rightarrow> 10))\<rparr>)"
  by (cases user) (auto simp: resolve_options_def merge_hcl_def overlay_cli_def default_options_def Let_def split: option.splits)

text \<open>C16. \<open>ValidateConfig\<close> accepts a configuration exactly when it and its options are present, the
  concurrency is between 1 and \<open>MaxConcurrency\<close>, the temporary directory, if set, is an existing
  directory and the log level, if set, is one the logger knows; the Zarf and public variants agree with it.\<close>

theorem validate_config_iff:
  "(public_validate_config lower stat cfg = Inr () \<longleftrightarrow>
     (\<exists>c opts. cfg = Some c \<and> pc_options c = Some opts \<and> 1 \<le> concurrency opts \<and> concurrency opts \<le> 25 \<and>
        (tmp_dir opts = [] \<or> stat (tmp_dir opts) = StatDir) \<and>
        (log_level opts = [] \<or> lower (log_level opts) \<in> {''debug'', ''info'', ''warn'', ''warning'', ''error''}))) \<and>
   zarf_validate_config lower stat (to_zarf_config cfg) = public_validate_config lower stat cfg"
proof -
  have "public_validate_config lower stat cfg = Inr () \<longleftrightarrow> (\<exists>c opts. cfg = Some c \<and> pc_options c = Some opts \<and> options_ok lower stat opts)"
    by (auto simp: public_validate_config_def validate_config_def validate_config_structure_def to_internal_config_def
        validate_options_ok ebind_eq_Inr split: option.splits)
  moreover have "zarf_validate_config lower stat (to_zarf_config cfg) = public_validate_config lower stat cfg"
    by (auto simp: public_validate_config_def zarf_validate_config_def validate_config_def validate_config_structure_def
        to_internal_config_def to_bundle_hcl_config_def to_zarf_config_def split: option.splits)
  ultimately show ?thesis by (auto simp: options_ok_def)
qed

theorem validate_config_iff_witness:
  "public_validate_config (\<lambda>s. s) (\<lambda>_. StatDir) (Some \<lparr>pc_global = None, pc_options = Some (default_options ''amd64'' ''/tmp''),
     pc_signature = None, pc_variables = (None :: int variables)\<rparr>) = Inr ()"
  using validate_config_iff [of "\<lambda>s. s" "\<lambda>_. StatDir" "Some \<lparr>pc_global = None, pc_options = Some (default_options ''amd64'' ''/tmp''),
     pc_signature = None, pc_variables = (None :: int variables)\<rparr>"] by (simp add: default_options_def)

subsection \<open>Flatten\<close>





end
