(* ===== verification/Deploy.thy ===== *)
theory Deploy
  imports Orchestrator Config
begin

text \<open>
  Deployment of a bundle and of one package, \<open>internal/zarf/deploy.go\<close>, \<open>deploy_hooks.go\<close> and
  \<open>validation.go\<close>. Calls of the file system, the template engine, the package loader, the hooks and
  Zarf are fields of an environment record; their order is kept as a trace of events. A Go pair of a
  possibly nil result and a possibly nil error is a pair of options. Log output is not modelled.
\<close>

subsection \<open>Values files\<close>

datatype 'e values_error =
    ReadValuesFile string 'e
  | ParseValuesTemplate string 'e
  | RenderValues string 'e
  | CreateTemporaryValuesFile string string 'e
  | WriteTemporaryValuesFile string string 'e
  | CloseTemporaryValuesFile string string 'e
  | TemplateValues string "'e values_error"
  | ParseValues string 'e

text \<open>
  \<open>ve_create n\<close> is the \<open>n\<close>-th \<open>os.CreateTemp\<close> in a directory; writing and closing give an error or nil;
  \<open>ve_values\<close> is Zarf's \<open>value.ParseFiles\<close>.
\<close>

record ('e, 'f, 'vals) values_env =
  ve_read :: "string \<Rightarrow> ('e, string) result"
  ve_template :: "string \<Rightarrow> string \<Rightarrow> ('e, 'f variables \<Rightarrow> ('e, string) result) result"
  ve_create :: "nat \<Rightarrow> string \<Rightarrow> ('e, string) result"
  ve_write :: "string \<Rightarrow> string \<Rightarrow> 'e option"
  ve_close :: "string \<Rightarrow> 'e option"
  ve_values :: "string list \<Rightarrow> ('e, 'vals) result"

definition resolve_values_files :: "string list \<Rightarrow> string \<Rightarrow> string list" where
  "resolve_values_files files dir = map (\<lambda>f. if is_abs f then path_clean f else path_join [dir, f]) files"

text \<open>The loop of \<open>templateValuesFiles\<close>: the files created so far are returned with every error.\<close>

fun template_loop :: "('e, 'f, 'vals) values_env \<Rightarrow> 'f variables \<Rightarrow> string \<Rightarrow> string list \<Rightarrow> string list \<Rightarrow>
    string list \<times> 'e values_error option" where
  "template_loop env vars tmp [] made = (made, None)"
| "template_loop env vars tmp (f # fs) made =
     (case ve_read env f of
        Inl e \<Rightarrow> (made, Some (ReadValuesFile f e))
      | Inr src \<Rightarrow>
     (case ve_template env (path_base f) src of
        Inl e \<Rightarrow> (made, Some (ParseValuesTemplate f e))
      | Inr render \<Rightarrow>
     (case render vars of
        Inl e \<Rightarrow> (made, Some (RenderValues f e))
      | Inr text \<Rightarrow>
     (case ve_create env (length made) tmp of
        Inl e \<Rightarrow> (made, Some (CreateTemporaryValuesFile f tmp e))
      | Inr name \<Rightarrow>
     (case ve_write env name text of
        Some e \<Rightarrow> (made @ [name], Some (WriteTemporaryValuesFile name f e))
      | None \<Rightarrow>
     (case ve_close env name of
        Some e \<Rightarrow> (made @ [name], Some (CloseTemporaryValuesFile name f e))
      | None \<Rightarrow> template_loop env vars tmp fs (made @ [name])))))))"

definition template_values_files :: "('e, 'f, 'vals) values_env \<Rightarrow> string list \<Rightarrow> 'f variables \<Rightarrow> string \<Rightarrow>
    string list \<times> 'e values_error option" where
  "template_values_files env files vars tmp =
     (if vars = None then (files, None) else template_loop env vars tmp files [])"

text \<open>
  \<open>prepareValuesAndVariables\<close> with the files its deferred \<open>cleanupTempFiles\<close> removes. \<open>flat\<close> is
  \<open>Flatten\<close>; a package without values files leaves the values nil.
\<close>

definition prepare_values_and_variables :: "('e, 'f, 'vals) values_env \<Rightarrow> ('f variables \<Rightarrow> (string \<rightharpoonup> string)) \<Rightarrow>
    'f variables \<Rightarrow> string \<Rightarrow> string \<Rightarrow> package \<Rightarrow>
    ('e values_error, 'vals option \<times> (string \<rightharpoonup> string)) result \<times> string list" where
  "prepare_values_and_variables env flat vars tmp bundle_dir p =
     (if length (pkg_values_files p) > 0 then
        (let (files, err) = template_values_files env (resolve_values_files (pkg_values_files p) bundle_dir) vars tmp;
             cleaned = (if vars \<noteq> None then files else [])
         in case err of
              Some e \<Rightarrow> (Inl (TemplateValues (pkg_name p) e), cleaned)
            | None \<Rightarrow> (case ve_values env files of
                Inl e \<Rightarrow> (Inl (ParseValues (pkg_name p) e), cleaned)
              | Inr v \<Rightarrow> (Inr (Some v, flat vars), cleaned)))
      else (Inr (None, flat vars), []))"

subsection \<open>One package\<close>

record 'vals deploy_options =
  do_values :: "'vals option"
  do_set_variables :: "string \<rightharpoonup> string"
  do_namespace_override :: string

record 'f package_options =
  po_config :: "'f zarf_config option"
  po_bundle_dir :: string
  po_is_partial :: bool
  po_bundle_path :: string

datatype package_event =
    MadeDir string
  | RemovedDir string
  | LoadedFrom string
  | PreDeployed
  | ClusterDeployed
  | PostDeployed
  | CleanedLayout

datatype 'e package_error =
    OptionsInvalid config_error
  | BundleDirRequired
  | NilPackage
  | CreateTemporaryDirectory string string 'e
  | PrepareFailed "'e values_error"
  | RemoveStaging 'e
  | FallbackDirectory 'e
  | LoadFailed 'e
  | NilLayout string
  | PackagePreDeployHook string 'e
  | DeployFailed string 'e
  | PackagePostDeployHook string 'e

text \<open>
  \<open>pe_mkdir n\<close> is the \<open>n\<close>-th \<open>os.MkdirTemp\<close>, \<open>pe_remove\<close> the error of \<open>os.RemoveAll\<close>, \<open>pe_load n\<close> the
  \<open>n\<close>-th call of the loader, \<open>pe_staging_root\<close> what the loader answers when it is asked for a staging
  root (empty when it is not asked), \<open>pe_retryable\<close> is \<open>isRetryableStagingError\<close>. A nil hook is the
  hook that changes nothing. \<open>pe_pre\<close> may change both option structures.
\<close>

record ('e, 'f, 'vals, 'lay) package_env =
  pe_staging_root :: string
  pe_mkdir :: "nat \<Rightarrow> string \<Rightarrow> ('e, string) result"
  pe_remove :: "string \<Rightarrow> 'e option"
  pe_prepare :: "('e values_error, 'vals option \<times> (string \<rightharpoonup> string)) result"
  pe_load :: "nat \<Rightarrow> string \<Rightarrow> bool \<Rightarrow> ('e, 'lay option \<times> bool) result"
  pe_retryable :: "'e \<Rightarrow> bool"
  pe_pre :: "('lay \<Rightarrow> 'vals deploy_options \<Rightarrow> 'f package_options \<Rightarrow> ('e, 'lay \<times> 'vals deploy_options \<times> 'f package_options) result) option"
  pe_deploy :: "'lay \<Rightarrow> 'vals deploy_options \<Rightarrow> bool \<Rightarrow> 'e option"
  pe_post :: "'e option option"

definition package_options_validate :: "(string \<Rightarrow> string) \<Rightarrow> (string \<Rightarrow> stat_result) \<Rightarrow> 'f package_options \<Rightarrow>
    ('e package_error, config_options) result" where
  "package_options_validate lower stat opts =
     ebind (map_error OptionsInvalid (zarf_validate_config lower stat (po_config opts))) (\<lambda>_.
       if po_bundle_dir opts = [] then Inl BundleDirRequired
       else Inr (the (Option.bind (po_config opts) zc_options)))"

text \<open>Everything after the layout is loaded; the deferred cleanup of the layout comes last.\<close>

definition deploy_loaded :: "('e, 'f, 'vals, 'lay) package_env \<Rightarrow> package \<Rightarrow> 'vals option \<times> (string \<rightharpoonup> string) \<Rightarrow>
    'f package_options \<Rightarrow> 'lay \<Rightarrow> 'e package_error option \<times> package_event list" where
  "deploy_loaded env p vals opts lay =
     (let dopts = \<lparr>do_values = fst vals, do_set_variables = snd vals, do_namespace_override = pkg_namespace p\<rparr> in
      case (case pe_pre env of None \<Rightarrow> Inr (lay, dopts, opts) | Some pre \<Rightarrow> pre lay dopts opts) of
        Inl e \<Rightarrow> (Some (PackagePreDeployHook (pkg_name p) e), [PreDeployed, CleanedLayout])
      | Inr (lay', dopts', opts') \<Rightarrow>
         (case pe_deploy env lay' dopts' (po_is_partial opts') of
            Some e \<Rightarrow> (Some (DeployFailed (pkg_name p) e), [PreDeployed, ClusterDeployed, CleanedLayout])
          | None \<Rightarrow>
             (case (case pe_post env of None \<Rightarrow> None | Some r \<Rightarrow> r) of
                Some e \<Rightarrow> (Some (PackagePostDeployHook (pkg_name p) e), [PreDeployed, ClusterDeployed, PostDeployed, CleanedLayout])
              | None \<Rightarrow> (None, [PreDeployed, ClusterDeployed, PostDeployed, CleanedLayout]))))"

definition use_layout :: "('e, 'f, 'vals, 'lay) package_env \<Rightarrow> package \<Rightarrow> 'f package_options \<Rightarrow> 'vals option \<times> (string \<rightharpoonup> string) \<Rightarrow>
    ('e, 'lay option \<times> bool) result \<Rightarrow> 'e package_error option \<times> package_event list" where
  "use_layout env p opts vals loaded = (case loaded of
       Inl e \<Rightarrow> (Some (LoadFailed e), [])
     | Inr (lay, partial) \<Rightarrow> (case lay of
         None \<Rightarrow> (Some (NilLayout (pkg_name p)), [])
       | Some l \<Rightarrow> deploy_loaded env p vals (opts\<lparr>po_is_partial := partial\<rparr>) l))"

text \<open>
  Everything after the temporary directory \<open>d\<close> exists, with its deferred removal; \<open>colocated\<close> says
  that it lies in the loader's staging root, which allows one retry elsewhere. When the fallback
  directory cannot be made the deferred removal gets the empty name, which removes nothing.
\<close>

definition deploy_in :: "('e, 'f, 'vals, 'lay) package_env \<Rightarrow> package \<Rightarrow> 'f package_options \<Rightarrow> string \<Rightarrow> string \<Rightarrow> bool \<Rightarrow>
    'e package_error option \<times> package_event list" where
  "deploy_in env p opts tmp d colocated =
     (let finish = (\<lambda>(err, evs) last. (err, evs @ [RemovedDir last])) in case pe_prepare env of
        Inl e \<Rightarrow> finish (Some (PrepareFailed e), []) d
      | Inr vals \<Rightarrow>
         (case pe_load env 0 d (po_is_partial opts) of
            Inl e \<Rightarrow>
              if colocated \<and> pe_retryable env e then
                (case pe_remove env d of
                   Some e' \<Rightarrow> finish (Some (RemoveStaging e'), [LoadedFrom d]) d
                 | None \<Rightarrow>
                    (case pe_mkdir env 2 tmp of
                       Inl e' \<Rightarrow> finish (Some (FallbackDirectory e'), [LoadedFrom d, RemovedDir d]) []
                     | Inr d' \<Rightarrow>
                        (let (err, evs) = use_layout env p opts vals (pe_load env 1 d' (po_is_partial opts)) in
                         finish (err, [LoadedFrom d, RemovedDir d, MadeDir d', LoadedFrom d'] @ evs) d')))
              else finish (Some (LoadFailed e), [LoadedFrom d]) d
          | Inr loaded \<Rightarrow>
              (let (err, evs) = use_layout env p opts vals (Inr loaded) in finish (err, LoadedFrom d # evs) d)))"

definition deploy_package :: "(string \<Rightarrow> string) \<Rightarrow> (string \<Rightarrow> stat_result) \<Rightarrow> ('e, 'f, 'vals, 'lay) package_env \<Rightarrow>
    package option \<Rightarrow> 'f package_options \<Rightarrow> 'e package_error option \<times> package_event list" where
  "deploy_package lower stat env pkg opts =
     (case package_options_validate lower stat opts of
        Inl e \<Rightarrow> (Some e, [])
      | Inr cfg \<Rightarrow>
     (case pkg of
        None \<Rightarrow> (Some NilPackage, [])
      | Some p \<Rightarrow>
         (let root = pe_staging_root env;
              made = (\<lambda>d colocated. let (err, evs) = deploy_in env p opts (tmp_dir cfg) d colocated in (err, MadeDir d # evs))
          in case pe_mkdir env 0 (if root \<noteq> [] then root else tmp_dir cfg) of
               Inr d \<Rightarrow> made d (root \<noteq> [])
             | Inl e \<Rightarrow>
                 if root \<noteq> [] then
                   (case pe_mkdir env 1 (tmp_dir cfg) of
                      Inl e' \<Rightarrow> (Some (CreateTemporaryDirectory (pkg_name p) (tmp_dir cfg) e'), [])
                    | Inr d \<Rightarrow> made d False)
                 else (Some (CreateTemporaryDirectory (pkg_name p) (tmp_dir cfg) e), []))))"

subsection \<open>The bundle\<close>

record deploy_result =
  dr_bundle_name :: string
  dr_packages :: "string list"

record 'f bundle_options =
  bo_config :: "'f zarf_config option"
  bo_bundle_path :: string
  bo_bundle_dir :: string
  bo_packages :: "string list"

datatype 'e bundle_deploy_error =
    BundleConfigInvalid config_error
  | NilBundle
  | BundleInvalid string "spec_error list"
  | GraphFailed string dep_error
  | LevelsFailed string dep_error
  | SelectionInvalid dep_error
  | BundlePreDeployHook 'e
  | HookLeftConfigInvalid
  | RunFailed "'e run_result"
  | BundlePostDeployHook 'e

text \<open>
  \<open>ord\<close> holds the visiting orders of the maps the call iterates: 0 and 1 for the construction of the
  graph, the others for its levels; \<open>sel_ord\<close> is that of the requested names. \<open>pre\<close> and \<open>post\<close> are the
  hooks after \<open>withDefaults\<close>; \<open>run\<close> is \<open>Run\<close> of the orchestrator with the result and the set of
  deployed names. The last component lists the steps that reach outside.
\<close>

datatype bundle_event = BundlePreDeploy | RanLevels "package list list" int | BundlePostDeploy

definition with_defaults_pre :: "('o \<Rightarrow> ('e, 'o) result) option \<Rightarrow> 'o \<Rightarrow> ('e, 'o) result" where
  "with_defaults_pre h = (case h of None \<Rightarrow> Inr | Some f \<Rightarrow> f)"

definition with_defaults_post :: "'e option option \<Rightarrow> 'e option" where
  "with_defaults_post h = (case h of None \<Rightarrow> None | Some r \<Rightarrow> r)"

definition deploy_bundle :: "(string \<Rightarrow> string) \<Rightarrow> (string \<Rightarrow> stat_result) \<Rightarrow> (nat \<Rightarrow> string list) \<Rightarrow> string list \<Rightarrow>
    ('f bundle_options \<Rightarrow> ('e, 'f bundle_options) result) option \<Rightarrow> 'e option option \<Rightarrow>
    (package list list \<Rightarrow> int \<Rightarrow> 'f package_options \<Rightarrow> 'e run_result \<times> string set) \<Rightarrow>
    uds_bundle option \<Rightarrow> 'f bundle_options \<Rightarrow> (deploy_result option \<times> 'e bundle_deploy_error option) \<times> bundle_event list" where
  "deploy_bundle lower stat ord sel_ord pre post run bundle opts =
     (case zarf_validate_config lower stat (bo_config opts) of
        Inl e \<Rightarrow> ((None, Some (BundleConfigInvalid e)), [])
      | Inr _ \<Rightarrow>
     (case bundle of
        None \<Rightarrow> ((None, Some NilBundle), [])
      | Some b \<Rightarrow>
     if validate b \<noteq> [] then ((None, Some (BundleInvalid (md_name (metadata b)) (validate b))), [])
     else
     (case the (build_dependency_graph (ord 0) (ord 1) b) of
        Inl e \<Rightarrow> ((None, Some (GraphFailed (md_name (metadata b)) e)), [])
      | Inr d \<Rightarrow>
     (case topological_levels (\<lambda>i. ord (i + 2)) d of
        Inl e \<Rightarrow> ((None, Some (LevelsFailed (md_name (metadata b)) e)), [])
      | Inr levels \<Rightarrow>
     (case ebind (validate_package_names (bo_packages opts) (packages b))
             (\<lambda>_. filter_levels sel_ord levels (bo_packages opts)) of
        Inl e \<Rightarrow> ((None, Some (SelectionInvalid e)), [])
      | Inr levels' \<Rightarrow>
     (case with_defaults_pre pre opts of
        Inl e \<Rightarrow> ((None, Some (BundlePreDeployHook e)), [BundlePreDeploy])
      | Inr opts' \<Rightarrow>
     (case Option.bind (bo_config opts') zc_options of
        None \<Rightarrow> ((None, Some HookLeftConfigInvalid), [BundlePreDeploy])
      | Some copts \<Rightarrow>
         (let bundle_dir = (if bo_bundle_dir opts' \<noteq> [] then bo_bundle_dir opts' else path_dir (bo_bundle_path opts'));
              popts = \<lparr>po_config = bo_config opts', po_bundle_dir = bundle_dir, po_is_partial = False, po_bundle_path = bo_bundle_path opts'\<rparr>;
              (res, done) = run levels' (concurrency copts) popts;
              evs = [BundlePreDeploy, RanLevels levels' (concurrency copts)]
          in if res \<noteq> RunOk then ((None, Some (RunFailed res)), evs)
             else (let result = \<lparr>dr_bundle_name = md_name (metadata b),
                        dr_packages = filter (\<lambda>n. n \<in> done) (map pkg_name (concat levels'))\<rparr> in
               case with_defaults_post post of
                 Some e \<Rightarrow> ((Some result, Some (BundlePostDeployHook e)), evs @ [BundlePostDeploy])
               | None \<Rightarrow> ((Some result, None), evs @ [BundlePostDeploy]))))))))))"

subsection \<open>A configuration\<close>

definition sample_zarf_config :: "unit zarf_config" where
  "sample_zarf_config = \<lparr>zc_options = Some \<lparr>log_level = [], architecture = [], plain_http = False, skip_tls_verify = False,
     tmp_dir = ''t'', concurrency = 1\<rparr>, zc_variables = None\<rparr>"

lemma sample_zarf_config_ok: "zarf_validate_config (\<lambda>s. s) (\<lambda>_. StatDir) (Some sample_zarf_config) = Inr ()"
  by (simp add: zarf_validate_config_def to_bundle_hcl_config_def validate_config_def validate_config_structure_def
      validate_options_ok options_ok_def sample_zarf_config_def)

end
