(* ===== verification/Selection.thy ===== *)
theory Selection
  imports Dependency_Properties
begin

text \<open>
  The plan both \<open>DeployBundle\<close> and \<open>RemoveBundle\<close> compute: levels of a validated bundle, restricted to the
  requested names. The lemmas say which packages it holds and that it keeps the dependency order.
\<close>

definition selected :: "string list \<Rightarrow> string \<Rightarrow> bool" where
  "selected names n \<longleftrightarrow> names = [] \<or> n \<in> set names"

lemma filter_levels_concat:
  assumes "filter_levels ord ls names = Inr ls'" "set ord = set names"
  shows "concat ls' = filter (\<lambda>p. selected names (pkg_name p)) (concat ls)"
proof (cases "names = []")
  case True
  then show ?thesis using assms(1) by (simp add: filter_levels_def selected_def)
next
  case False
  then show ?thesis using assms filter_levels_Inr [of names ord ls ls'] concat_filter_levels by (simp add: selected_def)
qed

lemma selected_plan:
  assumes "validate b = []" "range_order (collect_packages (packages b)) ord1"
    "range_order (collect_packages (packages b)) ord2" "build_dependency_graph ord1 ord2 b = Some (Inr d)"
    "orders_ok d ord" "topological_levels ord d = Inr ls" "filter_levels ord4 ls names = Inr ls'" "set ord4 = set names"
  shows "distinct (map pkg_name (concat ls'))"
    and "set (concat ls') = {p \<in> set (packages b). selected names (pkg_name p)}"
    and "concat ls' = xs @ p # ys \<Longrightarrow> {m \<in> set (dep_names p). selected names m} \<subseteq> pkg_name ` set xs"
proof -
  note bp = built_plan [OF assms(1-4)]
  obtain ls0 where "topological_levels ord d = Inr ls0" "set (concat ls0) = set (packages b)"
      "distinct (map pkg_name (concat ls0))" and deps: "\<And>p. p \<in> set (packages b) \<Longrightarrow> deps_of d (pkg_name p) = dep_names p"
    using plan_of_bundle [OF bp assms(5)] by metis
  then have ls: "set (concat ls) = set (packages b)" "distinct (map pkg_name (concat ls))" using assms(6) by simp_all
  note cs = filter_levels_concat [OF assms(7,8)]
  show "distinct (map pkg_name (concat ls'))" using ls(2) unfolding cs by (rule distinct_map_filter)
  show "set (concat ls') = {p \<in> set (packages b). selected names (pkg_name p)}" using ls(1) cs by auto
  assume "concat ls' = xs @ p # ys"
  then obtain us vs where uv: "concat ls = us @ p # vs" "filter (\<lambda>p. selected names (pkg_name p)) us = xs"
    using cs order_in_filter [of "\<lambda>p. selected names (pkg_name p)" "concat ls" xs p ys] by auto
  have "p \<in> set (packages b)" using ls(1) uv(1) by (metis in_set_conv_decomp)
  then have "set (dep_names p) \<subseteq> pkg_name ` set us"
    using topo.plan_prefix [of "(d, ord)" ls us p vs] bp(1) assms(5,6) uv(1) deps by (simp add: dag_of_def)
  then show "{m \<in> set (dep_names p). selected names m} \<subseteq> pkg_name ` set xs"
    using uv(2) [symmetric] by (fastforce simp: subset_iff)
qed

text \<open>The order of a removal: the levels backwards, each level forwards.\<close>

lemma filter_levels_concat_rev:
  assumes "filter_levels ord ls names = Inr ls'" "set ord = set names"
  shows "concat (rev ls') = filter (\<lambda>p. selected names (pkg_name p)) (concat (rev ls))"
proof (cases "names = []")
  case True
  then show ?thesis using assms(1) by (simp add: filter_levels_def selected_def)
next
  case False
  then have "ls' = filter (\<lambda>l. length l > 0) (map (filter (\<lambda>p. selected names (pkg_name p))) ls)"
    using assms filter_levels_Inr [of names ord ls ls'] by (simp add: selected_def)
  then show ?thesis using concat_filter_levels [of _ "rev ls"] by (simp add: rev_map rev_filter)
qed

lemma selected_teardown:
  assumes "validate b = []" "range_order (collect_packages (packages b)) ord1"
    "range_order (collect_packages (packages b)) ord2" "build_dependency_graph ord1 ord2 b = Some (Inr d)"
    "orders_ok d ord" "topological_levels ord d = Inr ls" "filter_levels ord4 ls names = Inr ls'" "set ord4 = set names"
    "concat (rev ls') = xs @ p # ys"
  shows "{m \<in> set (dep_names p). selected names m} \<subseteq> pkg_name ` set ys"
proof
  fix m assume m: "m \<in> {m \<in> set (dep_names p). selected names m}"
  note bp = built_plan [OF assms(1-4)]
  obtain ls0 where "topological_levels ord d = Inr ls0" "set (concat ls0) = set (packages b)"
      and deps: "\<And>p. p \<in> set (packages b) \<Longrightarrow> deps_of d (pkg_name p) = dep_names p"
    using plan_of_bundle [OF bp assms(5)] by metis
  then have ls: "set (concat (rev ls)) = set (packages b)" using assms(6) by simp
  obtain us vs where uv: "concat (rev ls) = us @ p # vs" "filter (\<lambda>p. selected names (pkg_name p)) us = xs"
    using filter_levels_concat_rev [OF assms(7,8)] assms(9) order_in_filter [of "\<lambda>p. selected names (pkg_name p)" "concat (rev ls)" xs p ys] by auto
  have "p \<in> set (concat (rev ls'))" unfolding assms(9) by simp
  then have "selected names (pkg_name p)" unfolding filter_levels_concat_rev [OF assms(7,8)] by simp
  then have ys: "ys = filter (\<lambda>p. selected names (pkg_name p)) vs"
    using filter_levels_concat_rev [OF assms(7,8)] assms(9) uv by auto
  have pb: "p \<in> set (packages b)" using ls uv(1) by (metis in_set_conv_decomp)
  then have "m \<in> pkg_name ` set (packages b)" using bp(2) m by (auto simp: bundle_ok_def package_ok_def)
  then obtain q where q: "q \<in> set (concat (rev ls))" "pkg_name q = m" unfolding ls by blast
  have ok: "case (d, ord) of (d, ord) \<Rightarrow> dag_ok d \<and> orders_ok d ord" using bp(1) assms(5) by (simp add: dag_of_def)
  have plan: "(case (d, ord) of (d, ord) \<Rightarrow> topological_levels ord d) = Inr ls" using assms(6) by simp
  have "q \<notin> set us"
  proof
    assume "q \<in> set us"
    then obtain as bs where "us = as @ q # bs" by (metis split_list)
    then have "concat (rev ls) = as @ q # (bs @ p # vs)" using uv(1) by simp
    from topo.plan_reverse [OF ok plan this, of p] show False using m q(2) deps [OF pb] by simp
  qed
  moreover have "q \<noteq> p" using topo.plan_reverse [OF ok plan uv(1), of p] m q(2) deps [OF pb] by auto
  ultimately have "q \<in> set vs" using q(1) uv(1) by auto
  then show "m \<in> pkg_name ` set ys" using q(2) m unfolding ys by auto
qed

subsection \<open>A bundle with one package\<close>

definition singleton_bundle :: uds_bundle where
  "singleton_bundle = mk_bundle [sample_package ''a'' []]"

lemma singleton_valid: "validate singleton_bundle = []"
  by (simp add: singleton_bundle_def mk_bundle_def sample_package_def validate_def validate_header_def
      supported_api_version_def validate_dependency_def contains_any_def)

lemma singleton_range: "range_order (collect_packages (packages singleton_bundle)) [''a'']"
  unfolding range_order_def dom_collect_packages by (simp add: singleton_bundle_def mk_bundle_def sample_package_def)

lemma singleton_levels:
  obtains d where "build_dependency_graph [''a''] [''a''] singleton_bundle = Some (Inr d)"
    "topological_levels (\<lambda>_. [''a'']) d = Inr [[sample_package ''a'' []]]"
proof -
  have ok: "bundle_ok singleton_bundle" using singleton_valid validate_iff_bundle_ok by blast
  have "acyclic (declared_deps singleton_bundle)"
    by (simp add: declared_deps_def singleton_bundle_def mk_bundle_def sample_package_def acyclic_def)
  then obtain d where d: "build_dependency_graph [''a''] [''a''] singleton_bundle = Some (Inr d)"
    using build_dependency_graph_cases [OF ok singleton_range singleton_range] by metis
  note bp = built_plan [OF singleton_valid singleton_range singleton_range d]
  have "orders_ok d (\<lambda>_. [''a''])" using singleton_range bp(1) by (simp add: orders_ok_def dag_of_def)
  then obtain ls where ls: "topological_levels (\<lambda>_. [''a'']) d = Inr ls" "levels_from d {} ls"
      "set (concat ls) = {sample_package ''a'' []}" "distinct (map pkg_name (concat ls))"
    using plan_of_bundle [OF bp] by (metis (no_types, lifting) singleton_bundle_def mk_bundle_def uds_bundle.simps(3)
        list.set(1) list.simps(15))
  have "\<forall>l \<in> set ls. l \<noteq> []" using levels_from_sorted [OF _ ls(2)] bp(1) by (simp add: dag_of_def)
  moreover have "distinct (concat ls)" using ls(4) distinct_map by blast
  then have "concat ls = [sample_package ''a'' []]" using ls(3)
    by (metis distinct.simps(2) empty_iff list.set(1) list.set_cases list.set_intros(1,2) neq_Nil_conv singletonD singletonI)
  ultimately have "ls = [[sample_package ''a'' []]]"
    by (cases ls) (auto simp: append_eq_Cons_conv split: list.splits)
  then show thesis using that d ls(1) by blast
qed

end
