(* ===== verification/Deploy_Properties.thy ===== *)
theory Deploy_Properties
  imports Deploy Orchestrator_Properties Selection
begin

text \<open>
  Properties of a deployment: temporary files and directories are cleaned up on every path, the hooks
  frame the cluster deployment, and a successful bundle deployment deployed the selection in
  dependency order.
\<close>

subsection \<open>Values files\<close>

lemma template_loop_made:
  "template_loop env vars tmp fs made = (out, err) \<Longrightarrow>
   \<exists>ns. out = made @ ns \<and> length ns \<le> length fs \<and> (err = None \<longrightarrow> length ns = length fs) \<and>
     (\<forall>i < length ns. ve_create env (length made + i) tmp = Inr (ns ! i))"
proof (induction env vars tmp fs made rule: template_loop.induct)
  case (2 env vars tmp f fs made)
  show ?case
  proof (cases "\<exists>src render body name. ve_read env f = Inr src \<and> ve_template env (path_base f) src = Inr render \<and>
      render vars = Inr body \<and> ve_create env (length made) tmp = Inr name")
    case False
    then have "out = made \<and> err \<noteq> None" using 2(2) by (auto split: sum.splits)
    then show ?thesis by simp
  next
    case True
    then obtain src render body name where ok: "ve_read env f = Inr src" "ve_template env (path_base f) src = Inr render"
      "render vars = Inr body" "ve_create env (length made) tmp = Inr name" by blast
    show ?thesis
    proof (cases "ve_write env name body = None \<and> ve_close env name = None")
      case True
      then have "template_loop env vars tmp fs (made @ [name]) = (out, err)" using 2(2) ok by simp
      then obtain ns where ns: "out = (made @ [name]) @ ns" "length ns \<le> length fs" "err = None \<longrightarrow> length ns = length fs"
        "\<forall>i < length ns. ve_create env (length (made @ [name]) + i) tmp = Inr (ns ! i)"
        using 2(1) [OF ok(1-4)] True by metis
      have "ve_create env (length made + i) tmp = Inr ((name # ns) ! i)" if "i < length (name # ns)" for i
        using that ns(4) ok(4) by (cases i) auto
      then show ?thesis using ns(1-3) by (intro exI [of _ "name # ns"]) simp
    next
      case False
      then have "out = made @ [name] \<and> err \<noteq> None" using 2(2) ok by (auto split: option.splits)
      then show ?thesis using ok(4) by (intro exI [of _ "[name]"]) auto
    qed
  qed
qed simp

text \<open>The files \<open>prepareValuesAndVariables\<close> removes are exactly the temporary files it created, in
  order and on every path: one per values file when it succeeds, none when there are no variables to
  template with; the author's values files are parsed but never removed.\<close>

lemma prepare_values_cleanup:
  assumes "prepare_values_and_variables env flat vars tmp dir p = (r, cleaned)"
  shows "(\<forall>i < length cleaned. ve_create env i tmp = Inr (cleaned ! i)) \<and>
     length cleaned \<le> length (pkg_values_files p) \<and>
     (vars = None \<longrightarrow> cleaned = []) \<and>
     (\<forall>v sv. r = Inr (v, sv) \<longrightarrow> sv = flat vars \<and>
        (if pkg_values_files p = [] then v = None
         else \<exists>w. v = Some w \<and> ve_values env
           (if vars = None then resolve_values_files (pkg_values_files p) dir else cleaned) = Inr w) \<and>
        (vars \<noteq> None \<longrightarrow> length cleaned = length (pkg_values_files p)))"
proof (cases "pkg_values_files p = []")
  case True
  then show ?thesis using assms by (auto simp: prepare_values_and_variables_def)
next
  case ne: False
  let ?fs = "resolve_values_files (pkg_values_files p) dir"
  show ?thesis
  proof (cases "vars = None")
    case True
    then show ?thesis using assms ne
      by (auto simp: prepare_values_and_variables_def template_values_files_def split: sum.splits)
  next
    case False
    obtain files err where fe: "template_loop env vars tmp ?fs [] = (files, err)" by fastforce
    then have t: "template_values_files env ?fs vars tmp = (files, err)" using False by (cases vars) (simp_all add: template_values_files_def)
    have made: "length files \<le> length ?fs" "err = None \<longrightarrow> length files = length ?fs"
      "\<forall>i < length files. ve_create env i tmp = Inr (files ! i)"
      using template_loop_made [OF fe] by auto
    have len: "length ?fs = length (pkg_values_files p)" by (simp add: resolve_values_files_def)
    show ?thesis using assms ne False t made len
      by (auto simp: prepare_values_and_variables_def split: sum.splits option.splits)
  qed
qed

definition sample_values_env :: "(unit, unit, string list) values_env" where
  "sample_values_env = \<lparr>ve_read = (\<lambda>p. Inr p), ve_template = (\<lambda>n src. Inr (\<lambda>_. Inr src)),
     ve_create = (\<lambda>n d. Inr (d @ show_nat n)), ve_write = (\<lambda>_ _. None), ve_close = (\<lambda>_. None), ve_values = Inr\<rparr>"

lemma prepare_values_cleanup_witness:
  "snd (prepare_values_and_variables sample_values_env (\<lambda>_. Map.empty) (Some []) ''t'' ''d''
     ((sample_package ''a'' [])\<lparr>pkg_values_files := [''v'']\<rparr>)) = [''t0'']"
proof -
  let ?p = "(sample_package ''a'' [])\<lparr>pkg_values_files := [''v'']\<rparr>"
  obtain r cleaned where e: "prepare_values_and_variables sample_values_env (\<lambda>_. Map.empty) (Some []) ''t'' ''d'' ?p = (r, cleaned)"
    by fastforce
  have s: "show_nat 0 = ''0''" by code_simp
  have "\<exists>v sv. r = Inr (v, sv)" using e
    by (auto simp: prepare_values_and_variables_def sample_values_env_def template_values_files_def resolve_values_files_def)
  then have "length cleaned = 1" "ve_create sample_values_env 0 ''t'' = Inr (cleaned ! 0)"
    using prepare_values_cleanup [OF e] by auto
  then show ?thesis using e by (cases cleaned) (auto simp: sample_values_env_def s)
qed

subsection \<open>One package\<close>

text \<open>Each directory made is removed later.\<close>

fun dirs_ok :: "package_event list \<Rightarrow> bool" where
  "dirs_ok [] = True"
| "dirs_ok (MadeDir d # evs) = (RemovedDir d \<in> set evs \<and> dirs_ok evs)"
| "dirs_ok (_ # evs) = dirs_ok evs"

lemma dirs_ok_append_tail: "(\<forall>d. MadeDir d \<notin> set evs) \<Longrightarrow> dirs_ok (evs @ ys) = dirs_ok ys"
  by (induction evs rule: dirs_ok.induct) auto

lemma dirs_okD: "dirs_ok evs \<Longrightarrow> evs = xs @ MadeDir d # ys \<Longrightarrow> RemovedDir d \<in> set ys"
proof (induction evs arbitrary: xs)
  case (Cons e evs)
  then show ?case by (cases xs; cases e) auto
qed simp

definition framed :: "'e package_error option \<Rightarrow> package_event list \<Rightarrow> bool" where
  "framed err evs \<longleftrightarrow>
     evs \<in> {[PreDeployed, CleanedLayout], [PreDeployed, ClusterDeployed, CleanedLayout],
       [PreDeployed, ClusterDeployed, PostDeployed, CleanedLayout]} \<and>
     (err = None \<longrightarrow> evs = [PreDeployed, ClusterDeployed, PostDeployed, CleanedLayout]) \<and>
     (evs = [PreDeployed, ClusterDeployed, CleanedLayout] \<longrightarrow> (\<exists>n e. err = Some (DeployFailed n e))) \<and>
     (evs = [PreDeployed, CleanedLayout] \<longrightarrow> (\<exists>n e. err = Some (PackagePreDeployHook n e)))"

lemma deploy_loaded_framed: "deploy_loaded env p vals opts lay = (err, evs) \<Longrightarrow> framed err evs"
  by (auto simp: deploy_loaded_def framed_def Let_def split: sum.splits option.splits prod.splits)

lemma framed_no_dirs: "framed err evs \<Longrightarrow> MadeDir d \<notin> set evs" "framed err evs \<Longrightarrow> RemovedDir d \<notin> set evs"
  by (auto simp: framed_def)

lemma filter_frame: "framed err evs \<Longrightarrow> filter (\<lambda>e. e \<in> {PreDeployed, ClusterDeployed, PostDeployed, CleanedLayout}) evs = evs"
  by (auto simp: framed_def)

lemma use_layout_framed:
  assumes "use_layout env p opts vals l = (er, ev)"
  shows "framed er ev \<or> ev = [] \<and> er \<noteq> None"
proof (cases l)
  case (Inl e)
  then show ?thesis using assms by (auto simp: use_layout_def)
next
  case (Inr x)
  obtain lay partial where x: "x = (lay, partial)" by fastforce
  show ?thesis
  proof (cases lay)
    case None
    then show ?thesis using assms Inr x by (auto simp: use_layout_def)
  next
    case (Some lay')
    then show ?thesis using assms Inr x by (auto simp: use_layout_def dest!: deploy_loaded_framed)
  qed
qed

lemma mid:
  assumes "framed er ev \<or> ev = [] \<and> er \<noteq> None" "\<forall>y. MadeDir y \<notin> set pre"
  shows "dirs_ok (MadeDir x # pre @ ev @ [RemovedDir x])"
proof -
  have "\<forall>y. MadeDir y \<notin> set (pre @ ev)" using assms framed_no_dirs(1) by fastforce
  then show ?thesis using dirs_ok_append_tail [of "pre @ ev" "[RemovedDir x]"] by simp
qed

text \<open>A run of \<open>deploy_in\<close>: an optional retry, then the loaded part, then the removal.\<close>

lemma deploy_in_cases:
  assumes "deploy_in env p opts tmp d colocated = (err, evs)"
  shows "\<exists>pre mid last. evs = pre @ mid @ [RemovedDir last] \<and> dirs_ok (MadeDir d # evs) \<and>
     (framed err mid \<or> mid = [] \<and> err \<noteq> None) \<and> set pre \<subseteq> range MadeDir \<union> range RemovedDir \<union> range LoadedFrom \<and>
     (\<forall>x. RemovedDir x \<in> set evs \<longrightarrow> x = d \<or> x = [] \<or> MadeDir x \<in> set evs)"
proof -
  show ?thesis
  proof (cases "pe_prepare env")
    case (Inl e)
    then show ?thesis using assms
      by (intro exI [of _ "[]"] exI [of _ "[]"] exI [of _ d]) (auto simp: deploy_in_def)
  next
    case (Inr vals)
    note v = Inr
    show ?thesis
    proof (cases "pe_load env 0 d (po_is_partial opts)")
      case (Inr loaded)
      obtain er ev where u: "use_layout env p opts vals (Inr loaded) = (er, ev)" by fastforce
      then have "err = er" "evs = [LoadedFrom d] @ ev @ [RemovedDir d]"
        using assms v Inr u by (simp_all add: deploy_in_def)
      then show ?thesis using use_layout_framed [OF u] mid [OF use_layout_framed [OF u], of "[LoadedFrom d]" d] framed_no_dirs(2)
        by (intro exI [of _ "[LoadedFrom d]"] exI [of _ ev] exI [of _ d]) auto
    next
      case (Inl e)
      note l = Inl
      show ?thesis
      proof (cases "colocated \<and> pe_retryable env e \<and> pe_remove env d = None")
        case False
        then have "err \<noteq> None" "evs = [LoadedFrom d] @ [] @ [RemovedDir d]"
          using assms v l by (auto simp: deploy_in_def Let_def split: if_splits option.splits)
        then show ?thesis by (intro exI [of _ "[LoadedFrom d]"] exI [of _ "[]"] exI [of _ d]) simp
      next
        case True
        show ?thesis
        proof (cases "pe_mkdir env 2 tmp")
          case (Inl e')
          then have "err \<noteq> None" "evs = [LoadedFrom d, RemovedDir d] @ [] @ [RemovedDir []]"
            using assms v l True by (auto simp: deploy_in_def)
          then show ?thesis by (intro exI [of _ "[LoadedFrom d, RemovedDir d]"] exI [of _ "[]"] exI [of _ "[]"]) auto
        next
          case (Inr d')
          obtain er ev where u: "use_layout env p opts vals (pe_load env 1 d' (po_is_partial opts)) = (er, ev)" by fastforce
          have "err = er" "evs = [LoadedFrom d, RemovedDir d, MadeDir d', LoadedFrom d'] @ ev @ [RemovedDir d']"
            using assms v l True Inr u by (simp_all add: deploy_in_def)
          then show ?thesis using use_layout_framed [OF u] mid [OF use_layout_framed [OF u], of "[LoadedFrom d']" d'] framed_no_dirs(2)
            by (intro exI [of _ "[LoadedFrom d, RemovedDir d, MadeDir d', LoadedFrom d']"] exI [of _ ev] exI [of _ d']) auto
        qed
      qed
    qed
  qed
qed

text \<open>C13. On every path of \<open>DeployPackage\<close>, each temporary directory made is removed later, no other
  directory is removed, and the deployment calls occur in the order pre-deploy hook, cluster
  deployment, post-deploy hook, layout cleanup, without repetition; when no error is returned each
  of the four happened.\<close>

theorem deploy_package_cleanup:
  assumes "deploy_package lower stat env pkg opts = (err, evs)"
  shows "(\<forall>xs d ys. evs = xs @ MadeDir d # ys \<longrightarrow> RemovedDir d \<in> set ys) \<and>
     (\<forall>d. RemovedDir d \<in> set evs \<longrightarrow> d = [] \<or> MadeDir d \<in> set evs) \<and>
     (let calls = filter (\<lambda>e. e \<in> {PreDeployed, ClusterDeployed, PostDeployed, CleanedLayout}) evs in
        calls \<in> {[], [PreDeployed, CleanedLayout], [PreDeployed, ClusterDeployed, CleanedLayout],
          [PreDeployed, ClusterDeployed, PostDeployed, CleanedLayout]} \<and>
        (err = None \<longrightarrow> calls = [PreDeployed, ClusterDeployed, PostDeployed, CleanedLayout]))"
proof (cases "evs = []")
  case True
  have "err \<noteq> None" using assms True
    by (auto simp: deploy_package_def Let_def split: sum.splits option.splits if_splits prod.splits)
  then show ?thesis using True by simp
next
  case False
  obtain p tmp d c evs' where run: "deploy_in env p opts tmp d c = (err, evs')" "evs = MadeDir d # evs'"
    using assms False
    by (auto simp: deploy_package_def Let_def split: sum.splits option.splits if_splits prod.splits)
  obtain pre mid final where m: "evs' = pre @ mid @ [RemovedDir final]" "dirs_ok evs"
    "framed err mid \<or> mid = [] \<and> err \<noteq> None" "set pre \<subseteq> range MadeDir \<union> range RemovedDir \<union> range LoadedFrom"
    "\<forall>x. RemovedDir x \<in> set evs' \<longrightarrow> x = d \<or> x = [] \<or> MadeDir x \<in> set evs'"
    using deploy_in_cases [OF run(1)] run(2) by blast
  have quiet: "filter (\<lambda>e. e \<in> {PreDeployed, ClusterDeployed, PostDeployed, CleanedLayout}) pre = []"
    using m(4) by (auto simp: filter_empty_conv)
  have calls: "filter (\<lambda>e. e \<in> {PreDeployed, ClusterDeployed, PostDeployed, CleanedLayout}) evs = mid"
    using m(1,3) run(2) quiet filter_frame [of err mid] by auto
  show ?thesis using calls m(3) dirs_okD [OF m(2)] m(5) run(2)
    by (auto simp: Let_def framed_def)
qed

definition sample_package_env :: "(unit, unit, unit, unit) package_env" where
  "sample_package_env = \<lparr>pe_staging_root = ''r'', pe_mkdir = (\<lambda>n d. Inr (d @ show_nat n)), pe_remove = (\<lambda>_. None),
     pe_prepare = Inr (None, Map.empty), pe_load = (\<lambda>n d p. if n = 0 then Inl () else Inr (Some (), p)),
     pe_retryable = (\<lambda>_. True), pe_pre = None, pe_deploy = (\<lambda>_ _ _. None), pe_post = None\<rparr>"

lemma sample_package_run:
  "deploy_package (\<lambda>s. s) (\<lambda>_. StatDir) sample_package_env (Some (sample_package ''a'' []))
     \<lparr>po_config = Some sample_zarf_config, po_bundle_dir = ''b'', po_is_partial = False, po_bundle_path = []\<rparr> =
   (None, [MadeDir ''r0'', LoadedFrom ''r0'', RemovedDir ''r0'', MadeDir ''t2'', LoadedFrom ''t2'',
      PreDeployed, ClusterDeployed, PostDeployed, CleanedLayout, RemovedDir ''t2''])"
proof -
  have s: "show_nat 0 = ''0''" "show_nat 2 = ''2''" by code_simp+
  have v: "package_options_validate (\<lambda>s. s) (\<lambda>_. StatDir)
      \<lparr>po_config = Some sample_zarf_config, po_bundle_dir = ''b'', po_is_partial = False, po_bundle_path = []\<rparr> =
      (Inr (the (zc_options sample_zarf_config)) :: (unit package_error, config_options) result)"
    by (simp add: package_options_validate_def sample_zarf_config_ok)
  show ?thesis unfolding deploy_package_def v
    by (simp add: deploy_in_def use_layout_def deploy_loaded_def sample_package_env_def s sample_zarf_config_def)
qed

theorem deploy_package_cleanup_witness:
  "RemovedDir ''t2'' \<in> set (snd (deploy_package (\<lambda>s. s) (\<lambda>_. StatDir) sample_package_env (Some (sample_package ''a'' []))
     \<lparr>po_config = Some sample_zarf_config, po_bundle_dir = ''b'', po_is_partial = False, po_bundle_path = []\<rparr>))"
  using deploy_package_cleanup [OF sample_package_run] unfolding sample_package_run
  by (elim conjE allE [of _ "[MadeDir ''r0'', LoadedFrom ''r0'', RemovedDir ''r0'']"]) simp

subsection \<open>The bundle\<close>

text \<open>When \<open>DeployBundle\<close> succeeds with the orchestrator's \<open>Run\<close>, the reported packages are
  the selected packages of the bundle, each once, and each is listed after every selected package it
  depends on; the hooks ran once each, before and after the levels were deployed.\<close>

lemma deploy_bundle_correct:
  fixes run :: "package list list \<Rightarrow> int \<Rightarrow> 'f package_options \<Rightarrow> 'e run_result \<times> string set"
  assumes "deploy_bundle lower stat ord sel_ord pre post run (Some b) opts = ((Some r, None), evs)"
    "\<forall>i. range_order (collect_packages (packages b)) (ord i)" "set sel_ord = set (bo_packages opts)"
    "\<forall>ls c po D. run ls c po = (RunOk, D) \<longrightarrow>
       (\<exists>s :: 'e orch. orch_run (nat c) pfx ls s \<and> o_phase s = Returned RunOk \<and> D = o_deployed s)"
  shows "dr_bundle_name r = md_name (metadata b) \<and> distinct (dr_packages r) \<and>
     set (dr_packages r) = {pkg_name p | p. p \<in> set (packages b) \<and> selected (bo_packages opts) (pkg_name p)} \<and>
     (\<forall>xs p ys. p \<in> set (packages b) \<and> dr_packages r = xs @ pkg_name p # ys \<longrightarrow>
        {m \<in> set (dep_names p). selected (bo_packages opts) m} \<subseteq> set xs) \<and>
     (\<exists>ls c. evs = [BundlePreDeploy, RanLevels ls c, BundlePostDeploy] \<and> map pkg_name (concat ls) = dr_packages r)"
proof -
  have valid: "validate b = []" using assms(1)
    by (auto simp: deploy_bundle_def Let_def split: sum.splits option.splits if_splits prod.splits)
  obtain d ls ls' c po D where d: "build_dependency_graph (ord 0) (ord 1) b = Some (Inr d)"
    "topological_levels (\<lambda>i. ord (i + 2)) d = Inr ls" "filter_levels sel_ord ls (bo_packages opts) = Inr ls'"
    and run: "run ls' c po = (RunOk, D)" "evs = [BundlePreDeploy, RanLevels ls' c, BundlePostDeploy]"
    and r: "r = \<lparr>dr_bundle_name = md_name (metadata b), dr_packages = filter (\<lambda>n. n \<in> D) (map pkg_name (concat ls'))\<rparr>"
  proof -
    have "\<exists>x. build_dependency_graph (ord 0) (ord 1) b = Some x"
      using build_dependency_graph_cases [of b "ord 0" "ord 1"] valid assms(2) validate_iff_bundle_ok
      by (metis)
    then show thesis using assms(1) that
      by (auto simp: deploy_bundle_def Let_def ebind_eq_Inr split: sum.splits option.splits if_splits prod.splits)
  qed
  have bp: "dag_of b d" using built_plan [OF valid _ _ d(1)] assms(2) by blast
  have ords: "orders_ok d (\<lambda>i. ord (i + 2))" using assms(2) bp by (simp add: orders_ok_def dag_of_def)
  note plan = selected_plan [OF valid _ _ d(1) ords d(2,3) assms(3)]
  have dist: "distinct (map pkg_name (concat ls'))" using plan(1) assms(2) by blast
  obtain s :: "'e orch" where s: "orch_run (nat c) pfx ls' s" "o_phase s = Returned RunOk" "D = o_deployed s" using assms(4) run(1) by blast
  moreover have "complete_inv pfx s" using complete_inv_run s(1) by blast
  then have "o_rest s = []" using s(2) by (simp add: complete_inv_def)
  ultimately have D: "D = pkg_name ` set (concat ls')" using run_ok_deployed dist by blast
  have pk: "dr_packages r = map pkg_name (concat ls')" unfolding r D by (simp add: filter_id_conv)
  have "{m \<in> set (dep_names p). selected (bo_packages opts) m} \<subseteq> set xs"
    if p: "p \<in> set (packages b)" "dr_packages r = xs @ pkg_name p # ys" for xs p ys
  proof -
    obtain us q vs where q: "concat ls' = us @ q # vs" "map pkg_name us = xs" "pkg_name q = pkg_name p"
      using p(2) pk by (auto simp: map_eq_append_conv map_eq_Cons_conv)
    have "q \<in> set (packages b)" using plan(2) assms(2) q(1) by (metis (mono_tags, lifting) in_set_conv_decomp mem_Collect_eq)
    then have "q = p" using p(1) q(3) valid validate_iff_bundle_ok by (auto simp: bundle_ok_def distinct_map inj_on_def)
    then show ?thesis using plan(3) [OF _ _ q(1)] assms(2) q(2) by (metis (no_types, lifting) list.set_map)
  qed
  moreover have "set (dr_packages r) = {pkg_name p | p. p \<in> set (packages b) \<and> selected (bo_packages opts) (pkg_name p)}"
    unfolding pk set_map using plan(2) assms(2) by blast
  moreover have "dr_bundle_name r = md_name (metadata b)" "distinct (dr_packages r)" using dist pk by (simp_all add: r)
  moreover have "map pkg_name (concat ls') = dr_packages r" using pk by simp
  ultimately show ?thesis using run(2) by blast
qed

definition sample_bundle_options :: "unit bundle_options" where
  "sample_bundle_options = \<lparr>bo_config = Some sample_zarf_config, bo_bundle_path = [], bo_bundle_dir = ''b'', bo_packages = []\<rparr>"

definition sample_orchestrator :: "package list list \<Rightarrow> int \<Rightarrow> unit package_options \<Rightarrow> unit run_result \<times> string set" where
  "sample_orchestrator ls c po = (if ls = [[sample_package ''a'' []]] \<and> c = 1 then (RunOk, {''a''}) else (RunCancelled, {}))"

lemma sample_deploy_bundle:
  "\<exists>evs. deploy_bundle (\<lambda>s. s) (\<lambda>_. StatDir) (\<lambda>_. [''a'']) [] None None sample_orchestrator (Some singleton_bundle)
     sample_bundle_options = ((Some \<lparr>dr_bundle_name = ''x'', dr_packages = [''a'']\<rparr>, None), evs)"
proof -
  obtain d where d: "build_dependency_graph [''a''] [''a''] singleton_bundle = Some (Inr d)"
    "topological_levels (\<lambda>_. [''a'']) d = Inr [[sample_package ''a'' []]]" by (rule singleton_levels)
  have "validate_package_names [] (packages singleton_bundle) = Inr ()" by (simp add: validate_package_names_ok)
  moreover have "filter_levels [] ls [] = Inr ls" for ls by (simp add: filter_levels_def)
  moreover have "md_name (metadata singleton_bundle) = ''x''" by (simp add: singleton_bundle_def mk_bundle_def)
  ultimately show ?thesis
    using singleton_valid sample_zarf_config_ok d
    by (simp add: deploy_bundle_def sample_bundle_options_def with_defaults_pre_def with_defaults_post_def
        sample_orchestrator_def sample_zarf_config_def sample_package_def)
qed

lemma deploy_bundle_correct_witness:
  "\<exists>r. fst (deploy_bundle (\<lambda>s. s) (\<lambda>_. StatDir) (\<lambda>_. [''a'']) [] None None sample_orchestrator (Some singleton_bundle)
     sample_bundle_options) = (Some r, None) \<and> set (dr_packages r) = {''a''}"
proof -
  let ?r = "\<lparr>dr_bundle_name = ''x'', dr_packages = [''a'']\<rparr>"
  obtain evs where e: "deploy_bundle (\<lambda>s. s) (\<lambda>_. StatDir) (\<lambda>_. [''a'']) [] None None sample_orchestrator (Some singleton_bundle)
     sample_bundle_options = ((Some ?r, None), evs)" using sample_deploy_bundle by blast
  have run: "\<exists>s :: unit orch. orch_run (nat c) (\<lambda>_. []) ls s \<and> o_phase s = Returned RunOk \<and> D = o_deployed s"
    if "sample_orchestrator ls c po = (RunOk, D)" for ls c po D
  proof -
    have "ls = [[sample_package ''a'' []]]" "c = 1" "D = {''a''}" using that by (auto simp: sample_orchestrator_def split: if_splits)
    then show ?thesis using sample_run [of 1 "\<lambda>_. []" "sample_package ''a'' []"]
      by (intro exI [of _ "sample_end (sample_package ''a'' [])"]) (simp add: sample_end_def sample_package_def)
  qed
  have rng: "\<forall>i :: nat. range_order (collect_packages (packages singleton_bundle)) [''a'']" using singleton_range by simp
  have "set [] = set (bo_packages sample_bundle_options)" by (simp add: sample_bundle_options_def)
  have "\<forall>ls c po D. sample_orchestrator ls c po = (RunOk, D) \<longrightarrow>
      (\<exists>s :: unit orch. orch_run (nat c) (\<lambda>_. []) ls s \<and> o_phase s = Returned RunOk \<and> D = o_deployed s)" using run by blast
  note c = deploy_bundle_correct [OF e rng \<open>set [] = set (bo_packages sample_bundle_options)\<close> this]
  have "set (dr_packages ?r) = {pkg_name p | p. p \<in> set (packages singleton_bundle) \<and>
      selected (bo_packages sample_bundle_options) (pkg_name p)}" using c by (elim conjE)
  moreover have "{pkg_name p | p. p \<in> set (packages singleton_bundle) \<and> selected (bo_packages sample_bundle_options) (pkg_name p)} = {''a''}"
    by (auto simp: singleton_bundle_def mk_bundle_def sample_package_def selected_def sample_bundle_options_def)
  ultimately show ?thesis unfolding e by (intro exI [of _ ?r]) (simp only: fst_conv simp_thms)
qed

end
