(* ===== verification/Remove.thy ===== *)
theory Remove
  imports Deploy Selection
begin

text \<open>
  Removal of a bundle, \<open>internal/zarf/remove.go\<close>: \<open>ZarfRemover\<close> with its cached cluster client and its
  cached set of deployed packages, \<open>RemovePackage\<close>, the sequential walk over the reversed levels and
  \<open>RemoveBundle\<close>. The cluster and the package sources are a world \<open>'w\<close> that every call may read and
  change. Log output is not modelled; the mutex is not either, as one goroutine walks the levels.
\<close>

subsection \<open>State and errors\<close>

datatype remove_status = Removed | Skipped

record remove_package_result =
  rp_name :: string
  rp_status :: remove_status

record remove_result =
  rr_bundle_name :: string
  rr_packages :: "remove_package_result list"

datatype 'e remove_error =
    RemoveConfigInvalid config_error
  | RemoveNilPackage
  | ConnectCluster 'e
  | LoadRemovedPackage string string 'e
  | ReadDeployedPackages 'e
  | PackageNotDeployed
  | RemoveFailed string 'e
  | RemoveNilBundle
  | RemoveBundleInvalid string "spec_error list"
  | RemoveGraphFailed string dep_error
  | RemoveLevelsFailed string dep_error
  | RemoveSelectionInvalid dep_error
  | RemovePackageFailed string "'e remove_error"

text \<open>
  \<open>rm_cluster\<close> says that a client is cached, \<open>rm_deployed\<close> is \<open>deployed\<close> once \<open>deployedLoaded\<close> is set.
  \<open>rm_calls\<close> is the history of the calls of \<open>packager.Remove\<close>, which the code does not keep.
\<close>

record 'w remover =
  rm_cluster :: bool
  rm_deployed :: "string set option"
  rm_world :: 'w
  rm_calls :: "package list"

text \<open>
  \<open>re_connect\<close> is \<open>cluster.New\<close>, \<open>re_list\<close> is \<open>GetDeployedZarfPackages\<close> with the name and the namespace
  override of each package, \<open>re_load\<close> is \<open>GetPackageFromSourceOrCluster\<close>, \<open>re_remove\<close> is
  \<open>packager.Remove\<close> with the namespace override.
\<close>

record ('e, 'w, 'z) remove_env =
  re_connect :: "'w \<Rightarrow> 'e option \<times> 'w"
  re_list :: "'w \<Rightarrow> ('e, (string \<times> string) list) result \<times> 'w"
  re_load :: "config_options \<Rightarrow> string \<Rightarrow> string \<Rightarrow> 'w \<Rightarrow> ('e, 'z) result \<times> 'w"
  re_name :: "'z \<Rightarrow> string"
  re_remove :: "'z \<Rightarrow> string \<Rightarrow> 'w \<Rightarrow> 'e option \<times> 'w"

definition new_remover :: "'w \<Rightarrow> 'w remover" where
  "new_remover w = \<lparr>rm_cluster = False, rm_deployed = None, rm_world = w, rm_calls = []\<rparr>"

definition deployed_key :: "string \<Rightarrow> string \<Rightarrow> string" where
  "deployed_key zarf_name ns = zarf_name @ ''/'' @ ns"

subsection \<open>One package\<close>

definition get_cluster :: "('e, 'w, 'z) remove_env \<Rightarrow> 'w remover \<Rightarrow> 'e remove_error option \<times> 'w remover" where
  "get_cluster env st =
     (if rm_cluster st then (None, st)
      else case re_connect env (rm_world st) of
        (Some e, w) \<Rightarrow> (Some (ConnectCluster e), st\<lparr>rm_world := w\<rparr>)
      | (None, w) \<Rightarrow> (None, st\<lparr>rm_world := w, rm_cluster := True\<rparr>))"

definition deployed_set :: "('e, 'w, 'z) remove_env \<Rightarrow> 'w remover \<Rightarrow> ('e remove_error, string set) result \<times> 'w remover" where
  "deployed_set env st = (case rm_deployed st of
       Some d \<Rightarrow> (Inr d, st)
     | None \<Rightarrow> (case get_cluster env st of
         (Some e, st) \<Rightarrow> (Inl e, st)
       | (None, st) \<Rightarrow> (case re_list env (rm_world st) of
           (Inl e, w) \<Rightarrow> (Inl (ReadDeployedPackages e), st\<lparr>rm_world := w\<rparr>)
         | (Inr ps, w) \<Rightarrow>
            (let d = set (map (\<lambda>(n, ns). deployed_key n ns) ps)
             in (Inr d, st\<lparr>rm_world := w, rm_deployed := Some d\<rparr>)))))"

definition remove_package :: "(string \<Rightarrow> string) \<Rightarrow> (string \<Rightarrow> stat_result) \<Rightarrow> ('e, 'w, 'z) remove_env \<Rightarrow> 'f zarf_config option \<Rightarrow>
    package option \<Rightarrow> 'w remover \<Rightarrow> 'e remove_error option \<times> 'w remover" where
  "remove_package lower stat env cfg pkg st =
     (case zarf_validate_config lower stat cfg of
        Inl e \<Rightarrow> (Some (RemoveConfigInvalid e), st)
      | Inr _ \<Rightarrow>
     (case pkg of
        None \<Rightarrow> (Some RemoveNilPackage, st)
      | Some p \<Rightarrow>
     (case get_cluster env st of
        (Some e, st) \<Rightarrow> (Some e, st)
      | (None, st) \<Rightarrow>
     (case re_load env (the (Option.bind cfg zc_options)) (pkg_source p) (pkg_namespace p) (rm_world st) of
        (Inl e, w) \<Rightarrow> (Some (LoadRemovedPackage (pkg_name p) (pkg_source p) e), st\<lparr>rm_world := w\<rparr>)
      | (Inr z, w) \<Rightarrow>
     (case deployed_set env (st\<lparr>rm_world := w\<rparr>) of
        (Inl e, st) \<Rightarrow> (Some e, st)
      | (Inr d, st) \<Rightarrow>
          if deployed_key (re_name env z) (pkg_namespace p) \<notin> d then (Some PackageNotDeployed, st)
          else (let (err, w) = re_remove env z (pkg_namespace p) (rm_world st)
                in (map_option (RemoveFailed (pkg_name p)) err, st\<lparr>rm_world := w, rm_calls := rm_calls st @ [p]\<rparr>)))))))"

subsection \<open>The walk\<close>

fun remove_level_packages :: "(package \<Rightarrow> 'w remover \<Rightarrow> 'e remove_error option \<times> 'w remover) \<Rightarrow> package list \<Rightarrow>
    remove_package_result list \<Rightarrow> 'w remover \<Rightarrow> (remove_package_result list \<times> 'e remove_error option) \<times> 'w remover" where
  "remove_level_packages rm [] results st = ((results, None), st)"
| "remove_level_packages rm (p # ps) results st =
     (case rm p st of
        (None, st) \<Rightarrow> remove_level_packages rm ps (results @ [\<lparr>rp_name = pkg_name p, rp_status = Removed\<rparr>]) st
      | (Some e, st) \<Rightarrow>
          if e = PackageNotDeployed
          then remove_level_packages rm ps (results @ [\<lparr>rp_name = pkg_name p, rp_status = Skipped\<rparr>]) st
          else ((results, Some (RemovePackageFailed (pkg_name p) e)), st))"

text \<open>The loop over the levels, given last level first.\<close>

fun remove_levels :: "(package \<Rightarrow> 'w remover \<Rightarrow> 'e remove_error option \<times> 'w remover) \<Rightarrow> package list list \<Rightarrow>
    remove_package_result list \<Rightarrow> 'w remover \<Rightarrow> (remove_package_result list \<times> 'e remove_error option) \<times> 'w remover" where
  "remove_levels rm [] results st = ((results, None), st)"
| "remove_levels rm (l # ls) results st =
     (case remove_level_packages rm l results st of
        ((results, Some e), st) \<Rightarrow> ((results, Some e), st)
      | ((results, None), st) \<Rightarrow> remove_levels rm ls results st)"

definition remove_packages :: "(package \<Rightarrow> 'w remover \<Rightarrow> 'e remove_error option \<times> 'w remover) \<Rightarrow> package list list \<Rightarrow>
    'w remover \<Rightarrow> (remove_package_result list \<times> 'e remove_error option) \<times> 'w remover" where
  "remove_packages rm levels st = remove_levels rm (rev levels) [] st"

definition remove_bundle :: "(string \<Rightarrow> string) \<Rightarrow> (string \<Rightarrow> stat_result) \<Rightarrow> (nat \<Rightarrow> string list) \<Rightarrow> string list \<Rightarrow>
    ('e, 'w, 'z) remove_env \<Rightarrow> 'f zarf_config option \<Rightarrow> uds_bundle option \<Rightarrow> string list \<Rightarrow> 'w remover \<Rightarrow>
    ('e remove_error, remove_result) result \<times> 'w remover" where
  "remove_bundle lower stat ord sel_ord env cfg bundle names st =
     (case zarf_validate_config lower stat cfg of
        Inl e \<Rightarrow> (Inl (RemoveConfigInvalid e), st)
      | Inr _ \<Rightarrow>
     (case bundle of
        None \<Rightarrow> (Inl RemoveNilBundle, st)
      | Some b \<Rightarrow>
     if validate b \<noteq> [] then (Inl (RemoveBundleInvalid (md_name (metadata b)) (validate b)), st)
     else
     (case the (build_dependency_graph (ord 0) (ord 1) b) of
        Inl e \<Rightarrow> (Inl (RemoveGraphFailed (md_name (metadata b)) e), st)
      | Inr d \<Rightarrow>
     (case topological_levels (\<lambda>i. ord (i + 2)) d of
        Inl e \<Rightarrow> (Inl (RemoveLevelsFailed (md_name (metadata b)) e), st)
      | Inr levels \<Rightarrow>
     (case ebind (validate_package_names names (packages b)) (\<lambda>_. filter_levels sel_ord levels names) of
        Inl e \<Rightarrow> (Inl (RemoveSelectionInvalid e), st)
      | Inr levels' \<Rightarrow>
     (case remove_packages (\<lambda>p. remove_package lower stat env cfg (Some p)) levels' st of
        ((_, Some e), st) \<Rightarrow> (Inl e, st)
      | ((results, None), st) \<Rightarrow> (Inr \<lparr>rr_bundle_name = md_name (metadata b), rr_packages = results\<rparr>, st)))))))"

end
