(* ===== verification/Remove_Properties.thy ===== *)
theory Remove_Properties
  imports Remove
begin

text \<open>
  Properties of the removal of a bundle: the teardown order, what is removed and what is skipped, and
  that nothing after the first failure is touched.
\<close>

subsection \<open>One package\<close>

text \<open>What the status of a package says about the deployed set \<open>D\<close> of the cluster.\<close>

definition outcome :: "('e, 'w, 'z) remove_env \<Rightarrow> string set \<Rightarrow> package \<Rightarrow> remove_status \<Rightarrow> bool" where
  "outcome env D p status \<longleftrightarrow> (\<exists>c w z w'. re_load env c (pkg_source p) (pkg_namespace p) w = (Inr z, w') \<and>
     (status = Removed \<longleftrightarrow> deployed_key (re_name env z) (pkg_namespace p) \<in> D))"

lemma get_cluster_keeps: "get_cluster env st = (r, st') \<Longrightarrow> rm_deployed st' = rm_deployed st \<and> rm_calls st' = rm_calls st"
  by (auto simp: get_cluster_def split: if_splits prod.splits option.splits)

lemma get_cluster_error: "get_cluster env st = (Some e, st') \<Longrightarrow> e \<noteq> PackageNotDeployed"
  by (auto simp: get_cluster_def split: if_splits prod.splits option.splits)

lemma deployed_set_cases:
  assumes "deployed_set env st = (r, st')"
  shows "rm_calls st' = rm_calls st" "rm_deployed st = Some D \<Longrightarrow> rm_deployed st' = Some D"
    "r = Inr D \<Longrightarrow> rm_deployed st' = Some D" "r = Inl e \<Longrightarrow> e \<noteq> PackageNotDeployed"
proof -
  show "rm_calls st' = rm_calls st" "rm_deployed st = Some D \<Longrightarrow> rm_deployed st' = Some D"
    "r = Inr D \<Longrightarrow> rm_deployed st' = Some D"
    using assms by (auto simp: deployed_set_def Let_def dest!: get_cluster_keeps split: option.splits prod.splits sum.splits)
  show "r = Inl e \<Longrightarrow> e \<noteq> PackageNotDeployed"
    using assms by (auto simp: deployed_set_def Let_def dest: get_cluster_error split: option.splits prod.splits sum.splits)
qed

lemma remove_package_cases:
  assumes "remove_package lower stat env cfg (Some p) st = (r, st')"
  shows "rm_deployed st = Some D \<Longrightarrow> rm_deployed st' = Some D"
    and "r = None \<Longrightarrow> rm_calls st' = rm_calls st @ [p] \<and> (\<exists>D. rm_deployed st' = Some D \<and> outcome env D p Removed)"
    and "r = Some PackageNotDeployed \<Longrightarrow> rm_calls st' = rm_calls st \<and> (\<exists>D. rm_deployed st' = Some D \<and> outcome env D p Skipped)"
    and "rm_calls st' = rm_calls st \<or> rm_calls st' = rm_calls st @ [p]"
proof -
  obtain e0 st0 where c: "get_cluster env st = (e0, st0)" by fastforce
  note ck = get_cluster_keeps [OF c]
  have ce: "e0 \<noteq> Some PackageNotDeployed" using c get_cluster_error by auto
  let ?opts = "the (Option.bind cfg zc_options)"
  obtain l w where l: "re_load env ?opts (pkg_source p) (pkg_namespace p) (rm_world st0) = (l, w)" by fastforce
  obtain ds st1 where d: "deployed_set env (st0\<lparr>rm_world := w\<rparr>) = (ds, st1)" by fastforce
  note dk = deployed_set_cases [OF d]
  show "rm_deployed st = Some D \<Longrightarrow> rm_deployed st' = Some D"
    "rm_calls st' = rm_calls st \<or> rm_calls st' = rm_calls st @ [p]"
    using assms c ck l d dk(1,2)
    by (auto simp: remove_package_def Let_def split: sum.splits option.splits if_splits prod.splits)
  show "rm_calls st' = rm_calls st @ [p] \<and> (\<exists>D. rm_deployed st' = Some D \<and> outcome env D p Removed)" if rn: "r = None"
  proof -
    obtain z D where "l = Inr z" "ds = Inr D" "deployed_key (re_name env z) (pkg_namespace p) \<in> D"
        "rm_calls st' = rm_calls st1 @ [p]" "rm_deployed st' = rm_deployed st1"
      using assms c l d rn
      by (auto simp: remove_package_def Let_def split: sum.splits option.splits if_splits prod.splits)
    then show ?thesis using dk(1,3) ck l unfolding outcome_def by fastforce
  qed
  show "rm_calls st' = rm_calls st \<and> (\<exists>D. rm_deployed st' = Some D \<and> outcome env D p Skipped)" if rn: "r = Some PackageNotDeployed"
  proof -
    obtain z D where "l = Inr z" "ds = Inr D" "deployed_key (re_name env z) (pkg_namespace p) \<notin> D" "st' = st1"
      using assms c l d rn ce dk(4)
      by (auto simp: remove_package_def Let_def split: sum.splits option.splits if_splits prod.splits)
    then show ?thesis using dk(1,3) ck l unfolding outcome_def by fastforce
  qed
qed

subsection \<open>The walk\<close>

lemma remove_level_packages_append:
  "remove_level_packages rm (xs @ ys) results st = (case remove_level_packages rm xs results st of
     ((r, Some e), st) \<Rightarrow> ((r, Some e), st) | ((r, None), st) \<Rightarrow> remove_level_packages rm ys r st)"
  by (induction xs arbitrary: results st) (auto split: prod.splits option.splits)

lemma remove_levels_concat: "remove_levels rm ls results st = remove_level_packages rm (concat ls) results st"
  by (induction ls arbitrary: results st) (auto simp: remove_level_packages_append split: prod.splits option.splits)

text \<open>The packages of a walk whose result says they were removed.\<close>

definition removed_of :: "package list \<Rightarrow> remove_package_result list \<Rightarrow> package list" where
  "removed_of ps rs = map fst (filter (\<lambda>(p, r). rp_status r = Removed) (zip ps rs))"

lemma removed_of_simps [simp]:
  "removed_of [] rs = []"
  "removed_of (p # ps) (r # rs) = (if rp_status r = Removed then [p] else []) @ removed_of ps rs"
  by (simp_all add: removed_of_def)

lemma removed_of_subset: "set (removed_of ps rs) \<subseteq> set ps"
  by (auto simp: removed_of_def dest: set_zip_leftD)

definition walked :: "('e, 'w, 'z) remove_env \<Rightarrow> string set \<Rightarrow> package list \<Rightarrow> remove_package_result list \<Rightarrow> bool" where
  "walked env D = list_all2 (\<lambda>p r. rp_name r = pkg_name p \<and> outcome env D p (rp_status r))"

lemma walk:
  assumes "remove_level_packages (\<lambda>p. remove_package lower stat env cfg (Some p)) ps results st = ((out, err), st')"
  shows "\<exists>xs rs D. out = results @ rs \<and> walked env D xs rs \<and>
     (\<forall>E. rm_deployed st = Some E \<longrightarrow> D = E \<and> rm_deployed st' = Some E) \<and>
     (case err of
        None \<Rightarrow> xs = ps \<and> rm_calls st' = rm_calls st @ removed_of xs rs
      | Some e \<Rightarrow> (\<exists>p ys e'. ps = xs @ p # ys \<and> e = RemovePackageFailed (pkg_name p) e' \<and>
          rm_calls st' \<in> {rm_calls st @ removed_of xs rs, rm_calls st @ removed_of xs rs @ [p]}))"
  using assms
proof (induction ps arbitrary: results st)
  case Nil
  then show ?case by (cases "rm_deployed st") (auto simp: walked_def)
next
  case (Cons p ps)
  obtain r st1 where r: "remove_package lower stat env cfg (Some p) st = (r, st1)" by fastforce
  note rc = remove_package_cases [OF r]
  show ?case
  proof (cases "r = None \<or> r = Some PackageNotDeployed")
    case False
    then have "out = results" "st' = st1" "\<exists>e. err = Some (RemovePackageFailed (pkg_name p) e)"
      using Cons.prems r by (auto split: option.splits if_splits)
    moreover have "\<exists>D. \<forall>E. rm_deployed st = Some E \<longrightarrow> D = E \<and> rm_deployed st1 = Some E"
      using rc(1) by (cases "rm_deployed st") auto
    ultimately show ?thesis using rc(4)
      by (auto simp: walked_def intro!: exI [of _ "[]"])
  next
    case True
    define status where "status = (if r = None then Removed else Skipped)"
    let ?res = "\<lparr>rp_name = pkg_name p, rp_status = status\<rparr>"
    have "remove_level_packages (\<lambda>p. remove_package lower stat env cfg (Some p)) ps (results @ [?res]) st1 = ((out, err), st')"
      using Cons.prems r True by (auto simp: status_def)
    from Cons.IH [OF this] obtain xs rs D where ih: "out = (results @ [?res]) @ rs" "walked env D xs rs"
      "\<forall>E. rm_deployed st1 = Some E \<longrightarrow> D = E \<and> rm_deployed st' = Some E"
      "case err of None \<Rightarrow> xs = ps \<and> rm_calls st' = rm_calls st1 @ removed_of xs rs
       | Some e \<Rightarrow> (\<exists>p ys e'. ps = xs @ p # ys \<and> e = RemovePackageFailed (pkg_name p) e' \<and>
          rm_calls st' \<in> {rm_calls st1 @ removed_of xs rs, rm_calls st1 @ removed_of xs rs @ [p]})" by blast
    obtain D1 where D1: "rm_deployed st1 = Some D1" "outcome env D1 p status"
      and calls: "rm_calls st1 = rm_calls st @ removed_of [p] [?res]"
      using rc(2,3) True by (auto simp: status_def)
    then have "walked env D (p # xs) (?res # rs)" using ih(2,3) by (simp add: walked_def)
    moreover have "\<forall>E. rm_deployed st = Some E \<longrightarrow> D = E \<and> rm_deployed st' = Some E" using ih(3) rc(1) by blast
    moreover have "case err of None \<Rightarrow> p # xs = p # ps \<and> rm_calls st' = rm_calls st @ removed_of (p # xs) (?res # rs)
       | Some e \<Rightarrow> (\<exists>q ys e'. p # ps = (p # xs) @ q # ys \<and> e = RemovePackageFailed (pkg_name q) e' \<and>
          rm_calls st' \<in> {rm_calls st @ removed_of (p # xs) (?res # rs), rm_calls st @ removed_of (p # xs) (?res # rs) @ [q]})"
      using ih(4) calls by (auto split: option.splits)
    ultimately show ?thesis using ih(1) by (intro exI [of _ "p # xs"] exI [of _ "?res # rs"] exI [of _ D]) simp
  qed
qed

subsection \<open>The bundle\<close>

text \<open>
  A teardown of a selection: each selected package once, and before all the selected packages it
  depends on.
\<close>

definition teardown :: "uds_bundle \<Rightarrow> string list \<Rightarrow> package list \<Rightarrow> bool" where
  "teardown b names ps \<longleftrightarrow> distinct ps \<and> set ps = {p \<in> set (packages b). selected names (pkg_name p)} \<and>
     (\<forall>xs p ys. ps = xs @ p # ys \<longrightarrow> {m \<in> set (dep_names p). selected names m} \<subseteq> pkg_name ` set ys)"

text \<open>\<open>RemoveBundle\<close> walks the selected packages in teardown order, each before everything it depends
  on. On success each is reported once, removed exactly when the cluster listed it as deployed and
  skipped otherwise, and \<open>packager.Remove\<close> was called for the removed ones in that order. On an error
  in the walk only packages up to and including the failing one were passed to \<open>packager.Remove\<close>, and
  on any earlier error none was.\<close>

lemma remove_bundle_teardown:
  assumes "remove_bundle lower stat ord sel_ord env cfg (Some b) names (new_remover w) = (r, st)"
    "\<forall>i. range_order (collect_packages (packages b)) (ord i)" "set sel_ord = set names"
  shows "case r of
     Inr res \<Rightarrow> \<exists>ps D. teardown b names ps \<and> walked env D ps (rr_packages res) \<and> rm_calls st = removed_of ps (rr_packages res)
   | Inl e \<Rightarrow> rm_calls st = [] \<or> (\<exists>xs p ys e'. teardown b names (xs @ p # ys) \<and> e = RemovePackageFailed (pkg_name p) e' \<and>
        set (rm_calls st) \<subseteq> set (xs @ [p]))"
proof -
  let ?rm = "\<lambda>p. remove_package lower stat env cfg (Some p)"
  have new: "rm_calls (new_remover w) = []" by (simp add: new_remover_def)
  show ?thesis
  proof (cases "\<exists>d ls ls'. validate b = [] \<and> build_dependency_graph (ord 0) (ord 1) b = Some (Inr d) \<and>
      topological_levels (\<lambda>i. ord (i + 2)) d = Inr ls \<and> filter_levels sel_ord ls names = Inr ls' \<and>
      remove_bundle lower stat ord sel_ord env cfg (Some b) names (new_remover w) =
        (case remove_packages ?rm ls' (new_remover w) of
           ((_, Some e), st) \<Rightarrow> (Inl e, st)
         | ((results, None), st) \<Rightarrow> (Inr \<lparr>rr_bundle_name = md_name (metadata b), rr_packages = results\<rparr>, st))")
    case False
    have "\<exists>x. build_dependency_graph (ord 0) (ord 1) b = Some x" if "validate b = []"
      using build_dependency_graph_cases [of b "ord 0" "ord 1"] that assms(2) validate_iff_bundle_ok by (metis)
    then have "\<exists>e. r = Inl e" "st = new_remover w" using assms(1) False
      by (auto simp: remove_bundle_def ebind_eq_Inr ebind_eq_Inl split: sum.splits if_splits)
    then show ?thesis using new by auto
  next
    case True
    then obtain d ls ls' where g: "validate b = []" "build_dependency_graph (ord 0) (ord 1) b = Some (Inr d)"
      "topological_levels (\<lambda>i. ord (i + 2)) d = Inr ls" "filter_levels sel_ord ls names = Inr ls'"
      and run: "remove_bundle lower stat ord sel_ord env cfg (Some b) names (new_remover w) =
        (case remove_packages ?rm ls' (new_remover w) of
           ((_, Some e), st) \<Rightarrow> (Inl e, st)
         | ((results, None), st) \<Rightarrow> (Inr \<lparr>rr_bundle_name = md_name (metadata b), rr_packages = results\<rparr>, st))"
      by (elim exE conjE)
    have rng: "range_order (collect_packages (packages b)) (ord i)" for i using assms(2) by blast
    have "dag_of b d" using built_plan [OF g(1) rng rng g(2)] by blast
    then have ords: "orders_ok d (\<lambda>i. ord (i + 2))" using rng by (simp add: orders_ok_def dag_of_def)
    note plan = selected_plan [OF g(1) rng rng g(2) ords g(3,4) assms(3)]
      and order = selected_teardown [OF g(1) rng rng g(2) ords g(3,4) assms(3)]
    let ?ps = "concat (rev ls')"
    have "mset ?ps = mset (concat ls')" by (induction ls') auto
    then have "distinct ?ps" using plan(1) by (metis distinct_map mset_eq_imp_distinct_iff)
    then have td: "teardown b names ?ps" unfolding teardown_def using plan(2) order by simp
    obtain out err where w: "remove_level_packages ?rm ?ps [] (new_remover w) = ((out, err), st)"
      and r: "r = (case err of Some e \<Rightarrow> Inl e | None \<Rightarrow> Inr \<lparr>rr_bundle_name = md_name (metadata b), rr_packages = out\<rparr>)"
      using assms(1) unfolding run remove_packages_def remove_levels_concat by (auto split: prod.splits option.splits)
    obtain xs D where xs: "walked env D xs out"
      "case err of None \<Rightarrow> xs = ?ps \<and> rm_calls st = removed_of xs out
      | Some e \<Rightarrow> (\<exists>p ys e'. ?ps = xs @ p # ys \<and> e = RemovePackageFailed (pkg_name p) e' \<and>
          rm_calls st \<in> {removed_of xs out, removed_of xs out @ [p]})"
      using walk [OF w] unfolding new append_Nil by blast
    show ?thesis
    proof (cases err)
      case None
      then show ?thesis using r xs td by auto
    next
      case (Some e)
      then obtain p ys e' where p: "?ps = xs @ p # ys" "e = RemovePackageFailed (pkg_name p) e'"
        "rm_calls st \<in> {removed_of xs out, removed_of xs out @ [p]}" using xs(2) by auto
      then have "set (rm_calls st) \<subseteq> set (xs @ [p])" using removed_of_subset [of xs out] by auto
      then show ?thesis using r Some p(2) td unfolding p(1) by auto
    qed
  qed
qed

definition sample_remove_env :: "(unit, unit, string) remove_env" where
  "sample_remove_env = \<lparr>re_connect = (\<lambda>w. (None, w)), re_list = (\<lambda>w. (Inr [(''z'', [])], w)),
     re_load = (\<lambda>c src ns w. (Inr ''z'', w)), re_name = (\<lambda>z. z), re_remove = (\<lambda>z ns w. (None, w))\<rparr>"

lemma sample_remove_bundle:
  "remove_bundle (\<lambda>s. s) (\<lambda>_. StatDir) (\<lambda>_. [''a'']) [] sample_remove_env (Some sample_zarf_config) (Some singleton_bundle) []
     (new_remover ()) =
   (Inr \<lparr>rr_bundle_name = ''x'', rr_packages = [\<lparr>rp_name = ''a'', rp_status = Removed\<rparr>]\<rparr>,
    \<lparr>rm_cluster = True, rm_deployed = Some {''z/''}, rm_world = (), rm_calls = [sample_package ''a'' []]\<rparr>)"
proof -
  obtain d where d: "build_dependency_graph [''a''] [''a''] singleton_bundle = Some (Inr d)"
    "topological_levels (\<lambda>_. [''a'']) d = Inr [[sample_package ''a'' []]]" by (rule singleton_levels)
  have "validate_package_names [] (packages singleton_bundle) = Inr ()" by (simp add: validate_package_names_ok)
  moreover have "filter_levels [] ls [] = Inr ls" for ls by (simp add: filter_levels_def)
  moreover have "md_name (metadata singleton_bundle) = ''x''" by (simp add: singleton_bundle_def mk_bundle_def)
  moreover have "remove_package (\<lambda>s. s) (\<lambda>_. StatDir) sample_remove_env (Some sample_zarf_config) (Some (sample_package ''a'' [])) (new_remover ()) =
      (None, \<lparr>rm_cluster = True, rm_deployed = Some {''z/''}, rm_world = (), rm_calls = [sample_package ''a'' []]\<rparr>)"
    by (simp add: Let_def remove_package_def sample_zarf_config_ok get_cluster_def deployed_set_def new_remover_def
        sample_remove_env_def deployed_key_def sample_package_def)
  moreover have "pkg_name (sample_package ''a'' []) = ''a''" by (simp add: sample_package_def)
  ultimately show ?thesis
    using singleton_valid sample_zarf_config_ok d by (simp add: remove_bundle_def remove_packages_def)
qed

lemma remove_bundle_teardown_witness:
  "\<exists>ps. teardown singleton_bundle [] ps \<and> rm_calls (snd (remove_bundle (\<lambda>s. s) (\<lambda>_. StatDir) (\<lambda>_. [''a'']) [] sample_remove_env
     (Some sample_zarf_config) (Some singleton_bundle) [] (new_remover ()))) = ps"
proof -
  have "\<forall>i :: nat. range_order (collect_packages (packages singleton_bundle)) [''a'']" using singleton_range by simp
  from remove_bundle_teardown [OF sample_remove_bundle this refl]
  obtain ps D where ps: "teardown singleton_bundle [] ps" "walked sample_remove_env D ps [\<lparr>rp_name = ''a'', rp_status = Removed\<rparr>]"
    "removed_of ps [\<lparr>rp_name = ''a'', rp_status = Removed\<rparr>] = [sample_package ''a'' []]"
    by auto
  then have "ps = [sample_package ''a'' []]" by (auto simp: walked_def list_all2_Cons2)
  then show ?thesis using ps(1) unfolding sample_remove_bundle by (intro exI [of _ ps]) simp
qed

end
