(* ===== verification/Effects.thy ===== *)
theory Effects
  imports Prelude
begin

text \<open>
  Operations on the outside world. A Go function that reads files, calls a registry or a cluster and
  may fail is an \<open>op\<close>: it takes the world and returns a result and the world after it. \<open>op_bind\<close> is
  sequencing with the early return on an error, \<open>op_wrap\<close> is \<open>fmt.Errorf\<close> with the sentinel of the
  place, \<open>op_try\<close> is a call whose error the caller inspects, \<open>op_defer\<close> a deferred call, \<open>op_for\<close>
  and \<open>op_map\<close> are loops that stop at the first error. An invariant of the world is shown by
  \<open>op_keeps\<close>, whose rules are collected in \<open>inv_intros\<close>.
\<close>

type_synonym ('w, 'e, 'a) op = "'w \<Rightarrow> ('e, 'a) result \<times> 'w"

definition op_return :: "'a \<Rightarrow> ('w, 'e, 'a) op" where
  "op_return x w = (Inr x, w)"

definition op_fail :: "'e \<Rightarrow> ('w, 'e, 'a) op" where
  "op_fail e w = (Inl e, w)"

definition op_lift :: "('e, 'a) result \<Rightarrow> ('w, 'e, 'a) op" where
  "op_lift r w = (r, w)"

definition op_bind :: "('w, 'e, 'a) op \<Rightarrow> ('a \<Rightarrow> ('w, 'e, 'b) op) \<Rightarrow> ('w, 'e, 'b) op" where
  "op_bind m f w = (case m w of (Inl e, w') \<Rightarrow> (Inl e, w') | (Inr x, w') \<Rightarrow> f x w')"

definition op_wrap :: "('e \<Rightarrow> 'f) \<Rightarrow> ('w, 'e, 'a) op \<Rightarrow> ('w, 'f, 'a) op" where
  "op_wrap g m w = (case m w of (r, w') \<Rightarrow> (map_error g r, w'))"

definition op_try :: "('w, 'e, 'a) op \<Rightarrow> ('w, 'f, ('e, 'a) result) op" where
  "op_try m w = (case m w of (r, w') \<Rightarrow> (Inr r, w'))"

definition op_defer :: "('w \<Rightarrow> 'w) \<Rightarrow> ('w, 'e, 'a) op \<Rightarrow> ('w, 'e, 'a) op" where
  "op_defer c m w = (case m w of (r, w') \<Rightarrow> (r, c w'))"

definition op_when :: "bool \<Rightarrow> ('w, 'e, unit) op \<Rightarrow> ('w, 'e, unit) op" where
  "op_when b m = (if b then m else op_return ())"

definition op_check :: "bool \<Rightarrow> 'e \<Rightarrow> ('w, 'e, unit) op" where
  "op_check b e = (if b then op_return () else op_fail e)"

fun op_for :: "('a \<Rightarrow> ('w, 'e, unit) op) \<Rightarrow> 'a list \<Rightarrow> ('w, 'e, unit) op" where
  "op_for f [] = op_return ()"
| "op_for f (x # xs) = op_bind (f x) (\<lambda>_. op_for f xs)"

fun op_map :: "('a \<Rightarrow> ('w, 'e, 'b) op) \<Rightarrow> 'a list \<Rightarrow> ('w, 'e, 'b list) op" where
  "op_map f [] = op_return []"
| "op_map f (x # xs) = op_bind (f x) (\<lambda>y. op_bind (op_map f xs) (\<lambda>ys. op_return (y # ys)))"

subsection \<open>Results\<close>

lemma op_simps [simp]:
  "op_return x w = (Inr x, w)"
  "op_fail e w = (Inl e, w)"
  "op_lift r w = (r, w)"
  by (simp_all add: op_return_def op_fail_def op_lift_def)

lemma op_bind_Inr: "op_bind m f w = (Inr y, w') \<longleftrightarrow> (\<exists>x w1. m w = (Inr x, w1) \<and> f x w1 = (Inr y, w'))"
  by (auto simp: op_bind_def split: prod.splits sum.splits)

lemma op_bind_Inl: "op_bind m f w = (Inl e, w') \<longleftrightarrow> m w = (Inl e, w') \<or> (\<exists>x w1. m w = (Inr x, w1) \<and> f x w1 = (Inl e, w'))"
  by (auto simp: op_bind_def split: prod.splits sum.splits)

lemma op_wrap_Inr: "op_wrap g m w = (Inr x, w') \<longleftrightarrow> m w = (Inr x, w')"
  by (auto simp: op_wrap_def split: prod.splits)

lemma op_wrap_Inl: "op_wrap g m w = (Inl e, w') \<longleftrightarrow> (\<exists>e'. m w = (Inl e', w') \<and> e = g e')"
  by (auto simp: op_wrap_def map_error_eq_Inl split: prod.splits)

lemma op_try_eq: "op_try m w = (r, w') \<longleftrightarrow> (\<exists>r'. m w = (r', w') \<and> r = Inr r')"
  by (auto simp: op_try_def split: prod.splits)

lemma op_defer_eq: "op_defer c m w = (r, w') \<longleftrightarrow> (\<exists>w1. m w = (r, w1) \<and> w' = c w1)"
  by (auto simp: op_defer_def split: prod.splits)

lemma op_check_Inr: "op_check b e w = (Inr u, w') \<longleftrightarrow> b \<and> w' = w"
  by (auto simp: op_check_def)

lemma op_check_Inl: "op_check b e w = (Inl e', w') \<longleftrightarrow> \<not> b \<and> e' = e \<and> w' = w"
  by (auto simp: op_check_def)

lemma op_when_Inr: "op_when b m w = (Inr u, w') \<longleftrightarrow> (if b then m w = (Inr u, w') else w' = w)"
  by (cases u) (auto simp: op_when_def)

lemmas op_results = op_bind_Inr op_bind_Inl op_wrap_Inr op_wrap_Inl op_try_eq op_defer_eq op_check_Inr op_check_Inl op_when_Inr

text \<open>Running an operation whose first part is known.\<close>

lemma op_bind_run [simp]:
  "m w = (Inr x, w') \<Longrightarrow> op_bind m f w = f x w'"
  "m w = (Inl e, w') \<Longrightarrow> op_bind m f w = (Inl e, w')"
  by (simp_all add: op_bind_def)

lemma op_wrap_run [simp]:
  "m w = (Inr x, w') \<Longrightarrow> op_wrap g m w = (Inr x, w')"
  "m w = (Inl e, w') \<Longrightarrow> op_wrap g m w = (Inl (g e), w')"
  by (simp_all add: op_wrap_def)

lemma op_try_run [simp]: "m w = (r, w') \<Longrightarrow> op_try m w = (Inr r, w')"
  by (simp add: op_try_def)

lemma op_bind_try [simp]: "m w = (r, w') \<Longrightarrow> op_bind (op_try m) f w = f r w'"
  by (simp add: op_bind_def op_try_def)

text \<open>A call whose error is inspected, by the two cases of its result.\<close>

lemma op_bind_try_sum: "op_bind (op_try m) (case_sum g h) w = z \<longleftrightarrow>
  (\<exists>e w1. m w = (Inl e, w1) \<and> g e w1 = z) \<or> (\<exists>x w1. m w = (Inr x, w1) \<and> h x w1 = z)"
  by (cases "m w"; cases "fst (m w)") (auto simp: op_bind_def op_try_def)

lemma op_defer_run [simp]: "m w = (r, w') \<Longrightarrow> op_defer c m w = (r, c w')"
  by (simp add: op_defer_def)

lemma op_check_run [simp]: "b \<Longrightarrow> op_check b e = op_return ()" "\<not> b \<Longrightarrow> op_check b e = op_fail e"
  by (simp_all add: op_check_def)

lemma op_when_run [simp]: "op_when True m = m" "op_when False m = op_return ()"
  by (simp_all add: op_when_def)

lemma op_for_append: "op_for f (xs @ ys) = op_bind (op_for f xs) (\<lambda>_. op_for f ys)"
  by (induction xs) (auto simp: op_bind_def fun_eq_iff split: prod.splits sum.splits)

lemma op_map_Inr_length: "op_map f xs w = (Inr ys, w') \<Longrightarrow> length ys = length xs"
  by (induction xs arbitrary: ys w) (auto simp: op_results)

subsection \<open>Invariants\<close>

definition op_keeps :: "('w \<Rightarrow> bool) \<Rightarrow> ('w, 'e, 'a) op \<Rightarrow> bool" where
  "op_keeps P m \<longleftrightarrow> (\<forall>w. P w \<longrightarrow> P (snd (m w)))"

lemma op_keepsI: "(\<And>w r w'. P w \<Longrightarrow> m w = (r, w') \<Longrightarrow> P w') \<Longrightarrow> op_keeps P m"
  by (simp add: op_keeps_def) (metis surjective_pairing)

lemma op_keepsD: "op_keeps P m \<Longrightarrow> P w \<Longrightarrow> m w = (r, w') \<Longrightarrow> P w'"
  by (auto simp: op_keeps_def)

lemma op_keeps_return [inv_intros]: "op_keeps P (op_return x)"
  and op_keeps_fail [inv_intros]: "op_keeps P (op_fail e)"
  and op_keeps_lift [inv_intros]: "op_keeps P (op_lift r)"
  by (simp_all add: op_keeps_def)

lemma op_keeps_bind [inv_intros]: "op_keeps P m \<Longrightarrow> (\<And>x. op_keeps P (f x)) \<Longrightarrow> op_keeps P (op_bind m f)"
  by (auto simp: op_keeps_def op_bind_def split: prod.splits sum.splits)

text \<open>Only results that can occur count.\<close>

lemma op_keeps_bind_result:
  "op_keeps P m \<Longrightarrow> (\<And>x w w'. m w = (Inr x, w') \<Longrightarrow> op_keeps P (f x)) \<Longrightarrow> op_keeps P (op_bind m f)"
  by (auto simp: op_keeps_def op_bind_def split: prod.splits sum.splits)

lemma op_keeps_bind_fails:
  "op_keeps P m \<Longrightarrow> (\<And>x w w'. m w \<noteq> (Inr x, w')) \<Longrightarrow> op_keeps P (op_bind m f)"
  by (rule op_keeps_bind_result) auto

lemma op_bind_fails: "(\<And>x w w'. m w \<noteq> (Inr x, w')) \<Longrightarrow> op_bind m f w \<noteq> (Inr y, w')"
  by (auto simp: op_bind_Inr)

lemma op_keeps_wrap [inv_intros]: "op_keeps P m \<Longrightarrow> op_keeps P (op_wrap g m)"
  by (auto simp: op_keeps_def op_wrap_def split: prod.splits)

lemma op_keeps_try [inv_intros]: "op_keeps P m \<Longrightarrow> op_keeps P (op_try m)"
  by (auto simp: op_keeps_def op_try_def split: prod.splits)

lemma op_keeps_defer [inv_intros]: "op_keeps P m \<Longrightarrow> (\<And>w. P w \<Longrightarrow> P (c w)) \<Longrightarrow> op_keeps P (op_defer c m)"
  by (auto simp: op_keeps_def op_defer_def split: prod.splits)

lemma op_keeps_check [inv_intros]: "op_keeps P (op_check b e)"
  by (simp add: op_keeps_def op_check_def)

lemma op_keeps_when [inv_intros]: "(b \<Longrightarrow> op_keeps P m) \<Longrightarrow> op_keeps P (op_when b m)"
  by (cases b) (simp_all add: op_keeps_def)

lemma op_keeps_for [inv_intros]: "(\<And>x. x \<in> set xs \<Longrightarrow> op_keeps P (f x)) \<Longrightarrow> op_keeps P (op_for f xs)"
  by (induction xs) (auto intro!: inv_intros)

lemma op_keeps_map [inv_intros]: "(\<And>x. x \<in> set xs \<Longrightarrow> op_keeps P (f x)) \<Longrightarrow> op_keeps P (op_map f xs)"
  by (induction xs) (auto intro!: inv_intros)

end
