(* ===== verification/Oci.thy ===== *)
theory Oci
  imports Effects Paths
begin

text \<open>
  Content and indexes of package \<open>internal/oci\<close>: descriptors, bounded fetches and content-addressed
  pushes (\<open>content.go\<close>), the canonical bundle index (\<open>layout_index.go\<close>, \<open>bundle_index.go\<close>), the
  multi-architecture root index a tag points at (\<open>root_index.go\<close>) and references (\<open>reference.go\<close>).
  The registry, JSON and SHA-256 are the records \<open>registry\<close> and \<open>codec\<close>. Of the OCI structures the
  fields the program reads or writes are modelled; an annotation map is a partial function, and a key
  that is absent reads as the empty string.
\<close>

subsection \<open>Data\<close>

record platform =
  pf_architecture :: string
  pf_os :: string

record descriptor =
  d_media_type :: string
  d_artifact_type :: string
  d_digest :: string
  d_size :: int
  d_annotations :: "string \<rightharpoonup> string"
  d_platform :: "platform option"

record oci_index =
  ix_schema_version :: int
  ix_media_type :: string
  ix_artifact_type :: string
  ix_manifests :: "descriptor list"
  ix_annotations :: "string \<rightharpoonup> string"

record manifest =
  mf_schema_version :: int
  mf_media_type :: string
  mf_artifact_type :: string
  mf_config :: descriptor
  mf_layers :: "descriptor list"
  mf_annotations :: "string \<rightharpoonup> string"

definition annotation :: "(string \<rightharpoonup> string) \<Rightarrow> string \<Rightarrow> string" where
  "annotation m k = (case m k of None \<Rightarrow> [] | Some v \<Rightarrow> v)"

definition no_descriptor :: descriptor where
  "no_descriptor = \<lparr>d_media_type = [], d_artifact_type = [], d_digest = [], d_size = 0, d_annotations = Map.empty, d_platform = None\<rparr>"

text \<open>Names that the OCI image specification gives.\<close>

definition media_type_image_index :: string where
  "media_type_image_index = ''application/vnd.oci.image.index.v1+json''"

definition media_type_image_manifest :: string where
  "media_type_image_manifest = ''application/vnd.oci.image.manifest.v1+json''"

definition annotation_title :: string where
  "annotation_title = ''org.opencontainers.image.title''"

definition annotation_ref_name :: string where
  "annotation_ref_name = ''org.opencontainers.image.ref.name''"

definition annotation_created :: string where
  "annotation_created = ''org.opencontainers.image.created''"

text \<open>Names of the program.\<close>

definition media_type_bundle_definition :: string where
  "media_type_bundle_definition = ''application/vnd.defenseunicorns.uds.bundle.definition.v1''"

definition media_type_bundle_hcl :: string where
  "media_type_bundle_hcl = ''application/vnd.defenseunicorns.uds.bundle.hcl.v1''"

definition media_type_bundle_values :: string where
  "media_type_bundle_values = ''application/vnd.defenseunicorns.uds.bundle.values.v1+yaml''"

definition media_type_bundle :: string where
  "media_type_bundle = ''application/vnd.defenseunicorns.uds.bundle.v1''"

definition annotation_bundle_architecture :: string where
  "annotation_bundle_architecture = ''uds.dev/architecture''"

definition annotation_package_name :: string where
  "annotation_package_name = ''uds.dev/package.name''"

definition annotation_package_source :: string where
  "annotation_package_source = ''uds.dev/package.source''"

definition annotation_package_verification :: string where
  "annotation_package_verification = ''uds.dev/package-verification''"

definition package_verified :: string where
  "package_verified = ''verified''"

definition annotation_reconfigured_from :: string where
  "annotation_reconfigured_from = ''org.defenseunicorns.uds.reconfigured-from''"

definition media_type_docker_manifest :: string where
  "media_type_docker_manifest = ''application/vnd.docker.distribution.manifest.v2+json''"

definition epoch :: string where
  "epoch = ''1970-01-01T00:00:00Z''"

text \<open>
  \<open>cd_digest\<close> is the digest of bytes, \<open>cd_index\<close> and \<open>cd_manifest\<close> are \<open>json.Unmarshal\<close> and the
  functions with \<open>_bytes\<close> are \<open>json.Marshal\<close>, \<open>cd_index_indent\<close> is \<open>json.MarshalIndent\<close>, \<open>None\<close> for an error; \<open>cd_annotations\<close> and
  \<open>cd_platform\<close> are the JSON parts of a sort key, \<open>cd_goarch\<close> is \<open>runtime.GOARCH\<close>.
\<close>

record codec =
  cd_digest :: "string \<Rightarrow> string"
  cd_index :: "string \<Rightarrow> oci_index option"
  cd_index_bytes :: "oci_index \<Rightarrow> string option"
  cd_index_indent :: "oci_index \<Rightarrow> string option"
  cd_manifest :: "string \<Rightarrow> manifest option"
  cd_manifest_bytes :: "manifest \<Rightarrow> string option"
  cd_annotations :: "(string \<rightharpoonup> string) \<Rightarrow> string"
  cd_platform :: "platform option \<Rightarrow> string"
  cd_goarch :: string

text \<open>
  An ORAS target. \<open>rg_fetch\<close> is \<open>content.FetchAll\<close>; \<open>rg_push_reference\<close>, \<open>rg_delete\<close> and
  \<open>rg_referrers\<close> are \<open>None\<close> for a target without that interface; \<open>rg_not_found\<close> and
  \<open>rg_already_exists\<close> tell the two errors the code tests for.
\<close>

record ('w, 'e) registry =
  rg_resolve :: "string \<Rightarrow> ('w, 'e, descriptor) op"
  rg_fetch :: "descriptor \<Rightarrow> ('w, 'e, string) op"
  rg_push :: "descriptor \<Rightarrow> string \<Rightarrow> ('w, 'e, unit) op"
  rg_exists :: "descriptor \<Rightarrow> ('w, 'e, bool) op"
  rg_tag :: "descriptor \<Rightarrow> string \<Rightarrow> ('w, 'e, unit) op"
  rg_push_reference :: "(descriptor \<Rightarrow> string \<Rightarrow> string \<Rightarrow> ('w, 'e, unit) op) option"
  rg_delete :: "(descriptor \<Rightarrow> ('w, 'e, unit) op) option"
  rg_referrers :: "(descriptor \<Rightarrow> string \<Rightarrow> ('w, 'e, descriptor list) op) option"
  rg_not_found :: "'e \<Rightarrow> bool"
  rg_already_exists :: "'e \<Rightarrow> bool"

datatype 'e oci_error =
    Cause 'e
  | DescriptorTooLarge string int int
  | FetchContent string 'e
  | ResolveReference string 'e
  | NotAnIndex string
  | RootEntryNotBundle string
  | ArchitectureUnavailable string string "string list"
  | NotABundle string
  | ReadExistingRootIndex string "'e oci_error"
  | ParseExistingRegistryContent string
  | MarshalRootIndex string string
  | PushRootIndex string "'e oci_error"
  | TargetTagExists string
  | CheckTargetTag string 'e
  | BundleDefinitionNotFound
  | ParseReference string
  | TagReferenceRequired
  | ManifestCount nat
  | ReadIndexFailed string 'e
  | ParseIndexFailed string
  | EncodeIndex
  | WriteIndexFile 'e

subsection \<open>Content\<close>

definition is_image_manifest_media_type :: "string \<Rightarrow> bool" where
  "is_image_manifest_media_type t \<longleftrightarrow> t = media_type_image_manifest \<or> t = media_type_docker_manifest"

definition max_fetch_bytes_size :: int where
  "max_fetch_bytes_size = 16 * 2 ^ 20"

definition fetch_bytes :: "('w, 'e) registry \<Rightarrow> descriptor \<Rightarrow> ('w, 'e oci_error, string) op" where
  "fetch_bytes rg d =
     (if d_size d > max_fetch_bytes_size then op_fail (DescriptorTooLarge (d_digest d) (d_size d) max_fetch_bytes_size)
      else op_wrap (FetchContent (d_digest d)) (rg_fetch rg d))"

definition new_descriptor :: "codec \<Rightarrow> string \<Rightarrow> string \<Rightarrow> descriptor" where
  "new_descriptor cd media_type data = no_descriptor\<lparr>d_media_type := media_type, d_digest := cd_digest cd data, d_size := int (length data)\<rparr>"

definition push_descriptor_bytes :: "('w, 'e) registry \<Rightarrow> descriptor \<Rightarrow> string \<Rightarrow> ('w, 'e, unit) op" where
  "push_descriptor_bytes rg d data = op_bind (op_try (rg_push rg d data)) (\<lambda>r. case r of
       Inl e \<Rightarrow> if rg_already_exists rg e then op_return () else op_fail e
     | Inr _ \<Rightarrow> op_return ())"

definition push_bytes :: "codec \<Rightarrow> ('w, 'e) registry \<Rightarrow> string \<Rightarrow> string \<Rightarrow> (string \<rightharpoonup> string) \<Rightarrow> ('w, 'e, descriptor) op" where
  "push_bytes cd rg media_type data ann =
     (let d = (new_descriptor cd media_type data)\<lparr>d_annotations := ann\<rparr>
      in op_bind (push_descriptor_bytes rg d data) (\<lambda>_. op_return d))"

definition push_manifest_bytes :: "codec \<Rightarrow> ('w, 'e) registry \<Rightarrow> string \<Rightarrow> string \<Rightarrow> string \<Rightarrow> ('w, 'e, descriptor) op" where
  "push_manifest_bytes cd rg media_type artifact_type data =
     (let d = (new_descriptor cd media_type data)\<lparr>d_artifact_type := artifact_type\<rparr>
      in op_bind (push_descriptor_bytes rg d data) (\<lambda>_. op_return d))"

definition push_reference_bytes :: "('w, 'e) registry \<Rightarrow> descriptor \<Rightarrow> string \<Rightarrow> string \<Rightarrow> ('w, 'e, unit) op" where
  "push_reference_bytes rg d data ref = (case rg_push_reference rg of
       Some push \<Rightarrow> push d data ref
     | None \<Rightarrow> op_bind (push_descriptor_bytes rg d data) (\<lambda>_. rg_tag rg d ref))"

definition ensure_tag_available :: "('w, 'e) registry \<Rightarrow> string \<Rightarrow> ('w, 'e oci_error, unit) op" where
  "ensure_tag_available rg tag = op_bind (op_try (rg_resolve rg tag)) (\<lambda>r. case r of
       Inr _ \<Rightarrow> op_fail (TargetTagExists tag)
     | Inl e \<Rightarrow> if \<not> rg_not_found rg e then op_fail (CheckTargetTag tag e) else op_return ())"

definition bundle_child_descriptor :: "descriptor \<Rightarrow> string \<Rightarrow> descriptor" where
  "bundle_child_descriptor d arch = d\<lparr>d_artifact_type := media_type_bundle,
     d_platform := Some \<lparr>pf_architecture = arch, pf_os = ''multi''\<rparr>\<rparr>"

subsection \<open>Bundle indexes\<close>

definition is_bundle_index :: "oci_index \<Rightarrow> bool" where
  "is_bundle_index ix \<longleftrightarrow> ix_artifact_type ix = media_type_bundle"

fun find_definition :: "nat \<Rightarrow> descriptor list \<Rightarrow> (descriptor \<times> nat) option" where
  "find_definition i [] = None"
| "find_definition i (m # ms) = (if d_artifact_type m = media_type_bundle_definition then Some (m, i) else find_definition (Suc i) ms)"

definition find_bundle_definition :: "oci_index \<Rightarrow> ('e oci_error, descriptor \<times> nat) result" where
  "find_bundle_definition ix = (case find_definition 0 (ix_manifests ix) of
       Some r \<Rightarrow> Inr r | None \<Rightarrow> Inl BundleDefinitionNotFound)"

text \<open>\<open>%d\<close> of the size is the parameter \<open>show_int\<close>.\<close>

definition descriptor_sort_key :: "codec \<Rightarrow> (int \<Rightarrow> string) \<Rightarrow> descriptor \<Rightarrow> string" where
  "descriptor_sort_key cd show_int d = join_with [CHR 0x00]
     [d_digest d, annotation (d_annotations d) annotation_ref_name, d_media_type d, d_artifact_type d,
      show_int (d_size d), cd_annotations cd (d_annotations d), cd_platform cd (d_platform d)]"

text \<open>
  \<open>sort.Slice\<close> is an insertion sort for the short lists at hand, which keeps the order of equal keys.
\<close>

definition sort_descriptors :: "codec \<Rightarrow> (int \<Rightarrow> string) \<Rightarrow> descriptor list \<Rightarrow> descriptor list" where
  "sort_descriptors cd show_int = sort_key (descriptor_sort_key cd show_int)"

definition new_bundle_index :: "codec \<Rightarrow> (int \<Rightarrow> string) \<Rightarrow> descriptor list \<Rightarrow> string \<Rightarrow> oci_index" where
  "new_bundle_index cd show_int ms arch = \<lparr>ix_schema_version = 2, ix_media_type = media_type_image_index,
     ix_artifact_type = media_type_bundle, ix_manifests = sort_descriptors cd show_int ms,
     ix_annotations = [annotation_bundle_architecture \<mapsto> arch]\<rparr>"

text \<open>\<open>write\<close> is \<open>os.WriteFile\<close>.\<close>

definition write_index :: "codec \<Rightarrow> (string \<Rightarrow> string \<Rightarrow> ('w, 'e, unit) op) \<Rightarrow> string \<Rightarrow> oci_index \<Rightarrow> ('w, 'e oci_error, unit) op" where
  "write_index cd write path ix = (case cd_index_indent cd ix of
       None \<Rightarrow> op_fail EncodeIndex
     | Some bytes \<Rightarrow> op_wrap WriteIndexFile (write path (bytes @ [CHR 0x0A])))"

text \<open>\<open>pack\<close> is \<open>oras.PackManifest\<close> with an artifact type, layers and annotations.\<close>

definition pack_bundle_definition_manifest :: "(string \<Rightarrow> descriptor list \<Rightarrow> (string \<rightharpoonup> string) \<Rightarrow> ('w, 'e, descriptor) op) \<Rightarrow>
    descriptor list \<Rightarrow> ('w, 'e, descriptor) op" where
  "pack_bundle_definition_manifest pack layers =
     op_bind (pack media_type_bundle_definition layers [annotation_created \<mapsto> epoch]) (\<lambda>d.
     op_return (d\<lparr>d_artifact_type := media_type_bundle_definition\<rparr>))"

definition package_root_descriptor :: "codec \<Rightarrow> (string \<Rightarrow> ('e, string) result) \<Rightarrow> string \<Rightarrow> ('e oci_error, descriptor) result" where
  "package_root_descriptor cd read oci_dir =
     (let index_path = path_join [oci_dir, ''index.json''] in
      ebind (map_error (ReadIndexFailed index_path) (read index_path)) (\<lambda>data. case cd_index cd data of
        None \<Rightarrow> Inl (ParseIndexFailed index_path)
      | Some ix \<Rightarrow> (case ix_manifests ix of [m] \<Rightarrow> Inr m | ms \<Rightarrow> Inl (ManifestCount (length ms)))))"

subsection \<open>Resolving a bundle\<close>

definition bundle_entry :: "descriptor \<Rightarrow> bool" where
  "bundle_entry m \<longleftrightarrow> d_media_type m = media_type_image_index \<and> d_artifact_type m = media_type_bundle"

fun child_loop :: "codec \<Rightarrow> ('w, 'e) registry \<Rightarrow> string \<Rightarrow> string \<Rightarrow> descriptor list \<Rightarrow> string list \<Rightarrow>
    ('w, 'e oci_error, descriptor \<times> string) op" where
  "child_loop cd rg ref arch [] available =
     (if length available > 0 then op_fail (ArchitectureUnavailable arch ref available) else op_fail (NotABundle ref))"
| "child_loop cd rg ref arch (m # ms) available =
     (if \<not> bundle_entry m \<or> d_platform m = None then child_loop cd rg ref arch ms available
      else if pf_architecture (the (d_platform m)) \<noteq> arch
        then child_loop cd rg ref arch ms (available @ [pf_architecture (the (d_platform m))])
      else op_bind (fetch_bytes rg m) (\<lambda>data. case cd_index cd data of
          None \<Rightarrow> op_fail (RootEntryNotBundle arch)
        | Some child \<Rightarrow> if ix_artifact_type child \<noteq> media_type_bundle then op_fail (RootEntryNotBundle arch)
            else op_return (m, data)))"

definition resolve_bundle_child :: "codec \<Rightarrow> ('w, 'e) registry \<Rightarrow> string \<Rightarrow> string \<Rightarrow> ('w, 'e oci_error, descriptor \<times> string) op" where
  "resolve_bundle_child cd rg ref arch =
     (let arch' = (if arch = [] then cd_goarch cd else arch) in
      op_bind (op_wrap (ResolveReference ref) (rg_resolve rg ref)) (\<lambda>d.
      op_bind (fetch_bytes rg d) (\<lambda>data. case cd_index cd data of
        None \<Rightarrow> op_fail (NotAnIndex ref)
      | Some ix \<Rightarrow> if ix_artifact_type ix = media_type_bundle then op_return (d, data)
          else child_loop cd rg ref arch' (ix_manifests ix) [])))"

subsection \<open>The root index\<close>

definition kept_entry :: "string \<Rightarrow> descriptor \<Rightarrow> bool" where
  "kept_entry arch m \<longleftrightarrow> bundle_entry m \<and>
     (case d_platform m of None \<Rightarrow> False | Some p \<Rightarrow> pf_architecture p \<noteq> [] \<and> pf_architecture p \<noteq> arch)"

definition existing_root_entries :: "codec \<Rightarrow> ('w, 'e) registry \<Rightarrow> string \<Rightarrow> string \<Rightarrow>
    ('w, 'e oci_error, descriptor list \<times> descriptor) op" where
  "existing_root_entries cd rg tag arch = op_bind (op_try (rg_resolve rg tag)) (\<lambda>r. case r of
       Inl e \<Rightarrow> if rg_not_found rg e then op_return ([], no_descriptor) else op_fail (ResolveReference tag e)
     | Inr d \<Rightarrow> op_bind (fetch_bytes rg d) (\<lambda>data. case cd_index cd data of
         None \<Rightarrow> op_fail (ParseExistingRegistryContent tag)
       | Some ix \<Rightarrow> if ix_artifact_type ix \<noteq> [] then op_return ([], d)
           else op_return (filter (kept_entry arch) (ix_manifests ix), d)))"

definition entry_arch :: "descriptor \<Rightarrow> string" where
  "entry_arch m = (case d_platform m of None \<Rightarrow> [] | Some p \<Rightarrow> pf_architecture p)"

text \<open>The child always has a platform; the code dereferences it.\<close>

definition merge_root_index :: "codec \<Rightarrow> ('w, 'e) registry \<Rightarrow> string \<Rightarrow> descriptor \<Rightarrow>
    ('w, 'e oci_error, string \<times> descriptor \<times> descriptor) op" where
  "merge_root_index cd rg tag child =
     op_bind (op_wrap (ReadExistingRootIndex tag) (existing_root_entries cd rg tag (entry_arch child))) (\<lambda>(existing, current).
       let root = \<lparr>ix_schema_version = 2, ix_media_type = media_type_image_index, ix_artifact_type = [],
             ix_manifests = sort_key entry_arch (existing @ [child]), ix_annotations = Map.empty\<rparr>
       in case cd_index_bytes cd root of
            None \<Rightarrow> op_fail (MarshalRootIndex tag (d_digest child))
          | Some bytes \<Rightarrow> op_return (bytes, new_descriptor cd media_type_image_index bytes, current))"

definition publish_bundle_root_index :: "codec \<Rightarrow> ('w, 'e) registry \<Rightarrow> string \<Rightarrow> descriptor \<Rightarrow> ('w, 'e oci_error, unit) op" where
  "publish_bundle_root_index cd rg tag child =
     op_bind (merge_root_index cd rg tag child) (\<lambda>(bytes, root, current).
       if d_digest current = d_digest root then op_return ()
       else op_wrap (\<lambda>e. PushRootIndex tag (Cause e)) (push_reference_bytes rg root bytes tag))"

subsection \<open>References\<close>

definition trim_scheme :: "string \<Rightarrow> string" where
  "trim_scheme s = (case str_index s ''://'' of Some i \<Rightarrow> drop (i + 3) s | None \<Rightarrow> s)"

definition is_oci_reference :: "string \<Rightarrow> bool" where
  "is_oci_reference s =
     (if has_prefix s ''oci://'' then True
      else if str_contains s ''://'' then False
      else if has_prefix s ''/'' \<or> has_prefix s ''./'' \<or> has_prefix s ''../'' \<or> str_contains s [CHR 0x5C] then False
      else if str_contains s '' '' then False
      else if has_prefix s ''localhost/'' \<or> has_prefix s ''localhost:'' then str_contains s ''/''
      else if str_contains s ''.'' \<and> str_contains s ''/'' \<and> (str_contains s '':'' \<or> str_contains s ''@'') then True
      else if has_suffix s ''.hcl'' \<or> str_contains s ''.tar'' \<or> has_suffix s ''.yaml'' \<or> has_suffix s ''.yml'' then False
      else str_contains s ''.'' \<and> str_contains s ''/'')"

text \<open>\<open>parse\<close> and \<open>identify\<close> are the two reference parsers of the libraries.\<close>

definition reference_identifier :: "(string \<Rightarrow> (string \<times> string \<times> string) option) \<Rightarrow> (string \<Rightarrow> string option) \<Rightarrow> string \<Rightarrow>
    ('e oci_error, string) result" where
  "reference_identifier parse identify ref = (case parse (trim_scheme ref) of
       None \<Rightarrow> Inl (ParseReference ref)
     | Some _ \<Rightarrow> (case identify (trim_scheme ref) of None \<Rightarrow> Inl (ParseReference ref) | Some i \<Rightarrow> Inr i))"

definition tagged_derivative_reference :: "(string \<Rightarrow> (string \<times> string \<times> string) option) \<Rightarrow> string \<Rightarrow> string \<Rightarrow>
    ('e oci_error, string \<times> string \<times> string) result" where
  "tagged_derivative_reference parse source sfx = (case parse (trim_scheme source) of
       None \<Rightarrow> Inl (ParseReference source)
     | Some (host, repository, reference) \<Rightarrow>
         if reference = [] \<or> str_contains reference '':'' then Inl TagReferenceRequired
         else Inr (reference, reference @ sfx, ''oci://'' @ host @ ''/'' @ repository @ '':'' @ reference @ sfx))"

end
