(* ===== verification/Oci_Transfer.thy ===== *)
theory Oci_Transfer
  imports Oci_Store Config
begin

text \<open>
  Moving bundles to and from a registry, package \<open>internal/oci\<close>: signature evidence
  (\<open>signature.go\<close>), the transfer functions (\<open>transfer.go\<close>), the pusher (\<open>push.go\<close>) and the puller
  (\<open>pull.go\<close>). Registries, the ORAS copy functions, the hooks of the caller and the file system are
  fields of records; logging is not modelled. A digest in a descriptor is well formed.
\<close>

subsection \<open>Signature evidence\<close>

definition media_type_bundle_signature :: string where
  "media_type_bundle_signature = ''application/vnd.dev.sigstore.bundle.v0.3+json''"

definition bundle_signature_file_name :: string where
  "bundle_signature_file_name = ''uds.bundle.sig''"

datatype 'e signature_error =
    SignatureDiscoveryUnsupported
  | DiscoverSignature 'e
  | FetchSignatureArtifact "'e oci_error"
  | ParseSignatureArtifact
  | InvalidSignatureLayers
  | FetchSignatureEvidence "'e oci_error"
  | SignatureExists
  | SignatureReplaceUnsupported
  | PushSignatureEvidence 'e
  | PublishSignatureArtifact 'e
  | TagSignatureArtifact 'e
  | RemoveReplacedSignature 'e "'e option"
  | BundleSignatureNotFound
  | BundleSignatureDuplicate nat

definition legacy_signature_tag :: "descriptor \<Rightarrow> string" where
  "legacy_signature_tag subject = ''sha256-'' @ digest_encoded (d_digest subject)"

definition signature_references :: "('w, 'e) registry \<Rightarrow> (descriptor \<Rightarrow> string \<Rightarrow> ('w, 'e, descriptor list) op) \<Rightarrow> descriptor \<Rightarrow>
    ('w, 'e, descriptor list) op" where
  "signature_references rg referrers subject =
     op_bind (op_try (referrers subject media_type_bundle_signature)) (\<lambda>refs.
       if (case refs of Inr rs \<Rightarrow> rs \<noteq> [] | Inl _ \<Rightarrow> False) then op_lift refs
       else op_bind (op_try (rg_resolve rg (legacy_signature_tag subject))) (\<lambda>legacy. case legacy of
           Inr d \<Rightarrow> op_return [d]
         | Inl _ \<Rightarrow> op_lift refs))"

definition signature_data :: "codec \<Rightarrow> ('w, 'e) registry \<Rightarrow> descriptor \<Rightarrow> ('w, 'e signature_error, string) op" where
  "signature_data cd rg ref =
     op_bind (op_wrap FetchSignatureArtifact (fetch_bytes rg ref)) (\<lambda>bytes. case cd_manifest cd bytes of
         None \<Rightarrow> op_fail ParseSignatureArtifact
       | Some m \<Rightarrow> (case mf_layers m of
           [l] \<Rightarrow> if d_media_type l = media_type_bundle_signature then op_wrap FetchSignatureEvidence (fetch_bytes rg l)
                  else op_fail InvalidSignatureLayers
         | _ \<Rightarrow> op_fail InvalidSignatureLayers))"

definition fetch_bundle_signature :: "codec \<Rightarrow> ('w, 'e) registry \<Rightarrow> descriptor \<Rightarrow> ('w, 'e signature_error, string) op" where
  "fetch_bundle_signature cd rg subject = (case rg_referrers rg of
       None \<Rightarrow> op_fail SignatureDiscoveryUnsupported
     | Some referrers \<Rightarrow> op_bind (op_wrap DiscoverSignature (signature_references rg referrers subject)) (\<lambda>refs. case refs of
           [] \<Rightarrow> op_fail BundleSignatureNotFound
         | [ref] \<Rightarrow> signature_data cd rg ref
         | _ \<Rightarrow> op_fail (BundleSignatureDuplicate (length refs))))"

text \<open>Whether the only evidence at the target is already \<open>data\<close>.\<close>

definition already_published :: "codec \<Rightarrow> ('w, 'e) registry \<Rightarrow> descriptor list \<Rightarrow> string \<Rightarrow> bool \<Rightarrow> ('w, 'e signature_error, bool) op" where
  "already_published cd rg refs data overwrite =
     (if length refs = 1 then
        op_bind (op_try (signature_data cd rg (hd refs))) (\<lambda>r. case r of
            Inl e \<Rightarrow> if \<not> overwrite then op_fail e else op_return False
          | Inr existing \<Rightarrow> op_return (existing = data))
      else op_return False)"

definition delete_replaced :: "('w, 'e) registry \<Rightarrow> (descriptor \<Rightarrow> ('w, 'e, unit) op) \<Rightarrow> descriptor \<Rightarrow> descriptor \<Rightarrow>
    ('w, 'e signature_error, unit) op" where
  "delete_replaced rg del replacement ref = op_bind (op_try (del ref)) (\<lambda>r. case r of
       Inr _ \<Rightarrow> op_return ()
     | Inl e \<Rightarrow> if rg_not_found rg e then op_return ()
         else op_bind (op_try (del replacement)) (\<lambda>r'. case r' of
             Inl e' \<Rightarrow> op_fail (RemoveReplacedSignature e (if rg_not_found rg e' then None else Some e'))
           | Inr _ \<Rightarrow> op_fail (RemoveReplacedSignature e None)))"

text \<open>\<open>pack\<close> is \<open>oras.PackManifest\<close> for the signature artifact with the given subject and layers.\<close>

definition publish_bundle_signature :: "codec \<Rightarrow> ('w, 'e) registry \<Rightarrow> (descriptor \<Rightarrow> descriptor list \<Rightarrow> ('w, 'e, descriptor) op) \<Rightarrow>
    descriptor \<Rightarrow> string \<Rightarrow> bool \<Rightarrow> ('w, 'e signature_error, unit) op" where
  "publish_bundle_signature cd rg pack subject data overwrite = (case rg_referrers rg of
       None \<Rightarrow> op_fail SignatureDiscoveryUnsupported
     | Some referrers \<Rightarrow>
         op_bind (op_wrap DiscoverSignature (signature_references rg referrers subject)) (\<lambda>refs.
         op_bind (already_published cd rg refs data overwrite) (\<lambda>done.
           if done then op_return ()
           else if refs \<noteq> [] \<and> \<not> overwrite then op_fail SignatureExists
           else if refs \<noteq> [] \<and> rg_delete rg = None then op_fail SignatureReplaceUnsupported
           else
             op_bind (op_wrap PushSignatureEvidence (push_bytes cd rg media_type_bundle_signature data Map.empty)) (\<lambda>layer.
             op_bind (op_wrap PublishSignatureArtifact (pack subject [layer])) (\<lambda>replacement.
             op_bind (op_wrap TagSignatureArtifact (rg_tag rg replacement (legacy_signature_tag subject))) (\<lambda>_.
             op_for (delete_replaced rg (the (rg_delete rg)) replacement) refs))))))"

subsection \<open>Targets and copies\<close>

text \<open>\<open>name.ParseReference\<close> tells a tag reference from a digest reference; both carry their identifier.\<close>

datatype parsed_reference = TagReference string | DigestReference string

fun identifier_of :: "parsed_reference \<Rightarrow> string" where
  "identifier_of (TagReference t) = t"
| "identifier_of (DigestReference d) = d"

datatype 'e transfer_error =
    TransferConfigInvalid config_error
  | EmptyParameter string
  | ResolveTarget string 'e
  | ParseTransferReference string 'e
  | PushTagRequired string
  | MergeFailed "'e oci_error"
  | CheckBundleContent string 'e
  | PublishSignature "'e signature_error"
  | ConfigureTransfer 'e
  | PushContent string 'e
  | PushRoot string 'e
  | TagContent 'e
  | PullContent string 'e
  | PullPackageContent string "'e transfer_error"
  | InvalidBundle string
  | ReadBundleIndex string 'e
  | ParseBundleIndex
  | MissingArchitecture string
  | OpenBundleStore "'e store_error"
  | ReadSignatureEvidence 'e
  | StageIndexBlob 'e
  | ReadRootDescriptor string "'e oci_error"
  | PullTemporaryDirectory 'e
  | CreateOCIDirectory 'e
  | CreateOCIStore 'e
  | ResolveBundle string "'e oci_error"
  | FetchSignature "'e signature_error"
  | VerifySignature 'e
  | WriteSignatureEvidence 'e
  | WriteBundleIndex string 'e
  | RemoveDuplicateIndexBlob string 'e
  | BundleArchiveHookRequired
  | CreateBundleArchive string 'e

record ('w, 'e) host_fs =
  hf_mkdir_temp :: "string \<Rightarrow> string \<Rightarrow> ('w, 'e, string) op"
  hf_mkdir_all :: "string \<Rightarrow> ('w, 'e, unit) op"
  hf_read :: "string \<Rightarrow> ('w, 'e, string) op"
  hf_write :: "string \<Rightarrow> string \<Rightarrow> ('w, 'e, unit) op"
  hf_remove :: "string \<Rightarrow> ('w, 'e, unit) op"
  hf_remove_all :: "string \<Rightarrow> ('w, 'e, unit) op"
  hf_not_exist :: "'e \<Rightarrow> bool"

text \<open>
  The libraries and hooks of a transfer. \<open>te_hook\<close> is the \<open>ToOrasTarget\<close> hook, \<open>te_remote\<close> is
  \<open>NewRemoteRepository\<close>, \<open>te_copy_defaults\<close> are the ORAS copy options at a concurrency and
  \<open>te_modify\<close> is the \<open>ModifyOrasSettings\<close> hook. \<open>te_store\<close> is ORAS' store at a directory, \<open>te_new_store\<close>
  creates one; \<open>te_copy_graph\<close> and \<open>te_copy\<close> are \<open>oras.CopyGraph\<close> and \<open>oras.Copy\<close>.
\<close>

record ('w, 'e, 'c) transfer_env =
  te_codec :: codec
  te_lower :: "string \<Rightarrow> string"
  te_stat :: "string \<Rightarrow> stat_result"
  te_fs :: "('w, 'e) host_fs"
  te_layout :: "('w, 'e) layout_fs"
  te_hook :: "(string \<Rightarrow> ('w, 'e, ('w, 'e) registry) op) option"
  te_remote :: "config_options \<Rightarrow> string \<Rightarrow> ('w, 'e, ('w, 'e) registry) op"
  te_copy_defaults :: "int \<Rightarrow> 'c"
  te_modify :: "('c \<Rightarrow> ('w, 'e, 'c) op) option"
  te_store :: "string \<Rightarrow> ('w, 'e) registry"
  te_new_store :: "string \<Rightarrow> ('w, 'e, unit) op"
  te_copy_graph :: "('w, 'e) registry \<Rightarrow> ('w, 'e) registry \<Rightarrow> descriptor \<Rightarrow> 'c \<Rightarrow> ('w, 'e, unit) op"
  te_copy :: "('w, 'e) registry \<Rightarrow> string \<Rightarrow> ('w, 'e) registry \<Rightarrow> string \<Rightarrow> 'c \<Rightarrow> ('w, 'e, descriptor) op"
  te_parse :: "string \<Rightarrow> ('e, parsed_reference) result"
  te_parse_registry :: "string \<Rightarrow> ('e, string) result"
  te_pack :: "('w, 'e) registry \<Rightarrow> descriptor \<Rightarrow> descriptor list \<Rightarrow> ('w, 'e, descriptor) op"

definition resolve_target :: "('w, 'e, 'c) transfer_env \<Rightarrow> config_options \<Rightarrow> string \<Rightarrow> ('w, 'e, ('w, 'e) registry) op" where
  "resolve_target env opts ref = (case te_hook env of
       Some hook \<Rightarrow> hook (trim_scheme ref)
     | None \<Rightarrow> te_remote env opts (trim_scheme ref))"

definition copy_settings :: "('w, 'e, 'c) transfer_env \<Rightarrow> config_options \<Rightarrow> ('w, 'e, 'c) op" where
  "copy_settings env opts = (case te_modify env of
       None \<Rightarrow> op_return (te_copy_defaults env (concurrency opts))
     | Some modify \<Rightarrow> modify (te_copy_defaults env (concurrency opts)))"

text \<open>The reference is parsed by both libraries; the identifier is that of the second.\<close>

definition transfer_identifier :: "('w, 'e, 'c) transfer_env \<Rightarrow> string \<Rightarrow> ('e transfer_error, string) result" where
  "transfer_identifier env ref =
     ebind (map_error (ParseTransferReference ref) (te_parse_registry env (trim_scheme ref))) (\<lambda>_.
     ebind (map_error (ParseTransferReference ref) (te_parse env (trim_scheme ref))) (\<lambda>r. Inr (identifier_of r)))"

definition publish_evidence :: "('w, 'e, 'c) transfer_env \<Rightarrow> ('w, 'e) registry \<Rightarrow> descriptor \<Rightarrow> string option \<Rightarrow>
    ('w, 'e transfer_error, unit) op" where
  "publish_evidence env dst child signature = (case signature of
       None \<Rightarrow> op_return ()
     | Some data \<Rightarrow> op_wrap PublishSignature (publish_bundle_signature (te_codec env) dst (te_pack env dst) child data False))"

text \<open>\<open>signature\<close> is \<open>None\<close> when \<open>hasSignature\<close> is false. The result is the reference.\<close>

definition push_bundle_to_remote :: "('w, 'e, 'c) transfer_env \<Rightarrow> config_options \<Rightarrow> ('w, 'e) registry \<Rightarrow> descriptor \<Rightarrow> string \<Rightarrow>
    string option \<Rightarrow> ('w, 'e transfer_error, string) op" where
  "push_bundle_to_remote env opts store child ref signature =
     op_bind (op_wrap (ResolveTarget ref) (resolve_target env opts ref)) (\<lambda>dst.
     op_bind (op_lift (map_error (ParseTransferReference ref) (te_parse env (trim_scheme ref)))) (\<lambda>parsed. case parsed of
       DigestReference _ \<Rightarrow> op_fail (PushTagRequired ref)
     | TagReference tag \<Rightarrow>
         op_bind (op_wrap MergeFailed (merge_root_index (te_codec env) dst tag child)) (\<lambda>(bytes, root, current).
         op_bind (if d_digest current = d_digest root then op_wrap (CheckBundleContent ref) (rg_exists dst child) else op_return False) (\<lambda>published.
           if published then op_bind (publish_evidence env dst child signature) (\<lambda>_. op_return ref)
           else
             op_bind (op_wrap ConfigureTransfer (copy_settings env opts)) (\<lambda>co.
             op_bind (op_wrap (PushContent ref) (te_copy_graph env store dst child co)) (\<lambda>_.
             op_bind (publish_evidence env dst child signature) (\<lambda>_.
             op_bind (op_wrap (PushRoot ref) (push_reference_bytes dst root bytes tag)) (\<lambda>_. op_return ref))))))))"

definition push_to_remote :: "('w, 'e, 'c) transfer_env \<Rightarrow> config_options \<Rightarrow> ('w, 'e) registry \<Rightarrow> descriptor \<Rightarrow> string \<Rightarrow>
    ('w, 'e transfer_error, string) op" where
  "push_to_remote env opts store root ref =
     op_bind (op_wrap TagContent (rg_tag store root ''push-root'')) (\<lambda>_.
     op_bind (op_wrap (ResolveTarget ref) (resolve_target env opts ref)) (\<lambda>dst.
     op_bind (op_wrap ConfigureTransfer (copy_settings env opts)) (\<lambda>co.
     op_bind (op_lift (transfer_identifier env ref)) (\<lambda>tag.
     op_bind (op_wrap (PushContent ref) (te_copy env store ''push-root'' dst tag co)) (\<lambda>_. op_return ref)))))"

definition pull_to_store :: "('w, 'e, 'c) transfer_env \<Rightarrow> config_options \<Rightarrow> string \<Rightarrow> ('w, 'e) registry \<Rightarrow>
    ('w, 'e transfer_error, descriptor) op" where
  "pull_to_store env opts ref store =
     op_bind (op_wrap (ResolveTarget ref) (resolve_target env opts ref)) (\<lambda>src.
     op_bind (op_wrap ConfigureTransfer (copy_settings env opts)) (\<lambda>co.
     op_bind (op_lift (transfer_identifier env ref)) (\<lambda>tag.
     op_wrap (PullContent ref) (te_copy env src tag store tag co))))"

subsection \<open>Pushing\<close>

text \<open>\<open>Validate\<close>, and the options that every later use dereferences.\<close>

definition transfer_options :: "('w, 'e, 'c) transfer_env \<Rightarrow> 'f internal_config option \<Rightarrow> ('e transfer_error, config_options) result" where
  "transfer_options env cfg =
     ebind (map_error TransferConfigInvalid (validate_config (te_lower env) (te_stat env) cfg)) (\<lambda>_.
     map_error TransferConfigInvalid (validate_config_structure cfg))"

definition require_parameter :: "string \<Rightarrow> string \<Rightarrow> ('w, 'e transfer_error, unit) op" where
  "require_parameter name v = op_check (v \<noteq> []) (EmptyParameter name)"

definition read_bundle_index :: "('w, 'e, 'c) transfer_env \<Rightarrow> string \<Rightarrow> string \<Rightarrow> ('w, 'e transfer_error, string) op" where
  "read_bundle_index env dir path = op_wrap (\<lambda>e. if hf_not_exist (te_fs env) e then InvalidBundle dir else ReadBundleIndex path e)
     (hf_read (te_fs env) path)"

definition read_evidence :: "('w, 'e, 'c) transfer_env \<Rightarrow> string \<Rightarrow> ('w, 'e transfer_error, string option) op" where
  "read_evidence env path = op_bind (op_try (hf_read (te_fs env) path)) (\<lambda>r. case r of
       Inr data \<Rightarrow> op_return (Some data)
     | Inl e \<Rightarrow> if hf_not_exist (te_fs env) e then op_return None else op_fail (ReadSignatureEvidence e))"

definition push_bundle :: "('w, 'e, 'c) transfer_env \<Rightarrow> 'f internal_config option \<Rightarrow> string \<Rightarrow> string \<Rightarrow>
    ('w, 'e transfer_error, string) op" where
  "push_bundle env cfg bundle_dir ref =
     op_bind (op_lift (transfer_options env cfg)) (\<lambda>opts.
     op_bind (require_parameter ''bundleDir'' bundle_dir) (\<lambda>_.
     op_bind (require_parameter ''ociReference'' ref) (\<lambda>_.
       let oci_dir = path_join [bundle_dir, ''oci''];
           index_path = path_join [oci_dir, ''index.json'']
       in
       op_bind (read_bundle_index env bundle_dir index_path) (\<lambda>bytes. case cd_index (te_codec env) bytes of
         None \<Rightarrow> op_fail ParseBundleIndex
       | Some ix \<Rightarrow>
           if \<not> is_bundle_index ix then op_fail (InvalidBundle bundle_dir)
           else let arch = annotation (ix_annotations ix) annotation_bundle_architecture in
           if arch = [] then op_fail (MissingArchitecture bundle_dir)
           else
             op_bind (op_wrap OpenBundleStore (open_store (te_layout env) oci_dir)) (\<lambda>root.
               let child = bundle_child_descriptor (new_descriptor (te_codec env) media_type_image_index bytes) arch in
               op_bind (read_evidence env (path_join [bundle_dir, bundle_signature_file_name])) (\<lambda>signature.
               op_bind (op_wrap StageIndexBlob (push_descriptor_bytes (te_store env root) child bytes)) (\<lambda>_.
               push_bundle_to_remote env opts (te_store env root) child ref signature)))))))"

definition push_package :: "('w, 'e, 'c) transfer_env \<Rightarrow> 'f internal_config option \<Rightarrow> (string \<Rightarrow> ('e, string) result) \<Rightarrow> string \<Rightarrow> string \<Rightarrow>
    ('w, 'e transfer_error, string) op" where
  "push_package env cfg read package_dir ref =
     op_bind (op_lift (transfer_options env cfg)) (\<lambda>opts.
     op_bind (require_parameter ''packageDir'' package_dir) (\<lambda>_.
     op_bind (require_parameter ''ociReference'' ref) (\<lambda>_.
       let oci_dir = path_join [package_dir, ''oci''] in
       op_bind (op_wrap OpenBundleStore (open_store (te_layout env) oci_dir)) (\<lambda>root.
       op_bind (op_lift (map_error (ReadRootDescriptor oci_dir) (package_root_descriptor (te_codec env) read oci_dir))) (\<lambda>d.
       push_to_remote env opts (te_store env root) d ref)))))"

subsection \<open>Pulling\<close>

text \<open>
  \<open>ph_verify\<close> is the \<open>VerifyBundle\<close> hook on the index and the evidence, \<open>ph_archive\<close> the
  \<open>CreateBundleArchive\<close> hook.
\<close>

record ('w, 'e) pull_hooks =
  ph_verify :: "(string \<Rightarrow> string \<Rightarrow> ('w, 'e, unit) op) option"
  ph_archive :: "(string \<Rightarrow> string \<Rightarrow> oci_index \<Rightarrow> string \<Rightarrow> ('w, 'e, string) op) option"

definition verify_pulled :: "('w, 'e, 'c) transfer_env \<Rightarrow> ('w, 'e) pull_hooks \<Rightarrow> ('w, 'e) registry \<Rightarrow> descriptor \<Rightarrow> string \<Rightarrow>
    ('w, 'e transfer_error, string option) op" where
  "verify_pulled env hooks src child bytes = (case ph_verify hooks of
       None \<Rightarrow> op_return None
     | Some verify \<Rightarrow>
         op_bind (op_wrap FetchSignature (fetch_bundle_signature (te_codec env) src child)) (\<lambda>signature.
         op_bind (op_wrap VerifySignature (verify bytes signature)) (\<lambda>_. op_return (Some signature))))"

text \<open>
  After the copy the evidence is fetched unless verification had fetched it. A fetched evidence of no
  bytes is a non-nil slice, so it is not fetched again.
\<close>

definition preserve_evidence :: "('w, 'e, 'c) transfer_env \<Rightarrow> bool \<Rightarrow> ('w, 'e) registry \<Rightarrow> descriptor \<Rightarrow> string \<Rightarrow> string option \<Rightarrow>
    ('w, 'e transfer_error, unit) op" where
  "preserve_evidence env skip src child tmp signature =
     op_bind (op_try (case signature of Some s \<Rightarrow> op_return s | None \<Rightarrow> fetch_bundle_signature (te_codec env) src child)) (\<lambda>r. case r of
         Inr s \<Rightarrow> op_wrap WriteSignatureEvidence (hf_write (te_fs env) (path_join [tmp, bundle_signature_file_name]) s)
       | Inl e \<Rightarrow> if e = BundleSignatureNotFound then op_return ()
           else if skip then op_return () else op_fail (FetchSignature e))"

definition remove_index_blob :: "('w, 'e, 'c) transfer_env \<Rightarrow> string \<Rightarrow> ('w, 'e transfer_error, unit) op" where
  "remove_index_blob env path = op_bind (op_try (hf_remove (te_fs env) path)) (\<lambda>r. case r of
       Inr _ \<Rightarrow> op_return ()
     | Inl e \<Rightarrow> if hf_not_exist (te_fs env) e then op_return () else op_fail (RemoveDuplicateIndexBlob path e))"

definition archive_pulled :: "('w, 'e) pull_hooks \<Rightarrow> string \<Rightarrow> string \<Rightarrow> string \<Rightarrow> oci_index \<Rightarrow> ('w, 'e transfer_error, string) op" where
  "archive_pulled hooks ref oci_dir target_dir ix =
     (let arch = annotation (ix_annotations ix) annotation_bundle_architecture in
      if arch = [] then op_fail (MissingArchitecture ref)
      else case ph_archive hooks of
          None \<Rightarrow> op_fail BundleArchiveHookRequired
        | Some archive \<Rightarrow> op_wrap (CreateBundleArchive ref) (archive oci_dir target_dir ix arch))"

text \<open>What \<open>PullBundle\<close> does inside its temporary directory.\<close>

definition pull_into :: "('w, 'e, 'c) transfer_env \<Rightarrow> ('w, 'e) pull_hooks \<Rightarrow> bool \<Rightarrow> config_options \<Rightarrow> string \<Rightarrow> string \<Rightarrow> string \<Rightarrow>
    ('w, 'e transfer_error, string \<times> string) op" where
  "pull_into env hooks skip opts ref target_dir tmp =
     (let oci_dir = path_join [tmp, ''oci'']; store = te_store env oci_dir in
      op_bind (op_wrap CreateOCIDirectory (hf_mkdir_all (te_fs env) oci_dir)) (\<lambda>_.
      op_bind (op_wrap CreateOCIStore (te_new_store env oci_dir)) (\<lambda>_.
      op_bind (op_wrap (ResolveTarget ref) (resolve_target env opts ref)) (\<lambda>src.
      op_bind (op_lift (transfer_identifier env ref)) (\<lambda>reference.
      op_bind (op_wrap (ResolveBundle ref) (resolve_bundle_child (te_codec env) src reference (architecture opts))) (\<lambda>(child, bytes).
      op_bind (verify_pulled env hooks src child bytes) (\<lambda>signature.
      op_bind (op_wrap ConfigureTransfer (copy_settings env opts)) (\<lambda>co.
      op_bind (op_wrap (PullContent ref) (te_copy_graph env src store child co)) (\<lambda>_.
      op_bind (preserve_evidence env skip src child tmp signature) (\<lambda>_.
      op_bind (op_wrap (WriteBundleIndex (path_join [oci_dir, ''index.json'']))
        (hf_write (te_fs env) (path_join [oci_dir, ''index.json'']) bytes)) (\<lambda>_.
      case cd_index (te_codec env) bytes of
        None \<Rightarrow> op_fail ParseBundleIndex
      | Some ix \<Rightarrow>
          op_bind (remove_index_blob env (path_join [oci_dir, ''blobs'', ''sha256'', digest_encoded (d_digest child)])) (\<lambda>_.
          op_bind (archive_pulled hooks ref oci_dir target_dir ix) (\<lambda>out. op_return (ref, out))))))))))))))"

definition pull_bundle :: "('w, 'e, 'c) transfer_env \<Rightarrow> ('w, 'e) pull_hooks \<Rightarrow> bool \<Rightarrow> 'f internal_config option \<Rightarrow> string \<Rightarrow> string \<Rightarrow>
    ('w, 'e transfer_error, string \<times> string) op" where
  "pull_bundle env hooks skip cfg ref target_dir =
     op_bind (op_lift (transfer_options env cfg)) (\<lambda>opts.
     op_bind (require_parameter ''ociReference'' ref) (\<lambda>_.
     op_bind (require_parameter ''targetDir'' target_dir) (\<lambda>_.
     op_bind (op_wrap PullTemporaryDirectory (hf_mkdir_temp (te_fs env) (tmp_dir opts) ''uds-bundle-pull-*'')) (\<lambda>tmp.
     op_defer (\<lambda>w. snd (hf_remove_all (te_fs env) tmp w)) (pull_into env hooks skip opts ref target_dir tmp)))))"

definition pull_package :: "('w, 'e, 'c) transfer_env \<Rightarrow> 'f internal_config option \<Rightarrow> string \<Rightarrow> string \<Rightarrow>
    ('w, 'e transfer_error, string \<times> string) op" where
  "pull_package env cfg ref target_dir =
     op_bind (op_lift (transfer_options env cfg)) (\<lambda>opts.
     op_bind (require_parameter ''ociReference'' ref) (\<lambda>_.
     op_bind (require_parameter ''targetDir'' target_dir) (\<lambda>_.
       let oci_dir = path_join [target_dir, ''oci''] in
       op_bind (op_wrap CreateOCIDirectory (hf_mkdir_all (te_fs env) oci_dir)) (\<lambda>_.
       op_bind (op_wrap CreateOCIStore (te_new_store env oci_dir)) (\<lambda>_.
       op_bind (op_wrap (PullPackageContent ref) (pull_to_store env opts ref (te_store env oci_dir))) (\<lambda>_.
       op_return (ref, oci_dir)))))))"

end
