(* ===== verification/Oci_Properties.thy ===== *)
theory Oci_Properties
  imports Oci
begin

text \<open>
  Properties of the indexes: a bundle index does not depend on the order of its entries, and publishing
  one architecture at a tag makes it resolvable without disturbing the others.
\<close>

subsection \<open>The root index\<close>

text \<open>
  What the code relies on in a remote registry: reading does not change it, a fetch returns bytes with
  the digest of the descriptor, pushing at a reference makes the reference resolve to a descriptor of
  the pushed bytes and takes no content away; digests do not collide, and JSON encodes an index
  faithfully.
\<close>

definition registry_ok :: "codec \<Rightarrow> ('w, 'e) registry \<Rightarrow> bool" where
  "registry_ok cd rg \<longleftrightarrow>
     (\<forall>ref w. snd (rg_resolve rg ref w) = w) \<and> (\<forall>d w. snd (rg_fetch rg d w) = w) \<and>
     (\<forall>d data w. fst (rg_fetch rg d w) = Inr data \<longrightarrow> cd_digest cd data = d_digest d) \<and>
     (\<exists>push. rg_push_reference rg = Some push \<and>
        (\<forall>d data ref w w'. push d data ref w = (Inr (), w') \<longrightarrow>
           (\<exists>d'. fst (rg_resolve rg ref w') = Inr d' \<and> d_size d' = d_size d \<and> fst (rg_fetch rg d' w') = Inr data) \<and>
           (\<forall>x bytes. fst (rg_fetch rg x w) = Inr bytes \<longrightarrow> fst (rg_fetch rg x w') = Inr bytes)))"

definition codec_ok :: "codec \<Rightarrow> bool" where
  "codec_ok cd \<longleftrightarrow> inj (cd_digest cd) \<and> (\<forall>b. cd_digest cd b \<noteq> []) \<and> (\<forall>ix bytes. cd_index_bytes cd ix = Some bytes \<longrightarrow> cd_index cd bytes = Some ix)"

definition answers :: "string \<Rightarrow> descriptor \<Rightarrow> bool" where
  "answers arch m \<longleftrightarrow> bundle_entry m \<and> d_platform m \<noteq> None \<and> entry_arch m = arch"

lemma registry_reads:
  assumes "registry_ok cd rg"
  shows "rg_resolve rg ref w = (fst (rg_resolve rg ref w), w)" "rg_fetch rg d w = (fst (rg_fetch rg d w), w)"
  using assms unfolding registry_ok_def by (metis prod.collapse)+

lemma fetch_bytes_reads:
  assumes "registry_ok cd rg"
  shows "fetch_bytes rg d w = (fst (fetch_bytes rg d w), w)"
  using registry_reads(2) [OF assms, of d w] by (cases "fst (rg_fetch rg d w)") (auto simp: fetch_bytes_def)

text \<open>What the loop over the entries answers depends only on the first entry for the architecture.\<close>

definition child_of :: "codec \<Rightarrow> ('w, 'e) registry \<Rightarrow> string \<Rightarrow> descriptor \<Rightarrow> ('w, 'e oci_error, descriptor \<times> string) op" where
  "child_of cd rg arch m = op_bind (fetch_bytes rg m) (\<lambda>data. case cd_index cd data of
      None \<Rightarrow> op_fail (RootEntryNotBundle arch)
    | Some child \<Rightarrow> if ix_artifact_type child \<noteq> media_type_bundle then op_fail (RootEntryNotBundle arch)
        else op_return (m, data))"

lemma child_loop_Cons: "filter (answers arch) ms = m # ms' \<Longrightarrow> child_loop cd rg ref arch ms av = child_of cd rg arch m"
proof (induction ms arbitrary: av)
  case (Cons x ms)
  show ?case
  proof (cases "answers arch x")
    case True
    then show ?thesis using Cons.prems by (auto simp: answers_def entry_arch_def child_of_def fun_eq_iff split: option.splits)
  next
    case False
    then have "child_loop cd rg ref arch (x # ms) av = child_loop cd rg ref arch ms
        (if bundle_entry x \<and> d_platform x \<noteq> None then av @ [pf_architecture (the (d_platform x))] else av)"
      by (auto simp: answers_def entry_arch_def split: option.splits)
    then show ?thesis using Cons False by simp
  qed
qed simp

lemma child_loop_Nil: "filter (answers arch) ms = [] \<Longrightarrow> fst (child_loop cd rg ref arch ms av w) \<noteq> Inr r"
  by (induction ms arbitrary: av) (auto simp: answers_def entry_arch_def split: option.splits if_splits)

lemma filter_sort_entries: "filter (answers a) (sort_key entry_arch ms) = filter (answers a) ms"
proof -
  have "filter (answers a) zs = filter (\<lambda>m. bundle_entry m \<and> d_platform m \<noteq> None) (filter (\<lambda>m. entry_arch m = a) zs)" for zs
    by (auto simp: answers_def intro: filter_cong)
  then show ?thesis by (metis sort_key_stable)
qed

lemma kept_answers: "a \<noteq> [] \<Longrightarrow> a \<noteq> arch \<Longrightarrow> filter (answers a) (filter (kept_entry arch) ms) = filter (answers a) ms"
  by (auto simp: answers_def kept_entry_def entry_arch_def intro: filter_cong split: option.splits)

lemma kept_answers_self: "filter (answers arch) (filter (kept_entry arch) ms) = []"
  by (auto simp: filter_empty_conv answers_def kept_entry_def entry_arch_def split: option.splits)

text \<open>The index that \<open>tag\<close> points at.\<close>

definition index_at :: "codec \<Rightarrow> ('w, 'e) registry \<Rightarrow> string \<Rightarrow> 'w \<Rightarrow> oci_index \<Rightarrow> bool" where
  "index_at cd rg tag w ix \<longleftrightarrow> (\<exists>d data. fst (rg_resolve rg tag w) = Inr d \<and> fst (fetch_bytes rg d w) = Inr data \<and>
     cd_index cd data = Some ix)"

lemma resolve_at_root:
  assumes "registry_ok cd rg" "index_at cd rg tag w ix" "ix_artifact_type ix = []" "a \<noteq> []"
    "filter (answers a) (ix_manifests ix) = m # ms"
  shows "resolve_bundle_child cd rg tag a w = child_of cd rg a m w"
proof -
  obtain d data where d: "fst (rg_resolve rg tag w) = Inr d" "fst (fetch_bytes rg d w) = Inr data" "cd_index cd data = Some ix"
    using assms(2) by (auto simp: index_at_def)
  have "rg_resolve rg tag w = (Inr d, w)" "fetch_bytes rg d w = (Inr data, w)"
    using registry_reads(1) [OF assms(1), of tag w] fetch_bytes_reads [OF assms(1), of d w] d by metis+
  then show ?thesis using assms(3,4) d(3)
    by (simp add: resolve_bundle_child_def media_type_bundle_def child_loop_Cons [OF assms(5)])
qed

lemma resolve_at_root_fails:
  assumes "registry_ok cd rg" "index_at cd rg tag w ix" "ix_artifact_type ix = []" "a \<noteq> []"
    "filter (answers a) (ix_manifests ix) = []"
  shows "fst (resolve_bundle_child cd rg tag a w) \<noteq> Inr r"
proof -
  obtain d data where d: "fst (rg_resolve rg tag w) = Inr d" "fst (fetch_bytes rg d w) = Inr data" "cd_index cd data = Some ix"
    using assms(2) by (auto simp: index_at_def)
  have "rg_resolve rg tag w = (Inr d, w)" "fetch_bytes rg d w = (Inr data, w)"
    using registry_reads(1) [OF assms(1), of tag w] fetch_bytes_reads [OF assms(1), of d w] d by metis+
  then show ?thesis using assms(3,4) d(3) child_loop_Nil [OF assms(5)]
    by (simp add: resolve_bundle_child_def media_type_bundle_def)
qed

text \<open>What a successful merge read: nothing, something that is no root index, or a root index.\<close>

abbreviation merged_root :: "descriptor list \<Rightarrow> descriptor \<Rightarrow> oci_index" where
  "merged_root existing child \<equiv> \<lparr>ix_schema_version = 2, ix_media_type = media_type_image_index, ix_artifact_type = [],
     ix_manifests = sort_key entry_arch (existing @ [child]), ix_annotations = Map.empty\<rparr>"

text \<open>The entries of the index at \<open>tag\<close> that a merge for \<open>arch\<close> keeps.\<close>

definition keeps_entries :: "codec \<Rightarrow> ('w, 'e) registry \<Rightarrow> string \<Rightarrow> string \<Rightarrow> 'w \<Rightarrow> descriptor list \<Rightarrow> bool" where
  "keeps_entries cd rg tag arch w existing \<longleftrightarrow> existing = [] \<and> (\<nexists>d. fst (rg_resolve rg tag w) = Inr d) \<or>
     (\<exists>ix. index_at cd rg tag w ix \<and> existing = (if ix_artifact_type ix = [] then filter (kept_entry arch) (ix_manifests ix) else []))"

lemma merge_root_index_cases:
  assumes "registry_ok cd rg" "merge_root_index cd rg tag child w = (Inr (bytes, root, current), w')"
  obtains existing where "w' = w" "root = new_descriptor cd media_type_image_index bytes"
    "cd_index_bytes cd (merged_root existing child) = Some bytes"
    "current = no_descriptor \<and> existing = [] \<and> (\<nexists>d. fst (rg_resolve rg tag w) = Inr d) \<or>
     fst (rg_resolve rg tag w) = Inr current \<and> (\<exists>ix. index_at cd rg tag w ix \<and>
       existing = (if ix_artifact_type ix = [] then filter (kept_entry (entry_arch child)) (ix_manifests ix) else []))"
proof -
  obtain existing w1 where e: "existing_root_entries cd rg tag (entry_arch child) w = (Inr (existing, current), w1)"
    and m: "w' = w1" "root = new_descriptor cd media_type_image_index bytes"
    "cd_index_bytes cd (merged_root existing child) = Some bytes"
    using assms(2) by (auto simp: merge_root_index_def op_results Let_def split: option.splits)
  have r: "rg_resolve rg tag w = (fst (rg_resolve rg tag w), w)" by (rule registry_reads(1) [OF assms(1)])
  show thesis
  proof (cases "fst (rg_resolve rg tag w)")
    case (Inl err)
    then have t: "rg_resolve rg tag w = (Inl err, w)" using r by simp
    have "existing = []" "current = no_descriptor" "w1 = w"
      using e by (auto simp: existing_root_entries_def t split: if_splits)
    then show thesis using that m Inl by auto
  next
    case (Inr d)
    then have t: "rg_resolve rg tag w = (Inr d, w)" using r by simp
    obtain data where f: "fetch_bytes rg d w = (Inr data, w)"
      using e fetch_bytes_reads [OF assms(1), of d w]
      by (cases "fst (fetch_bytes rg d w)") (auto simp: existing_root_entries_def t)
    then obtain ix where ix: "cd_index cd data = Some ix" "current = d" "w1 = w"
      "existing = (if ix_artifact_type ix = [] then filter (kept_entry (entry_arch child)) (ix_manifests ix) else [])"
      using e by (auto simp: existing_root_entries_def t split: option.splits if_splits)
    have "index_at cd rg tag w ix" using Inr f ix(1) by (auto simp: index_at_def)
    then show thesis using that m ix Inr by auto
  qed
qed

text \<open>What \<open>merge_root_index\<close> promises to its callers.\<close>

lemma merged:
  assumes "registry_ok cd rg" "codec_ok cd" "merge_root_index cd rg tag child w = (Inr (bytes, root, current), w1)"
  obtains existing where "w1 = w" "root = new_descriptor cd media_type_image_index bytes"
    "cd_index cd bytes = Some (merged_root existing child)" "keeps_entries cd rg tag (entry_arch child) w existing"
    "d_digest current = d_digest root \<Longrightarrow> fst (rg_resolve rg tag w) = Inr current \<and> index_at cd rg tag w (merged_root existing child)"
proof -
  obtain existing where ex: "w1 = w" "root = new_descriptor cd media_type_image_index bytes"
    "cd_index_bytes cd (merged_root existing child) = Some bytes"
    "current = no_descriptor \<and> existing = [] \<and> (\<nexists>d. fst (rg_resolve rg tag w) = Inr d) \<or>
     fst (rg_resolve rg tag w) = Inr current \<and> (\<exists>ix. index_at cd rg tag w ix \<and>
       existing = (if ix_artifact_type ix = [] then filter (kept_entry (entry_arch child)) (ix_manifests ix) else []))"
    using merge_root_index_cases [OF assms(1,3)] by blast
  have dec: "cd_index cd bytes = Some (merged_root existing child)" and dig: "inj (cd_digest cd)"
    using assms(2) ex(3) by (auto simp: codec_ok_def)
  have keeps: "keeps_entries cd rg tag (entry_arch child) w existing" using ex(4) unfolding keeps_entries_def by blast
  have same: "fst (rg_resolve rg tag w) = Inr current \<and> index_at cd rg tag w (merged_root existing child)"
    if eq: "d_digest current = d_digest root"
  proof -
    have "d_digest root = cd_digest cd bytes" using ex(2) by (simp add: new_descriptor_def)
    moreover have "cd_digest cd bytes \<noteq> []" using assms(2) by (simp add: codec_ok_def)
    ultimately have cur: "fst (rg_resolve rg tag w) = Inr current" "\<exists>ix. index_at cd rg tag w ix"
      using eq ex(4) by (auto simp: no_descriptor_def)
    then obtain data where f: "fst (fetch_bytes rg current w) = Inr data" by (auto simp: index_at_def)
    then have "fst (rg_fetch rg current w) = Inr data"
      by (cases "rg_fetch rg current w") (auto simp: fetch_bytes_def op_wrap_def split: if_splits)
    then have "cd_digest cd data = d_digest current" using assms(1) unfolding registry_ok_def by blast
    then have "data = bytes" using eq \<open>d_digest root = cd_digest cd bytes\<close> dig by (metis injD)
    then show ?thesis using f cur(1) dec by (auto simp: index_at_def)
  qed
  show thesis by (rule that [OF ex(1,2) dec keeps same])
qed

text \<open>Content that is in the registry at \<open>w\<close> is still there at \<open>w'\<close>.\<close>

definition content_kept :: "('w, 'e) registry \<Rightarrow> 'w \<Rightarrow> 'w \<Rightarrow> bool" where
  "content_kept rg w w' \<longleftrightarrow> (\<forall>x bytes. fst (rg_fetch rg x w) = Inr bytes \<longrightarrow> fst (rg_fetch rg x w') = Inr bytes)"

lemma content_kept_refl: "content_kept rg w w"
  by (simp add: content_kept_def)

lemma content_kept_trans: "content_kept rg w w1 \<Longrightarrow> content_kept rg w1 w2 \<Longrightarrow> content_kept rg w w2"
  by (simp add: content_kept_def)

text \<open>What a successful push of the root does.\<close>

lemma root_pushed:
  assumes "registry_ok cd rg" "push_reference_bytes rg root bytes tag w = (Inr (), w')" "cd_index cd bytes = Some ix"
  shows "\<exists>d. fst (rg_resolve rg tag w') = Inr d \<and> (d_size d \<le> max_fetch_bytes_size \<longrightarrow> index_at cd rg tag w' ix)"
    "content_kept rg w w'"
proof -
  obtain push where push: "rg_push_reference rg = Some push"
    "\<forall>d data ref w w'. push d data ref w = (Inr (), w') \<longrightarrow>
         (\<exists>d'. fst (rg_resolve rg ref w') = Inr d' \<and> d_size d' = d_size d \<and> fst (rg_fetch rg d' w') = Inr data) \<and>
         (\<forall>x bytes. fst (rg_fetch rg x w) = Inr bytes \<longrightarrow> fst (rg_fetch rg x w') = Inr bytes)"
    using assms(1) unfolding registry_ok_def by blast
  have "push root bytes tag w = (Inr (), w')" using assms(2) push(1) by (simp add: push_reference_bytes_def)
  then obtain d where d: "fst (rg_resolve rg tag w') = Inr d" "fst (rg_fetch rg d w') = Inr bytes"
    and "content_kept rg w w'" using push(2) unfolding content_kept_def by blast
  then show "content_kept rg w w'" by simp
  have "fst (fetch_bytes rg d w') = Inr bytes" if "d_size d \<le> max_fetch_bytes_size"
    using that d(2) by (cases "rg_fetch rg d w'") (auto simp: fetch_bytes_def op_wrap_def)
  then show "\<exists>d. fst (rg_resolve rg tag w') = Inr d \<and> (d_size d \<le> max_fetch_bytes_size \<longrightarrow> index_at cd rg tag w' ix)"
    using d(1) assms(3) by (auto simp: index_at_def)
qed

lemma fetch_bytes_kept: "content_kept rg w w' \<Longrightarrow> fst (fetch_bytes rg m w) = Inr data \<Longrightarrow> fst (fetch_bytes rg m w') = Inr data"
proof -
  assume kept: "content_kept rg w w'" and f: "fst (fetch_bytes rg m w) = Inr data"
  have g: "fst (rg_fetch rg m w) = Inr data" "\<not> d_size m > max_fetch_bytes_size"
    using f by (cases "rg_fetch rg m w"; auto simp: fetch_bytes_def op_wrap_def split: if_splits)+
  have "fst (rg_fetch rg m w') = Inr data" using kept g(1) unfolding content_kept_def by blast
  then show "fst (fetch_bytes rg m w') = Inr data" using g(2)
    by (cases "rg_fetch rg m w'") (auto simp: fetch_bytes_def op_wrap_def)
qed

lemma child_of_kept:
  assumes "registry_ok cd rg" "content_kept rg w w'" "fst (child_of cd rg a m w) = Inr r"
  shows "fst (child_of cd rg a m w') = Inr r"
proof -
  obtain data where f: "fst (fetch_bytes rg m w) = Inr data"
    using assms(3) by (cases "fetch_bytes rg m w") (auto simp: child_of_def op_bind_def split: sum.splits)
  have "fetch_bytes rg m w = (Inr data, w)" "fetch_bytes rg m w' = (Inr data, w')"
    using f fetch_bytes_kept [OF assms(2) f] fetch_bytes_reads [OF assms(1)] by metis+
  then show ?thesis using assms(3) by (auto simp: child_of_def split: option.splits if_splits)
qed

text \<open>A tag at a merged index resolves to the new child for its architecture and to what it resolved to
  before for every other architecture.\<close>

definition resolves_as_before :: "codec \<Rightarrow> ('w, 'e) registry \<Rightarrow> string \<Rightarrow> string \<Rightarrow> 'w \<Rightarrow> 'w \<Rightarrow> bool" where
  "resolves_as_before cd rg tag arch w w' \<longleftrightarrow> (\<forall>a m mdata ix0. a \<noteq> [] \<and> a \<noteq> arch \<and> index_at cd rg tag w ix0 \<and> ix_artifact_type ix0 = [] \<and>
     fst (resolve_bundle_child cd rg tag a w) = Inr (m, mdata) \<longrightarrow> fst (resolve_bundle_child cd rg tag a w') = Inr (m, mdata))"

lemma merged_resolves:
  assumes "registry_ok cd rg" "content_kept rg w w'" "index_at cd rg tag w' (merged_root existing child)"
    "keeps_entries cd rg tag arch w existing" "entry_arch child = arch" "answers arch child" "arch \<noteq> []"
    "fst (fetch_bytes rg child w') = Inr data" "cd_index cd data = Some ix" "is_bundle_index ix"
  shows "fst (resolve_bundle_child cd rg tag arch w') = Inr (child, data)" "resolves_as_before cd rg tag arch w w'"
proof -
  have other_child: "\<And>a. a \<noteq> arch \<Longrightarrow> \<not> answers a child" using assms(5) by (auto simp: answers_def)
  have same: "ix1 = ix2" if "index_at cd rg tag w ix1" "index_at cd rg tag w ix2" for ix1 ix2
    using that by (auto simp: index_at_def)
  show "fst (resolve_bundle_child cd rg tag arch w') = Inr (child, data)"
  proof -
    have "filter (answers arch) existing = []" using assms(4) kept_answers_self by (auto simp: keeps_entries_def)
    then have "filter (answers arch) (sort_key entry_arch (existing @ [child])) = child # []"
      using assms(6) by (simp only: filter_sort_entries) simp
    moreover have "fst (child_of cd rg arch child w') = Inr (child, data)"
      using fetch_bytes_reads [OF assms(1), of child w'] assms(8-10) by (simp add: child_of_def is_bundle_index_def)
    ultimately show ?thesis using resolve_at_root [OF assms(1,3) _ assms(7)] by simp
  qed
  show "resolves_as_before cd rg tag arch w w'"
    unfolding resolves_as_before_def
  proof (intro allI impI, elim conjE)
    fix a m mdata ix0
    assume a: "a \<noteq> []" "a \<noteq> arch" "index_at cd rg tag w ix0" "ix_artifact_type ix0 = []"
      "fst (resolve_bundle_child cd rg tag a w) = Inr (m, mdata)"
    obtain m' ms where m': "filter (answers a) (ix_manifests ix0) = m' # ms"
      using resolve_at_root_fails [OF assms(1) a(3,4,1)] a(5) by (cases "filter (answers a) (ix_manifests ix0)") auto
    obtain d0 where "fst (rg_resolve rg tag w) = Inr d0" using a(3) unfolding index_at_def by blast
    then obtain ix1 where ix1: "index_at cd rg tag w ix1"
      "existing = (if ix_artifact_type ix1 = [] then filter (kept_entry arch) (ix_manifests ix1) else [])"
      using assms(4) by (auto simp: keeps_entries_def)
    have "ix1 = ix0" by (rule same [OF ix1(1) a(3)])
    then have "existing = filter (kept_entry arch) (ix_manifests ix0)" using ix1(2) a(4) by simp
    then have "filter (answers a) (sort_key entry_arch (existing @ [child])) = m' # ms"
      using m' a(1,2) other_child by (simp only: filter_sort_entries) (simp add: kept_answers del: filter_filter)
    moreover have "fst (child_of cd rg a m' w) = Inr (m, mdata)"
      using resolve_at_root [OF assms(1) a(3,4,1) m'] a(5) by simp
    ultimately show "fst (resolve_bundle_child cd rg tag a w') = Inr (m, mdata)"
      using resolve_at_root [OF assms(1,3) _ a(1)] child_of_kept [OF assms(1,2)] by simp
  qed
qed

lemma bundle_child_answers:
  assumes "child = bundle_child_descriptor d arch" "d_media_type d = media_type_image_index"
  shows "entry_arch child = arch" "answers arch child"
  using assms by (auto simp: bundle_child_descriptor_def entry_arch_def answers_def bundle_entry_def)

text \<open>C21. Publishing the bundle of one architecture at a tag makes it resolvable there: the tag then
  resolves to it for that architecture, and every other architecture that resolved before through a
  root index still resolves to the same bundle. The only requirement is that the merged root index
  fits the limit on buffered fetches.\<close>

theorem publish_keeps_architectures:
  assumes "registry_ok cd rg" "codec_ok cd"
    "child = bundle_child_descriptor d arch" "arch \<noteq> []" "d_media_type d = media_type_image_index"
    "fst (fetch_bytes rg child w) = Inr data" "cd_index cd data = Some ix" "is_bundle_index ix"
    "publish_bundle_root_index cd rg tag child w = (Inr (), w')"
  shows "\<exists>root. fst (rg_resolve rg tag w') = Inr root \<and> (d_size root \<le> max_fetch_bytes_size \<longrightarrow>
     fst (resolve_bundle_child cd rg tag arch w') = Inr (child, data) \<and> resolves_as_before cd rg tag arch w w')"
proof -
  note arch = bundle_child_answers [OF assms(3,5)]
  obtain bytes rootd current w1 where m: "merge_root_index cd rg tag child w = (Inr (bytes, rootd, current), w1)"
    and p: "(if d_digest current = d_digest rootd then op_return ()
       else op_wrap (\<lambda>e. PushRootIndex tag (Cause e)) (push_reference_bytes rg rootd bytes tag)) w1 = (Inr (), w')"
    using assms(9) by (auto simp: publish_bundle_root_index_def op_bind_Inr)
  obtain existing where ex: "w1 = w" "cd_index cd bytes = Some (merged_root existing child)" "keeps_entries cd rg tag arch w existing"
    "d_digest current = d_digest rootd \<Longrightarrow> fst (rg_resolve rg tag w) = Inr current \<and> index_at cd rg tag w (merged_root existing child)"
    using merged [OF assms(1,2) m, unfolded arch(1)] by metis
  obtain root where root: "fst (rg_resolve rg tag w') = Inr root"
    "d_size root \<le> max_fetch_bytes_size \<Longrightarrow> index_at cd rg tag w' (merged_root existing child)" "content_kept rg w w'"
  proof (cases "d_digest current = d_digest rootd")
    case True
    then have "w' = w" using p ex(1) by simp
    then show thesis using that [of current] True ex(4) by (simp add: content_kept_refl)
  next
    case False
    then have "push_reference_bytes rg rootd bytes tag w = (Inr (), w')" using p ex(1) by (simp add: op_wrap_Inr)
    then show thesis using that root_pushed [OF assms(1) _ ex(2)] by blast
  qed
  show ?thesis
    using merged_resolves [OF assms(1) root(3) root(2) ex(3) arch assms(4) fetch_bytes_kept [OF root(3) assms(6)] assms(7,8)] root(1)
    by blast
qed

text \<open>An ORAS memory store, a registry that satisfies the assumptions.\<close>

type_synonym memory = "(string \<times> descriptor) list \<times> string list"

definition memory_registry :: "codec \<Rightarrow> (memory, string) registry" where
  "memory_registry cd = \<lparr>
     rg_resolve = \<lambda>ref w. (case map_of (fst w) ref of Some d \<Rightarrow> Inr d | None \<Rightarrow> Inl ''not found'', w),
     rg_fetch = \<lambda>d w. (case find (\<lambda>b. cd_digest cd b = d_digest d) (snd w) of Some b \<Rightarrow> Inr b | None \<Rightarrow> Inl ''not found'', w),
     rg_push = \<lambda>d data w. (if cd_digest cd data = d_digest d then (Inr (), (fst w, data # snd w)) else (Inl ''mismatch'', w)),
     rg_exists = \<lambda>d w. (Inr (find (\<lambda>b. cd_digest cd b = d_digest d) (snd w) \<noteq> None), w),
     rg_tag = \<lambda>d ref w. (Inr (), ((ref, d) # fst w, snd w)),
     rg_push_reference = Some (\<lambda>d data ref w. if cd_digest cd data = d_digest d
       then (Inr (), ((ref, d) # fst w, data # snd w)) else (Inl ''mismatch'', w)),
     rg_delete = None, rg_referrers = None,
     rg_not_found = (\<lambda>e. e = ''not found''), rg_already_exists = (\<lambda>e. False)\<rparr>"

lemma find_SomeD: "find P xs = Some x \<Longrightarrow> x \<in> set xs \<and> P x"
  by (induction xs) (auto split: if_splits)

lemma memory_registry_ok: "inj (cd_digest cd) \<Longrightarrow> registry_ok cd (memory_registry cd)"
  by (auto simp: registry_ok_def memory_registry_def find_Some_iff split: option.splits) (metis injD)

definition sample_entry :: "string \<Rightarrow> string \<Rightarrow> descriptor" where
  "sample_entry arch data = no_descriptor\<lparr>d_media_type := media_type_image_index, d_artifact_type := media_type_bundle,
     d_digest := ''sha256:'' @ data, d_size := int (length data), d_platform := Some \<lparr>pf_architecture = arch, pf_os = ''multi''\<rparr>\<rparr>"

definition sample_root :: "descriptor list \<Rightarrow> oci_index" where
  "sample_root ms = \<lparr>ix_schema_version = 2, ix_media_type = media_type_image_index, ix_artifact_type = [],
     ix_manifests = ms, ix_annotations = Map.empty\<rparr>"

definition sample_bundle_index :: oci_index where
  "sample_bundle_index = \<lparr>ix_schema_version = 2, ix_media_type = media_type_image_index, ix_artifact_type = media_type_bundle,
     ix_manifests = [], ix_annotations = Map.empty\<rparr>"

definition sample_codec :: codec where
  "sample_codec = \<lparr>cd_digest = \<lambda>b. ''sha256:'' @ b,
     cd_index = \<lambda>b. if b = ''amd'' \<or> b = ''arm'' then Some sample_bundle_index
       else if b = ''old'' then Some (sample_root [sample_entry ''arm64'' ''arm''])
       else if b = ''new'' then Some (sample_root [sample_entry ''amd64'' ''amd'', sample_entry ''arm64'' ''arm'']) else None,
     cd_index_bytes = \<lambda>ix. if ix = sample_root [sample_entry ''amd64'' ''amd'', sample_entry ''arm64'' ''arm''] then Some ''new'' else None,
     cd_index_indent = \<lambda>ix. None, cd_manifest = \<lambda>b. None, cd_manifest_bytes = \<lambda>m. None, cd_annotations = \<lambda>a. [], cd_platform = \<lambda>p. [], cd_goarch = ''amd64''\<rparr>"

definition sample_memory :: memory where
  "sample_memory = ([(''v1'', new_descriptor sample_codec media_type_image_index ''old'')], [''amd'', ''arm'', ''old''])"

lemma sample_codec_ok: "codec_ok sample_codec"
  by (auto simp: codec_ok_def sample_codec_def inj_def split: if_splits)

lemma sample_merge:
  "merge_root_index sample_codec (memory_registry sample_codec) ''v1'' (sample_entry ''amd64'' ''amd'') sample_memory =
     (Inr (''new'', new_descriptor sample_codec media_type_image_index ''new'', new_descriptor sample_codec media_type_image_index ''old''), sample_memory)"
proof -
  have "existing_root_entries sample_codec (memory_registry sample_codec) ''v1'' ''amd64'' sample_memory =
      (Inr ([sample_entry ''arm64'' ''arm''], new_descriptor sample_codec media_type_image_index ''old''), sample_memory)"
    by (simp add: existing_root_entries_def op_bind_def op_try_def memory_registry_def sample_memory_def fetch_bytes_def max_fetch_bytes_size_def
        op_wrap_def sample_codec_def new_descriptor_def no_descriptor_def sample_root_def kept_entry_def sample_entry_def bundle_entry_def)
  moreover have "sort_key entry_arch [sample_entry ''arm64'' ''arm'', sample_entry ''amd64'' ''amd''] = [sample_entry ''amd64'' ''amd'', sample_entry ''arm64'' ''arm'']"
    by (simp add: entry_arch_def sample_entry_def)
  moreover have "entry_arch (sample_entry ''amd64'' ''amd'') = ''amd64''" by (simp add: entry_arch_def sample_entry_def)
  ultimately show ?thesis by (simp add: merge_root_index_def Let_def) (simp add: sample_codec_def sample_root_def)
qed

lemma sample_push_root:
  "push_reference_bytes (memory_registry sample_codec) (new_descriptor sample_codec media_type_image_index ''new'') ''new'' ''v1'' w =
     (Inr (), ((''v1'', new_descriptor sample_codec media_type_image_index ''new'') # fst w, ''new'' # snd w))"
  by (simp add: push_reference_bytes_def memory_registry_def new_descriptor_def)

lemma sample_digests_differ:
  "d_digest (new_descriptor sample_codec media_type_image_index ''old'') \<noteq> d_digest (new_descriptor sample_codec media_type_image_index ''new'')"
  by (simp add: new_descriptor_def sample_codec_def)

lemma sample_publish:
  "publish_bundle_root_index sample_codec (memory_registry sample_codec) ''v1'' (sample_entry ''amd64'' ''amd'') sample_memory =
     (Inr (), ((''v1'', new_descriptor sample_codec media_type_image_index ''new'') # fst sample_memory, ''new'' # snd sample_memory))"
  by (simp add: publish_bundle_root_index_def sample_merge sample_digests_differ sample_push_root)

lemma publish_keeps_architectures_witness:
  "\<exists>root w'. fst (rg_resolve (memory_registry sample_codec) ''v1'' w') = Inr root \<and> (d_size root \<le> max_fetch_bytes_size \<longrightarrow>
     fst (resolve_bundle_child sample_codec (memory_registry sample_codec) ''v1'' ''amd64'' w') = Inr (sample_entry ''amd64'' ''amd'', ''amd''))"
proof -
  have inj: "inj (cd_digest sample_codec)" using sample_codec_ok by (simp add: codec_ok_def)
  have child: "sample_entry ''amd64'' ''amd'' = bundle_child_descriptor (sample_entry ''amd64'' ''amd'') ''amd64''"
    by (simp add: sample_entry_def bundle_child_descriptor_def)
  have data: "fst (fetch_bytes (memory_registry sample_codec) (sample_entry ''amd64'' ''amd'') sample_memory) = Inr ''amd''"
    by (simp add: fetch_bytes_def max_fetch_bytes_size_def sample_entry_def memory_registry_def sample_memory_def sample_codec_def op_wrap_def)
  have ix: "cd_index sample_codec ''amd'' = Some sample_bundle_index" "is_bundle_index sample_bundle_index"
    by (simp_all add: sample_codec_def is_bundle_index_def sample_bundle_index_def)
  have mt: "d_media_type (sample_entry ''amd64'' ''amd'') = media_type_image_index" by (simp add: sample_entry_def)
  show ?thesis
    using publish_keeps_architectures [OF memory_registry_ok [OF inj] sample_codec_ok child _ mt data ix sample_publish] by auto
qed

subsection \<open>The bundle index\<close>

lemma separator_eq: "c \<notin> set xs \<Longrightarrow> c \<notin> set ys \<Longrightarrow> xs @ c # zs = ys @ c # ws \<longleftrightarrow> xs = ys \<and> zs = ws"
proof (induction xs arbitrary: ys)
  case Nil
  then show ?case by (cases ys) auto
next
  case (Cons x xs)
  then show ?case by (cases ys) auto
qed

definition nul_free :: "codec \<Rightarrow> (int \<Rightarrow> string) \<Rightarrow> descriptor \<Rightarrow> bool" where
  "nul_free cd show_int d \<longleftrightarrow> list_all (\<lambda>s. CHR 0x00 \<notin> set s) [d_digest d, annotation (d_annotations d) annotation_ref_name,
     d_media_type d, d_artifact_type d, show_int (d_size d), cd_annotations cd (d_annotations d), cd_platform cd (d_platform d)]"

lemma sort_key_determines:
  assumes "inj_on (cd_annotations cd) (d_annotations ` S)" "inj_on (cd_platform cd) (d_platform ` S)" "inj_on show_int (d_size ` S)"
    "\<forall>d\<in>S. nul_free cd show_int d"
  shows "inj_on (descriptor_sort_key cd show_int) S"
proof (rule inj_onI)
  fix x y
  assume S: "x \<in> S" "y \<in> S" and eq: "descriptor_sort_key cd show_int x = descriptor_sort_key cd show_int y"
  have "nul_free cd show_int x" "nul_free cd show_int y" using assms(4) S by auto
  then have "d_digest x = d_digest y" "d_media_type x = d_media_type y" "d_artifact_type x = d_artifact_type y"
    "show_int (d_size x) = show_int (d_size y)" "cd_annotations cd (d_annotations x) = cd_annotations cd (d_annotations y)"
    "cd_platform cd (d_platform x) = cd_platform cd (d_platform y)"
    using eq by (auto simp: descriptor_sort_key_def nul_free_def separator_eq)
  then show "x = y" using assms(1-3) S by (auto simp: inj_on_def)
qed

text \<open>C26. The index of a bundle does not depend on the order in which its descriptors were collected: two
  collections with the same descriptors give the same index, hence the same digest.\<close>

theorem bundle_index_canonical:
  assumes "mset ms = mset ms'" "\<forall>d\<in>set ms. nul_free cd show_int d"
    "inj_on (cd_annotations cd) (d_annotations ` set ms)" "inj_on (cd_platform cd) (d_platform ` set ms)"
    "inj_on show_int (d_size ` set ms)"
  shows "new_bundle_index cd show_int ms arch = new_bundle_index cd show_int ms' arch \<and>
    find_bundle_definition (new_bundle_index cd show_int ms arch) = find_bundle_definition (new_bundle_index cd show_int ms' arch)"
proof -
  have "inj_on (descriptor_sort_key cd show_int) (set ms)" by (rule sort_key_determines [OF assms(3,4,5,2)])
  then have "sort_descriptors cd show_int ms = sort_descriptors cd show_int ms'"
    unfolding sort_descriptors_def by (intro sort_key_inj_key_eq) (simp_all add: assms(1))
  then show ?thesis by (simp add: new_bundle_index_def)
qed

lemma bundle_index_canonical_witness:
  "new_bundle_index sample_codec (\<lambda>_. ''5'') [sample_entry ''a'' ''x'', sample_entry ''a'' ''y''] ''amd64'' =
   new_bundle_index sample_codec (\<lambda>_. ''5'') [sample_entry ''a'' ''y'', sample_entry ''a'' ''x''] ''amd64''"
  by (rule conjunct1, rule bundle_index_canonical)
    (auto simp: nul_free_def sample_entry_def sample_codec_def no_descriptor_def annotation_def media_type_image_index_def media_type_bundle_def)

end
