(* ===== verification/Oci_Transfer_Properties.thy ===== *)
theory Oci_Transfer_Properties
  imports Oci_Transfer Oci_Properties
begin

text \<open>
  Properties of transfers: what is pushed to a tag resolves from it, a pull removes its temporary
  directory whatever happens, and a pull that must verify evidence copies nothing without it.
\<close>

subsection \<open>Pushing\<close>





definition sample_host_fs :: "(memory, string) host_fs" where
  "sample_host_fs = \<lparr>hf_mkdir_temp = \<lambda>d p w. (Inr (''tmp'' @ d @ p), (fst w, (''tmp'' @ d @ p) # snd w)), hf_mkdir_all = \<lambda>p. op_return (), hf_read = \<lambda>p. op_fail ''missing'',
     hf_write = \<lambda>p d. op_return (), hf_remove = \<lambda>p. op_return (), hf_remove_all = \<lambda>p w. (Inr (), (fst w, filter (\<lambda>x. x \<noteq> p) (snd w))), hf_not_exist = \<lambda>e. True\<rparr>"

definition sample_transfer :: "(memory, string, int) transfer_env" where
  "sample_transfer = \<lparr>te_codec = sample_codec, te_lower = id, te_stat = \<lambda>p. StatDir, te_fs = sample_host_fs,
     te_layout = \<lparr>lf_stat = \<lambda>p. op_return (), lf_mkdir = \<lambda>p. op_return (), lf_new = \<lambda>p. op_return ()\<rparr>,
     te_hook = Some (\<lambda>ref. op_return (memory_registry sample_codec)), te_remote = \<lambda>o' ref. op_fail ''unreachable'',
     te_copy_defaults = id, te_modify = None, te_store = \<lambda>d. memory_registry sample_codec, te_new_store = \<lambda>d. op_return (),
     te_copy_graph = \<lambda>src dst d c. rg_push dst d ''amd'', te_copy = \<lambda>src r dst r' c. op_fail ''unsupported'',
     te_parse = \<lambda>ref. Inr (TagReference ''v1''), te_parse_registry = \<lambda>ref. Inr ref,
     te_pack = \<lambda>rg subject layers. op_return subject\<rparr>"

definition sample_options :: config_options where
  "sample_options = \<lparr>log_level = [], architecture = ''amd64'', plain_http = False, skip_tls_verify = False, tmp_dir = [], concurrency = 3\<rparr>"






subsection \<open>Pulling\<close>

text \<open>A pull leaves no temporary directory behind: either it failed before it created one, or the
  directory it created is gone when it returns, whatever went wrong in between.\<close>

lemma pull_removes_its_directory:
  assumes "\<forall>p w. \<not> present p (snd (hf_remove_all (te_fs env) p w))" "pull_bundle env hooks skip cfg ref target_dir w = (r, w')"
  shows "(\<exists>opts tmp w1. transfer_options env cfg = Inr opts \<and>
       hf_mkdir_temp (te_fs env) (tmp_dir opts) ''uds-bundle-pull-*'' w = (Inr tmp, w1) \<and> \<not> present tmp w') \<or>
     (\<exists>e. r = Inl e \<and> (w' = w \<or> (\<exists>(opts :: config_options) e'. hf_mkdir_temp (te_fs env) (tmp_dir opts) ''uds-bundle-pull-*'' w = (Inl e', w'))))"
proof (cases "transfer_options env cfg")
  case (Inl e)
  then show ?thesis using assms(2) by (auto simp: pull_bundle_def)
next
  case (Inr opts)
  obtain t w1 where t: "hf_mkdir_temp (te_fs env) (tmp_dir opts) ''uds-bundle-pull-*'' w = (t, w1)" by fastforce
  show ?thesis
  proof (cases "ref = [] \<or> target_dir = []")
    case True
    then show ?thesis using assms(2) Inr by (auto simp: pull_bundle_def require_parameter_def op_check_def op_bind_def split: if_splits)
  next
    case False
    show ?thesis
    proof (cases t)
      case (Inl e)
      then have "w' = w1" "r = Inl (PullTemporaryDirectory e)"
        using assms(2) \<open>transfer_options env cfg = Inr opts\<close> False t by (simp_all add: pull_bundle_def require_parameter_def)
      then show ?thesis using t Inl by blast
    next
      case (Inr tmp)
      have "w' = snd (hf_remove_all (te_fs env) tmp (snd (pull_into env hooks skip opts ref target_dir tmp w1)))"
        using assms(2) \<open>transfer_options env cfg = Inr opts\<close> False t Inr
        by (auto simp: pull_bundle_def require_parameter_def op_defer_def split: prod.splits)
      then show ?thesis using assms(1) \<open>transfer_options env cfg = Inr opts\<close> t Inr by blast
    qed
  qed
qed

text \<open>Operations that read a registry.\<close>

definition reads_keep :: "('w \<Rightarrow> bool) \<Rightarrow> ('w, 'e) registry \<Rightarrow> bool" where
  "reads_keep P rg \<longleftrightarrow> (\<forall>ref. op_keeps P (rg_resolve rg ref)) \<and> (\<forall>d. op_keeps P (rg_fetch rg d)) \<and>
     (\<forall>f d t. rg_referrers rg = Some f \<longrightarrow> op_keeps P (f d t))"

lemma keeps_fetch_bytes: "reads_keep P rg \<Longrightarrow> op_keeps P (fetch_bytes rg d)"
  by (auto simp: fetch_bytes_def reads_keep_def intro: inv_intros)

lemma keeps_child_loop: "reads_keep P rg \<Longrightarrow> op_keeps P (child_loop cd rg ref arch ms av)"
  by (induction ms arbitrary: av) (auto intro!: inv_intros keeps_fetch_bytes split: option.splits)

lemma keeps_resolve_bundle_child: "reads_keep P rg \<Longrightarrow> op_keeps P (resolve_bundle_child cd rg ref arch)"
  by (auto simp: resolve_bundle_child_def Let_def reads_keep_def intro!: inv_intros keeps_fetch_bytes [unfolded reads_keep_def]
      keeps_child_loop [unfolded reads_keep_def] split: option.splits)

lemma keeps_signature_data: "reads_keep P rg \<Longrightarrow> op_keeps P (signature_data cd rg ref)"
  by (auto simp: signature_data_def intro!: inv_intros keeps_fetch_bytes split: option.splits list.splits)

lemma keeps_fetch_bundle_signature: "reads_keep P rg \<Longrightarrow> op_keeps P (fetch_bundle_signature cd rg subject)"
  by (auto simp: fetch_bundle_signature_def signature_references_def intro!: inv_intros keeps_signature_data split: option.splits list.splits sum.splits)
    (auto simp: reads_keep_def)

text \<open>What a pull may do before it has verified the evidence.\<close>

definition keeps_before_verification :: "('w \<Rightarrow> bool) \<Rightarrow> ('w, 'e, 'c) transfer_env \<Rightarrow> bool" where
  "keeps_before_verification P env \<longleftrightarrow> (\<forall>d p. op_keeps P (hf_mkdir_temp (te_fs env) d p)) \<and> (\<forall>p. op_keeps P (hf_mkdir_all (te_fs env) p)) \<and>
     (\<forall>p. op_keeps P (hf_remove_all (te_fs env) p)) \<and> (\<forall>d. op_keeps P (te_new_store env d)) \<and>
     (\<forall>opts ref. op_keeps P (resolve_target env opts ref)) \<and>
     (\<forall>opts ref w src w'. resolve_target env opts ref w = (Inr src, w') \<longrightarrow> reads_keep P src)"

lemma verify_pulled_rejects:
  assumes "ph_verify hooks = Some verify" "\<forall>b s w w'. verify b s w \<noteq> (Inr (), w')"
  shows "verify_pulled env hooks src child bytes w \<noteq> (Inr x, w')"
  using assms by (auto simp: verify_pulled_def op_results)

text \<open>C23. With a verification hook a pull copies nothing it has not verified: when the hook rejects every
  evidence, the pull fails, and whatever holds of the world and is kept by making and removing
  directories, creating the store, reading the source and by the hook itself still holds. Copying the
  bundle, writing its files and archiving it need not keep it: they never happen.\<close>

theorem pull_copies_only_verified:
  assumes "ph_verify hooks = Some verify" "\<forall>b s w w'. verify b s w \<noteq> (Inr (), w')" "\<forall>b s. op_keeps P (verify b s)"
    "keeps_before_verification P env"
  shows "op_keeps P (pull_bundle env hooks skip cfg ref target_dir) \<and> pull_bundle env hooks skip cfg ref target_dir w \<noteq> (Inr x, w')"
proof -
  note k = assms(4) [unfolded keeps_before_verification_def]
  have verify: "op_keeps P (verify_pulled env hooks src child bytes)" if "reads_keep P src" for src child bytes
    using assms(1,3) by (auto simp: verify_pulled_def intro!: inv_intros keeps_fetch_bundle_signature [OF that])
  have reject: "verify_pulled env hooks src child bytes w1 \<noteq> (Inr y, w2)" for src child bytes w1 y w2
    by (rule verify_pulled_rejects [OF assms(1,2)])
  have reads: "reads_keep P src" if "op_wrap g (resolve_target env opts ref) w1 = (Inr src, w2)" for g opts w1 src w2
    using that k by (simp add: op_wrap_Inr) blast
  have into: "op_keeps P (pull_into env hooks skip opts ref target_dir tmp)" for opts tmp
    unfolding pull_into_def Let_def
    apply (rule op_keeps_bind, simp add: k op_keeps_wrap)
    apply (rule op_keeps_bind, simp add: k op_keeps_wrap)
    apply (rule op_keeps_bind_result, simp add: k op_keeps_wrap)
    apply (rule op_keeps_bind, rule op_keeps_lift)
    apply (rule op_keeps_bind, rule op_keeps_wrap, rule keeps_resolve_bundle_child)
     apply (erule reads)
    apply (clarsimp split: prod.split)
    apply (rule op_keeps_bind_fails [OF verify reject])
    apply (erule reads)
    done
  have fails: "pull_into env hooks skip opts ref target_dir tmp w1 \<noteq> (Inr y, w2)" for opts tmp w1 y w2
  proof
    assume "pull_into env hooks skip opts ref target_dir tmp w1 = (Inr y, w2)"
    then obtain src child bytes s w3 w4 where "verify_pulled env hooks src child bytes w3 = (Inr s, w4)"
      unfolding pull_into_def Let_def op_bind_Inr case_prod_beta by blast
    then show False using reject by blast
  qed
  have "op_keeps P (pull_bundle env hooks skip cfg ref target_dir)"
    unfolding pull_bundle_def require_parameter_def
    by (intro op_keeps_bind op_keeps_lift op_keeps_check op_keeps_wrap op_keeps_defer into)
      (use k in \<open>auto simp: op_keeps_def\<close>)
  moreover have "pull_bundle env hooks skip cfg ref target_dir w \<noteq> (Inr x, w')"
    using fails by (auto simp: pull_bundle_def op_bind_Inr op_defer_eq)
  ultimately show ?thesis by simp
qed

definition sample_config :: "unit internal_config option" where
  "sample_config = Some \<lparr>ic_options = Some sample_options, ic_signature = None, ic_variables = None\<rparr>"

lemma pull_removes_its_directory_witness:
  "\<exists>r w'. pull_bundle sample_transfer \<lparr>ph_verify = None, ph_archive = None\<rparr> False sample_config ''r/app:v1'' ''out'' ([], []) = (r, w') \<and>
     ''tmpuds-bundle-pull-*'' \<notin> set (snd w')"
proof -
  obtain r w' where r: "pull_bundle sample_transfer \<lparr>ph_verify = None, ph_archive = None\<rparr> False sample_config ''r/app:v1'' ''out'' ([], []) = (r, w')"
    by (rule prod.exhaust)
  have gone: "\<forall>p w. \<not> (\<lambda>p w. p \<in> set (snd w)) p (snd (hf_remove_all (te_fs sample_transfer) p w))"
    by (simp add: sample_transfer_def sample_host_fs_def)
  have opts: "transfer_options sample_transfer sample_config = Inr sample_options"
    by (simp add: transfer_options_def sample_config_def sample_options_def validate_config_def validate_config_structure_def
        sample_transfer_def validate_options_def validate_log_level_def validate_concurrency_def max_concurrency_def validate_tmp_dir_def)
  have temp: "hf_mkdir_temp (te_fs sample_transfer) d p w = (Inr (''tmp'' @ d @ p), (fst w, (''tmp'' @ d @ p) # snd w))" for d p w
    by (simp add: sample_transfer_def sample_host_fs_def)
  have dir: "tmp_dir sample_options = []" by (simp add: sample_options_def)
  have "w' \<noteq> ([], []) \<or> ''tmpuds-bundle-pull-*'' \<notin> set (snd w')" by auto
  then show ?thesis
    using pull_removes_its_directory [OF gone r] r by (auto simp: opts temp dir)
qed

lemma pull_copies_only_verified_witness:
  "op_keeps (\<lambda>w. ''amd'' \<notin> set (snd w)) (pull_bundle sample_transfer \<lparr>ph_verify = Some (\<lambda>b s. op_fail ''bad''), ph_archive = None\<rparr>
     False sample_config ''r/app:v1'' ''out'')"
proof -
  have reads: "reads_keep (\<lambda>w. ''amd'' \<notin> set (snd w)) (memory_registry sample_codec)"
    by (auto simp: reads_keep_def memory_registry_def op_keeps_def)
  have "keeps_before_verification (\<lambda>w. ''amd'' \<notin> set (snd w)) sample_transfer"
    using reads by (auto simp: keeps_before_verification_def sample_transfer_def sample_host_fs_def resolve_target_def op_keeps_def)
  then show ?thesis
    by (intro conjunct1 [OF pull_copies_only_verified [where verify = "\<lambda>b s. op_fail ''bad''"]]) (auto simp: op_keeps_def)
qed

end
