(* ===== verification/Zarf_Signature.thy ===== *)
theory Zarf_Signature
  imports Bundle_Spec Oci_Transfer
begin

text \<open>
  Package signature policy, \<open>internal/zarf/signature.go\<close> and \<open>internal/artifact/validation.go\<close>: the
  validation of a policy, its translation to options of Zarf's layout loader, the key material written
  for it, and the advisory verification of a development deploy. File names made from user input go
  through \<open>sanitize_file_component\<close>, which reads Go strings rune by rune.
\<close>

subsection \<open>Runes\<close>

text \<open>
  The width of the first rune of a byte string, as \<open>range\<close> over a string decodes it: an invalid
  sequence is one replacement character of width 1.
\<close>

definition byte_in :: "nat \<Rightarrow> nat \<Rightarrow> char \<Rightarrow> bool" where
  "byte_in lo hi c \<longleftrightarrow> lo \<le> of_char c \<and> of_char c \<le> hi"

definition continues :: "nat \<Rightarrow> nat \<Rightarrow> nat \<Rightarrow> string \<Rightarrow> bool" where
  "continues lo hi n s \<longleftrightarrow> (case s of [] \<Rightarrow> False | c # cs \<Rightarrow> byte_in lo hi c \<and> n \<le> length cs \<and> list_all (byte_in 0x80 0xBF) (take n cs))"

definition rune_width :: "string \<Rightarrow> nat" where
  "rune_width s = (case s of [] \<Rightarrow> 0 | c # cs \<Rightarrow>
     if byte_in 0xC2 0xDF c \<and> continues 0x80 0xBF 0 cs then 2
     else if byte_in 0xE0 0xE0 c \<and> continues 0xA0 0xBF 1 cs then 3
     else if (byte_in 0xE1 0xEC c \<or> byte_in 0xEE 0xEF c) \<and> continues 0x80 0xBF 1 cs then 3
     else if byte_in 0xED 0xED c \<and> continues 0x80 0x9F 1 cs then 3
     else if byte_in 0xF0 0xF0 c \<and> continues 0x90 0xBF 2 cs then 4
     else if byte_in 0xF1 0xF3 c \<and> continues 0x80 0xBF 2 cs then 4
     else if byte_in 0xF4 0xF4 c \<and> continues 0x80 0x8F 2 cs then 4
     else 1)"

definition safe_char :: "char \<Rightarrow> bool" where
  "safe_char c \<longleftrightarrow> byte_in 0x61 0x7A c \<or> byte_in 0x41 0x5A c \<or> byte_in 0x30 0x39 c \<or> c = CHR ''.'' \<or> c = CHR ''_'' \<or> c = CHR ''-''"

function sanitize_loop :: "string \<Rightarrow> string" where
  "sanitize_loop [] = []"
| "sanitize_loop (c # cs) = (if safe_char c then c # sanitize_loop cs
     else CHR ''-'' # sanitize_loop (drop (rune_width (c # cs) - 1) cs))"
  by pat_completeness auto
termination by (relation "measure length") auto

text \<open>\<open>strings.Trim\<close> with a one-character cutset.\<close>

definition trim_char :: "char \<Rightarrow> string \<Rightarrow> string" where
  "trim_char d s = rev (dropWhile (\<lambda>c. c = d) (rev (dropWhile (\<lambda>c. c = d) s)))"

definition sanitize_file_component :: "string \<Rightarrow> string" where
  "sanitize_file_component s = trim_char (CHR ''-'') (sanitize_loop s)"

subsection \<open>The policy\<close>

datatype 'e policy_error =
    PolicyRequired string
  | BlankPublicKey string
  | DisabledWithCredentials string
  | NeedOneCredential string
  | NeedOneIdentity string
  | InvalidIdentityRegexp string 'e
  | NeedOneIssuer string
  | InvalidIssuerRegexp string 'e

definition verify_enabled :: "package_signature_verification \<Rightarrow> bool" where
  "verify_enabled v = (case sv_verify v of None \<Rightarrow> True | Some b \<Rightarrow> b)"

text \<open>\<open>compile\<close> is \<open>regexp.Compile\<close>, an error or nil.\<close>

definition check_keyless :: "(string \<Rightarrow> 'e option) \<Rightarrow> string \<Rightarrow> keyless_signature_verification \<Rightarrow> ('e policy_error, unit) result" where
  "check_keyless compile name k =
     (let has_identity = trim_space (certificate_identity k) \<noteq> [];
          has_identity_regexp = trim_space (certificate_identity_regexp k) \<noteq> [];
          has_issuer = trim_space (certificate_oidc_issuer k) \<noteq> [];
          has_issuer_regexp = trim_space (certificate_oidc_issuer_regexp k) \<noteq> [] in
      if has_identity = has_identity_regexp then Inl (NeedOneIdentity name)
      else case (if has_identity_regexp then compile (certificate_identity_regexp k) else None) of
        Some e \<Rightarrow> Inl (InvalidIdentityRegexp name e)
      | None \<Rightarrow>
          if has_issuer = has_issuer_regexp then Inl (NeedOneIssuer name)
          else case (if has_issuer_regexp then compile (certificate_oidc_issuer_regexp k) else None) of
            Some e \<Rightarrow> Inl (InvalidIssuerRegexp name e)
          | None \<Rightarrow> Inr ())"

definition validate_package_signature :: "(string \<Rightarrow> 'e option) \<Rightarrow> string \<Rightarrow> package_signature_verification option \<Rightarrow>
    ('e policy_error, unit) result" where
  "validate_package_signature compile name verification = (case verification of
       None \<Rightarrow> Inl (PolicyRequired name)
     | Some v \<Rightarrow>
         if sv_public_key v \<noteq> [] \<and> trim_space (sv_public_key v) = [] then Inl (BlankPublicKey name)
         else let has_public_key = trim_space (sv_public_key v) \<noteq> []; has_keyless = sv_keyless v \<noteq> None in
           if \<not> verify_enabled v then (if has_public_key \<or> has_keyless then Inl (DisabledWithCredentials name) else Inr ())
           else if has_public_key = has_keyless then Inl (NeedOneCredential name)
           else case sv_keyless v of
               None \<Rightarrow> Inr ()
             | Some k \<Rightarrow> if has_public_key then Inr () else check_keyless compile name k)"

text \<open>\<open>ValidateBundleForCreate\<close> joins the errors; a nil bundle is \<open>None\<close>.\<close>

datatype 'e create_check_error =
    CreateBundleNil
  | CreateBundleInvalid "spec_error list"
  | CreatePolicyInvalid "'e policy_error"

definition policy_errors :: "(string \<Rightarrow> 'e option) \<Rightarrow> package list \<Rightarrow> 'e create_check_error list" where
  "policy_errors compile ps = concat (map (\<lambda>p. case validate_package_signature compile (pkg_name p) (pkg_signature_verification p) of
       Inl e \<Rightarrow> [CreatePolicyInvalid e] | Inr _ \<Rightarrow> []) ps)"

definition validate_bundle_for_create :: "(string \<Rightarrow> 'e option) \<Rightarrow> uds_bundle option \<Rightarrow> 'e create_check_error list" where
  "validate_bundle_for_create compile bundle = (case bundle of
       None \<Rightarrow> [CreateBundleNil]
     | Some b \<Rightarrow> (if validate b = [] then [] else [CreateBundleInvalid (validate b)]) @ policy_errors compile (packages b))"

subsection \<open>Options for the layout loader\<close>

record verify_options =
  vo_temp_dir :: string
  vo_key :: string
  vo_identity :: string
  vo_identity_regexp :: string
  vo_issuer :: string
  vo_issuer_regexp :: string
  vo_ignore_tlog :: bool
  vo_ignore_sct :: bool
  vo_signed_timestamps :: bool
  vo_trusted_root :: string

datatype verification_strategy = VerifyNever | VerifyIfPossible | VerifyAlways

record 'flt layout_options =
  lo_filter :: "'flt option"
  lo_is_partial :: bool
  lo_strategy :: verification_strategy
  lo_verify :: "verify_options option"

definition no_layout_options :: "'flt layout_options" where
  "no_layout_options = \<lparr>lo_filter = None, lo_is_partial = False, lo_strategy = VerifyIfPossible, lo_verify = None\<rparr>"

text \<open>\<open>PolicyPanic\<close> stands for the nil dereference of a keyless block that is missing.\<close>

datatype 'e options_error =
    PackageRequired
  | OptionsPolicyRequired string
  | CreateVerificationMaterial string string 'e
  | WriteVerificationMaterial string string 'e
  | PolicyPanic

definition write_verification_material :: "('w, 'e) host_fs \<Rightarrow> string \<Rightarrow> string \<Rightarrow> string \<Rightarrow> string \<Rightarrow>
    ('w, 'e options_error, string) op" where
  "write_verification_material fs dir package_name filename contents =
     (let package_dir = path_join [dir, sanitize_file_component package_name];
          path = path_join [package_dir, filename] in
      op_bind (op_wrap (CreateVerificationMaterial package_dir package_name) (hf_mkdir_all fs package_dir)) (\<lambda>_.
      op_bind (op_wrap (WriteVerificationMaterial path package_name) (hf_write fs path contents)) (\<lambda>_. op_return path)))"

definition keyless_options :: "verify_options \<Rightarrow> keyless_signature_verification \<Rightarrow> verify_options" where
  "keyless_options vo k = vo\<lparr>vo_identity := certificate_identity k, vo_identity_regexp := certificate_identity_regexp k,
     vo_issuer := certificate_oidc_issuer k, vo_issuer_regexp := certificate_oidc_issuer_regexp k,
     vo_ignore_tlog := insecure_ignore_tlog k, vo_ignore_sct := insecure_ignore_sct k, vo_signed_timestamps := use_signed_timestamps k\<rparr>"

text \<open>\<open>defaults\<close> is \<open>signing.DefaultVerifyBlobOptions\<close>.\<close>

definition package_verification_options :: "('w, 'e) host_fs \<Rightarrow> verify_options \<Rightarrow> package option \<Rightarrow> string \<Rightarrow> string \<Rightarrow>
    ('w, 'e options_error, 'flt layout_options) op" where
  "package_verification_options fs defaults package verification_dir tmp = (case package of
       None \<Rightarrow> op_fail PackageRequired
     | Some p \<Rightarrow> (case pkg_signature_verification p of
         None \<Rightarrow> op_fail (OptionsPolicyRequired (pkg_name p))
       | Some v \<Rightarrow>
           if \<not> verify_enabled v then op_return (no_layout_options\<lparr>lo_strategy := VerifyNever\<rparr>)
           else let vo = defaults\<lparr>vo_temp_dir := tmp\<rparr> in
             if trim_space (sv_public_key v) \<noteq> [] then
               op_bind (write_verification_material fs verification_dir (pkg_name p) ''public-key.pem'' (sv_public_key v)) (\<lambda>path.
               op_return (no_layout_options\<lparr>lo_strategy := VerifyAlways, lo_verify := Some (vo\<lparr>vo_key := path\<rparr>)\<rparr>))
             else (case sv_keyless v of
                 None \<Rightarrow> op_fail PolicyPanic
               | Some k \<Rightarrow>
                   if trusted_root k \<noteq> [] then
                     op_bind (write_verification_material fs verification_dir (pkg_name p) ''trusted-root.json'' (trusted_root k)) (\<lambda>path.
                     op_return (no_layout_options\<lparr>lo_strategy := VerifyAlways, lo_verify := Some ((keyless_options vo k)\<lparr>vo_trusted_root := path\<rparr>)\<rparr>))
                   else op_return (no_layout_options\<lparr>lo_strategy := VerifyAlways, lo_verify := Some (keyless_options vo k)\<rparr>))))"

subsection \<open>Advisory verification\<close>

text \<open>
  A development deploy only warns; the result says which message it ends with. \<open>verify\<close> is Zarf's
  \<open>VerifyPackageSignature\<close> on the loaded layout.
\<close>

datatype advisory =
    PolicyWouldFail
  | VerificationDisabled
  | NoVerificationWorkspace
  | VerificationWouldFail
  | PackageSignatureVerified

definition advisory_in :: "('w, 'e) host_fs \<Rightarrow> verify_options \<Rightarrow> (verify_options \<Rightarrow> ('w, 'e, unit) op) \<Rightarrow> package \<Rightarrow> string \<Rightarrow> string \<Rightarrow>
    ('w, 'f, advisory) op" where
  "advisory_in fs defaults verify p tmp dir =
     op_bind (op_try (package_verification_options fs defaults (Some p) (path_join [dir, ''material'']) tmp)) (\<lambda>r.
       case r of
         Inl _ \<Rightarrow> op_return VerificationWouldFail
       | Inr (lo :: unit layout_options) \<Rightarrow> (case lo_verify lo of
           None \<Rightarrow> op_return VerificationWouldFail
         | Some vo \<Rightarrow> op_bind (op_try (verify vo)) (\<lambda>r. op_return (case r of Inl _ \<Rightarrow> VerificationWouldFail | Inr _ \<Rightarrow> PackageSignatureVerified))))"

definition advisory_verify_package :: "(string \<Rightarrow> 'e option) \<Rightarrow> ('w, 'e) host_fs \<Rightarrow> verify_options \<Rightarrow> (verify_options \<Rightarrow> ('w, 'e, unit) op) \<Rightarrow>
    package \<Rightarrow> string \<Rightarrow> ('w, 'f, advisory) op" where
  "advisory_verify_package compile fs defaults verify p tmp =
     (case validate_package_signature compile (pkg_name p) (pkg_signature_verification p) of
        Inl _ \<Rightarrow> op_return PolicyWouldFail
      | Inr _ \<Rightarrow>
          if (case pkg_signature_verification p of Some v \<Rightarrow> sv_verify v = Some False | None \<Rightarrow> False) then op_return VerificationDisabled
          else op_bind (op_try (hf_mkdir_temp fs tmp ''uds-package-dev-verify-*'')) (\<lambda>r. case r of
              Inl _ \<Rightarrow> op_return NoVerificationWorkspace
            | Inr dir \<Rightarrow> op_defer (\<lambda>w. snd (hf_remove_all fs dir w)) (advisory_in fs defaults verify p tmp dir)))"

end
