(* ===== verification/Artifact_Archive.thy ===== *)
theory Artifact_Archive
  imports Zarf_Signature
begin

text \<open>
  Bundle archives, \<open>internal/artifact/archive.go\<close>: writing a \<open>.tar.zst\<close> next to its destination and
  renaming it into place, counting entries, and naming the archive of a pulled bundle. The archive
  library and the file system are the record \<open>archive_env\<close>; the Windows branch is a flag of it.
\<close>

subsection \<open>Writing\<close>

text \<open>\<open>os.Stat\<close> gives whether the path is a directory and its permissions.\<close>

record archive_file =
  af_name :: string
  af_is_dir :: bool
  af_regular :: bool

record ('w, 'e) archive_env =
  av_stat :: "string \<Rightarrow> ('w, 'e, bool \<times> nat) op"
  av_not_exist :: "'e \<Rightarrow> bool"
  av_files :: "string \<Rightarrow> ('w, 'e, archive_file list) op"
  av_create_temp :: "string \<Rightarrow> string \<Rightarrow> ('w, 'e, string) op"
  av_archive :: "string \<Rightarrow> archive_file list \<Rightarrow> ('w, 'e, unit) op"
  av_close :: "string \<Rightarrow> ('w, 'e, unit) op"
  av_chmod :: "string \<Rightarrow> nat \<Rightarrow> ('w, 'e, unit) op"
  av_remove :: "string \<Rightarrow> ('w, 'e, unit) op"
  av_rename :: "string \<Rightarrow> string \<Rightarrow> ('w, 'e, unit) op"
  av_windows :: bool

datatype 'e archive_error =
    ArchiveCause 'e
  | OutputPathIsDir string
  | UnsupportedFileType string
  | ArchivePermissions 'e
  | RemoveExistingArchive 'e

definition archive_file_perm :: nat where
  "archive_file_perm = 420"

text \<open>The directories are dropped; the first entry of another type is an error.\<close>

fun regular_files :: "archive_file list \<Rightarrow> ('e archive_error, archive_file list) result" where
  "regular_files [] = Inr []"
| "regular_files (f # fs) =
     (if af_is_dir f then regular_files fs
      else if \<not> af_regular f then Inl (UnsupportedFileType (af_name f))
      else ebind (regular_files fs) (\<lambda>rs. Inr (f # rs)))"

definition archive_perm :: "('w, 'e) archive_env \<Rightarrow> string \<Rightarrow> ('w, 'e archive_error, nat) op" where
  "archive_perm av dst = op_bind (op_try (av_stat av dst)) (\<lambda>r. case r of
       Inl e \<Rightarrow> if av_not_exist av e then op_return archive_file_perm else op_fail (ArchiveCause e)
     | Inr (is_dir, perm) \<Rightarrow> if is_dir then op_fail (OutputPathIsDir dst) else op_return perm)"

text \<open>What follows the successful close of the temporary file.\<close>

definition install_archive :: "('w, 'e) archive_env \<Rightarrow> string \<Rightarrow> string \<Rightarrow> nat \<Rightarrow> ('w, 'e archive_error, unit) op" where
  "install_archive av tmp dst perm =
     op_bind (op_wrap ArchivePermissions (av_chmod av tmp perm)) (\<lambda>_.
     op_bind (op_when (av_windows av) (op_bind (op_try (av_remove av dst)) (\<lambda>r. case r of
         Inl e \<Rightarrow> if av_not_exist av e then op_return () else op_fail (RemoveExistingArchive e)
       | Inr _ \<Rightarrow> op_return ()))) (\<lambda>_.
     op_wrap ArchiveCause (av_rename av tmp dst)))"

text \<open>The deferred function: close the file if it is open, then remove it if there was an error.\<close>

definition discard_temp :: "('w, 'e) archive_env \<Rightarrow> bool \<Rightarrow> string \<Rightarrow> ('w, 'f, unit) op" where
  "discard_temp av closed tmp =
     op_bind (if closed then op_return (Inr ()) else op_try (av_close av tmp)) (\<lambda>_.
     op_bind (op_try (av_remove av tmp)) (\<lambda>_. op_return ()))"

definition write_temp :: "('w, 'e) archive_env \<Rightarrow> string \<Rightarrow> string \<Rightarrow> nat \<Rightarrow> archive_file list \<Rightarrow> ('w, 'e archive_error, unit) op" where
  "write_temp av tmp dst perm files =
     op_bind (op_try (op_bind (av_archive av tmp files) (\<lambda>_. av_close av tmp))) (\<lambda>r. case r of
       Inl e \<Rightarrow> op_bind (discard_temp av False tmp) (\<lambda>_. op_fail (ArchiveCause e))
     | Inr _ \<Rightarrow> op_bind (op_try (install_archive av tmp dst perm)) (\<lambda>r. case r of
         Inl e \<Rightarrow> op_bind (discard_temp av True tmp) (\<lambda>_. op_fail e)
       | Inr _ \<Rightarrow> op_return ()))"

definition write_tar_zst :: "('w, 'e) archive_env \<Rightarrow> string \<Rightarrow> string \<Rightarrow> ('w, 'e archive_error, unit) op" where
  "write_tar_zst av dst src_dir =
     op_bind (archive_perm av dst) (\<lambda>perm.
     op_bind (op_wrap ArchiveCause (av_files av (src_dir @ [slash]))) (\<lambda>files.
     op_bind (op_lift (regular_files files)) (\<lambda>regular.
     op_bind (op_wrap ArchiveCause (av_create_temp av (path_dir dst) (path_base dst @ ''.tmp-*''))) (\<lambda>tmp.
     write_temp av tmp dst perm (sort_key af_name regular)))))"

definition is_tar_zst :: "string \<Rightarrow> bool" where
  "is_tar_zst s = has_suffix s ''.tar.zst''"

text \<open>The loop over the headers of an opened archive: the names read before the end or an error.\<close>

fun count_entries :: "(string \<Rightarrow> string) \<Rightarrow> string \<Rightarrow> ('e, string) result list \<Rightarrow> nat \<Rightarrow> ('e, nat) result" where
  "count_entries clean name [] n = Inr n"
| "count_entries clean name (Inl e # hs) n = Inl e"
| "count_entries clean name (Inr h # hs) n = count_entries clean name hs (if clean h = name then Suc n else n)"

subsection \<open>Names\<close>

definition bundle_output_name :: "uds_bundle \<Rightarrow> string \<Rightarrow> string" where
  "bundle_output_name b arch =
     (let name = (if sanitize_file_component (md_name (metadata b)) = [] then ''bundle'' else sanitize_file_component (md_name (metadata b)));
          arch = sanitize_file_component arch;
          ver = sanitize_file_component (md_version (metadata b)) in
      if ver = [] then
        (if arch = [] then ''uds-bundle-'' @ name @ ''.tar.zst'' else ''uds-bundle-'' @ name @ ''-'' @ arch @ ''.tar.zst'')
      else if arch = [] then ''uds-bundle-'' @ name @ ''-'' @ ver @ ''.tar.zst''
      else ''uds-bundle-'' @ name @ ''-'' @ arch @ ''-'' @ ver @ ''.tar.zst'')"

datatype 'e naming_error =
    DefinitionManifestNotFound
  | NamingStore "'e store_error"
  | ReadingConfigManifest string "'e oci_error"
  | ParsingConfigManifest string
  | HCLLayerNotFound
  | ReadingHCLBlob string "'e oci_error"
  | ParsingHCLBlob string 'e
  | WritingPulledArchive "'e archive_error"

text \<open>\<open>parse\<close> is the HCL parser for an architecture, \<open>store\<close> the read-only store at a directory.\<close>

definition bundle_name_from_definition :: "codec \<Rightarrow> ('w, 'e) layout_fs \<Rightarrow> (string \<Rightarrow> ('w, 'e) registry) \<Rightarrow>
    (string \<Rightarrow> string \<Rightarrow> ('e, uds_bundle) result) \<Rightarrow> string \<Rightarrow> oci_index \<Rightarrow> string \<Rightarrow> ('w, 'e naming_error, string) op" where
  "bundle_name_from_definition cd fs store parse oci_dir ix arch =
     (case find (\<lambda>m. d_artifact_type m = media_type_bundle_definition) (ix_manifests ix) of
        None \<Rightarrow> op_fail DefinitionManifestNotFound
      | Some entry \<Rightarrow>
          op_bind (op_wrap NamingStore (open_read_only_store fs oci_dir)) (\<lambda>root.
          op_bind (op_wrap (ReadingConfigManifest (d_digest entry)) (fetch_bytes (store root) entry)) (\<lambda>bytes. case cd_manifest cd bytes of
            None \<Rightarrow> op_fail (ParsingConfigManifest (d_digest entry))
          | Some m \<Rightarrow> (case find (\<lambda>l. d_media_type l = media_type_bundle_hcl) (mf_layers m) of
              None \<Rightarrow> op_fail HCLLayerNotFound
            | Some hcl \<Rightarrow>
                if d_digest hcl = [] then op_fail HCLLayerNotFound
                else
                  op_bind (op_wrap (ReadingHCLBlob (d_digest hcl)) (fetch_bytes (store root) hcl)) (\<lambda>src.
                  op_bind (op_lift (map_error (ParsingHCLBlob (d_digest hcl)) (parse arch src))) (\<lambda>b.
                  op_return (bundle_output_name b (if arch = [] then cd_goarch cd else arch))))))))"

definition create_bundle_archive :: "codec \<Rightarrow> ('w, 'e) layout_fs \<Rightarrow> (string \<Rightarrow> ('w, 'e) registry) \<Rightarrow>
    (string \<Rightarrow> string \<Rightarrow> ('e, uds_bundle) result) \<Rightarrow> ('w, 'e) archive_env \<Rightarrow> string \<Rightarrow> string \<Rightarrow> oci_index \<Rightarrow> string \<Rightarrow>
    ('w, 'e naming_error, string) op" where
  "create_bundle_archive cd fs store parse av oci_dir target_dir ix arch =
     op_bind (bundle_name_from_definition cd fs store parse oci_dir ix arch) (\<lambda>name.
     let out = path_join [target_dir, name] in
     op_bind (op_wrap WritingPulledArchive (write_tar_zst av out (path_dir oci_dir))) (\<lambda>_. op_return out))"

end
