(* ===== verification/Artifact_Extract.thy ===== *)
theory Artifact_Extract
  imports Artifact_Archive
begin

text \<open>
  Extracting a bundle artifact, \<open>internal/artifact/extract.go\<close>: unpacking, verification of the layout,
  the package manifests of the index, the HCL and values files written beneath the workspace, and the
  ordered values files of each package. A traversal of the layout that does not end is the error
  \<open>TraversalEndless\<close>.
\<close>

datatype 'e artifact_error =
    ExtractingBundleArtifact string string 'e
  | ReadingBundleIndex string 'e
  | ParsingBundleIndex string
  | InvalidBundleIndex string string
  | LocatingBundleDefinition string
  | UnsupportedPackageManifestMediaType nat string
  | MissingPackageManifestAnnotation nat string
  | ConflictingPackageManifestDigest string string string string
  | OpeningLayout "'e store_error"
  | VerifyingArtifactDigest string "'e store_error"
  | TraversalEndless
  | ReadingBundleDefinitionManifest string "'e oci_error"
  | ParsingBundleDefinitionManifest string
  | OpeningDestinationDirectory 'e
  | ReadingLayerBlob string string 'e
  | UnsafeLayerPath layer_path_error
  | ResolvingLayerTitle string
  | CreatingLayerDirectory string 'e
  | WritingLayer string 'e
  | BundleDefinitionLayerNotFound
  | ReadingValuesDirectory string 'e
  | ReadingPackageValues string 'e

text \<open>
  \<open>xe_open_root\<close>, \<open>xe_root_mkdir\<close> and \<open>xe_root_write\<close> are the operations of \<open>os.Root\<close> at a directory,
  \<open>xe_read_dir\<close> lists names with whether they are directories.
\<close>

record ('w, 'e, 'r) extract_env =
  xe_codec :: codec
  xe_cwd :: string
  xe_fs :: "('w, 'e) host_fs"
  xe_layout :: "('w, 'e) layout_fs"
  xe_decompress :: "string \<Rightarrow> string \<Rightarrow> ('w, 'e, unit) op"
  xe_storage :: "string \<Rightarrow> 'w \<Rightarrow> ('e, 'r) blob_store"
  xe_store :: "string \<Rightarrow> ('w, 'e) registry"
  xe_open_root :: "string \<Rightarrow> ('w, 'e, unit) op"
  xe_root_mkdir :: "string \<Rightarrow> string \<Rightarrow> ('w, 'e, unit) op"
  xe_root_write :: "string \<Rightarrow> string \<Rightarrow> string \<Rightarrow> ('w, 'e, unit) op"
  xe_read_dir :: "string \<Rightarrow> ('w, 'e, (string \<times> bool) list) op"

record extracted_bundle =
  xb_dir :: string
  xb_oci_dir :: string
  xb_definition_path :: string
  xb_manifests :: "string \<rightharpoonup> descriptor"

subsection \<open>Package manifests\<close>

fun manifest_loop :: "nat \<Rightarrow> nat \<Rightarrow> descriptor list \<Rightarrow> (string \<rightharpoonup> descriptor) \<Rightarrow> ('e artifact_error, string \<rightharpoonup> descriptor) result" where
  "manifest_loop i def_ix [] manifests = Inr manifests"
| "manifest_loop i def_ix (m # ms) manifests =
     (if i = def_ix then manifest_loop (Suc i) def_ix ms manifests
      else if \<not> is_image_manifest_media_type (d_media_type m) then Inl (UnsupportedPackageManifestMediaType i (d_media_type m))
      else let name = annotation (d_annotations m) annotation_package_name in
        if name = [] then Inl (MissingPackageManifestAnnotation i annotation_package_name)
        else case manifests name of
            Some existing \<Rightarrow> Inl (ConflictingPackageManifestDigest annotation_package_name name (d_digest existing) (d_digest m))
          | None \<Rightarrow> manifest_loop (Suc i) def_ix ms (manifests(name \<mapsto> m)))"

definition build_package_manifests :: "oci_index \<Rightarrow> nat \<Rightarrow> ('e artifact_error, string \<rightharpoonup> descriptor) result" where
  "build_package_manifests ix def_ix = manifest_loop 0 def_ix (ix_manifests ix) Map.empty"

subsection \<open>Source files\<close>

definition source_layer :: "descriptor \<Rightarrow> bool" where
  "source_layer l \<longleftrightarrow> annotation (d_annotations l) annotation_title \<noteq> [] \<and>
     (d_media_type l = media_type_bundle_hcl \<or> d_media_type l = media_type_bundle_values)"

text \<open>One layer of the bundle definition; the result is where it was written.\<close>

definition materialize_layer :: "('w, 'e, 'r) extract_env \<Rightarrow> string \<Rightarrow> string \<Rightarrow> descriptor \<Rightarrow> ('w, 'e artifact_error, string) op" where
  "materialize_layer env blob_dir dir l =
     (let title = annotation (d_annotations l) annotation_title in
      op_bind (op_wrap (ReadingLayerBlob title (d_digest l)) (hf_read (xe_fs env) (path_join [blob_dir, digest_encoded (d_digest l)]))) (\<lambda>data.
      op_bind (op_lift (map_error UnsafeLayerPath (safe_layer_destination_path (xe_cwd env) dir dir title))) (\<lambda>dst.
      case path_rel dir dst of
        None \<Rightarrow> op_fail (ResolvingLayerTitle title)
      | Some rel \<Rightarrow>
          op_bind (op_wrap (CreatingLayerDirectory title) (xe_root_mkdir env dir (path_dir rel))) (\<lambda>_.
          op_bind (op_wrap (WritingLayer title) (xe_root_write env dir rel data)) (\<lambda>_. op_return dst)))))"

fun materialize_loop :: "('w, 'e, 'r) extract_env \<Rightarrow> string \<Rightarrow> string \<Rightarrow> descriptor list \<Rightarrow> string \<Rightarrow> ('w, 'e artifact_error, string) op" where
  "materialize_loop env blob_dir dir [] path = op_return path"
| "materialize_loop env blob_dir dir (l # ls) path =
     (if \<not> source_layer l then materialize_loop env blob_dir dir ls path
      else op_bind (materialize_layer env blob_dir dir l) (\<lambda>dst.
        materialize_loop env blob_dir dir ls
          (if d_media_type l = media_type_bundle_hcl \<and> annotation (d_annotations l) annotation_title = bundle_file_name then dst else path)))"

definition materialize_bundle_src_files :: "('w, 'e, 'r) extract_env \<Rightarrow> manifest \<Rightarrow> string \<Rightarrow> string \<Rightarrow> ('w, 'e artifact_error, string) op" where
  "materialize_bundle_src_files env m blob_dir dst_dir =
     (let dir = path_abs (xe_cwd env) (path_clean dst_dir) in
      op_bind (op_wrap OpeningDestinationDirectory (xe_open_root env dir)) (\<lambda>_.
      op_bind (materialize_loop env blob_dir dir (mf_layers m) []) (\<lambda>path.
      if path = [] then op_fail BundleDefinitionLayerNotFound else op_return path)))"

definition verify_extracted :: "('w, 'e, 'r) extract_env \<Rightarrow> string \<Rightarrow> string \<Rightarrow> descriptor list \<Rightarrow> ('w, 'e artifact_error, unit) op" where
  "verify_extracted env tar root ms w = (case verify_graph (xe_storage env root w) ms of
       None \<Rightarrow> (Inl TraversalEndless, w)
     | Some r \<Rightarrow> (map_error (VerifyingArtifactDigest tar) r, w))"

definition extract_artifact :: "('w, 'e, 'r) extract_env \<Rightarrow> string \<Rightarrow> string \<Rightarrow> ('w, 'e artifact_error, extracted_bundle) op" where
  "extract_artifact env tar dst_dir =
     op_bind (op_wrap (ExtractingBundleArtifact tar dst_dir) (xe_decompress env tar dst_dir)) (\<lambda>_.
     let oci_dir = path_join [dst_dir, ''oci''];
         blob_dir = path_join [oci_dir, ''blobs'', ''sha256''];
         index_path = path_join [oci_dir, ''index.json''] in
     op_bind (op_wrap (ReadingBundleIndex index_path) (hf_read (xe_fs env) index_path)) (\<lambda>bytes. case cd_index (xe_codec env) bytes of
       None \<Rightarrow> op_fail (ParsingBundleIndex index_path)
     | Some ix \<Rightarrow>
         if \<not> is_bundle_index ix then op_fail (InvalidBundleIndex tar media_type_bundle)
         else (case find_definition 0 (ix_manifests ix) of
           None \<Rightarrow> op_fail (LocatingBundleDefinition index_path)
         | Some (entry, def_ix) \<Rightarrow>
             op_bind (op_lift (build_package_manifests ix def_ix)) (\<lambda>manifests.
             op_bind (op_wrap OpeningLayout (open_store (xe_layout env) oci_dir)) (\<lambda>root.
             op_bind (verify_extracted env tar root (ix_manifests ix)) (\<lambda>_.
             op_bind (op_wrap (ReadingBundleDefinitionManifest (d_digest entry)) (fetch_bytes (xe_store env root) entry)) (\<lambda>def_bytes.
             case cd_manifest (xe_codec env) def_bytes of
               None \<Rightarrow> op_fail (ParsingBundleDefinitionManifest (d_digest entry))
             | Some m \<Rightarrow>
                 op_bind (materialize_bundle_src_files env m blob_dir dst_dir) (\<lambda>path.
                 op_return \<lparr>xb_dir = dst_dir, xb_oci_dir = oci_dir, xb_definition_path = path, xb_manifests = manifests\<rparr>))))))))"

subsection \<open>Values files\<close>

text \<open>\<open>strconv.Atoi\<close>: an optional sign and decimal digits within the range of \<open>int\<close>.\<close>

definition is_digit :: "char \<Rightarrow> bool" where
  "is_digit c \<longleftrightarrow> byte_in 0x30 0x39 c"

fun digits_value :: "nat \<Rightarrow> string \<Rightarrow> nat" where
  "digits_value n [] = n"
| "digits_value n (c # cs) = digits_value (10 * n + (of_char c - 48)) cs"

definition atoi :: "string \<Rightarrow> int option" where
  "atoi s =
     (let neg = (case s of c # _ \<Rightarrow> c = CHR ''-'' | [] \<Rightarrow> False);
          ds = (case s of c # cs \<Rightarrow> (if c = CHR ''-'' \<or> c = CHR ''+'' then cs else s) | [] \<Rightarrow> []);
          v = (if neg then - int (digits_value 0 ds) else int (digits_value 0 ds)) in
      if ds \<noteq> [] \<and> list_all is_digit ds \<and> - (2 ^ 63) \<le> v \<and> v < 2 ^ 63 then Some v else None)"

definition indexed_entry :: "string \<Rightarrow> string \<times> bool \<Rightarrow> (int \<times> string) option" where
  "indexed_entry pkg_dir entry =
     (if snd entry \<or> \<not> has_suffix (fst entry) ''.yaml'' then None
      else map_option (\<lambda>n. (n, path_join [pkg_dir, fst entry])) (atoi (trim_suffix (fst entry) ''.yaml'')))"

text \<open>\<open>sort.Slice\<close> sorts by the index; entries of the same index keep their order here.\<close>

definition package_values_paths :: "string \<Rightarrow> (string \<times> bool) list \<Rightarrow> string list" where
  "package_values_paths pkg_dir entries = map snd (sort_key fst (List.map_filter (indexed_entry pkg_dir) entries))"

fun values_loop :: "('w, 'e, 'r) extract_env \<Rightarrow> string \<Rightarrow> (string \<times> bool) list \<Rightarrow> (string \<rightharpoonup> string list) \<Rightarrow>
    ('w, 'e artifact_error, string \<rightharpoonup> string list) op" where
  "values_loop env root [] result = op_return result"
| "values_loop env root (entry # entries) result =
     (if \<not> snd entry then values_loop env root entries result
      else let pkg_dir = path_join [root, fst entry] in
        op_bind (op_wrap (ReadingPackageValues (fst entry)) (xe_read_dir env pkg_dir)) (\<lambda>files.
        let paths = package_values_paths pkg_dir files in
        values_loop env root entries (if length paths > 0 then result(fst entry \<mapsto> paths) else result)))"

definition values_files_by_package :: "('w, 'e, 'r) extract_env \<Rightarrow> extracted_bundle \<Rightarrow> ('w, 'e artifact_error, string \<rightharpoonup> string list) op" where
  "values_files_by_package env x =
     (let root = path_join [xb_dir x, ''values''] in
      op_bind (op_try (xe_read_dir env root)) (\<lambda>r. case r of
        Inl e \<Rightarrow> if hf_not_exist (xe_fs env) e then op_return Map.empty else op_fail (ReadingValuesDirectory root e)
      | Inr entries \<Rightarrow> values_loop env root entries Map.empty))"

end
