(* ===== verification/Zarf_Source.thy ===== *)
theory Zarf_Source
  imports Zarf_Signature
begin

text \<open>
  Package sources, \<open>internal/zarf\<close>: \<open>source.go\<close>, \<open>local.go\<close>, \<open>remote.go\<close> and \<open>package.go\<close>. The
  interface \<open>PackageSource\<close> is the record \<open>package_source\<close>; the two types that implement it build
  one each, and \<open>new_package_source\<close> chooses between them. Zarf's layout and remote types are type
  variables, its functions are the fields of \<open>zarf_lib\<close>.
\<close>

subsection \<open>Zarf\<close>

text \<open>A fetcher gives the package metadata (name and components) and the layers of chosen components.\<close>

record ('w, 'e, 'comp) zarf_fetcher =
  zf_yaml :: "manifest \<Rightarrow> ('w, 'e, string \<times> 'comp list) op"
  zf_assemble :: "manifest \<Rightarrow> 'comp list \<Rightarrow> ('w, 'e, descriptor list) op"

datatype 'e walk_item = WalkItemError 'e | WalkSymlink string | WalkOther string

record ('w, 'e, 'flt, 'lay, 'rem, 'comp) zarf_lib =
  zl_fs :: "('w, 'e) host_fs"
  zl_stat :: "string \<Rightarrow> ('w, 'e, bool) op"
  zl_walk :: "string \<Rightarrow> 'w \<Rightarrow> 'e walk_item list"
  zl_copy_dir :: "string \<Rightarrow> string \<Rightarrow> ('w, 'e, unit) op"
  zl_decompress :: "string \<Rightarrow> string \<Rightarrow> ('w, 'e, unit) op"
  zl_load :: "string \<Rightarrow> 'flt layout_options \<Rightarrow> ('w, 'e, 'lay) op"
  zl_name :: "'lay \<Rightarrow> string"
  zl_resolve :: "'lay \<Rightarrow> string \<Rightarrow> ('w, 'e, descriptor) op"
  zl_manifest :: "'lay \<Rightarrow> ('w, 'e, manifest) op"
  zl_cleanup :: "'lay \<Rightarrow> ('w, 'e, unit) op"
  zl_fetcher :: "'lay \<Rightarrow> ('w, 'e, 'comp) zarf_fetcher"
  zl_apply :: "'flt \<Rightarrow> string \<times> 'comp list \<Rightarrow> ('e, 'comp list) result"
  zl_copy_graph :: "'lay \<Rightarrow> ('w, 'e) registry \<Rightarrow> descriptor \<Rightarrow> ('w, 'e, unit) op"
  zl_parse_registry :: "string \<Rightarrow> ('e, string) result"
  zl_probe :: "string \<Rightarrow> bool \<Rightarrow> ('w, 'e, bool) op"
  zl_new_remote :: "string \<Rightarrow> string \<Rightarrow> bool \<Rightarrow> bool \<Rightarrow> ('w, 'e, 'rem) op"
  zl_resolve_root :: "'rem \<Rightarrow> ('w, 'e, descriptor) op"
  zl_repository :: "'rem \<Rightarrow> string \<times> string"
  zl_fetch_manifest :: "'rem \<Rightarrow> descriptor \<Rightarrow> ('w, 'e, manifest) op"
  zl_remote_fetcher :: "'rem \<Rightarrow> ('w, 'e, 'comp) zarf_fetcher"
  zl_pull :: "'rem \<Rightarrow> string \<Rightarrow> int \<Rightarrow> descriptor list \<Rightarrow> ('w, 'e, unit) op"
  zl_default_concurrency :: int

datatype 'e source_error =
    SourceCause 'e
  | FetchPackageMetadata 'e
  | ApplyComponentFilter string 'e
  | AssemblePackageLayers string 'e
  | ResolvePackageManifest string 'e
  | ReadPackageManifest string 'e
  | MarshalPackageManifest string
  | CopyPackageContent string 'e
  | WritePackageManifest string 'e
  | LocalSourcePathRequired
  | StatLocalPackage string 'e
  | InvalidLocalPackageSource string
  | WalkLocalPackage 'e
  | UnsupportedPackageSymlink string string
  | CopyLocalPackage 'e
  | LoadPackageLayout string 'e
  | CreatePackageWorkspace 'e
  | ExtractLocalPackage string 'e
  | LoadArchive string "'e source_error"
  | LoadLocalPackage string "'e source_error"
  | ReadCanonicalManifest string 'e
  | ResolvePackageLayers string "'e source_error"
  | IngestPackage string "'e source_error"
  | ParsePlainReference string 'e
  | DetermineRegistryTransport string 'e
  | CreateOCIRemote string "'e source_error"
  | NewRemoteFailed 'e
  | ResolveRootManifest string 'e
  | FetchRootManifest string 'e
  | PullPackage string 'e

subsection \<open>Manifests\<close>

definition layer_identity :: "descriptor \<Rightarrow> string \<times> string" where
  "layer_identity d = (d_digest d, annotation (d_annotations d) annotation_title)"

definition selected_layers :: "descriptor list \<Rightarrow> descriptor list \<Rightarrow> descriptor list" where
  "selected_layers layers selection = filter (\<lambda>l. layer_identity l \<in> set (map layer_identity selection)) layers"

definition package_manifest :: "('w, 'e, 'flt, 'lay, 'rem, 'comp) zarf_lib \<Rightarrow> 'lay \<Rightarrow> ('w, 'e source_error, descriptor \<times> manifest) op" where
  "package_manifest lib lay =
     op_bind (op_wrap (ResolvePackageManifest (zl_name lib lay)) (zl_resolve lib lay (zl_name lib lay))) (\<lambda>root.
     op_bind (op_wrap (ReadPackageManifest (zl_name lib lay)) (zl_manifest lib lay)) (\<lambda>m. op_return (root, m)))"

definition copy_content :: "('w, 'e, 'flt, 'lay, 'rem, 'comp) zarf_lib \<Rightarrow> 'lay \<Rightarrow> ('w, 'e) registry \<Rightarrow> descriptor \<Rightarrow>
    ('w, 'e source_error, unit) op" where
  "copy_content lib lay dst d = (if d_digest d = [] then op_return ()
     else op_wrap (CopyPackageContent (d_digest d)) (zl_copy_graph lib lay dst d))"

definition copy_package_manifest :: "codec \<Rightarrow> ('w, 'e, 'flt, 'lay, 'rem, 'comp) zarf_lib \<Rightarrow> 'lay \<Rightarrow> ('w, 'e) registry \<Rightarrow>
    descriptor \<Rightarrow> manifest \<Rightarrow> ('w, 'e source_error, descriptor) op" where
  "copy_package_manifest cd lib lay dst root m = (case cd_manifest_bytes cd m of
       None \<Rightarrow> op_fail (MarshalPackageManifest (d_digest root))
     | Some bytes \<Rightarrow>
         (let root' = (new_descriptor cd (d_media_type root) bytes)\<lparr>d_artifact_type := mf_artifact_type m, d_annotations := mf_annotations m\<rparr> in
          op_bind (op_for (copy_content lib lay dst) (mf_config m # mf_layers m)) (\<lambda>_.
          op_bind (op_wrap (WritePackageManifest (d_digest root')) (push_descriptor_bytes dst root' bytes)) (\<lambda>_. op_return root'))))"

definition copy_selected_package :: "codec \<Rightarrow> ('w, 'e, 'flt, 'lay, 'rem, 'comp) zarf_lib \<Rightarrow> 'lay \<Rightarrow> descriptor list \<Rightarrow>
    ('w, 'e) registry \<Rightarrow> ('w, 'e source_error, descriptor) op" where
  "copy_selected_package cd lib lay selection dst =
     op_bind (package_manifest lib lay) (\<lambda>(root, m).
     copy_package_manifest cd lib lay dst root (m\<lparr>mf_layers := selected_layers (mf_layers m) selection\<rparr>))"

text \<open>The selected layers, and whether components were left out.\<close>

definition select_zarf_layers :: "('w, 'e, 'flt, 'lay, 'rem, 'comp) zarf_lib \<Rightarrow> manifest \<Rightarrow> ('w, 'e, 'comp) zarf_fetcher \<Rightarrow> 'flt \<Rightarrow>
    ('w, 'e source_error, descriptor list \<times> bool) op" where
  "select_zarf_layers lib root fetcher flt =
     op_bind (op_wrap FetchPackageMetadata (zf_yaml fetcher root)) (\<lambda>pkg.
     op_bind (op_lift (map_error (ApplyComponentFilter (fst pkg)) (zl_apply lib flt pkg))) (\<lambda>components.
     op_bind (op_wrap (AssemblePackageLayers (fst pkg)) (zf_assemble fetcher root components)) (\<lambda>layers.
     op_return (layers, length components < length (snd pkg)))))"

subsection \<open>Sources\<close>

record ('w, 'e, 'flt, 'lay) package_source =
  ps_pull :: "string \<Rightarrow> 'flt layout_options \<Rightarrow> ('w, 'e source_error, 'lay) op"
  ps_ingest :: "'flt \<Rightarrow> ('w, 'e) registry \<Rightarrow> ('w, 'e source_error, descriptor list) op"
  ps_verify_ingest :: "string \<Rightarrow> 'flt layout_options \<Rightarrow> ('w, 'e) registry \<Rightarrow> ('w, 'e source_error, descriptor list) op"

text \<open>Options that only name a filter and turn verification off.\<close>

definition unverified :: "'flt \<Rightarrow> 'flt layout_options" where
  "unverified flt = no_layout_options\<lparr>lo_filter := Some flt, lo_strategy := VerifyNever\<rparr>"

text \<open>The deferred cleanup of a layout only warns.\<close>

definition cleaning :: "('w, 'e, 'flt, 'lay, 'rem, 'comp) zarf_lib \<Rightarrow> 'lay \<Rightarrow> ('w, 'f, 'a) op \<Rightarrow> ('w, 'f, 'a) op" where
  "cleaning lib lay = op_defer (\<lambda>w. snd (zl_cleanup lib lay w))"

paragraph \<open>Local\<close>

record local_source =
  ls_path :: string
  ls_bundle_dir :: string
  ls_tmp :: string

definition resolved_path :: "local_source \<Rightarrow> string" where
  "resolved_path s = (if is_abs (ls_path s) then ls_path s else path_join [ls_bundle_dir s, ls_path s])"

text \<open>\<open>zl_stat\<close> tells whether the path is a directory.\<close>

definition is_zarf_package :: "('w, 'e, 'flt, 'lay, 'rem, 'comp) zarf_lib \<Rightarrow> string \<Rightarrow> ('w, 'f, bool) op" where
  "is_zarf_package lib dir = op_bind (op_try (zl_stat lib (path_join [dir, ''zarf.yaml'']))) (\<lambda>r.
     op_return (case r of Inl _ \<Rightarrow> False | Inr _ \<Rightarrow> True))"

fun reject_items :: "string \<Rightarrow> 'e walk_item list \<Rightarrow> ('e source_error, unit) result" where
  "reject_items root [] = Inr ()"
| "reject_items root (WalkItemError e # is) = Inl (WalkLocalPackage e)"
| "reject_items root (WalkSymlink p # is) = Inl (UnsupportedPackageSymlink root p)"
| "reject_items root (WalkOther p # is) = reject_items root is"

definition reject_symlinks :: "('w, 'e, 'flt, 'lay, 'rem, 'comp) zarf_lib \<Rightarrow> string \<Rightarrow> ('w, 'e source_error, unit) op" where
  "reject_symlinks lib root w = (reject_items root (zl_walk lib root w), w)"

definition load_package_archive :: "('w, 'e, 'flt, 'lay, 'rem, 'comp) zarf_lib \<Rightarrow> string \<Rightarrow> string \<Rightarrow> 'flt layout_options \<Rightarrow>
    ('w, 'e source_error, 'lay) op" where
  "load_package_archive lib path tmp lo =
     op_bind (op_wrap CreatePackageWorkspace (hf_mkdir_temp (zl_fs lib) tmp ''zarf-pkg-*'')) (\<lambda>stage.
     op_bind (op_try (
       op_bind (op_wrap (ExtractLocalPackage path) (zl_decompress lib path stage)) (\<lambda>_.
       op_wrap (LoadPackageLayout path) (zl_load lib stage lo)))) (\<lambda>r. case r of
         Inr lay \<Rightarrow> op_return lay
       | Inl e \<Rightarrow> op_bind (op_try (hf_remove_all (zl_fs lib) stage)) (\<lambda>_. op_fail e)))"

definition local_pull :: "('w, 'e, 'flt, 'lay, 'rem, 'comp) zarf_lib \<Rightarrow> local_source \<Rightarrow> string \<Rightarrow> 'flt layout_options \<Rightarrow>
    ('w, 'e source_error, 'lay) op" where
  "local_pull lib s tmp lo =
     (if trim_space (ls_path s) = [] then op_fail LocalSourcePathRequired
      else let path = resolved_path s in
        op_bind (op_wrap (StatLocalPackage path) (zl_stat lib path)) (\<lambda>is_dir.
          if \<not> is_dir then
            (if \<not> has_suffix path ''.tar.zst'' then op_fail (InvalidLocalPackageSource (ls_path s))
             else op_wrap (LoadArchive (ls_path s)) (load_package_archive lib path tmp lo))
          else
            op_bind (is_zarf_package lib path) (\<lambda>zarf.
              if \<not> zarf then op_fail (InvalidLocalPackageSource path)
              else
                op_bind (reject_symlinks lib path) (\<lambda>_.
                let stage = path_join [tmp, ''zarf-pkg''] in
                op_bind (op_wrap CopyLocalPackage (zl_copy_dir lib path stage)) (\<lambda>_.
                op_wrap (LoadPackageLayout (ls_path s)) (zl_load lib stage lo))))))"

text \<open>A nil filter is not handled by \<open>selectZarfLayers\<close>; every caller sets one.\<close>

definition ingest_package_layout :: "codec \<Rightarrow> ('w, 'e, 'flt, 'lay, 'rem, 'comp) zarf_lib \<Rightarrow> local_source \<Rightarrow> 'lay \<Rightarrow> 'flt \<Rightarrow>
    ('w, 'e) registry \<Rightarrow> ('w, 'e source_error, descriptor list) op" where
  "ingest_package_layout cd lib s lay flt store =
     op_bind (op_wrap (ReadCanonicalManifest (ls_path s)) (zl_manifest lib lay)) (\<lambda>root.
     op_bind (op_wrap (ResolvePackageLayers (ls_path s)) (select_zarf_layers lib root (zl_fetcher lib lay) flt)) (\<lambda>(layers, _).
     op_bind (op_wrap (IngestPackage (ls_path s)) (copy_selected_package cd lib lay layers store)) (\<lambda>d. op_return [d])))"

definition local_verify_ingest :: "codec \<Rightarrow> ('w, 'e, 'flt, 'lay, 'rem, 'comp) zarf_lib \<Rightarrow> local_source \<Rightarrow> string \<Rightarrow> 'flt layout_options \<Rightarrow>
    ('w, 'e) registry \<Rightarrow> ('w, 'e source_error, descriptor list) op" where
  "local_verify_ingest cd lib s tmp lo store =
     op_bind (local_pull lib s tmp lo) (\<lambda>lay. cleaning lib lay (ingest_package_layout cd lib s lay (the (lo_filter lo)) store))"

definition local_ingest :: "codec \<Rightarrow> ('w, 'e, 'flt, 'lay, 'rem, 'comp) zarf_lib \<Rightarrow> local_source \<Rightarrow> 'flt \<Rightarrow>
    ('w, 'e) registry \<Rightarrow> ('w, 'e source_error, descriptor list) op" where
  "local_ingest cd lib s flt store =
     (if trim_space (ls_path s) = [] then op_fail LocalSourcePathRequired
      else let path = resolved_path s in
        op_bind (op_wrap (StatLocalPackage path) (zl_stat lib path)) (\<lambda>is_dir.
        op_bind (if is_dir then is_zarf_package lib path else op_return False) (\<lambda>zarf.
          if is_dir \<and> zarf then
            op_bind (reject_symlinks lib path) (\<lambda>_.
            op_bind (op_wrap (LoadLocalPackage (ls_path s)) (op_wrap SourceCause (zl_load lib path (unverified flt)))) (\<lambda>lay.
            ingest_package_layout cd lib s lay flt store))
          else if \<not> is_dir \<and> has_suffix path ''.tar.zst'' then
            op_bind (op_wrap (LoadLocalPackage (ls_path s)) (load_package_archive lib path (ls_tmp s) (unverified flt))) (\<lambda>lay.
            cleaning lib lay (ingest_package_layout cd lib s lay flt store))
          else op_fail (InvalidLocalPackageSource path))))"

definition local_package_source :: "codec \<Rightarrow> ('w, 'e, 'flt, 'lay, 'rem, 'comp) zarf_lib \<Rightarrow> local_source \<Rightarrow> ('w, 'e, 'flt, 'lay) package_source" where
  "local_package_source cd lib s = \<lparr>ps_pull = local_pull lib s, ps_ingest = local_ingest cd lib s, ps_verify_ingest = local_verify_ingest cd lib s\<rparr>"

paragraph \<open>Remote\<close>

record remote_source =
  rs_ref :: string
  rs_arch :: string
  rs_options :: config_options

definition resolve_plain_http :: "('w, 'e, 'flt, 'lay, 'rem, 'comp) zarf_lib \<Rightarrow> string \<Rightarrow> config_options \<Rightarrow> ('w, 'e source_error, bool) op" where
  "resolve_plain_http lib ref opts =
     (if \<not> plain_http opts then op_return False
      else op_bind (op_lift (map_error (ParsePlainReference ref) (zl_parse_registry lib ref))) (\<lambda>registry.
        op_wrap (DetermineRegistryTransport ref) (zl_probe lib registry (skip_tls_verify opts))))"

definition new_zoci_remote :: "('w, 'e, 'flt, 'lay, 'rem, 'comp) zarf_lib \<Rightarrow> remote_source \<Rightarrow> string \<Rightarrow> ('w, 'e source_error, 'rem) op" where
  "new_zoci_remote lib s ref =
     op_bind (resolve_plain_http lib ref (rs_options s)) (\<lambda>plain.
     op_wrap NewRemoteFailed (zl_new_remote lib ref (rs_arch s) plain (skip_tls_verify (rs_options s))))"

definition pinned_reference :: "('w, 'e, 'flt, 'lay, 'rem, 'comp) zarf_lib \<Rightarrow> 'rem \<Rightarrow> descriptor \<Rightarrow> string" where
  "pinned_reference lib rem d = fst (zl_repository lib rem) @ ''/'' @ snd (zl_repository lib rem) @ ''@'' @ d_digest d"

text \<open>Whether the manifest has a layer with the title; \<open>Locate\<close> gives the empty descriptor otherwise.\<close>

definition has_layer :: "manifest \<Rightarrow> string \<Rightarrow> bool" where
  "has_layer m title \<longleftrightarrow> (\<exists>l\<in>set (mf_layers m). annotation (d_annotations l) annotation_title = title)"

definition resolve_filtered_layers :: "('w, 'e, 'flt, 'lay, 'rem, 'comp) zarf_lib \<Rightarrow> remote_source \<Rightarrow> 'flt \<Rightarrow>
    ('w, 'e source_error, 'rem \<times> descriptor list \<times> bool) op" where
  "resolve_filtered_layers lib s flt =
     op_bind (op_wrap (CreateOCIRemote (rs_ref s)) (new_zoci_remote lib s (rs_ref s))) (\<lambda>remote.
     op_bind (op_wrap (ResolveRootManifest (rs_ref s)) (zl_resolve_root lib remote)) (\<lambda>root_desc.
     let pinned_ref = pinned_reference lib remote root_desc in
     op_bind (op_wrap (CreateOCIRemote pinned_ref) (new_zoci_remote lib s pinned_ref)) (\<lambda>pinned.
     op_bind (op_wrap (FetchRootManifest pinned_ref) (zl_fetch_manifest lib pinned root_desc)) (\<lambda>root.
       if has_layer root ''zarf.yaml'' then
         op_bind (op_wrap (ResolvePackageLayers (rs_ref s)) (select_zarf_layers lib root (zl_remote_fetcher lib pinned) flt)) (\<lambda>(layers, partial).
         op_return (pinned, layers, partial))
       else op_return (pinned, mf_layers root, False)))))"

definition source_concurrency :: "('w, 'e, 'flt, 'lay, 'rem, 'comp) zarf_lib \<Rightarrow> remote_source \<Rightarrow> int" where
  "source_concurrency lib s = (if concurrency (rs_options s) > 0 then concurrency (rs_options s) else zl_default_concurrency lib)"

definition pull_with_selection :: "('w, 'e, 'flt, 'lay, 'rem, 'comp) zarf_lib \<Rightarrow> remote_source \<Rightarrow> string \<Rightarrow> 'flt layout_options \<Rightarrow>
    ('w, 'e source_error, 'lay \<times> descriptor list) op" where
  "pull_with_selection lib s tmp lo =
     op_bind (resolve_filtered_layers lib s (the (lo_filter lo))) (\<lambda>(remote, layers, partial).
     op_bind (op_wrap (PullPackage (rs_ref s)) (zl_pull lib remote tmp (source_concurrency lib s) layers)) (\<lambda>_.
     op_bind (op_wrap (LoadPackageLayout (rs_ref s)) (zl_load lib tmp (lo\<lparr>lo_is_partial := partial\<rparr>))) (\<lambda>lay. op_return (lay, layers))))"

definition remote_pull :: "('w, 'e, 'flt, 'lay, 'rem, 'comp) zarf_lib \<Rightarrow> remote_source \<Rightarrow> string \<Rightarrow> 'flt layout_options \<Rightarrow>
    ('w, 'e source_error, 'lay) op" where
  "remote_pull lib s tmp lo = op_bind (pull_with_selection lib s tmp lo) (\<lambda>(lay, _). op_return lay)"

definition remote_verify_ingest :: "codec \<Rightarrow> ('w, 'e, 'flt, 'lay, 'rem, 'comp) zarf_lib \<Rightarrow> remote_source \<Rightarrow> string \<Rightarrow> 'flt layout_options \<Rightarrow>
    ('w, 'e) registry \<Rightarrow> ('w, 'e source_error, descriptor list) op" where
  "remote_verify_ingest cd lib s tmp lo store =
     op_bind (pull_with_selection lib s tmp lo) (\<lambda>(lay, layers). cleaning lib lay (
       op_bind (op_wrap (IngestPackage (rs_ref s)) (copy_selected_package cd lib lay layers store)) (\<lambda>d. op_return [d])))"

definition remote_ingest :: "codec \<Rightarrow> ('w, 'e, 'flt, 'lay, 'rem, 'comp) zarf_lib \<Rightarrow> remote_source \<Rightarrow> 'flt \<Rightarrow>
    ('w, 'e) registry \<Rightarrow> ('w, 'e source_error, descriptor list) op" where
  "remote_ingest cd lib s flt store =
     op_bind (op_wrap CreatePackageWorkspace (hf_mkdir_temp (zl_fs lib) (tmp_dir (rs_options s)) ''uds-package-ingest-*'')) (\<lambda>tmp.
     op_bind (op_try (pull_with_selection lib s tmp (unverified flt))) (\<lambda>r. case r of
         Inl e \<Rightarrow> op_bind (op_try (hf_remove_all (zl_fs lib) tmp)) (\<lambda>_. op_fail e)
       | Inr (lay, layers) \<Rightarrow> cleaning lib lay (
           op_bind (op_wrap (IngestPackage (rs_ref s)) (copy_selected_package cd lib lay layers store)) (\<lambda>d. op_return [d]))))"

definition remote_package_source :: "codec \<Rightarrow> ('w, 'e, 'flt, 'lay, 'rem, 'comp) zarf_lib \<Rightarrow> remote_source \<Rightarrow> ('w, 'e, 'flt, 'lay) package_source" where
  "remote_package_source cd lib s = \<lparr>ps_pull = remote_pull lib s, ps_ingest = remote_ingest cd lib s, ps_verify_ingest = remote_verify_ingest cd lib s\<rparr>"

definition new_package_source :: "codec \<Rightarrow> ('w, 'e, 'flt, 'lay, 'rem, 'comp) zarf_lib \<Rightarrow> string \<Rightarrow> config_options \<Rightarrow> string \<Rightarrow>
    ('w, 'e, 'flt, 'lay) package_source" where
  "new_package_source cd lib source opts bundle_dir =
     (if is_oci_reference source
      then remote_package_source cd lib \<lparr>rs_ref = trim_scheme source, rs_arch = architecture opts, rs_options = opts\<rparr>
      else local_package_source cd lib \<lparr>ls_path = source, ls_bundle_dir = bundle_dir, ls_tmp = tmp_dir opts\<rparr>)"

text \<open>\<open>for_deploy\<close> is \<open>filters.ForDeploy\<close> of the comma-separated names.\<close>

definition build_component_filter :: "(string \<Rightarrow> 'flt) \<Rightarrow> string list \<Rightarrow> 'flt" where
  "build_component_filter for_deploy names = for_deploy (join_with '','' names)"

end
