(* ===== verification/Artifact_Create.thy ===== *)
theory Artifact_Create
  imports Artifact_Extract Zarf_Source
begin

text \<open>
  Creating a bundle artifact, \<open>internal/artifact/create.go\<close>: ingestion of one package with its
  verification and annotations, the manifest of the bundle definition, and \<open>Create\<close>. The parameters
  of the parts it calls are gathered in \<open>create_env\<close>; logging is not modelled.
\<close>

datatype 'e create_error =
    CreatePackageNil
  | CreateConfigNil
  | CreateConfigOptionsNil
  | CreatePolicy "'e policy_error"
  | CreatingVerificationWorkspace string string 'e
  | ConfiguringSignatureVerification string "'e options_error"
  | VerifyingAndIngestingPackage string "'e source_error"
  | IngestingPackage string "'e source_error"
  | CreateConfigInvalid config_error
  | BundleNotCreatable "'e create_check_error list"
  | CreateBundleDirRequired
  | CreateWorkspace 'e
  | CreateLayout "'e store_error"
  | PushingBundleHCL 'e
  | PushingDefaultsHCL 'e
  | ValueFileStat string string 'e
  | ValueFileIsDirectory string string
  | ReadingValueFile string string 'e
  | PushingValueFile string 'e
  | PackingBundleDefinition nat 'e
  | PruningUnreferencedBlobs string "'e store_error"
  | PruningEndless
  | WritingIndex "'e oci_error"
  | WritingArchive "'e archive_error"

record ('w, 'e, 'flt, 'lay, 'rem, 'comp, 'r) create_env =
  ce_codec :: codec
  ce_show :: "int \<Rightarrow> string"
  ce_lower :: "string \<Rightarrow> string"
  ce_stat :: "string \<Rightarrow> stat_result"
  ce_lib :: "('w, 'e, 'flt, 'lay, 'rem, 'comp) zarf_lib"
  ce_compile :: "string \<Rightarrow> 'e option"
  ce_for_deploy :: "string \<Rightarrow> 'flt"
  ce_verify_defaults :: verify_options
  ce_layout :: "('w, 'e) layout_fs"
  ce_store :: "string \<Rightarrow> ('w, 'e) registry"
  ce_pack :: "string \<Rightarrow> string \<Rightarrow> descriptor list \<Rightarrow> (string \<rightharpoonup> string) \<Rightarrow> ('w, 'e, descriptor) op"
  ce_storage :: "string \<Rightarrow> 'w \<Rightarrow> ('e, 'r) blob_store"
  ce_valid :: "string \<Rightarrow> 'e option"
  ce_delete :: "string \<Rightarrow> descriptor \<Rightarrow> ('w, 'e, unit) op"
  ce_walk :: "string \<Rightarrow> 'w \<Rightarrow> 'e walk_entry list"
  ce_archive :: "('w, 'e) archive_env"

subsection \<open>Ingestion\<close>

definition annotate_package_descriptor :: "package \<Rightarrow> descriptor \<Rightarrow> descriptor" where
  "annotate_package_descriptor p d = d\<lparr>d_annotations := (d_annotations d)
     (annotation_package_name \<mapsto> pkg_name p, annotation_package_source \<mapsto> pkg_source p,
      annotation_ref_name \<mapsto> pkg_name p, annotation_package_verification := None)\<rparr>"

definition annotate_package_verification :: "bool \<Rightarrow> descriptor list \<Rightarrow> descriptor list" where
  "annotate_package_verification verified ms =
     (if \<not> verified then ms
      else map (\<lambda>d. d\<lparr>d_annotations := (d_annotations d)(annotation_package_verification \<mapsto> package_verified)\<rparr>) ms)"

definition ingest_in :: "('w, 'e, 'flt, 'lay, 'rem, 'comp, 'r) create_env \<Rightarrow> package \<Rightarrow> config_options \<Rightarrow> ('w, 'e) registry \<Rightarrow>
    string \<Rightarrow> string \<Rightarrow> ('w, 'e create_error, descriptor list) op" where
  "ingest_in env p opts store bundle_dir workspace =
     (let source = new_package_source (ce_codec env) (ce_lib env) (pkg_source p) (copy_options opts) bundle_dir;
          flt = build_component_filter (ce_for_deploy env) (pkg_optional_components p) in
      op_bind (op_wrap (ConfiguringSignatureVerification (pkg_name p))
        (package_verification_options (zl_fs (ce_lib env)) (ce_verify_defaults env) (Some p) (path_join [workspace, ''material'']) (tmp_dir opts))) (\<lambda>lo.
      op_bind (if lo_strategy lo \<noteq> VerifyNever
        then op_bind (op_wrap (CreatingVerificationWorkspace (pkg_name p) workspace) (hf_mkdir_temp (zl_fs (ce_lib env)) workspace ''package-*'')) (\<lambda>staging.
          op_wrap (VerifyingAndIngestingPackage (pkg_name p)) (ps_verify_ingest source staging (lo\<lparr>lo_filter := Some flt\<rparr>) store))
        else op_wrap (IngestingPackage (pkg_name p)) (ps_ingest source flt store)) (\<lambda>ds.
      op_return (annotate_package_verification (lo_strategy lo \<noteq> VerifyNever) (map (annotate_package_descriptor p) ds)))))"

text \<open>Nil pointers are \<open>None\<close>.\<close>

definition ingest_source :: "('w, 'e, 'flt, 'lay, 'rem, 'comp, 'r) create_env \<Rightarrow> package option \<Rightarrow> 'f internal_config option \<Rightarrow>
    ('w, 'e) registry \<Rightarrow> string \<Rightarrow> ('w, 'e create_error, descriptor list) op" where
  "ingest_source env pkg cfg store bundle_dir = (case pkg of
       None \<Rightarrow> op_fail CreatePackageNil
     | Some p \<Rightarrow> (case cfg of
         None \<Rightarrow> op_fail CreateConfigNil
       | Some c \<Rightarrow> (case ic_options c of
           None \<Rightarrow> op_fail CreateConfigOptionsNil
         | Some opts \<Rightarrow>
             op_bind (op_lift (map_error CreatePolicy (validate_package_signature (ce_compile env) (pkg_name p) (pkg_signature_verification p)))) (\<lambda>_.
             op_bind (op_wrap (CreatingVerificationWorkspace (pkg_name p) (tmp_dir opts))
               (hf_mkdir_temp (zl_fs (ce_lib env)) (tmp_dir opts) ''uds-package-verify-*'')) (\<lambda>workspace.
             op_defer (\<lambda>w. snd (hf_remove_all (zl_fs (ce_lib env)) workspace w)) (ingest_in env p opts store bundle_dir workspace))))))"

subsection \<open>The bundle definition\<close>

definition values_title :: "string \<Rightarrow> nat \<Rightarrow> string" where
  "values_title pkg i = ''values/'' @ pkg @ ''/'' @ show_nat i @ ''.yaml''"

definition push_values_file :: "('w, 'e, 'flt, 'lay, 'rem, 'comp, 'r) create_env \<Rightarrow> ('w, 'e) registry \<Rightarrow> string \<Rightarrow> package \<Rightarrow> nat \<times> string \<Rightarrow>
    ('w, 'e create_error, descriptor) op" where
  "push_values_file env store bundle_dir p entry =
     (let vf = snd entry; src = (if is_abs vf then vf else path_join [bundle_dir, vf]) in
      op_bind (op_wrap (ValueFileStat (pkg_name p) vf) (zl_stat (ce_lib env) src)) (\<lambda>is_dir.
        if is_dir then op_fail (ValueFileIsDirectory (pkg_name p) vf)
        else
          op_bind (op_wrap (ReadingValueFile (pkg_name p) vf) (hf_read (zl_fs (ce_lib env)) src)) (\<lambda>data.
          op_wrap (PushingValueFile (pkg_name p))
            (push_bytes (ce_codec env) store media_type_bundle_values data [annotation_title \<mapsto> values_title (pkg_name p) (fst entry)]))))"

definition push_package_values :: "('w, 'e, 'flt, 'lay, 'rem, 'comp, 'r) create_env \<Rightarrow> ('w, 'e) registry \<Rightarrow> string \<Rightarrow> package \<Rightarrow>
    ('w, 'e create_error, descriptor list) op" where
  "push_package_values env store bundle_dir p =
     op_map (push_values_file env store bundle_dir p) (enumerate 0 (pkg_values_files p))"

text \<open>The optional defaults layer.\<close>

definition push_defaults :: "('w, 'e, 'flt, 'lay, 'rem, 'comp, 'r) create_env \<Rightarrow> ('w, 'e) registry \<Rightarrow> string option \<Rightarrow>
    ('w, 'e create_error, descriptor list) op" where
  "push_defaults env store defaults = (case defaults of
       None \<Rightarrow> op_return []
     | Some data \<Rightarrow>
         op_bind (op_wrap PushingDefaultsHCL (push_bytes (ce_codec env) store media_type_bundle_hcl data [annotation_title \<mapsto> bundle_defaults_file_name])) (\<lambda>d.
         op_return [d]))"

definition create_bundle_definition_manifest :: "('w, 'e, 'flt, 'lay, 'rem, 'comp, 'r) create_env \<Rightarrow> string \<Rightarrow> string \<Rightarrow> string option \<Rightarrow> string \<Rightarrow>
    package list \<Rightarrow> ('w, 'e create_error, descriptor) op" where
  "create_bundle_definition_manifest env oci_dir hcl defaults bundle_dir ps =
     op_bind (op_wrap CreateLayout (create_store (ce_layout env) oci_dir)) (\<lambda>root.
     let store = ce_store env root in
     op_bind (op_wrap PushingBundleHCL (push_bytes (ce_codec env) store media_type_bundle_hcl hcl [annotation_title \<mapsto> bundle_file_name])) (\<lambda>hcl_desc.
     op_bind (push_defaults env store defaults) (\<lambda>defaults_descs.
     op_bind (op_map (push_package_values env store bundle_dir) ps) (\<lambda>values_descs.
     let layers = hcl_desc # defaults_descs @ concat values_descs in
     op_bind (op_wrap (PackingBundleDefinition (length layers)) (pack_bundle_definition_manifest (ce_pack env root) layers)) (\<lambda>d.
     op_return (d\<lparr>d_media_type := media_type_image_manifest, d_artifact_type := media_type_bundle_definition\<rparr>))))))"

subsection \<open>Create\<close>

record 'f create_options =
  co_config :: "'f internal_config option"
  co_bundle :: "uds_bundle option"
  co_hcl :: string
  co_defaults :: "string option"
  co_dir :: string

definition prune_layout :: "('w, 'e, 'flt, 'lay, 'rem, 'comp, 'r) create_env \<Rightarrow> string \<Rightarrow> string \<Rightarrow> descriptor list \<Rightarrow>
    ('w, 'e create_error, unit) op" where
  "prune_layout env oci_dir root ms w =
     (case prune_unreferenced_blobs (ce_storage env root w) (ce_layout env) (ce_valid env) (ce_delete env root) (ce_walk env root) root ms w of
        None \<Rightarrow> (Inl PruningEndless, w)
      | Some (r, w') \<Rightarrow> (map_error (PruningUnreferencedBlobs oci_dir) r, w'))"

text \<open>What \<open>Create\<close> does inside its workspace; the result is the path of the archive.\<close>

definition create_in :: "('w, 'e, 'flt, 'lay, 'rem, 'comp, 'r) create_env \<Rightarrow> 'f create_options \<Rightarrow> uds_bundle \<Rightarrow> config_options \<Rightarrow> string \<Rightarrow>
    ('w, 'e create_error, string) op" where
  "create_in env co b opts workspace =
     (let oci_dir = path_join [workspace, ''oci''] in
      op_bind (op_wrap CreateLayout (create_store (ce_layout env) oci_dir)) (\<lambda>root.
      op_bind (op_map (\<lambda>p. ingest_source env (Some p) (co_config co) (ce_store env root) (co_dir co)) (packages b)) (\<lambda>ingested.
      op_bind (create_bundle_definition_manifest env oci_dir (co_hcl co) (co_defaults co) (co_dir co) (packages b)) (\<lambda>definition.
      let ix = new_bundle_index (ce_codec env) (ce_show env) (definition # concat ingested) (architecture opts) in
      op_bind (prune_layout env oci_dir root (ix_manifests ix)) (\<lambda>_.
      op_bind (op_wrap WritingIndex (write_index (ce_codec env) (hf_write (zl_fs (ce_lib env))) (path_join [oci_dir, ''index.json'']) ix)) (\<lambda>_.
      let out = path_join [co_dir co, bundle_output_name b (architecture opts)] in
      op_bind (op_wrap WritingArchive (write_tar_zst (ce_archive env) out workspace)) (\<lambda>_. op_return out)))))))"

definition create_artifact :: "('w, 'e, 'flt, 'lay, 'rem, 'comp, 'r) create_env \<Rightarrow> 'f create_options \<Rightarrow> ('w, 'e create_error, string) op" where
  "create_artifact env co =
     op_bind (op_lift (map_error CreateConfigInvalid (validate_config (ce_lower env) (ce_stat env) (co_config co)))) (\<lambda>_.
     op_bind (op_lift (map_error CreateConfigInvalid (validate_config_structure (co_config co)))) (\<lambda>opts.
       case co_bundle co of
         None \<Rightarrow> op_fail (BundleNotCreatable [CreateBundleNil])
       | Some b \<Rightarrow>
           if validate_bundle_for_create (ce_compile env) (Some b) \<noteq> []
             then op_fail (BundleNotCreatable (validate_bundle_for_create (ce_compile env) (Some b)))
           else if co_dir co = [] then op_fail CreateBundleDirRequired
           else
             op_bind (op_wrap CreateWorkspace (hf_mkdir_temp (zl_fs (ce_lib env)) (tmp_dir opts) ''uds-bundle-create-*'')) (\<lambda>workspace.
             op_defer (\<lambda>w. snd (hf_remove_all (zl_fs (ce_lib env)) workspace w)) (create_in env co b opts workspace))))"

end
