(* ===== verification/Zarf_Source_Properties.thy ===== *)
theory Zarf_Source_Properties
  imports Zarf_Source
begin

text \<open>
  The contract of the interface \<open>PackageSource\<close> as a locale, and its interpretations on the local
  source, the remote source and the source \<open>new_package_source\<close> chooses. What a client may conclude is
  proved once inside the locale.
\<close>

subsection \<open>The contract\<close>

text \<open>
  One descriptor per ingestion; what is ingested after verification is a layout that was pulled with
  the same options; a pulled layout was loaded by Zarf with the strategy and credentials asked for.
\<close>

locale package_source_contract =
  fixes load :: "string \<Rightarrow> 'flt layout_options \<Rightarrow> ('w, 'e, 'lay) op"
    and src :: "('w, 'e, 'flt, 'lay) package_source"
  assumes ingest_single: "ps_ingest src flt st w = (Inr ds, w') \<Longrightarrow> length ds = 1"
    and verify_single: "ps_verify_ingest src tmp lo st w = (Inr ds, w') \<Longrightarrow> length ds = 1"
    and verify_pulls: "ps_verify_ingest src tmp lo st w = (Inr ds, w') \<Longrightarrow> \<exists>lay w1. ps_pull src tmp lo w = (Inr lay, w1)"
    and pull_loads: "ps_pull src tmp lo w = (Inr lay, w1) \<Longrightarrow>
      \<exists>dir lo' w0. load dir lo' w0 = (Inr lay, w1) \<and> lo_strategy lo' = lo_strategy lo \<and> lo_verify lo' = lo_verify lo"
begin

lemma verified_ingest:
  assumes "ps_verify_ingest src tmp lo st w = (Inr ds, w')"
  shows "\<exists>d dir lo' lay w0 w1. ds = [d] \<and> load dir lo' w0 = (Inr lay, w1) \<and> lo_strategy lo' = lo_strategy lo \<and> lo_verify lo' = lo_verify lo"
proof -
  obtain d where "ds = [d]" using verify_single [OF assms] by (auto simp: length_Suc_conv)
  moreover obtain lay w1 where "ps_pull src tmp lo w = (Inr lay, w1)" using verify_pulls [OF assms] by blast
  ultimately show ?thesis using pull_loads by blast
qed

lemma unverified_ingest: "ps_ingest src flt st w = (Inr ds, w') \<Longrightarrow> \<exists>d. ds = [d]"
  using ingest_single by (fastforce simp: length_Suc_conv)

end

subsection \<open>The sources\<close>

lemma cleaning_Inr: "cleaning lib lay m w = (Inr x, w') \<longleftrightarrow> (\<exists>w1. m w = (Inr x, w1) \<and> w' = snd (zl_cleanup lib lay w1))"
  by (simp add: cleaning_def op_defer_eq)

lemma ingest_package_layout_single: "ingest_package_layout cd lib s lay flt st w = (Inr ds, w') \<Longrightarrow> length ds = 1"
  unfolding ingest_package_layout_def op_bind_Inr case_prod_beta by auto

lemma load_package_archive_loads:
  "load_package_archive lib path tmp lo w = (Inr lay, w1) \<Longrightarrow> \<exists>dir w0. zl_load lib dir lo w0 = (Inr lay, w1)"
  unfolding load_package_archive_def op_bind_Inr [where m = "op_wrap g n" for g n] op_bind_try_sum by (auto simp: op_bind_Inr op_wrap_Inr)

lemma local_pull_loads: "local_pull lib s tmp lo w = (Inr lay, w1) \<Longrightarrow> \<exists>dir w0. zl_load lib dir lo w0 = (Inr lay, w1)"
  by (auto simp: local_pull_def Let_def op_bind_Inr op_wrap_Inr load_package_archive_loads split: if_splits)

lemma local_ingest_single:
  assumes "local_ingest cd lib s flt st w = (Inr ds, w')"
  shows "length ds = 1"
proof -
  obtain lay w0 w1 where "ingest_package_layout cd lib s lay flt st w0 = (Inr ds, w1)"
    using assms by (auto simp: local_ingest_def Let_def op_bind_Inr cleaning_Inr split: if_splits)
  then show ?thesis by (rule ingest_package_layout_single)
qed

lemma pull_with_selection_loads:
  "pull_with_selection lib s tmp lo w = (Inr (lay, layers), w1) \<Longrightarrow>
   \<exists>dir lo' w0. zl_load lib dir lo' w0 = (Inr lay, w1) \<and> lo_strategy lo' = lo_strategy lo \<and> lo_verify lo' = lo_verify lo"
  unfolding pull_with_selection_def op_bind_Inr case_prod_beta op_wrap_Inr
  by (elim exE conjE) fastforce

interpretation local_src: package_source_contract "zl_load lib" "local_package_source cd lib s" for cd lib s
proof
  fix flt st w ds w'
  assume "ps_ingest (local_package_source cd lib s) flt st w = (Inr ds, w')"
  then show "length ds = 1" by (simp add: local_package_source_def local_ingest_single)
next
  fix tmp lo st w ds w'
  assume "ps_verify_ingest (local_package_source cd lib s) tmp lo st w = (Inr ds, w')"
  then obtain lay w0 w1 where v: "local_pull lib s tmp lo w = (Inr lay, w0)"
    "ingest_package_layout cd lib s lay (the (lo_filter lo)) st w0 = (Inr ds, w1)"
    by (auto simp: local_package_source_def local_verify_ingest_def op_bind_Inr cleaning_Inr)
  show "length ds = 1" by (rule ingest_package_layout_single [OF v(2)])
  show "\<exists>lay w1. ps_pull (local_package_source cd lib s) tmp lo w = (Inr lay, w1)" using v(1) by (auto simp: local_package_source_def)
next
  fix tmp lo w lay w1
  assume "ps_pull (local_package_source cd lib s) tmp lo w = (Inr lay, w1)"
  then show "\<exists>dir lo' w0. zl_load lib dir lo' w0 = (Inr lay, w1) \<and> lo_strategy lo' = lo_strategy lo \<and> lo_verify lo' = lo_verify lo"
    using local_pull_loads by (fastforce simp: local_package_source_def)
qed

interpretation remote_src: package_source_contract "zl_load lib" "remote_package_source cd lib s" for cd lib s
proof
  fix flt st w ds w'
  assume "ps_ingest (remote_package_source cd lib s) flt st w = (Inr ds, w')"
  then show "length ds = 1"
    unfolding remote_package_source_def remote_ingest_def package_source.simps op_bind_Inr [where m = "op_wrap g n" for g n] op_bind_try_sum
    by (auto simp: op_bind_Inr cleaning_Inr)
next
  fix tmp lo st w ds w'
  assume a: "ps_verify_ingest (remote_package_source cd lib s) tmp lo st w = (Inr ds, w')"
  then show "length ds = 1"
    by (auto simp: remote_package_source_def remote_verify_ingest_def op_bind_Inr cleaning_Inr split: prod.splits)
  show "\<exists>lay w1. ps_pull (remote_package_source cd lib s) tmp lo w = (Inr lay, w1)"
    using a by (auto simp: remote_package_source_def remote_verify_ingest_def remote_pull_def op_bind_Inr split: prod.splits)
next
  fix tmp lo w lay w1
  assume "ps_pull (remote_package_source cd lib s) tmp lo w = (Inr lay, w1)"
  then obtain layers where "pull_with_selection lib s tmp lo w = (Inr (lay, layers), w1)"
    by (auto simp: remote_package_source_def remote_pull_def op_bind_Inr split: prod.splits)
  then show "\<exists>dir lo' w0. zl_load lib dir lo' w0 = (Inr lay, w1) \<and> lo_strategy lo' = lo_strategy lo \<and> lo_verify lo' = lo_verify lo"
    by (rule pull_with_selection_loads)
qed

interpretation chosen_src: package_source_contract "zl_load lib" "new_package_source cd lib source opts dir" for cd lib source opts dir
proof (cases "is_oci_reference source")
  case True
  then show "package_source_contract (zl_load lib) (new_package_source cd lib source opts dir)"
    by (simp add: new_package_source_def remote_src.package_source_contract_axioms)
next
  case False
  then show "package_source_contract (zl_load lib) (new_package_source cd lib source opts dir)"
    by (simp add: new_package_source_def local_src.package_source_contract_axioms)
qed

subsection \<open>Selected layers\<close>

lemma selected_layers_iff: "l \<in> set (selected_layers layers selection) \<longleftrightarrow> l \<in> set layers \<and> layer_identity l \<in> layer_identity ` set selection"
  by (simp add: selected_layers_def)

end
