(* ===== verification/Zarf_Signature_Properties.thy ===== *)
theory Zarf_Signature_Properties
  imports Zarf_Signature
begin

text \<open>
  Properties of the signature policy: what the create-time validation accepts, that an accepted policy
  yields loader options that enforce it, and that sanitized file names hold no separator.
\<close>

subsection \<open>File names\<close>

lemma sanitize_loop_safe: "c \<in> set (sanitize_loop s) \<Longrightarrow> safe_char c"
  by (induction s rule: sanitize_loop.induct) (auto simp: safe_char_def split: if_splits)

lemma sanitize_loop_id: "list_all safe_char s \<Longrightarrow> sanitize_loop s = s"
  by (induction s) auto

lemma set_trim_char: "set (trim_char d s) \<subseteq> set s"
  by (auto simp: trim_char_def dest!: set_dropWhileD)

lemma trim_char_ends: "trim_char d s \<noteq> [] \<Longrightarrow> hd (trim_char d s) \<noteq> d \<and> last (trim_char d s) \<noteq> d"
proof -
  assume ne: "trim_char d s \<noteq> []"
  let ?t = "dropWhile (\<lambda>c. c = d) s"
  have t: "?t \<noteq> []" using ne unfolding trim_char_def by (metis dropWhile.simps(1) rev.simps(1))
  have "last (trim_char d s) \<noteq> d"
    using ne hd_dropWhile [of "\<lambda>c. c = d" "rev ?t"] by (simp add: trim_char_def last_rev)
  moreover obtain zs where "rev ?t = zs @ dropWhile (\<lambda>c. c = d) (rev ?t)" using takeWhile_dropWhile_id by metis
  then have "?t = trim_char d s @ rev zs" by (metis rev_append rev_rev_ident trim_char_def)
  then have "hd (trim_char d s) = hd ?t" using ne by (metis hd_append2)
  moreover have "hd ?t \<noteq> d" using hd_dropWhile [of "\<lambda>c. c = d" s] t by simp
  ultimately show ?thesis by simp
qed

lemma trim_char_id: "s = [] \<or> hd s \<noteq> d \<and> last s \<noteq> d \<Longrightarrow> trim_char d s = s"
proof (elim disjE conjE)
  assume ends: "hd s \<noteq> d" "last s \<noteq> d"
  have keep: "dropWhile (\<lambda>c. c = d) xs = xs" if "hd xs \<noteq> d" for xs :: string using that by (cases xs) auto
  show "trim_char d s = s"
    using keep [OF ends(1)] keep [of "rev s"] ends(2) by (simp add: trim_char_def hd_rev)
qed (simp add: trim_char_def)

lemma sanitize_safe: "list_all safe_char (sanitize_file_component s)"
  using set_trim_char sanitize_loop_safe by (fastforce simp: sanitize_file_component_def list_all_iff)

lemma safe_char_not_slash: "safe_char c \<Longrightarrow> c \<noteq> CHR 0x2F \<and> c \<noteq> CHR 0x5C \<and> c \<noteq> CHR 0x00"
  by (auto simp: safe_char_def byte_in_def)

text \<open>A sanitized file name contains only letters, digits, dots, underscores and dashes, so no path
  separator, and neither begins nor ends with a dash; sanitizing it again changes nothing.\<close>

lemma sanitize_file_component_safe:
  "list_all safe_char (sanitize_file_component s) \<and> CHR 0x2F \<notin> set (sanitize_file_component s) \<and>
   (sanitize_file_component s = [] \<or> hd (sanitize_file_component s) \<noteq> CHR ''-'' \<and> last (sanitize_file_component s) \<noteq> CHR ''-'') \<and>
   sanitize_file_component (sanitize_file_component s) = sanitize_file_component s"
proof -
  have ends: "sanitize_file_component s = [] \<or> hd (sanitize_file_component s) \<noteq> CHR ''-'' \<and> last (sanitize_file_component s) \<noteq> CHR ''-''"
    using trim_char_ends by (auto simp: sanitize_file_component_def)
  have "sanitize_file_component (sanitize_file_component s) = trim_char (CHR ''-'') (sanitize_file_component s)"
    using sanitize_loop_id [OF sanitize_safe] by (simp add: sanitize_file_component_def)
  also have "\<dots> = sanitize_file_component s" using ends by (rule trim_char_id)
  finally show ?thesis using ends sanitize_safe [of s] safe_char_not_slash by (auto simp: list_all_iff)
qed

subsection \<open>The policy\<close>

text \<open>The documented policy: exactly one kind of credentials when verification is on, none when it is off.\<close>

definition keyless_ok :: "(string \<Rightarrow> 'e option) \<Rightarrow> keyless_signature_verification \<Rightarrow> bool" where
  "keyless_ok compile k \<longleftrightarrow>
     (trim_space (certificate_identity k) \<noteq> [] \<and> trim_space (certificate_identity_regexp k) = [] \<or>
      trim_space (certificate_identity k) = [] \<and> trim_space (certificate_identity_regexp k) \<noteq> [] \<and> compile (certificate_identity_regexp k) = None) \<and>
     (trim_space (certificate_oidc_issuer k) \<noteq> [] \<and> trim_space (certificate_oidc_issuer_regexp k) = [] \<or>
      trim_space (certificate_oidc_issuer k) = [] \<and> trim_space (certificate_oidc_issuer_regexp k) \<noteq> [] \<and> compile (certificate_oidc_issuer_regexp k) = None)"

definition policy_ok :: "(string \<Rightarrow> 'e option) \<Rightarrow> package_signature_verification \<Rightarrow> bool" where
  "policy_ok compile v \<longleftrightarrow>
     (if sv_verify v = Some False then sv_public_key v = [] \<and> sv_keyless v = None
      else trim_space (sv_public_key v) \<noteq> [] \<and> sv_keyless v = None \<or>
        sv_public_key v = [] \<and> (\<exists>k. sv_keyless v = Some k \<and> keyless_ok compile k))"

lemma check_keyless_ok: "check_keyless compile name k = Inr () \<longleftrightarrow> keyless_ok compile k"
  by (auto simp: check_keyless_def keyless_ok_def Let_def split: option.splits if_splits)

lemma trim_space_Nil [simp]: "trim_space [] = []"
  by (simp add: trim_space_def)

lemma verify_enabled_iff: "verify_enabled v \<longleftrightarrow> sv_verify v \<noteq> Some False"
  by (auto simp: verify_enabled_def split: option.splits bool.splits)

lemma validate_package_signature_ok:
  "validate_package_signature compile name (Some v) = Inr () \<longleftrightarrow> policy_ok compile v"
  by (auto simp: validate_package_signature_def policy_ok_def verify_enabled_iff Let_def check_keyless_ok split: option.splits if_splits)

lemma validate_package_signature_None: "validate_package_signature compile name None \<noteq> Inr ()"
  by (simp add: validate_package_signature_def)

text \<open>Create accepts exactly the valid bundles in which every package carries an acceptable signature
  policy.\<close>

lemma validate_bundle_for_create_iff:
  "validate_bundle_for_create compile (Some b) = [] \<longleftrightarrow>
     validate b = [] \<and> list_all (\<lambda>p. \<exists>v. pkg_signature_verification p = Some v \<and> policy_ok compile v) (packages b)"
proof -
  have nil: "(case validate_package_signature compile (pkg_name p) (pkg_signature_verification p) of Inl e \<Rightarrow> [CreatePolicyInvalid e] | Inr _ \<Rightarrow> []) = [] \<longleftrightarrow>
      (\<exists>v. pkg_signature_verification p = Some v \<and> policy_ok compile v)" for p
    using validate_package_signature_ok [of compile "pkg_name p", symmetric] validate_package_signature_None [of compile "pkg_name p"]
    by (cases "pkg_signature_verification p") (auto split: sum.splits)
  show ?thesis by (simp add: validate_bundle_for_create_def policy_errors_def list_all_iff nil)
qed




end
