(* ===== verification/Path_Lemmas.thy ===== *)
theory Path_Lemmas
  imports Paths
begin

text \<open>
  Facts about paths that several components share: files with different names in one directory are
  different files, and paths that stay inside a directory.
\<close>

lemma split_on_append: "split_on slash (d @ slash # t) = split_on slash d @ split_on slash t"
  by (induction d) (auto split: list.splits simp: split_on_nonempty)

lemma components_append_slash: "components (d @ slash # t) = components d @ components t"
  by (simp add: components_def split_on_append)

definition file_name :: "string \<Rightarrow> bool" where
  "file_name a \<longleftrightarrow> a \<noteq> [] \<and> a \<noteq> ''.'' \<and> a \<noteq> ''..'' \<and> slash \<notin> set a"

lemma components_file_name: "file_name a \<Longrightarrow> components a = [a]"
  using components_join [of "[a]"] by (simp add: file_name_def)

lemma resolve_last: "a \<noteq> ''..'' \<Longrightarrow> resolve r acc (cs @ [a]) = resolve r acc cs @ [a]"
  by (simp add: resolve_append)

lemma components_path_join_file:
  assumes "file_name a"
  shows "\<exists>cs. components (path_join [d, a]) = cs @ [a]"
proof -
  have "\<exists>cs. clean_components (e @ a) = cs @ [a]" if "components (e @ a) = cs @ [a]" for e cs
    using assms that by (simp add: clean_components_def resolve_last file_name_def)
  moreover have "components (d @ slash # a) = components d @ [a]"
    by (simp add: components_append_slash components_file_name [OF assms])
  ultimately have *: "\<exists>cs. clean_components (d @ slash # a) = cs @ [a]"
    by (metis append.assoc append_Cons append_Nil)
  have "\<exists>cs. clean_components a = cs @ [a]"
    using assms by (simp add: clean_components_def components_file_name file_name_def)
  then show ?thesis using * assms
    by (cases "d = []") (simp_all add: path_join_def components_path_clean file_name_def)
qed

lemma path_join_file_inject:
  assumes "file_name a" "file_name b"
  shows "path_join [d, a] = path_join [d, b] \<longleftrightarrow> a = b"
proof -
  obtain cs ds where "components (path_join [d, a]) = cs @ [a]" "components (path_join [d, b]) = ds @ [b]"
    using components_path_join_file assms by blast
  then show ?thesis by (metis last_snoc)
qed

subsection \<open>Staying inside a directory\<close>

text \<open>A path relative to a root that cannot leave it.\<close>

definition inside :: "string \<Rightarrow> bool" where
  "inside rel \<longleftrightarrow> \<not> is_abs rel \<and> ''..'' \<notin> set (components rel)"

lemma components_nil: "components [] = []"
  by (simp add: components_def)

lemma inside_path_dir:
  assumes "inside s"
  shows "inside (path_dir s)"
proof -
  define q where "q = rev (dropWhile (\<lambda>c. c \<noteq> slash) (rev s))"
  have s: "s = q @ rev (takeWhile (\<lambda>c. c \<noteq> slash) (rev s))"
    unfolding q_def by (simp flip: rev_append)
  have "components q = [] \<or> (\<exists>p t. q = p @ [slash] \<and> s = p @ slash # t)"
  proof (cases "q = []")
    case False
    then obtain p c where p: "q = p @ [c]" by (metis rev_exhaust)
    moreover have "rev q = dropWhile (\<lambda>c. c \<noteq> slash) (rev s)" by (simp add: q_def)
    ultimately have "dropWhile (\<lambda>c. c \<noteq> slash) (rev s) = c # rev p" by simp
    then have "c = slash" using hd_dropWhile [of "\<lambda>c. c \<noteq> slash" "rev s"] by simp
    then show ?thesis using s p by auto
  qed (simp add: components_def)
  then have "set (components q) \<subseteq> set (components s)"
    by (auto simp: components_append_slash components_nil)
  moreover have "\<not> is_abs q" using assms by (subst (asm) s) (cases q; auto simp: inside_def is_abs_def has_prefix_def)
  moreover have "''..'' \<notin> set (components q)" using calculation(1) assms by (auto simp: inside_def)
  ultimately have "\<not> is_abs (path_clean q)" "''..'' \<notin> set (components (path_clean q))"
    by (simp_all add: components_path_clean clean_components_def resolve_id)
  then show ?thesis by (simp add: inside_def path_dir_def q_def)
qed

text \<open>What the check lets through is reached from the directory by a path that stays inside.\<close>

lemma layer_destination_inside:
  assumes "is_abs d" "path_clean d = d" "safe_layer_destination_path cwd d d title = Inr dst" "path_rel d dst = Some rel"
  shows "inside rel"
proof -
  obtain ts where ts: "dst = path_join [d, title]" "clean_components dst = clean_components d @ ts"
    using assms(3) unfolding safe_layer_destination_path_cases [OF assms(1,2)] by (auto split: if_splits)
  have p: "plain (clean_components dst)" by (rule plain_clean_components)
  have "is_abs dst" unfolding ts(1) path_join_abs(1) [OF assms(1,2)]
    by (rule is_abs_path_string [THEN iffD2]) (simp_all add: resolve_plain plain_components plain_clean_components)
  then have "''..'' \<notin> set (clean_components dst)" by (rule clean_components_abs)
  moreover have "rel = path_string False ts"
    using assms(4) ts(2) strip_common_all [of "clean_components d" ts] by (auto simp: path_rel_def split: if_splits)
  moreover have "plain ts" using p ts(2) by auto
  ultimately show ?thesis using ts(2) by (simp add: inside_def components_path_string is_abs_path_string)
qed

lemma path_abs_clean:
  assumes "is_abs cwd"
  shows "is_abs (path_abs cwd p)" "path_clean (path_abs cwd p) = path_abs cwd p"
proof -
  have "path_abs cwd p = path_clean p \<and> is_abs p \<or> (\<exists>q. path_abs cwd p = path_clean (cwd @ q))"
    using assms by (cases "p = []") (auto simp: path_abs_def path_join_def is_abs_def has_prefix_def intro: exI [of _ "[]"])
  moreover have "is_abs (cwd @ q)" for q using assms by (cases cwd) (auto simp: is_abs_def has_prefix_def)
  ultimately show "is_abs (path_abs cwd p)" "path_clean (path_abs cwd p) = path_abs cwd p"
    by (auto simp: path_clean_clean)
qed

text \<open>A path whose cleaned form is reached from that of the directory.\<close>

definition beneath :: "string \<Rightarrow> string \<Rightarrow> bool" where
  "beneath d p \<longleftrightarrow> (\<exists>ts. clean_components p = clean_components d @ ts)"

end
