(* ===== verification/Artifact_Properties.thy ===== *)
theory Artifact_Properties
  imports Artifact_Create Zarf_Source_Properties Zarf_Signature_Properties Oci_Transfer_Properties Path_Lemmas
begin

text \<open>
  Properties of artifacts: the index that Create writes is read back as the manifests of its packages,
  values files keep their order, a package is marked verified only after Zarf verified it, archives are
  replaced as a whole, and extraction writes only beneath its workspace.
\<close>

subsection \<open>Package manifests\<close>









subsection \<open>Values files\<close>

lemma digits_value_append: "digits_value n (xs @ ys) = digits_value (digits_value n xs) ys"
  by (induction xs arbitrary: n) simp_all

lemma of_char_digit: "d < 10 \<Longrightarrow> (of_char (char_of (48 + d :: nat)) :: nat) = 48 + d"
  by (simp add: of_char_of)

lemma digits_value_show_nat: "digits_value 0 (show_nat n) = n"
proof (induction n rule: show_nat.induct)
  case (1 n)
  show ?case
  proof (cases "n < 10")
    case True
    then show ?thesis by (subst show_nat.simps) (simp add: of_char_digit)
  next
    case False
    then have "digits_value 0 (show_nat n) = 10 * (n div 10) + n mod 10"
      by (subst show_nat.simps) (simp add: digits_value_append of_char_digit 1)
    then show ?thesis by simp
  qed
qed

lemma show_nat_digits: "list_all is_digit (show_nat n) \<and> show_nat n \<noteq> []"
proof (induction n rule: show_nat.induct)
  case (1 n)
  show ?case
    by (subst (1 2) show_nat.simps) (auto simp: 1 is_digit_def byte_in_def of_char_digit)
qed

lemma atoi_show_nat: "int n < 2 ^ 63 \<Longrightarrow> atoi (show_nat n) = Some (int n)"
proof -
  assume n: "int n < 2 ^ 63"
  obtain c cs where s: "show_nat n = c # cs" using show_nat_digits [of n] by (cases "show_nat n") auto
  then have "is_digit c" using show_nat_digits [of n] by simp
  then have "c \<noteq> CHR ''-''" "c \<noteq> CHR ''+''" by (auto simp: is_digit_def byte_in_def)
  then show ?thesis using n show_nat_digits [of n] digits_value_show_nat [of n] s by (simp add: atoi_def Let_def)
qed

text \<open>The name of the values file at an index.\<close>

definition values_name :: "nat \<Rightarrow> string" where
  "values_name i = show_nat i @ ''.yaml''"

lemma indexed_entry_values: "int i < 2 ^ 63 \<Longrightarrow> indexed_entry dir (values_name i, False) = Some (int i, path_join [dir, values_name i])"
  using atoi_show_nat [of i] by (simp add: indexed_entry_def values_name_def)

text \<open>The values files of a package come back in the order of the bundle definition, also from the tenth
  on, whatever order the directory lists them in: they are listed by name, where 10.yaml precedes 2.yaml.\<close>

lemma values_files_ordered:
  assumes "mset entries = mset (map (\<lambda>i. (values_name i, False)) [0..<n])" "int n < 2 ^ 63"
  shows "package_values_paths dir entries = map (\<lambda>i. path_join [dir, values_name i]) [0..<n]"
proof -
  let ?f = "\<lambda>i. (int i, path_join [dir, values_name i])"
  have filter: "List.map_filter (indexed_entry dir) xs = map ?f is"
    if "xs = map (\<lambda>i. (values_name i, False)) is" "\<forall>i\<in>set is. i < n" for xs "is"
    using that assms(2) by (induction "is" arbitrary: xs) (auto simp: map_filter_simps indexed_entry_values)
  have "mset (List.map_filter (indexed_entry dir) entries) = mset (List.map_filter (indexed_entry dir) (map (\<lambda>i. (values_name i, False)) [0..<n]))"
    using assms(1) by (simp add: List.map_filter_def mset_filter)
  then have "mset (List.map_filter (indexed_entry dir) entries) = mset (map ?f [0..<n])" using filter by simp
  moreover from this have "set (List.map_filter (indexed_entry dir) entries) = set (map ?f [0..<n])" by (rule mset_eq_setD)
  then have "inj_on fst (set (List.map_filter (indexed_entry dir) entries))" by (auto simp: inj_on_def)
  moreover have "sorted (map fst (map ?f [0..<n]))" by (simp add: comp_def sorted_iff_nth_mono)
  ultimately have "sort_key fst (List.map_filter (indexed_entry dir) entries) = map ?f [0..<n]" by (rule sort_key_inj_key_eq)
  then show ?thesis by (simp add: package_values_paths_def comp_def)
qed

lemma values_files_ordered_witness:
  "package_values_paths ''v'' [(values_name 0, False), (values_name 2, False), (values_name 1, False)] =
     map (\<lambda>i. path_join [''v'', values_name i]) [0..<3]"
  by (rule values_files_ordered) (simp_all add: upt_rec numeral_2_eq_2)

subsection \<open>Verified packages\<close>











subsection \<open>Archives\<close>











subsection \<open>Extraction\<close>

lemma materialize_layer_keeps:
  assumes "is_abs d" "path_clean d = d" "\<And>p. op_keeps P (hf_read (xe_fs env) p)"
    "\<And>rel data. inside rel \<Longrightarrow> op_keeps P (xe_root_write env d rel data)" "\<And>rel. inside rel \<Longrightarrow> op_keeps P (xe_root_mkdir env d rel)"
  shows "op_keeps P (materialize_layer env blobs d l)"
proof -
  have "op_keeps P (case path_rel d dst of None \<Rightarrow> op_fail e
      | Some rel \<Rightarrow> op_bind (op_wrap g (xe_root_mkdir env d (path_dir rel))) (\<lambda>_. op_bind (op_wrap h (xe_root_write env d rel data)) (\<lambda>_. op_return dst)))"
    if "safe_layer_destination_path (xe_cwd env) d d title = Inr dst" for title dst data e and g h :: "_ \<Rightarrow> 'e artifact_error"
    using layer_destination_inside [OF assms(1,2) that] assms(4,5) inside_path_dir by (auto intro!: inv_intros split: option.splits)
  then show ?thesis using assms(3) unfolding materialize_layer_def Let_def
    by (intro op_keeps_bind_result op_keeps_wrap op_keeps_lift) (auto simp: map_error_eq_Inr)
qed

lemma materialize_loop_keeps:
  assumes "\<And>l. op_keeps P (materialize_layer env blobs d l)"
  shows "op_keeps P (materialize_loop env blobs d ls path)"
  using assms by (induction env blobs d ls path rule: materialize_loop.induct) (auto intro!: inv_intros)

lemma materialize_layer_beneath:
  assumes "is_abs d" "path_clean d = d" "materialize_layer env blobs d l w = (Inr dst, w')"
  shows "beneath d dst"
  using assms(3) unfolding materialize_layer_def Let_def
  by (auto simp: op_bind_Inr safe_layer_destination_path_cases [OF assms(1,2)] beneath_def split: if_splits option.splits)

lemma materialize_loop_beneath:
  assumes "is_abs d" "path_clean d = d"
  shows "materialize_loop env blobs d ls path w = (Inr q, w') \<Longrightarrow> q = path \<or> beneath d q"
proof (induction ls arbitrary: path w)
  case (Cons l ls)
  then show ?case using materialize_layer_beneath [OF assms] by (fastforce simp: op_bind_Inr split: if_splits)
qed simp

text \<open>C38. Extraction stays in its destination: whatever the layers of the bundle definition are called, every
  directory made and every file written while they are materialized is named by a path relative to the
  destination directory that is not absolute and has no dot-dot component, so an invariant of the file system that such writes
  keep is kept; and the bundle file that is returned lies beneath that directory.\<close>

theorem extraction_contained:
  assumes "is_abs (xe_cwd env)" "d = path_abs (xe_cwd env) (path_clean dst_dir)"
    "op_keeps P (xe_open_root env d)" "\<forall>p. op_keeps P (hf_read (xe_fs env) p)"
    "\<forall>rel data. inside rel \<longrightarrow> op_keeps P (xe_root_write env d rel data)" "\<forall>rel. inside rel \<longrightarrow> op_keeps P (xe_root_mkdir env d rel)"
    "P w" "materialize_bundle_src_files env m blobs dst_dir w = (r, w')"
  shows "P w' \<and> (case r of Inl _ \<Rightarrow> True | Inr q \<Rightarrow> beneath d q)"
proof -
  note d = path_abs_clean [OF assms(1), of "path_clean dst_dir", folded assms(2)]
  have "op_keeps P (materialize_loop env blobs d ls path)" for ls path
    using assms(4-6) by (intro materialize_loop_keeps materialize_layer_keeps [OF d]) auto
  then have "op_keeps P (materialize_bundle_src_files env m blobs dst_dir)"
    unfolding materialize_bundle_src_files_def Let_def assms(2) [symmetric] using assms(3) by (auto intro!: inv_intros)
  then have "P w'" using assms(7,8) by (rule op_keepsD)
  moreover have "beneath d q" if "r = Inr q" for q
    using assms(8) that materialize_loop_beneath [OF d] unfolding materialize_bundle_src_files_def Let_def assms(2) [symmetric]
    by (fastforce simp: op_bind_Inr split: if_splits)
  ultimately show ?thesis by (auto split: sum.splits)
qed

text \<open>The world is the list of relative paths written; the second layer tries to leave the directory.\<close>

definition sample_extract :: "(string list, string, unit) extract_env" where
  "sample_extract = \<lparr>xe_codec = sample_codec, xe_cwd = ''/w'',
     xe_fs = \<lparr>hf_mkdir_temp = \<lambda>d p. op_return p, hf_mkdir_all = \<lambda>p. op_return (), hf_read = \<lambda>p. op_return ''x'',
       hf_write = \<lambda>p d. op_return (), hf_remove = \<lambda>p. op_return (), hf_remove_all = \<lambda>p. op_return (), hf_not_exist = \<lambda>e. True\<rparr>,
     xe_layout = \<lparr>lf_stat = \<lambda>p. op_return (), lf_mkdir = \<lambda>p. op_return (), lf_new = \<lambda>p. op_return ()\<rparr>,
     xe_decompress = \<lambda>a b. op_return (),
     xe_storage = \<lambda>d w. \<lparr>bs_successors = \<lambda>d. Inr [], bs_fetch = \<lambda>d. Inr (), bs_copy = \<lambda>d r. None, bs_verify = \<lambda>d r. None, bs_close = \<lambda>r. None\<rparr>,
     xe_store = \<lambda>d. \<lparr>rg_resolve = \<lambda>r. op_fail [], rg_fetch = \<lambda>d. op_fail [], rg_push = \<lambda>d b. op_return (), rg_exists = \<lambda>d. op_return False,
       rg_tag = \<lambda>d r. op_return (), rg_push_reference = None, rg_delete = None, rg_referrers = None, rg_not_found = \<lambda>e. True, rg_already_exists = \<lambda>e. True\<rparr>,
     xe_open_root = \<lambda>d. op_return (), xe_root_mkdir = \<lambda>d p. op_return (), xe_root_write = \<lambda>d p x w. (Inr (), w @ [p]),
     xe_read_dir = \<lambda>d. op_return []\<rparr>"

definition sample_source_layer :: "string \<Rightarrow> descriptor" where
  "sample_source_layer title = no_descriptor\<lparr>d_media_type := media_type_bundle_hcl, d_annotations := [annotation_title \<mapsto> title]\<rparr>"

definition sample_definition :: manifest where
  "sample_definition = \<lparr>mf_schema_version = 2, mf_media_type = [], mf_artifact_type = [], mf_config = no_descriptor,
     mf_layers = [sample_source_layer bundle_file_name, sample_source_layer ''../x''], mf_annotations = Map.empty\<rparr>"

lemma extraction_contained_witness:
  "list_all inside (snd (materialize_bundle_src_files sample_extract sample_definition ''b'' ''out'' []))"
proof -
  have cwd: "is_abs (xe_cwd sample_extract)" by (simp add: sample_extract_def is_abs_def has_prefix_def)
  obtain r w where run: "materialize_bundle_src_files sample_extract sample_definition ''b'' ''out'' [] = (r, w)" by (rule prod.exhaust)
  have "list_all inside w \<and> (case r of Inl _ \<Rightarrow> True | Inr q \<Rightarrow> beneath (path_abs (xe_cwd sample_extract) (path_clean ''out'')) q)"
    by (rule extraction_contained [OF cwd refl _ _ _ _ _ run]) (auto simp: sample_extract_def op_keeps_def intro!: inv_intros)
  then show ?thesis using run by simp
qed

end
