(* ===== verification/Locals.thy ===== *)
theory Locals
  imports Dependency Paths
begin

text \<open>
  Locals and expressions of bundle definitions, \<open>internal/bundle/expressions.go\<close>: the references of a
  local, their topological order by depth-first search, evaluation in that order, the \<open>file\<close> function
  and the replacement of expressions that call it. Parsed HCL is the record \<open>hcl_lib\<close>: an expression is
  an abstract \<open>'x\<close>, its value a \<open>'v\<close>, diagnostics a \<open>'d\<close>. Files are read from a snapshot of the file system.
\<close>

subsection \<open>HCL\<close>

datatype 'd local_error =
    CyclicLocalDependency "string list"
  | UndefinedLocalDependency string nat
  | DuplicateLocal string nat nat
  | LocalEvaluation string 'd
  | LocalsBlock 'd
  | LocalsAttribute 'd
  | LocalsEndless

datatype 'd file_error =
    StatFile string 'd
  | NotRegularFile string
  | ReadFileFailed string 'd
  | NotUtf8 string

text \<open>The evaluation context: the locals in scope, \<open>sys.arch\<close> and the function \<open>file\<close> where it is available.\<close>

record ('v, 'd) eval_context =
  ec_locals :: "string \<rightharpoonup> 'v"
  ec_arch :: string
  ec_file :: "(string \<Rightarrow> ('d file_error, string) result) option"

text \<open>
  \<open>hx_calls\<close> are the names of the functions called anywhere in an expression (\<open>hclsyntax.VisitAll\<close>),
  \<open>hx_list\<close> is \<open>hcl.ExprList\<close>, \<open>hx_traversal\<close> is \<open>hcl.AbsTraversalForExpr\<close>, \<open>hx_tokens\<close> prints a value.
\<close>

record ('x, 'v, 'd) hcl_lib =
  hx_variables :: "'x \<Rightarrow> hcl_traversal list"
  hx_start :: "'x \<Rightarrow> nat"
  hx_end :: "'x \<Rightarrow> nat"
  hx_calls :: "'x \<Rightarrow> string list"
  hx_value :: "('v, 'd) eval_context \<Rightarrow> 'x \<Rightarrow> ('d, 'v) result"
  hx_list :: "'x \<Rightarrow> ('d, 'x list) result"
  hx_traversal :: "'x \<Rightarrow> ('d, hcl_traversal) result"
  hx_tokens :: "'v \<Rightarrow> string"

text \<open>\<open>hclsyntax.Body\<close>: attributes by name and blocks by type.\<close>

datatype 'x hcl_body = Body "(string \<times> 'x) list" "(string \<times> 'x hcl_body) list"

subsection \<open>The file function\<close>

definition sys_arch :: "string \<Rightarrow> string \<Rightarrow> string" where
  "sys_arch goarch arch = (if arch = [] then goarch else arch)"

text \<open>\<open>stat\<close> tells whether the path is a regular file.\<close>

record 'd file_snapshot =
  fn_stat :: "string \<Rightarrow> ('d, bool) result"
  fn_read :: "string \<Rightarrow> ('d, string) result"
  fn_valid :: "string \<Rightarrow> bool"

definition read_file_value :: "'d file_snapshot \<Rightarrow> string \<Rightarrow> string \<Rightarrow> ('d file_error, string) result" where
  "read_file_value fs base path =
     (let p = (if is_abs path then path else path_join [base, path]) in
      ebind (map_error (StatFile p) (fn_stat fs p)) (\<lambda>regular.
        if \<not> regular then Inl (NotRegularFile p)
        else ebind (map_error (ReadFileFailed p) (fn_read fs p)) (\<lambda>contents.
          if \<not> fn_valid fs contents then Inl (NotUtf8 p) else Inr contents)))"

definition config_eval_context :: "'d file_snapshot \<Rightarrow> string \<Rightarrow> ('v, 'd) eval_context" where
  "config_eval_context fs file_path = \<lparr>ec_locals = Map.empty, ec_arch = [], ec_file = Some (read_file_value fs (path_dir file_path))\<rparr>"

subsection \<open>References between locals\<close>

definition local_ref :: "hcl_traversal \<Rightarrow> string option" where
  "local_ref t = (case t of
       TraverseRoot r # step # _ \<Rightarrow> (if r \<noteq> ''local'' then None
         else (case step of TraverseAttr n \<Rightarrow> Some n | TraverseIndex (KeyString s) \<Rightarrow> Some s | _ \<Rightarrow> None))
     | _ \<Rightarrow> None)"

fun local_refs_loop :: "hcl_traversal list \<Rightarrow> string list \<Rightarrow> string list" where
  "local_refs_loop [] deps = deps"
| "local_refs_loop (t # ts) deps = (case local_ref t of
       None \<Rightarrow> local_refs_loop ts deps
     | Some d \<Rightarrow> if d \<in> set deps then local_refs_loop ts deps else local_refs_loop ts (deps @ [d]))"

definition local_dependencies :: "('x, 'v, 'd) hcl_lib \<Rightarrow> 'x \<Rightarrow> string list" where
  "local_dependencies hx x = local_refs_loop (hx_variables hx x) []"

subsection \<open>Topological order\<close>

datatype visit_status = Unvisited | Visiting | Visited

record sort_state =
  ss_status :: "string \<Rightarrow> visit_status"
  ss_stack :: "string list"
  ss_index :: "string \<rightharpoonup> nat"
  ss_order :: "string list"

definition enter :: "string \<Rightarrow> sort_state \<Rightarrow> sort_state" where
  "enter name st = st\<lparr>ss_status := (ss_status st)(name := Visiting), ss_index := (ss_index st)(name \<mapsto> length (ss_stack st)),
     ss_stack := ss_stack st @ [name]\<rparr>"

definition leave :: "string \<Rightarrow> sort_state \<Rightarrow> sort_state" where
  "leave name st = st\<lparr>ss_status := (ss_status st)(name := Visited), ss_index := (ss_index st)(name := None),
     ss_stack := butlast (ss_stack st), ss_order := ss_order st @ [name]\<rparr>"

text \<open>The closure \<open>visit\<close> recurses to a depth given as fuel; \<open>None\<close> means that it ran out, which
  \<open>locals_order_correct\<close> excludes; \<open>LocalsEndless\<close> stands for it.\<close>

type_synonym 'd sort_result = "('d local_error, sort_state) result option"

definition then_sort :: "'d sort_result \<Rightarrow> (sort_state \<Rightarrow> 'd sort_result) \<Rightarrow> 'd sort_result" where
  "then_sort r f = (case r of Some (Inr st) \<Rightarrow> f st | _ \<Rightarrow> r)"

fun visit_deps :: "(string \<Rightarrow> sort_state \<Rightarrow> 'd sort_result) \<Rightarrow> (string \<rightharpoonup> nat) \<Rightarrow> nat \<Rightarrow> string list \<Rightarrow> sort_state \<Rightarrow> 'd sort_result" where
  "visit_deps visit pos here [] st = Some (Inr st)"
| "visit_deps visit pos here (d # ds) st =
     (if pos d = None then Some (Inl (UndefinedLocalDependency d here))
      else then_sort (visit d st) (visit_deps visit pos here ds))"

text \<open>\<open>pos\<close> gives the position of the expression of every local that is defined.\<close>

fun visit_local :: "nat \<Rightarrow> (string \<rightharpoonup> nat) \<Rightarrow> (string \<Rightarrow> string list) \<Rightarrow> string \<Rightarrow> sort_state \<Rightarrow> 'd sort_result" where
  "visit_local 0 pos deps name st = None"
| "visit_local (Suc n) pos deps name st = (case ss_status st name of
       Visiting \<Rightarrow> Some (Inl (CyclicLocalDependency (drop (case ss_index st name of Some i \<Rightarrow> i | None \<Rightarrow> 0) (ss_stack st) @ [name])))
     | Visited \<Rightarrow> Some (Inr st)
     | Unvisited \<Rightarrow>
         then_sort (visit_deps (visit_local n pos deps) pos (case pos name of Some p \<Rightarrow> p | None \<Rightarrow> 0) (deps name) (enter name st))
           (\<lambda>st'. Some (Inr (leave name st'))))"

fun visit_all :: "nat \<Rightarrow> (string \<rightharpoonup> nat) \<Rightarrow> (string \<Rightarrow> string list) \<Rightarrow> string list \<Rightarrow> sort_state \<Rightarrow> 'd sort_result" where
  "visit_all n pos deps [] st = Some (Inr st)"
| "visit_all n pos deps (name # names) st = then_sort (visit_local n pos deps name st) (visit_all n pos deps names)"

definition topo_sort_locals :: "string list \<Rightarrow> (string \<rightharpoonup> nat) \<Rightarrow> (string \<Rightarrow> string list) \<Rightarrow> ('d local_error, string list) result option" where
  "topo_sort_locals names pos deps =
     map_option (\<lambda>r. ebind r (\<lambda>st. Inr (ss_order st)))
       (visit_all (Suc (length names)) pos deps names \<lparr>ss_status = \<lambda>_. Unvisited, ss_stack = [], ss_index = Map.empty, ss_order = []\<rparr>)"

end
