(* ===== verification/Bundle_Parser.thy ===== *)
theory Bundle_Parser
  imports Locals Config_Resolver
begin

text \<open>
  Parsing bundle definitions, \<open>internal/bundle/bundle.go\<close> and the rest of \<open>expressions.go\<close>: extraction
  and evaluation of locals, decoding into the data model, package dependencies, and the materialized
  source in which expressions that call \<open>file\<close> are replaced by their values. The HCL library is the
  record \<open>parser_lib\<close>; decoding by struct tags is one function of it.
\<close>

subsection \<open>Decoded structures\<close>

record decoded_keyless =
  dk_identity :: string
  dk_identity_regexp :: string
  dk_issuer :: string
  dk_issuer_regexp :: string
  dk_trusted_root :: string
  dk_ignore_tlog :: bool
  dk_ignore_sct :: bool
  dk_signed_timestamps :: bool

record decoded_signature =
  ds_verify :: "bool option"
  ds_public_key :: string
  ds_keyless :: "decoded_keyless option"

record decoded_ref =
  dr_name :: string
  dr_traversal :: hcl_traversal

record 'b decoded_package =
  dp_name :: string
  dp_source :: string
  dp_namespace :: string
  dp_depends_on :: "decoded_ref list"
  dp_values_files :: "string list"
  dp_optional_components :: "string list"
  dp_signature :: "decoded_signature option"
  dp_remain :: "'b option"

record 'b decoded_bundle =
  db_api_version :: string
  db_name :: string
  db_description :: string
  db_version :: string
  db_packages :: "'b decoded_package list"

definition to_spec_signature :: "decoded_signature option \<Rightarrow> package_signature_verification option" where
  "to_spec_signature v = map_option (\<lambda>s. \<lparr>sv_verify = ds_verify s, sv_public_key = ds_public_key s,
     sv_keyless = map_option (\<lambda>k. \<lparr>certificate_identity = dk_identity k, certificate_identity_regexp = dk_identity_regexp k,
       certificate_oidc_issuer = dk_issuer k, certificate_oidc_issuer_regexp = dk_issuer_regexp k, trusted_root = dk_trusted_root k,
       insecure_ignore_tlog = dk_ignore_tlog k, insecure_ignore_sct = dk_ignore_sct k, use_signed_timestamps = dk_signed_timestamps k\<rparr>)
       (ds_keyless s)\<rparr>) v"

definition to_spec_package :: "'b decoded_package \<Rightarrow> package" where
  "to_spec_package p = \<lparr>pkg_name = dp_name p, pkg_source = dp_source p, pkg_namespace = dp_namespace p,
     pkg_depends_on = map (\<lambda>r. \<lparr>ref_name = dr_name r\<rparr>) (dp_depends_on p), pkg_values_files = dp_values_files p,
     pkg_optional_components = dp_optional_components p, pkg_signature_verification = to_spec_signature (dp_signature p)\<rparr>"

definition to_spec :: "'b decoded_bundle \<Rightarrow> uds_bundle" where
  "to_spec b = \<lparr>uds = \<lparr>bundle_api_version = db_api_version b\<rparr>,
     metadata = \<lparr>md_name = db_name b, md_description = db_description b, md_version = db_version b\<rparr>,
     packages = map to_spec_package (db_packages b)\<rparr>"

subsection \<open>The parser library\<close>

text \<open>
  \<open>pl_parse\<close> is \<open>hclsyntax.ParseConfig\<close>, \<open>pl_body\<close> the type assertion of the body, \<open>pl_locals\<close> the blocks
  \<open>locals\<close> with their \<open>JustAttributes\<close> (a Go map, as a list in some order), \<open>pl_decode\<close> is
  \<open>gohcl.DecodeBody\<close> and \<open>pl_depends\<close> the attribute \<open>depends_on\<close> of what a package leaves over.
\<close>

record ('x, 'v, 'd, 'file, 'b) parser_lib =
  pl_expr :: "('x, 'v, 'd) hcl_lib"
  pl_files :: "'d file_snapshot"
  pl_goarch :: string
  pl_parse :: "string \<Rightarrow> string \<Rightarrow> ('d, 'file) result"
  pl_body :: "'file \<Rightarrow> 'x hcl_body option"
  pl_locals :: "'file \<Rightarrow> ('d, ('d, (string \<times> 'x) list) result list) result"
  pl_decode :: "'file \<Rightarrow> ('v, 'd) eval_context \<Rightarrow> ('d, 'b decoded_bundle) result"
  pl_depends :: "'b \<Rightarrow> ('d, 'x option) result"

datatype 'd depends_error =
    ReadPackageDependencies 'd
  | InvalidPackageDependencies 'd
  | InvalidPackageReference nat "'d option"

datatype 'd bundle_error =
    EmptyBundleParameter string
  | ReadBundleFile string 'd
  | ParseHCL string 'd
  | UnexpectedBody
  | FileFunctionWithoutSource string
  | LocalsFailed "'d local_error"
  | ExtractLocals string "'d local_error"
  | DecodeBundle string 'd
  | DecodePackageDependencies string "'d depends_error"
  | EvaluateHCLExpression 'd
  | ReadDefaults string 'd
  | DefaultsInvalid "'d parse_error"

subsection \<open>Expressions of a body\<close>

fun body_expressions :: "'x hcl_body \<Rightarrow> 'x list" where
  "body_expressions (Body attrs blocks) = map snd attrs @ concat (map (\<lambda>(_, b). body_expressions b) blocks)"

definition contains_file_call :: "('x, 'v, 'd) hcl_lib \<Rightarrow> 'x \<Rightarrow> bool" where
  "contains_file_call hx x \<longleftrightarrow> ''file'' \<in> set (hx_calls hx x)"

definition file_call_expressions :: "('x, 'v, 'd) hcl_lib \<Rightarrow> 'x hcl_body \<Rightarrow> 'x list" where
  "file_call_expressions hx body = filter (contains_file_call hx) (body_expressions body)"

definition reject_file_calls :: "('x, 'v, 'd, 'file, 'b) parser_lib \<Rightarrow> 'file \<Rightarrow> string \<Rightarrow> ('d bundle_error, unit) result" where
  "reject_file_calls lib file kind = (case pl_body lib file of
       None \<Rightarrow> Inl UnexpectedBody
     | Some body \<Rightarrow> if file_call_expressions (pl_expr lib) body \<noteq> [] then Inl (FileFunctionWithoutSource kind) else Inr ())"

subsection \<open>Locals\<close>

text \<open>The names of a block in source order, by start position and then by name.\<close>

definition source_sorted :: "('x, 'v, 'd) hcl_lib \<Rightarrow> (string \<times> 'x) list \<Rightarrow> (string \<times> 'x) list" where
  "source_sorted hx attrs = sort_key (\<lambda>a. hx_start hx (snd a)) (sort_key fst attrs)"

fun collect_locals :: "('x, 'v, 'd) hcl_lib \<Rightarrow> (string \<times> 'x) list \<Rightarrow> (string \<rightharpoonup> 'x) \<times> string list \<Rightarrow>
    ('d local_error, (string \<rightharpoonup> 'x) \<times> string list) result" where
  "collect_locals hx [] acc = Inr acc"
| "collect_locals hx ((n, x) # attrs) (exprs, order) = (case exprs n of
       Some y \<Rightarrow> Inl (DuplicateLocal n (hx_start hx y) (hx_start hx x))
     | None \<Rightarrow> collect_locals hx attrs (exprs(n \<mapsto> x), order @ [n]))"

fun collect_blocks :: "('x, 'v, 'd) hcl_lib \<Rightarrow> ('d, (string \<times> 'x) list) result list \<Rightarrow> (string \<rightharpoonup> 'x) \<times> string list \<Rightarrow>
    ('d local_error, (string \<rightharpoonup> 'x) \<times> string list) result" where
  "collect_blocks hx [] acc = Inr acc"
| "collect_blocks hx (Inl d # bs) acc = Inl (LocalsAttribute d)"
| "collect_blocks hx (Inr attrs # bs) acc = ebind (collect_locals hx (source_sorted hx attrs) acc) (collect_blocks hx bs)"

text \<open>Evaluation in order; the contexts are kept by the position of their expression.\<close>

fun eval_locals :: "('x, 'v, 'd) hcl_lib \<Rightarrow> ((string \<rightharpoonup> 'v) \<Rightarrow> ('v, 'd) eval_context) \<Rightarrow> (string \<rightharpoonup> 'x) \<Rightarrow> string list \<Rightarrow>
    (string \<rightharpoonup> 'v) \<Rightarrow> (nat \<rightharpoonup> ('v, 'd) eval_context) \<Rightarrow>
    ('d local_error, (string \<rightharpoonup> 'v) \<times> (nat \<rightharpoonup> ('v, 'd) eval_context)) result" where
  "eval_locals hx ctx exprs [] locals contexts = Inr (locals, contexts)"
| "eval_locals hx ctx exprs (n # ns) locals contexts =
     (let x = the (exprs n); c = ctx locals in
      case hx_value hx c x of
        Inl d \<Rightarrow> Inl (LocalEvaluation n d)
      | Inr v \<Rightarrow> eval_locals hx ctx exprs ns (locals(n \<mapsto> v)) (contexts(hx_start hx x \<mapsto> c)))"

definition bundle_context :: "('x, 'v, 'd, 'file, 'b) parser_lib \<Rightarrow> string \<Rightarrow> (string \<Rightarrow> ('d file_error, string) result) option \<Rightarrow>
    (string \<rightharpoonup> 'v) \<Rightarrow> ('v, 'd) eval_context" where
  "bundle_context lib arch fn locals = \<lparr>ec_locals = locals, ec_arch = sys_arch (pl_goarch lib) arch, ec_file = fn\<rparr>"

definition extract_locals :: "('x, 'v, 'd, 'file, 'b) parser_lib \<Rightarrow> string \<Rightarrow> (string \<Rightarrow> ('d file_error, string) result) option \<Rightarrow> 'file \<Rightarrow>
    ('d local_error, (string \<rightharpoonup> 'v) \<times> (nat \<rightharpoonup> ('v, 'd) eval_context)) result" where
  "extract_locals lib arch fn file = (let hx = pl_expr lib in
     ebind (map_error LocalsBlock (pl_locals lib file)) (\<lambda>blocks.
     ebind (collect_blocks hx blocks (Map.empty, [])) (\<lambda>(exprs, names).
     ebind (case topo_sort_locals names (\<lambda>n. map_option (hx_start hx) (exprs n))
              (\<lambda>n. case exprs n of Some x \<Rightarrow> local_dependencies hx x | None \<Rightarrow> []) of
            None \<Rightarrow> Inl LocalsEndless | Some r \<Rightarrow> r) (\<lambda>order.
     eval_locals hx (bundle_context lib arch fn) exprs order Map.empty Map.empty))))"

subsection \<open>Package dependencies\<close>

definition decode_ref :: "('x, 'v, 'd) hcl_lib \<Rightarrow> 'x \<Rightarrow> ('d depends_error, decoded_ref) result" where
  "decode_ref hx x = (case hx_traversal hx x of
       Inl d \<Rightarrow> Inl (InvalidPackageReference (hx_start hx x) (Some d))
     | Inr t \<Rightarrow> (case t of
         [TraverseRoot r, TraverseAttr n] \<Rightarrow>
           if r = ''package'' then Inr \<lparr>dr_name = n, dr_traversal = t\<rparr> else Inl (InvalidPackageReference (hx_start hx x) None)
       | _ \<Rightarrow> Inl (InvalidPackageReference (hx_start hx x) None)))"

definition decode_depends_on :: "('x, 'v, 'd, 'file, 'b) parser_lib \<Rightarrow> 'b \<Rightarrow> ('d depends_error, decoded_ref list) result" where
  "decode_depends_on lib body =
     ebind (map_error ReadPackageDependencies (pl_depends lib body)) (\<lambda>attr. case attr of
       None \<Rightarrow> Inr []
     | Some x \<Rightarrow> ebind (map_error InvalidPackageDependencies (hx_list (pl_expr lib) x)) (emap (decode_ref (pl_expr lib))))"

definition resolve_dependencies :: "('x, 'v, 'd, 'file, 'b) parser_lib \<Rightarrow> 'b decoded_package \<Rightarrow> ('d bundle_error, 'b decoded_package) result" where
  "resolve_dependencies lib p = (case dp_remain p of
       None \<Rightarrow> Inr p
     | Some body \<Rightarrow> ebind (map_error (DecodePackageDependencies (dp_name p)) (decode_depends_on lib body)) (\<lambda>refs.
         Inr (p\<lparr>dp_depends_on := refs\<rparr>)))"

definition decode_bundle_with_locals :: "('x, 'v, 'd, 'file, 'b) parser_lib \<Rightarrow> string \<Rightarrow> 'file \<Rightarrow> (string \<rightharpoonup> 'v) \<Rightarrow>
    (string \<Rightarrow> ('d file_error, string) result) option \<Rightarrow> string \<Rightarrow> ('d bundle_error, uds_bundle) result" where
  "decode_bundle_with_locals lib arch file locals fn filename =
     ebind (map_error (DecodeBundle filename) (pl_decode lib file (bundle_context lib arch fn locals))) (\<lambda>b.
     ebind (emap (resolve_dependencies lib) (db_packages b)) (\<lambda>ps. Inr (to_spec (b\<lparr>db_packages := ps\<rparr>))))"

subsection \<open>Parsing\<close>

definition parse_bundle_content :: "('x, 'v, 'd, 'file, 'b) parser_lib \<Rightarrow> string \<Rightarrow> string \<Rightarrow> string \<Rightarrow> string \<Rightarrow> bool \<Rightarrow>
    ('d bundle_error, uds_bundle) result" where
  "parse_bundle_content lib arch src filename base allow_file =
     ebind (map_error (ParseHCL filename) (pl_parse lib src filename)) (\<lambda>file.
     ebind (if \<not> allow_file then reject_file_calls lib file bundle_file_name else Inr ()) (\<lambda>_.
     let fn = (if allow_file then Some (read_file_value (pl_files lib) base) else None) in
     ebind (map_error LocalsFailed (extract_locals lib arch fn file)) (\<lambda>(locals, _).
     decode_bundle_with_locals lib arch file locals fn filename)))"

definition parse_bundle_file :: "('x, 'v, 'd, 'file, 'b) parser_lib \<Rightarrow> string \<Rightarrow> string \<Rightarrow> ('d bundle_error, uds_bundle) result" where
  "parse_bundle_file lib arch path =
     (if path = [] then Inl (EmptyBundleParameter ''filePath'')
      else ebind (map_error (ReadBundleFile path) (fn_read (pl_files lib) path)) (\<lambda>src.
        parse_bundle_content lib arch src path (path_dir path) True))"

definition parse_bundle_bytes :: "('x, 'v, 'd, 'file, 'b) parser_lib \<Rightarrow> string \<Rightarrow> string \<Rightarrow> ('d bundle_error, uds_bundle) result" where
  "parse_bundle_bytes lib arch src =
     (if length src = 0 then Inl (EmptyBundleParameter ''src'')
      else parse_bundle_content lib arch src bundle_file_name [] False)"

subsection \<open>Materialization\<close>

text \<open>A replacement of the bytes from a start to an end; the last one in the source is made first.\<close>

definition splice :: "string \<Rightarrow> nat \<times> nat \<times> string \<Rightarrow> string" where
  "splice out r = take (fst r) out @ snd (snd r) @ drop (fst (snd r)) out"

definition replacement_of :: "('x, 'v, 'd) hcl_lib \<Rightarrow> ('v, 'd) eval_context \<Rightarrow> (nat \<rightharpoonup> ('v, 'd) eval_context) \<Rightarrow> 'x \<Rightarrow>
    ('d bundle_error, nat \<times> nat \<times> string) result" where
  "replacement_of hx ctx contexts x =
     ebind (map_error EvaluateHCLExpression (hx_value hx (case contexts (hx_start hx x) of Some c \<Rightarrow> c | None \<Rightarrow> ctx) x)) (\<lambda>v.
     Inr (hx_start hx x, hx_end hx x, hx_tokens hx v))"

definition materialize_file_call_expressions :: "('x, 'v, 'd, 'file, 'b) parser_lib \<Rightarrow> string \<Rightarrow> string \<Rightarrow> ('v, 'd) eval_context \<Rightarrow>
    (nat \<rightharpoonup> ('v, 'd) eval_context) \<Rightarrow> ('d bundle_error, string) result" where
  "materialize_file_call_expressions lib src filename ctx contexts =
     ebind (map_error (ParseHCL filename) (pl_parse lib src filename)) (\<lambda>file. case pl_body lib file of
       None \<Rightarrow> Inl UnexpectedBody
     | Some body \<Rightarrow>
         ebind (emap (replacement_of (pl_expr lib) ctx contexts) (file_call_expressions (pl_expr lib) body)) (\<lambda>rs.
         Inr (foldl splice src (rev (sort_key fst rs)))))"

definition materialize_bundle_file_calls :: "('x, 'v, 'd, 'file, 'b) parser_lib \<Rightarrow> string \<Rightarrow> string \<Rightarrow> string \<Rightarrow> string \<Rightarrow>
    ('d bundle_error, string) result" where
  "materialize_bundle_file_calls lib arch src filename base =
     (let fn = Some (read_file_value (pl_files lib) base) in
      ebind (map_error (ParseHCL filename) (pl_parse lib src filename)) (\<lambda>file.
      ebind (map_error (ExtractLocals filename) (extract_locals lib arch fn file)) (\<lambda>(locals, contexts).
      materialize_file_call_expressions lib src filename (bundle_context lib arch fn locals) contexts)))"

definition parse_and_materialize_bundle_file :: "('x, 'v, 'd, 'file, 'b) parser_lib \<Rightarrow> string \<Rightarrow> string \<Rightarrow>
    ('d bundle_error, uds_bundle \<times> string) result" where
  "parse_and_materialize_bundle_file lib arch path =
     ebind (map_error (ReadBundleFile path) (fn_read (pl_files lib) path)) (\<lambda>src.
     ebind (parse_bundle_content lib arch src path (path_dir path) True) (\<lambda>b.
     ebind (materialize_bundle_file_calls lib arch src path (path_dir path)) (\<lambda>m. Inr (b, m))))"

text \<open>\<open>f64\<close> and \<open>h\<close> are the parameters of \<open>parse_defaults_content\<close>.\<close>

definition materialize_defaults_file :: "('n \<Rightarrow> 'f) \<Rightarrow> ('d, 'file2, 'expr, 'n) hcl \<Rightarrow> ('x, 'v, 'd, 'file, 'b) parser_lib \<Rightarrow> string \<Rightarrow>
    ('d bundle_error, string) result" where
  "materialize_defaults_file f64 h lib path =
     ebind (map_error (ReadDefaults path) (fn_read (pl_files lib) path)) (\<lambda>src.
     ebind (map_error DefaultsInvalid (parse_defaults_content f64 h src path True)) (\<lambda>_.
     materialize_file_call_expressions lib src path (config_eval_context (pl_files lib) path) Map.empty))"

end
