(* ===== verification/Locals_Properties.thy ===== *)
theory Locals_Properties
  imports Locals
begin

text \<open>
  Properties of locals: the order is topological or the error is justified.
\<close>

subsection \<open>The invariant of the search\<close>

definition chain :: "(string \<Rightarrow> string list) \<Rightarrow> string list \<Rightarrow> bool" where
  "chain deps = successively (\<lambda>a b. b \<in> set (deps a))"

definition closed_order :: "(string \<Rightarrow> string list) \<Rightarrow> string list \<Rightarrow> bool" where
  "closed_order deps xs \<longleftrightarrow> (\<forall>i<length xs. set (deps (xs ! i)) \<subseteq> set (take i xs))"

definition sort_inv :: "(string \<rightharpoonup> nat) \<Rightarrow> (string \<Rightarrow> string list) \<Rightarrow> sort_state \<Rightarrow> bool" where
  "sort_inv pos deps st \<longleftrightarrow>
     distinct (ss_stack st @ ss_order st) \<and> set (ss_stack st @ ss_order st) \<subseteq> dom pos \<and>
     (\<forall>n. ss_status st n = (if n \<in> set (ss_stack st) then Visiting else if n \<in> set (ss_order st) then Visited else Unvisited)) \<and>
     (\<forall>i<length (ss_stack st). ss_index st (ss_stack st ! i) = Some i) \<and>
     chain deps (ss_stack st) \<and> closed_order deps (ss_order st)"

text \<open>An error that the declarations justify.\<close>

definition justified :: "(string \<rightharpoonup> nat) \<Rightarrow> (string \<Rightarrow> string list) \<Rightarrow> 'd local_error \<Rightarrow> bool" where
  "justified pos deps e \<longleftrightarrow> (case e of
       CyclicLocalDependency c \<Rightarrow> length c \<ge> 2 \<and> hd c = last c \<and> chain deps c \<and> set c \<subseteq> dom pos
     | UndefinedLocalDependency d p \<Rightarrow> d \<notin> dom pos \<and> (\<exists>n. pos n = Some p \<and> d \<in> set (deps n))
     | _ \<Rightarrow> False)"

definition sorted_to :: "(string \<rightharpoonup> nat) \<Rightarrow> (string \<Rightarrow> string list) \<Rightarrow> sort_state \<Rightarrow> string set \<Rightarrow> 'd sort_result \<Rightarrow> bool" where
  "sorted_to pos deps st goal r \<longleftrightarrow> (case r of
       None \<Rightarrow> False
     | Some (Inl e) \<Rightarrow> justified pos deps e
     | Some (Inr st') \<Rightarrow> sort_inv pos deps st' \<and> ss_stack st' = ss_stack st \<and> set (ss_order st) \<union> goal \<subseteq> set (ss_order st') \<and>
         set (ss_order st') \<subseteq> dom pos)"

lemma sorted_to_simps [simp]:
  "sorted_to pos deps st goal None = False"
  "sorted_to pos deps st goal (Some (Inl e)) = justified pos deps e"
  by (simp_all add: sorted_to_def)

lemma sorted_to_then:
  assumes "sorted_to pos deps st g r"
    "\<And>st'. sort_inv pos deps st' \<Longrightarrow> ss_stack st' = ss_stack st \<Longrightarrow> set (ss_order st) \<union> g \<subseteq> set (ss_order st') \<Longrightarrow> sorted_to pos deps st' h (f st')"
  shows "sorted_to pos deps st (g \<union> h) (then_sort r f)"
proof (cases "\<exists>st'. r = Some (Inr st')")
  case True
  then obtain st' where st': "r = Some (Inr st')" by blast
  then have "sort_inv pos deps st'" "ss_stack st' = ss_stack st" "set (ss_order st) \<union> g \<subseteq> set (ss_order st')"
    using assms(1) by (auto simp: sorted_to_def)
  from assms(2) [OF this] show ?thesis
    using st' \<open>ss_stack st' = ss_stack st\<close> \<open>set (ss_order st) \<union> g \<subseteq> _\<close>
    by (auto simp: sorted_to_def then_sort_def split: option.splits sum.splits)
next
  case False
  then have "then_sort r f = r" by (auto simp: then_sort_def split: option.splits sum.splits)
  moreover obtain e where "r = Some (Inl e)" using False assms(1) by (cases r) (auto simp: sorted_to_def split: sum.splits)
  ultimately show ?thesis using assms(1) by simp
qed

lemma chain_append:
  "chain deps (cs @ [n]) \<longleftrightarrow> chain deps cs \<and> (cs = [] \<or> n \<in> set (deps (last cs)))"
  by (simp add: chain_def successively_append_iff)

lemma chain_drop: "chain deps cs \<Longrightarrow> chain deps (drop i cs)"
  using successively_append_iff [of _ "take i cs" "drop i cs"] by (simp add: chain_def)

lemma chain_nth: "chain deps cs \<longleftrightarrow> (\<forall>i. Suc i < length cs \<longrightarrow> cs ! Suc i \<in> set (deps (cs ! i)))"
  by (simp add: chain_def successively_conv_nth)

lemma closed_order_append: "closed_order deps (xs @ [n]) \<longleftrightarrow> closed_order deps xs \<and> set (deps n) \<subseteq> set xs"
  by (auto simp: closed_order_def nth_append less_Suc_eq)

subsection \<open>Steps\<close>

lemma sort_inv_enter:
  assumes "sort_inv pos deps st" "ss_status st name = Unvisited" "name \<in> dom pos" "ss_stack st = [] \<or> name \<in> set (deps (last (ss_stack st)))"
  shows "sort_inv pos deps (enter name st)"
proof -
  have new: "name \<notin> set (ss_stack st)" "name \<notin> set (ss_order st)"
    using assms(1,2) by (auto simp: sort_inv_def split: if_splits)
  show ?thesis using assms new by (auto simp: sort_inv_def enter_def chain_append nth_append less_Suc_eq dest: nth_mem)
qed

lemma sort_inv_leave:
  assumes "sort_inv pos deps st" "ss_stack st = stack @ [name]" "set (deps name) \<subseteq> set (ss_order st)"
  shows "sort_inv pos deps (leave name st)"
proof -
  have "name \<noteq> stack ! i" if "i < length stack" for i
    using assms(1,2) that by (auto simp: sort_inv_def)
  moreover have "ss_index st (stack ! i) = Some i" if "i < length stack" for i
    using assms(1,2) that by (auto simp: sort_inv_def nth_append dest: spec [of _ i])
  ultimately show ?thesis
    using assms by (auto simp: sort_inv_def leave_def chain_append closed_order_append butlast_append)
qed

lemma cycle_justified:
  assumes "sort_inv pos deps st" "ss_status st name = Visiting" "ss_stack st = [] \<or> name \<in> set (deps (last (ss_stack st)))"
  shows "justified pos deps (CyclicLocalDependency (drop (case ss_index st name of Some i \<Rightarrow> i | None \<Rightarrow> 0) (ss_stack st) @ [name]))"
proof -
  have mem: "name \<in> set (ss_stack st)" using assms(1,2) by (auto simp: sort_inv_def split: if_splits)
  then obtain i where i: "i < length (ss_stack st)" "ss_stack st ! i = name" by (auto simp: in_set_conv_nth)
  then have ix: "ss_index st name = Some i" using assms(1) by (auto simp: sort_inv_def)
  have "chain deps (drop i (ss_stack st) @ [name])"
    using assms(1,3) mem i by (auto simp: chain_append sort_inv_def chain_drop)
  moreover have "hd (drop i (ss_stack st)) = name" using i by (simp add: hd_drop_conv_nth)
  moreover have "set (drop i (ss_stack st)) \<subseteq> dom pos" using assms(1) set_drop_subset [of i "ss_stack st"] by (auto simp: sort_inv_def)
  moreover have "name \<in> dom pos" using mem assms(1) by (auto simp: sort_inv_def)
  ultimately show ?thesis using i by (auto simp: justified_def ix)
qed

lemma visit_deps_sorted:
  assumes "\<And>d st'. d \<in> set ds \<Longrightarrow> d \<in> dom pos \<Longrightarrow> sort_inv pos deps st' \<Longrightarrow> ss_stack st' = ss_stack st \<Longrightarrow> sorted_to pos deps st' {d} (visit d st')"
    "sort_inv pos deps st" "pos name = Some here" "set ds \<subseteq> set (deps name)"
  shows "sorted_to pos deps st (set ds) (visit_deps visit pos here ds st)"
  using assms
proof (induction ds arbitrary: st)
  case Nil
  then show ?case by (auto simp: sorted_to_def sort_inv_def)
next
  case (Cons d ds)
  show ?case
  proof (cases "pos d = None")
    case True
    then show ?thesis using Cons.prems(3,4) by (auto simp: justified_def)
  next
    case False
    have "sorted_to pos deps st ({d} \<union> set ds) (then_sort (visit d st) (visit_deps visit pos here ds))"
    proof (rule sorted_to_then)
      show "sorted_to pos deps st {d} (visit d st)" using Cons.prems(1,2) False by auto
      show "sorted_to pos deps st' (set ds) (visit_deps visit pos here ds st')"
        if "sort_inv pos deps st'" "ss_stack st' = ss_stack st" for st'
        using Cons.IH [of st'] Cons.prems that by simp
    qed
    then show ?thesis using False by (cases "pos d") auto
  qed
qed

lemma visit_local_sorted:
  assumes "finite (dom pos)"
  shows "sort_inv pos deps st \<Longrightarrow> name \<in> dom pos \<Longrightarrow> ss_stack st = [] \<or> name \<in> set (deps (last (ss_stack st))) \<Longrightarrow>
    card (dom pos) < n + length (ss_stack st) \<Longrightarrow> sorted_to pos deps st {name} (visit_local n pos deps name st :: 'd sort_result)"
proof (induction n arbitrary: name st)
  case 0
  have "length (ss_stack st) \<le> card (dom pos)"
    using 0(1) card_mono [OF assms, of "set (ss_stack st)"] by (simp add: sort_inv_def distinct_card)
  then show ?case using 0(4) by simp
next
  case (Suc n)
  show ?case
  proof (cases "ss_status st name")
    case Unvisited
    note entered = sort_inv_enter [OF Suc.prems(1) Unvisited Suc.prems(2,3)]
    obtain here where here: "pos name = Some here" using Suc.prems(2) by blast
    have "sorted_to pos deps (enter name st) (set (deps name)) (visit_deps (visit_local n pos deps) pos here (deps name) (enter name st) :: 'd sort_result)"
      using entered here Suc.prems(4) by (intro visit_deps_sorted [where name = name] Suc.IH) (auto simp: enter_def)
    then show ?thesis
      using Unvisited here sort_inv_leave [where name = name and stack = "ss_stack st"]
      by (auto simp: then_sort_def sorted_to_def enter_def leave_def split: option.splits sum.splits)
  next
    case Visiting
    then show ?thesis using cycle_justified [OF Suc.prems(1) _ Suc.prems(3)] by simp
  next
    case Visited
    then show ?thesis using Suc.prems(1) by (auto simp: sorted_to_def sort_inv_def split: if_splits)
  qed
qed

lemma visit_all_sorted:
  assumes "finite (dom pos)" "set names \<subseteq> dom pos" "sort_inv pos deps st" "ss_stack st = []" "card (dom pos) < n"
  shows "sorted_to pos deps st (set names) (visit_all n pos deps names st :: 'd sort_result)"
  using assms
proof (induction names arbitrary: st)
  case (Cons name names)
  have "sorted_to pos deps st ({name} \<union> set names) (then_sort (visit_local n pos deps name st) (visit_all n pos deps names) :: 'd sort_result)"
    using Cons by (intro sorted_to_then visit_local_sorted) auto
  then show ?case by simp
qed (auto simp: sorted_to_def sort_inv_def)

lemma topo_sort_sorted:
  assumes "distinct names" "dom pos = set names"
  shows "case (topo_sort_locals names pos deps :: ('d local_error, string list) result option) of
      None \<Rightarrow> False
    | Some (Inr order) \<Rightarrow> distinct order \<and> set order = set names \<and> closed_order deps order
    | Some (Inl e) \<Rightarrow> justified pos deps e"
proof -
  let ?st = "\<lparr>ss_status = \<lambda>_. Unvisited, ss_stack = [], ss_index = Map.empty, ss_order = []\<rparr>"
  have "sort_inv pos deps ?st" by (simp add: sort_inv_def chain_def closed_order_def)
  then have "sorted_to pos deps ?st (set names) (visit_all (Suc (length names)) pos deps names ?st :: 'd sort_result)"
    using assms by (intro visit_all_sorted) (auto simp: distinct_card)
  then show ?thesis
    using assms by (auto simp: topo_sort_locals_def sorted_to_def sort_inv_def split: option.splits sum.splits)
qed

text \<open>C39. Locals are ordered correctly: topoSortLocals always returns; a successful result lists every local
  once, each after all locals it references; a cycle error names a path of references that returns to its
  start; an undefined error names a missing local and the position of a local that references it.\<close>

theorem locals_order_correct:
  assumes "distinct names" "dom pos = set names"
  shows "case (topo_sort_locals names pos deps :: ('d local_error, string list) result option) of
      None \<Rightarrow> False
    | Some (Inr order) \<Rightarrow> distinct order \<and> set order = set names \<and> (\<forall>i<length order. set (deps (order ! i)) \<subseteq> set (take i order))
    | Some (Inl (CyclicLocalDependency c)) \<Rightarrow> length c \<ge> 2 \<and> hd c = last c \<and> set c \<subseteq> set names \<and>
        (\<forall>i. Suc i < length c \<longrightarrow> c ! Suc i \<in> set (deps (c ! i)))
    | Some (Inl (UndefinedLocalDependency d p)) \<Rightarrow> d \<notin> set names \<and> (\<exists>n. pos n = Some p \<and> d \<in> set (deps n))
    | Some (Inl _) \<Rightarrow> False"
  using topo_sort_sorted [OF assms, of deps, where 'd = 'd] assms(2)
  by (auto simp: closed_order_def justified_def chain_nth split: option.splits sum.splits local_error.splits)

lemma locals_order_correct_witness:
  "(topo_sort_locals [''a'', ''b''] [''a'' \<mapsto> 3, ''b'' \<mapsto> 9] (\<lambda>n. if n = ''a'' then [''b''] else []) :: (nat local_error, string list) result option)
     = Some (Inr [''b'', ''a'']) \<and> set [''b'', ''a''] = set [''a'', ''b'']"
proof -
  have run: "(topo_sort_locals [''a'', ''b''] [''a'' \<mapsto> 3, ''b'' \<mapsto> 9] (\<lambda>n. if n = ''a'' then [''b''] else []) :: (nat local_error, string list) result option)
      = Some (Inr [''b'', ''a''])"
    by (simp add: topo_sort_locals_def then_sort_def enter_def leave_def)
  have "distinct [''a'', ''b'']" "dom [''a'' \<mapsto> (3 :: nat), ''b'' \<mapsto> 9] = set [''a'', ''b'']" by auto
  from locals_order_correct [OF this, of "\<lambda>n. if n = ''a'' then [''b''] else []", where 'd = nat] run show ?thesis by simp
qed

end
