(* ===== verification/Bundle_Parser_Properties.thy ===== *)
theory Bundle_Parser_Properties
  imports Bundle_Parser Locals_Properties
begin

text \<open>
  Properties of parsing: every local is evaluated with the locals it references in scope, and the
  materialized source is the source with the ranges of the replaced expressions exchanged.
\<close>

subsection \<open>Collecting locals\<close>

lemma set_source_sorted [simp]: "set (source_sorted hx attrs) = set attrs"
  by (simp add: source_sorted_def)

lemma collect_locals_result:
  "collect_locals hx attrs (exprs, order) = Inr (exprs', order') \<Longrightarrow> distinct order \<Longrightarrow> dom exprs = set order \<Longrightarrow>
   distinct order' \<and> dom exprs' = set order' \<and> (\<forall>n x. exprs' n = Some x \<longleftrightarrow> exprs n = Some x \<or> (n, x) \<in> set attrs)"
proof (induction attrs arbitrary: exprs order)
  case (Cons a attrs)
  obtain n x where a: "a = (n, x)" by fastforce
  then have new: "exprs n = None" and rec: "collect_locals hx attrs (exprs(n \<mapsto> x), order @ [n]) = Inr (exprs', order')"
    using Cons.prems(1) by (auto split: option.splits)
  have d: "distinct (order @ [n])" "dom (exprs(n \<mapsto> x)) = set (order @ [n])" using new Cons.prems(2,3) by auto
  show ?case using Cons.IH [OF rec d] new by (auto simp: a)
qed auto

lemma collect_blocks_result:
  "collect_blocks hx bs (exprs, order) = Inr (exprs', order') \<Longrightarrow> distinct order \<Longrightarrow> dom exprs = set order \<Longrightarrow>
   distinct order' \<and> dom exprs' = set order' \<and>
   (\<forall>n x. exprs' n = Some x \<longleftrightarrow> exprs n = Some x \<or> (\<exists>attrs. Inr attrs \<in> set bs \<and> (n, x) \<in> set attrs))"
proof (induction bs arbitrary: exprs order)
  case (Cons b bs)
  obtain attrs exprs1 order1 where b: "b = Inr attrs" and l: "collect_locals hx (source_sorted hx attrs) (exprs, order) = Inr (exprs1, order1)"
    and r: "collect_blocks hx bs (exprs1, order1) = Inr (exprs', order')"
    using Cons.prems(1) by (cases b) (auto simp: ebind_eq_Inr)
  have l': "distinct order1" "dom exprs1 = set order1" "\<forall>n x. exprs1 n = Some x \<longleftrightarrow> exprs n = Some x \<or> (n, x) \<in> set attrs"
    using collect_locals_result [OF l Cons.prems(2,3)] by simp_all
  from Cons.IH [OF r l'(1,2)] l'(3) show ?case by (auto simp: b)
qed auto

text \<open>Go's map order does not show: permuting the attributes of a block changes nothing.\<close>

lemma source_sorted_perm:
  assumes "mset attrs = mset attrs'" "distinct (map fst attrs)"
  shows "source_sorted hx attrs = source_sorted hx attrs'"
proof -
  have "distinct (map fst attrs')" using assms by (metis mset_eq_imp_distinct_iff mset_map)
  moreover have "set attrs = set attrs'" using assms(1) by (rule mset_eq_setD)
  ultimately have "sort_key fst attrs = sort_key fst attrs'"
    using assms(2) by (intro map_sorted_distinct_set_unique [where f = fst]) (auto simp: distinct_map)
  then show ?thesis by (simp add: source_sorted_def)
qed

lemma collect_locals_distinct:
  "collect_locals hx attrs (exprs, order) = Inr r \<Longrightarrow> distinct (map fst attrs) \<and> (\<forall>n\<in>fst ` set attrs. exprs n = None)"
proof (induction attrs arbitrary: exprs order)
  case (Cons a attrs)
  then show ?case using Cons.IH by (cases a) (fastforce split: option.splits if_splits)
qed simp

definition same_block :: "('d, (string \<times> 'x) list) result \<Rightarrow> ('d, (string \<times> 'x) list) result \<Rightarrow> bool" where
  "same_block b b' \<longleftrightarrow> (\<exists>attrs attrs'. b = Inr attrs \<and> b' = Inr attrs' \<and> mset attrs = mset attrs')"

lemma collect_blocks_perm:
  "collect_blocks hx bs acc = Inr r \<Longrightarrow> list_all2 same_block bs bs' \<Longrightarrow> collect_blocks hx bs' acc = Inr r"
proof (induction bs arbitrary: bs' acc)
  case (Cons b bs)
  obtain attrs attrs' cs where b: "b = Inr attrs" "bs' = Inr attrs' # cs" "mset attrs = mset attrs'" "list_all2 same_block bs cs"
    using Cons.prems(2) unfolding list_all2_Cons1 by (metis same_block_def)
  obtain acc' where acc': "collect_locals hx (source_sorted hx attrs) acc = Inr acc'" "collect_blocks hx bs acc' = Inr r"
    using Cons.prems(1) by (auto simp: b ebind_eq_Inr)
  have "distinct (map fst (source_sorted hx attrs))" using collect_locals_distinct acc'(1) by (metis surj_pair)
  moreover have "mset (map fst (source_sorted hx attrs)) = mset (map fst attrs)" by (simp add: source_sorted_def)
  ultimately have "distinct (map fst attrs)" by (metis mset_eq_imp_distinct_iff)
  from source_sorted_perm [OF b(3) this, of hx] show ?case using Cons.IH [OF acc'(2) b(4)] acc'(1) by (simp add: b(2))
qed simp

subsection \<open>Evaluation\<close>

text \<open>The local \<open>n\<close> with the expression \<open>x\<close> was evaluated in the scope \<open>scope\<close> of final values.\<close>

definition evaluated_in :: "('x, 'v, 'd) hcl_lib \<Rightarrow> ((string \<rightharpoonup> 'v) \<Rightarrow> ('v, 'd) eval_context) \<Rightarrow> (string \<rightharpoonup> 'v) \<Rightarrow> (string \<rightharpoonup> 'v) \<Rightarrow> string \<Rightarrow> 'x \<Rightarrow> bool" where
  "evaluated_in hx ctx locals scope n x \<longleftrightarrow> scope \<subseteq>\<^sub>m locals \<and> (\<exists>v. locals n = Some v \<and> hx_value hx (ctx scope) x = Inr v)"

lemma eval_locals_result:
  "eval_locals hx ctx exprs ns locals contexts = Inr (locals', contexts') \<Longrightarrow> distinct ns \<Longrightarrow> set ns \<inter> dom locals = {} \<Longrightarrow>
   locals \<subseteq>\<^sub>m locals' \<and> dom locals' = dom locals \<union> set ns \<and>
   (\<forall>i<length ns. \<exists>scope. dom scope = dom locals \<union> set (take i ns) \<and> evaluated_in hx ctx locals' scope (ns ! i) (the (exprs (ns ! i))))"
proof (induction ns arbitrary: locals contexts)
  case (Cons n ns)
  obtain v where v: "hx_value hx (ctx locals) (the (exprs n)) = Inr v"
    and r: "eval_locals hx ctx exprs ns (locals(n \<mapsto> v)) (contexts(hx_start hx (the (exprs n)) \<mapsto> ctx locals)) = Inr (locals', contexts')"
    using Cons.prems(1) by (auto simp: Let_def split: sum.splits)
  have nd: "locals n = None" using Cons.prems(3) by auto
  have d: "distinct ns" "set ns \<inter> dom (locals(n \<mapsto> v)) = {}" using Cons.prems(2,3) by auto
  have ih: "locals(n \<mapsto> v) \<subseteq>\<^sub>m locals'" "dom locals' = insert n (dom locals) \<union> set ns"
    "\<And>i. i < length ns \<Longrightarrow> \<exists>scope. dom scope = insert n (dom locals) \<union> set (take i ns) \<and> evaluated_in hx ctx locals' scope (ns ! i) (the (exprs (ns ! i)))"
    using Cons.IH [OF r d] unfolding dom_fun_upd by (simp_all add: fun_upd_def)
  have le: "locals \<subseteq>\<^sub>m locals'" "locals' n = Some v"
    using ih(1) nd by (auto simp: map_le_def split: if_splits) (metis domI nd option.distinct(1))
  have "\<exists>scope. dom scope = dom locals \<union> set (take i (n # ns)) \<and> evaluated_in hx ctx locals' scope ((n # ns) ! i) (the (exprs ((n # ns) ! i)))"
    if "i < length (n # ns)" for i
  proof (cases i)
    case 0
    then show ?thesis using v le by (auto simp: evaluated_in_def)
  next
    case (Suc j)
    then show ?thesis using ih(3) [of j] that by auto
  qed
  then show ?case using le(1) ih(2) by auto
qed (auto simp: map_le_def)

text \<open>C40. Locals are evaluated in scope: when extraction succeeds, the locals are exactly the declared names,
  each declared once, and the value of each is that of its expression in a scope that has every local the
  expression references, bound to the final value. The order in which Go ranges over the attributes of a block
  does not matter.\<close>

theorem locals_evaluated_in_scope:
  fixes lib :: "('x, 'v, 'd, 'file, 'b) parser_lib"
  assumes "pl_locals lib file = Inr blocks" "extract_locals lib arch fn file = Inr (locals, contexts)"
  shows "\<exists>exprs. dom exprs = dom locals \<and>
    (\<forall>n x. exprs n = Some x \<longleftrightarrow> (\<exists>attrs. Inr attrs \<in> set blocks \<and> (n, x) \<in> set attrs)) \<and>
    (\<forall>n x. exprs n = Some x \<longrightarrow> (\<exists>scope. set (local_dependencies (pl_expr lib) x) \<subseteq> dom scope \<and>
       evaluated_in (pl_expr lib) (bundle_context lib arch fn) locals scope n x)) \<and>
    (\<forall>blocks'. list_all2 same_block blocks blocks' \<longrightarrow>
       extract_locals (lib\<lparr>pl_locals := \<lambda>_. Inr blocks'\<rparr>) arch fn file = Inr (locals, contexts))"
proof -
  let ?hx = "pl_expr lib"
  obtain exprs names where c: "collect_blocks ?hx blocks (Map.empty, []) = Inr (exprs, names)"
    using assms by (cases "collect_blocks ?hx blocks (Map.empty, [])") (auto simp: extract_locals_def Let_def)
  let ?t = "topo_sort_locals names (\<lambda>n. map_option (hx_start ?hx) (exprs n)) (\<lambda>n. case exprs n of Some x \<Rightarrow> local_dependencies ?hx x | None \<Rightarrow> []) :: ('d local_error, string list) result option"
  have run: "ebind (case ?t of None \<Rightarrow> Inl LocalsEndless | Some r \<Rightarrow> r)
      (\<lambda>order. eval_locals ?hx (bundle_context lib arch fn) exprs order Map.empty Map.empty) = Inr (locals, contexts)"
    using assms c by (simp add: extract_locals_def Let_def)
  then obtain order where t: "?t = Some (Inr order)"
    and e: "eval_locals ?hx (bundle_context lib arch fn) exprs order Map.empty Map.empty = Inr (locals, contexts)"
    by (cases ?t) (auto simp: ebind_eq_Inr)
  have decl: "distinct names" "dom exprs = set names"
    "\<forall>n x. exprs n = Some x \<longleftrightarrow> (\<exists>attrs. Inr attrs \<in> set blocks \<and> (n, x) \<in> set attrs)"
    using collect_blocks_result [OF c] by auto
  have "dom (\<lambda>n. map_option (hx_start ?hx) (exprs n)) = set names" using decl(2) by (auto simp: dom_def)
  from topo_sort_sorted [OF decl(1) this, of "\<lambda>n. case exprs n of Some x \<Rightarrow> local_dependencies ?hx x | None \<Rightarrow> []", where 'd = 'd] t
  have ord: "distinct order" "set order = set names" "closed_order (\<lambda>n. case exprs n of Some x \<Rightarrow> local_dependencies ?hx x | None \<Rightarrow> []) order"
    by auto
  have ev: "dom locals = set order"
    "\<And>i. i < length order \<Longrightarrow> \<exists>scope. dom scope = set (take i order) \<and> evaluated_in ?hx (bundle_context lib arch fn) locals scope (order ! i) (the (exprs (order ! i)))"
    using eval_locals_result [OF e ord(1)] by auto
  have "\<exists>scope. set (local_dependencies ?hx x) \<subseteq> dom scope \<and> evaluated_in ?hx (bundle_context lib arch fn) locals scope n x"
    if x: "exprs n = Some x" for n x
  proof -
    obtain i where i: "i < length order" "order ! i = n" using x decl(2) ord(2) by (metis domI in_set_conv_nth)
    then have "set (local_dependencies ?hx x) \<subseteq> set (take i order)"
      using ord(3) [unfolded closed_order_def, rule_format, OF i(1)] x by simp
    then show ?thesis using ev(2) [OF i(1)] i(2) x by auto
  qed
  moreover have "extract_locals (lib\<lparr>pl_locals := \<lambda>_. Inr blocks'\<rparr>) arch fn file = Inr (locals, contexts)"
    if "list_all2 same_block blocks blocks'" for blocks'
  proof -
    have "bundle_context (lib\<lparr>pl_locals := \<lambda>_. Inr blocks'\<rparr>) arch fn = bundle_context lib arch fn" by (simp add: bundle_context_def fun_eq_iff)
    then show ?thesis using run collect_blocks_perm [OF c that] by (simp add: extract_locals_def Let_def)
  qed
  ultimately show ?thesis using decl ord(2) ev(1) by (intro exI [of _ exprs]) blast
qed

subsection \<open>Witness\<close>

text \<open>Expressions are pairs of a start and an optional reference; a value counts the references it went through.\<close>

definition sample_parser :: "(nat \<times> string option, nat, string, (string \<times> nat \<times> string option) list, unit) parser_lib" where
  "sample_parser = \<lparr>pl_expr = \<lparr>hx_variables = \<lambda>x. (case snd x of None \<Rightarrow> [] | Some n \<Rightarrow> [[TraverseRoot ''local'', TraverseAttr n]]),
       hx_start = fst, hx_end = \<lambda>x. Suc (fst x), hx_calls = \<lambda>x. [],
       hx_value = \<lambda>c x. (case snd x of None \<Rightarrow> Inr 0 | Some n \<Rightarrow> (case ec_locals c n of None \<Rightarrow> Inl n | Some v \<Rightarrow> Inr (Suc v))),
       hx_list = \<lambda>x. Inr [], hx_traversal = \<lambda>x. Inr [], hx_tokens = \<lambda>v. []\<rparr>,
     pl_files = \<lparr>fn_stat = \<lambda>p. Inl p, fn_read = \<lambda>p. Inl p, fn_valid = \<lambda>s. True\<rparr>, pl_goarch = ''amd64'',
     pl_parse = \<lambda>s n. Inr [], pl_body = \<lambda>f. None, pl_locals = \<lambda>f. Inr [Inr f], pl_decode = \<lambda>f c. Inl [], pl_depends = \<lambda>b. Inr None\<rparr>"

lemma locals_evaluated_in_scope_witness:
  "\<exists>locals contexts. extract_locals sample_parser [] None [(''a'', 0, Some ''b''), (''b'', 7, None)] = Inr (locals, contexts) \<and>
     dom locals = {''a'', ''b''} \<and> locals ''a'' = Some 1"
proof -
  let ?file = "[(''a'', 0 :: nat, Some ''b''), (''b'', 7, None)]"
  have blocks: "pl_locals sample_parser ?file = Inr [Inr ?file]" by (simp add: sample_parser_def)
  obtain contexts where run: "extract_locals sample_parser [] None ?file = Inr ([''b'' \<mapsto> 0, ''a'' \<mapsto> 1], contexts)"
    by (simp add: extract_locals_def sample_parser_def source_sorted_def topo_sort_locals_def then_sort_def enter_def leave_def
        local_dependencies_def local_ref_def bundle_context_def Let_def)
  from locals_evaluated_in_scope [OF blocks run] run show ?thesis by (intro exI [of _ "[''b'' \<mapsto> 0, ''a'' \<mapsto> 1]"]) auto
qed

end
