(* ===== verification/Bundle_Signing.thy ===== *)
theory Bundle_Signing
  imports Artifact_Archive
begin

text \<open>
  Signing and verification of bundles, \<open>pkg/bundle/sign.go\<close> and \<open>pkg/bundle/verify.go\<close>, with the
  public \<open>Pull\<close> (\<open>pull.go\<close>) that verification of a registry source goes through and the public
  \<open>Push\<close> (\<open>push.go\<close>). Cosign is the pair \<open>fa_sign\<close>, \<open>fa_verify\<close>; logging and the cancellation of a
  context are not modelled. A nil configuration is \<open>None\<close>.
\<close>

subsection \<open>Options\<close>

record signing_options =
  so_mode :: string
  so_key :: string
  so_key_password :: string
  so_identity_token :: string
  so_fulcio_url :: string
  so_fulcio_auth_flow :: string
  so_oidc_issuer :: string
  so_oidc_client_id :: string
  so_rekor_url :: string
  so_tsa_server_url :: string
  so_overwrite :: bool

definition signing_mode_key :: string where
  "signing_mode_key = ''key''"

definition signing_mode_keyless :: string where
  "signing_mode_keyless = ''keyless''"

definition signing_mode_unsigned :: string where
  "signing_mode_unsigned = ''unsigned''"

text \<open>The options of Cosign that the code sets.\<close>

record blob_sign_options =
  sb_bundle_path :: string
  sb_key :: string
  sb_password :: string
  sb_keyless :: bool
  sb_identity_token :: string
  sb_fulcio_url :: string
  sb_auth_flow :: string
  sb_oidc_issuer :: string
  sb_oidc_client_id :: string
  sb_rekor_url :: string
  sb_tsa_server_url :: string
  sb_overwrite :: bool
  sb_tlog_upload :: bool
  sb_use_signing_config :: bool

record blob_verify_options = verify_options +
  bv_bundle_path :: string

datatype bundle_operation =
    CreatingBundle | PullingBundle | PushingBundle | ReconfiguringBundle | SigningBundle | VerifyingBundle | InspectingBundle

datatype 'e trust_error =
    OneCredentialRequired
  | OneIdentityRequired
  | BadIdentityRegexp 'e
  | OneIssuerRequired
  | BadIssuerRegexp 'e

datatype signing_options_error = KeyWithKeyless | SigningKeyRequired | UnknownSigningMode string | UnsignedNotAccepted

datatype 'e facade_error =
    ConfigInvalid config_error
  | SigningOptionsInvalid signing_options_error
  | TrustInvalid "'e trust_error"
  | SourceRequired
  | TargetDirRequired
  | InvalidOCIReference string "'e oci_error"
  | FacadeConfigRequired
  | During bundle_operation "'e facade_error"
  | NotSigned "'e facade_error"
  | Step string 'e
  | TransferFailed "'e transfer_error"
  | EvidenceEntries nat
  | EvidenceTooLarge int
  | IndexUnparsable
  | IndexNotBundle
  | DefinitionMissing "'e oci_error"
  | LayoutInvalid "'e store_error"
  | LayoutEndless
  | ResolvingChild "'e oci_error"
  | PublishingEvidence "'e signature_error"
  | ArchiveFailed "'e archive_error"
  | NamingFailed "'e naming_error"
  | SigningIndex 'e
  | VerificationEndless

text \<open>
  \<open>fa_headers\<close> opens an archive and reads its entries up to the end or an error, \<open>fa_close\<close> closes it;
  \<open>fa_extract\<close> is \<open>ExtractTarZst\<close>, \<open>fa_size\<close> the size \<open>os.Stat\<close> reports, \<open>fa_reference\<close> the reference
  parser of ORAS, \<open>fa_parse\<close> is \<open>ParseBundleBytes\<close> for an architecture and \<open>fa_error\<close> an error of
  this package as a plain \<open>error\<close>.
\<close>

record ('w, 'e, 'c, 'r) facade_env =
  fa_transfer :: "('w, 'e, 'c) transfer_env"
  fa_archive :: "('w, 'e) archive_env"
  fa_extract :: "string \<Rightarrow> string \<Rightarrow> ('w, 'e, unit) op"
  fa_headers :: "string \<Rightarrow> ('w, 'e, ('e, string) result list) op"
  fa_close :: "string \<Rightarrow> ('w, 'e, unit) op"
  fa_size :: "string \<Rightarrow> ('w, 'e, int) op"
  fa_storage :: "string \<Rightarrow> 'w \<Rightarrow> ('e, 'r) blob_store"
  fa_compile :: "string \<Rightarrow> 'e option"
  fa_reference :: "string \<Rightarrow> (string \<times> string \<times> string) option"
  fa_parse :: "string \<Rightarrow> string \<Rightarrow> ('e, uds_bundle) result"
  fa_sign_defaults :: blob_sign_options
  fa_sign :: "string \<Rightarrow> blob_sign_options \<Rightarrow> ('w, 'e, unit) op"
  fa_verify_defaults :: blob_verify_options
  fa_verify :: "string \<Rightarrow> blob_verify_options \<Rightarrow> ('w, 'e, unit) op"
  fa_error :: "'e facade_error \<Rightarrow> 'e"

abbreviation fa_fs :: "('w, 'e, 'c, 'r) facade_env \<Rightarrow> ('w, 'e) host_fs" where
  "fa_fs env \<equiv> te_fs (fa_transfer env)"

abbreviation fa_codec :: "('w, 'e, 'c, 'r) facade_env \<Rightarrow> codec" where
  "fa_codec env \<equiv> te_codec (fa_transfer env)"

text \<open>\<open>os.MkdirTemp\<close> with a deferred \<open>os.RemoveAll\<close>.\<close>

definition with_workspace :: "('w, 'e) host_fs \<Rightarrow> string \<Rightarrow> string \<Rightarrow> ('e \<Rightarrow> 'g) \<Rightarrow> (string \<Rightarrow> ('w, 'g, 'a) op) \<Rightarrow> ('w, 'g, 'a) op" where
  "with_workspace fs dir pattern g body =
     op_bind (op_wrap g (hf_mkdir_temp fs dir pattern)) (\<lambda>workspace.
     op_defer (\<lambda>w. snd (hf_remove_all fs workspace w)) (body workspace))"

subsection \<open>Validation\<close>

definition validate_signing_options :: "signing_options \<Rightarrow> (signing_options_error, unit) result" where
  "validate_signing_options o' =
     (if so_mode o' = signing_mode_keyless \<and> trim_space (so_key o') \<noteq> [] then Inl KeyWithKeyless
      else if so_mode o' = signing_mode_key then (if trim_space (so_key o') = [] then Inl SigningKeyRequired else Inr ())
      else if so_mode o' = signing_mode_keyless \<or> so_mode o' = signing_mode_unsigned then Inr ()
      else Inl (UnknownSigningMode (so_mode o')))"

definition validate_sign_request :: "string \<Rightarrow> signing_options \<Rightarrow> ('e facade_error, unit) result" where
  "validate_sign_request source o' =
     (if source = [] then Inl SourceRequired
      else ebind (map_error SigningOptionsInvalid (validate_signing_options o')) (\<lambda>_.
        if so_mode o' = signing_mode_unsigned then Inl (SigningOptionsInvalid UnsignedNotAccepted) else Inr ()))"

definition exactly_one :: "string \<Rightarrow> string \<Rightarrow> bool" where
  "exactly_one a b \<longleftrightarrow> (trim_space a = []) \<noteq> (trim_space b = [])"

definition check_regexp :: "(string \<Rightarrow> 'e option) \<Rightarrow> ('e \<Rightarrow> 'g) \<Rightarrow> string \<Rightarrow> ('g, unit) result" where
  "check_regexp compile g s = (case (if trim_space s \<noteq> [] then compile s else None) of Some e \<Rightarrow> Inl (g e) | None \<Rightarrow> Inr ())"

definition validate_trust :: "(string \<Rightarrow> 'e option) \<Rightarrow> verification_policy \<Rightarrow> ('e trust_error, unit) result" where
  "validate_trust compile p =
     (if (trim_space (vp_public_key p) \<noteq> []) = (vp_keyless p \<noteq> None) then Inl OneCredentialRequired
      else case vp_keyless p of
        None \<Rightarrow> Inr ()
      | Some k \<Rightarrow>
          ebind (guard (exactly_one (kv_certificate_identity k) (kv_certificate_identity_regexp k)) OneIdentityRequired) (\<lambda>_.
          ebind (check_regexp compile BadIdentityRegexp (kv_certificate_identity_regexp k)) (\<lambda>_.
          ebind (guard (exactly_one (kv_certificate_oidc_issuer k) (kv_certificate_oidc_issuer_regexp k)) OneIssuerRequired) (\<lambda>_.
          check_regexp compile BadIssuerRegexp (kv_certificate_oidc_issuer_regexp k)))))"

definition trust_configured :: "verification_policy \<Rightarrow> bool" where
  "trust_configured p \<longleftrightarrow> trim_space (vp_public_key p) \<noteq> [] \<or> vp_keyless p \<noteq> None"

text \<open>\<open>validateConfig\<close>, and the options that the code dereferences after it.\<close>

definition facade_options :: "('w, 'e, 'c, 'r) facade_env \<Rightarrow> 'f public_config option \<Rightarrow> ('e facade_error, config_options) result" where
  "facade_options env cfg =
     ebind (map_error ConfigInvalid (public_validate_config (te_lower (fa_transfer env)) (te_stat (fa_transfer env)) cfg)) (\<lambda>_.
     map_error ConfigInvalid (validate_config_structure (to_internal_config cfg)))"

definition facade_identifier :: "('w, 'e, 'c, 'r) facade_env \<Rightarrow> string \<Rightarrow> ('e oci_error, string) result" where
  "facade_identifier env = reference_identifier (fa_reference env)
     (\<lambda>s. case te_parse (fa_transfer env) s of Inl _ \<Rightarrow> None | Inr r \<Rightarrow> Some (identifier_of r))"

definition validate_oci_reference :: "('w, 'e, 'c, 'r) facade_env \<Rightarrow> string \<Rightarrow> ('e facade_error, unit) result" where
  "validate_oci_reference env ref = ebind (map_error (InvalidOCIReference ref) (facade_identifier env ref)) (\<lambda>_. Inr ())"

subsection \<open>Bundle indexes\<close>

definition parse_bundle_index :: "codec \<Rightarrow> string \<Rightarrow> ('e facade_error, oci_index) result" where
  "parse_bundle_index cd bytes = (case cd_index cd bytes of
       None \<Rightarrow> Inl IndexUnparsable
     | Some ix \<Rightarrow> if \<not> is_bundle_index ix then Inl IndexNotBundle else Inr ix)"

definition validate_bundle_index :: "codec \<Rightarrow> string \<Rightarrow> ('e facade_error, unit) result" where
  "validate_bundle_index cd bytes = ebind (parse_bundle_index cd bytes) (\<lambda>_. Inr ())"

definition validate_local_bundle_index :: "codec \<Rightarrow> string \<Rightarrow> ('e facade_error, unit) result" where
  "validate_local_bundle_index cd bytes =
     ebind (parse_bundle_index cd bytes) (\<lambda>ix. ebind (map_error DefinitionMissing (find_bundle_definition ix)) (\<lambda>_. Inr ()))"

text \<open>\<open>VerifyLocalLayoutGraph\<close>; a traversal that does not end is an error of its own.\<close>

definition check_layout :: "('w, 'e, 'c, 'r) facade_env \<Rightarrow> string \<Rightarrow> string \<Rightarrow> ('w, 'e facade_error, unit) op" where
  "check_layout env root bytes w =
     (case verify_local_layout_graph (fa_codec env) (te_layout (fa_transfer env)) (fa_storage env) root bytes w of
        (None, w') \<Rightarrow> (Inl LayoutEndless, w')
      | (Some r, w') \<Rightarrow> (map_error LayoutInvalid r, w'))"

definition count_tar_zst_entries :: "('w, 'e, 'c, 'r) facade_env \<Rightarrow> string \<Rightarrow> string \<Rightarrow> ('w, 'e, nat) op" where
  "count_tar_zst_entries env src name =
     op_bind (fa_headers env src) (\<lambda>headers.
     op_bind (op_try (fa_close env src)) (\<lambda>closed.
     op_bind (op_lift (count_entries path_clean name headers 0)) (\<lambda>n.
     op_bind (op_lift closed) (\<lambda>_. op_return n))))"

subsection \<open>Verification\<close>

text \<open>The trust material is written to the workspace \<open>dir\<close>; \<open>None\<close> for a missing keyless block panics.\<close>

definition keyless_trust :: "blob_verify_options \<Rightarrow> keyless_verification \<Rightarrow> blob_verify_options" where
  "keyless_trust vo k = vo\<lparr>vo_ignore_tlog := False, vo_ignore_sct := False,
     vo_identity := kv_certificate_identity k, vo_identity_regexp := kv_certificate_identity_regexp k,
     vo_issuer := kv_certificate_oidc_issuer k, vo_issuer_regexp := kv_certificate_oidc_issuer_regexp k\<rparr>"

definition validation_options :: "('w, 'e, 'c, 'r) facade_env \<Rightarrow> verification_policy \<Rightarrow> string \<Rightarrow>
    ('w, 'e facade_error, blob_verify_options) op" where
  "validation_options env p dir =
     (let vo = (fa_verify_defaults env)\<lparr>vo_temp_dir := dir\<rparr> in
      if vp_public_key p \<noteq> [] then
        (let path = path_join [dir, ''bundle-public-key.pem''] in
         op_bind (op_wrap (Step ''writing public key'') (hf_write (fa_fs env) path (vp_public_key p))) (\<lambda>_.
         op_return (vo\<lparr>vo_ignore_tlog := True, vo_ignore_sct := True, vo_key := path\<rparr>)))
      else case vp_keyless p of
        None \<Rightarrow> op_fail (TrustInvalid OneCredentialRequired)
      | Some k \<Rightarrow>
          if kv_trusted_root k \<noteq> [] then
            (let path = path_join [dir, ''trusted-root.json''] in
             op_bind (op_wrap (Step ''writing trusted root'') (hf_write (fa_fs env) path (kv_trusted_root k))) (\<lambda>_.
             op_return ((keyless_trust vo k)\<lparr>vo_trusted_root := path\<rparr>)))
          else op_return (keyless_trust vo k))"

definition verify_signature_in :: "('w, 'e, 'c, 'r) facade_env \<Rightarrow> string \<Rightarrow> string \<Rightarrow> verification_policy \<Rightarrow> string \<Rightarrow>
    ('w, 'e facade_error, unit) op" where
  "verify_signature_in env ix evidence p dir =
     (let index_path = path_join [dir, ''index.json'']; evidence_path = path_join [dir, bundle_signature_file_name] in
      op_bind (op_wrap (Step ''writing bundle index for signature verification'') (hf_write (fa_fs env) index_path ix)) (\<lambda>_.
      op_bind (op_wrap (Step ''writing bundle signature evidence'') (hf_write (fa_fs env) evidence_path evidence)) (\<lambda>_.
      op_bind (validation_options env p dir) (\<lambda>vo.
      op_wrap (Step ''verifying bundle signature'') (fa_verify env index_path (vo\<lparr>bv_bundle_path := evidence_path\<rparr>))))))"

definition verify_signature :: "('w, 'e, 'c, 'r) facade_env \<Rightarrow> string \<Rightarrow> string \<Rightarrow> verification_policy \<Rightarrow> string \<Rightarrow>
    ('w, 'e facade_error, unit) op" where
  "verify_signature env ix evidence p tmp =
     with_workspace (fa_fs env) tmp ''uds-bundle-signature-verify-*'' (Step ''creating signature verification workspace'')
       (verify_signature_in env ix evidence p)"

text \<open>Reading the evidence beside the extracted layout.\<close>

definition read_bundle_evidence :: "('w, 'e, 'c, 'r) facade_env \<Rightarrow> string \<Rightarrow> ('w, 'e facade_error, string) op" where
  "read_bundle_evidence env path =
     (let failed = (\<lambda>e. if hf_not_exist (fa_fs env) e then NotSigned (Step ''accessing bundle signature evidence'' e)
                        else Step ''accessing bundle signature evidence'' e) in
      op_bind (op_wrap failed (fa_size env path)) (\<lambda>n.
      if n > max_fetch_bytes_size then op_fail (EvidenceTooLarge n)
      else op_wrap failed (hf_read (fa_fs env) path)))"

text \<open>What \<open>Verify\<close> does with a local archive inside its workspace.\<close>

definition verify_archive_in :: "('w, 'e, 'c, 'r) facade_env \<Rightarrow> verification_policy \<Rightarrow> string \<Rightarrow> string \<Rightarrow> string \<Rightarrow>
    ('w, 'e facade_error, unit) op" where
  "verify_archive_in env p tmp source workspace =
     (let oci_dir = path_join [workspace, ''oci''] in
      op_bind (op_wrap (Step ''checking bundle signature evidence'') (count_tar_zst_entries env source bundle_signature_file_name)) (\<lambda>n.
      if n > 1 then op_fail (EvidenceEntries n)
      else
        op_bind (op_wrap (Step ''extracting bundle'') (fa_extract env source workspace)) (\<lambda>_.
        op_bind (op_wrap (Step ''reading bundle index'') (hf_read (fa_fs env) (path_join [workspace, ''oci'', ''index.json'']))) (\<lambda>ix.
        op_bind (op_lift (validate_bundle_index (fa_codec env) ix)) (\<lambda>_.
        op_bind (read_bundle_evidence env (path_join [workspace, bundle_signature_file_name])) (\<lambda>evidence.
        op_bind (verify_signature env ix evidence p tmp) (\<lambda>_.
        check_layout env oci_dir ix)))))))"

definition verify_archive :: "('w, 'e, 'c, 'r) facade_env \<Rightarrow> verification_policy \<Rightarrow> string \<Rightarrow> string \<Rightarrow> ('w, 'e facade_error, unit) op" where
  "verify_archive env p tmp source =
     with_workspace (fa_fs env) tmp ''uds-bundle-verify-*'' (Step ''creating verification workspace'') (verify_archive_in env p tmp source)"

subsection \<open>Pull\<close>

fun signature_missing :: "'e transfer_error \<Rightarrow> bool" where
  "signature_missing (FetchSignature e) \<longleftrightarrow> e = BundleSignatureNotFound"
| "signature_missing (PullPackageContent _ e) \<longleftrightarrow> signature_missing e"
| "signature_missing _ \<longleftrightarrow> False"

definition oci_pull_hooks :: "('w, 'e, 'c, 'r) facade_env \<Rightarrow> verification_policy \<Rightarrow> bool \<Rightarrow> config_options \<Rightarrow> ('w, 'e) pull_hooks" where
  "oci_pull_hooks env p skip opts = \<lparr>
     ph_verify = (if \<not> skip \<and> trust_configured p
       then Some (\<lambda>ix evidence. op_wrap (fa_error env) (verify_signature env ix evidence p (tmp_dir opts))) else None),
     ph_archive = Some (\<lambda>oci_dir target ix arch. op_wrap (\<lambda>e. fa_error env (NamingFailed e))
       (create_bundle_archive (fa_codec env) (te_layout (fa_transfer env)) (te_store (fa_transfer env)) (fa_parse env)
         (fa_archive env) oci_dir target ix arch))\<rparr>"

text \<open>\<open>Pull\<close> passes no transfer hooks of its own. The result is the reference and the archive.\<close>

definition pull :: "('w, 'e, 'c, 'r) facade_env \<Rightarrow> 'f public_config option \<Rightarrow> verification_policy \<Rightarrow> bool \<Rightarrow> string \<Rightarrow> string \<Rightarrow>
    ('w, 'e facade_error, string \<times> string) op" where
  "pull env cfg p skip ref target =
     op_bind (op_lift (facade_options env cfg)) (\<lambda>opts.
     op_bind (op_lift (if skip then Inr () else map_error TrustInvalid (validate_trust (fa_compile env) p))) (\<lambda>_.
     if ref = [] then op_fail SourceRequired
     else if target = [] then op_fail TargetDirRequired
     else
       op_bind (op_lift (map_error (During PullingBundle) (validate_oci_reference env ref))) (\<lambda>_.
       op_wrap (\<lambda>e. During PullingBundle (if signature_missing e then NotSigned (TransferFailed e) else TransferFailed e))
         (pull_bundle ((fa_transfer env)\<lparr>te_hook := None, te_modify := None\<rparr>) (oci_pull_hooks env p skip opts) skip
           (to_internal_config cfg) ref target))))"

subsection \<open>Verify\<close>

text \<open>
  A registry source is pulled and the archive verified in turn; the fuel bounds these calls, and two
  are enough when the archive's path is not a reference.
\<close>

fun verify_bundle :: "nat \<Rightarrow> ('w, 'e, 'c, 'r) facade_env \<Rightarrow> 'f public_config option \<Rightarrow> verification_policy \<Rightarrow> string \<Rightarrow> string \<Rightarrow>
    ('w, 'e facade_error, unit) op" where
  "verify_bundle 0 env cfg p tmp source = op_fail VerificationEndless"
| "verify_bundle (Suc n) env cfg p tmp source =
     (if source = [] then op_fail SourceRequired
      else op_bind (op_lift (map_error TrustInvalid (validate_trust (fa_compile env) p))) (\<lambda>_.
        if is_oci_reference source then
          op_bind (op_lift (map_error (During VerifyingBundle) (validate_oci_reference env source))) (\<lambda>_.
          if cfg = None then op_fail (During VerifyingBundle FacadeConfigRequired)
          else with_workspace (fa_fs env) tmp ''uds-bundle-oci-verify-*'' (\<lambda>e. During VerifyingBundle (Step ''creating OCI verification workspace'' e)) (\<lambda>workspace.
            op_bind (op_wrap (During VerifyingBundle) (pull env cfg p False source workspace)) (\<lambda>(_, out).
            verify_bundle n env cfg p tmp out)))
        else op_wrap (During VerifyingBundle) (verify_archive env p tmp source)))"

subsection \<open>Push\<close>

definition push :: "('w, 'e, 'c, 'r) facade_env \<Rightarrow> 'f public_config option \<Rightarrow> string \<Rightarrow> string \<Rightarrow> ('w, 'e facade_error, string) op" where
  "push env cfg tarball ref =
     op_bind (op_lift (facade_options env cfg)) (\<lambda>opts.
     if tarball = [] then op_fail SourceRequired
     else
       op_bind (op_lift (map_error (During PushingBundle) (validate_oci_reference env ref))) (\<lambda>_.
       op_wrap (During PushingBundle)
         (op_bind (op_wrap (Step ''checking bundle signature evidence'') (count_tar_zst_entries env tarball bundle_signature_file_name)) (\<lambda>n.
          if n > 1 then op_fail (EvidenceEntries n)
          else with_workspace (fa_fs env) (tmp_dir opts) ''uds-bundle-push-*'' (Step ''creating temp dir'') (\<lambda>dir.
            op_bind (op_wrap (Step ''extracting bundle'') (fa_extract env tarball dir)) (\<lambda>_.
            op_wrap TransferFailed (push_bundle ((fa_transfer env)\<lparr>te_hook := None, te_modify := None\<rparr>) (to_internal_config cfg) dir ref)))))))"

subsection \<open>Sign\<close>

definition blob_signing_options :: "blob_sign_options \<Rightarrow> signing_options \<Rightarrow> blob_sign_options" where
  "blob_signing_options defaults o' = defaults\<lparr>sb_key := so_key o', sb_password := so_key_password o',
     sb_keyless := (so_mode o' = signing_mode_keyless), sb_identity_token := so_identity_token o',
     sb_fulcio_url := so_fulcio_url o', sb_auth_flow := so_fulcio_auth_flow o', sb_oidc_issuer := so_oidc_issuer o',
     sb_oidc_client_id := (if so_oidc_client_id o' \<noteq> [] then so_oidc_client_id o' else sb_oidc_client_id defaults),
     sb_rekor_url := so_rekor_url o', sb_tsa_server_url := so_tsa_server_url o', sb_overwrite := so_overwrite o',
     sb_tlog_upload := (so_mode o' = signing_mode_keyless), sb_use_signing_config := (so_mode o' = signing_mode_keyless)\<rparr>"

definition sign_bundle_index :: "('w, 'e, 'c, 'r) facade_env \<Rightarrow> string \<Rightarrow> string \<Rightarrow> signing_options \<Rightarrow> ('w, 'e facade_error, unit) op" where
  "sign_bundle_index env index_path evidence_path o' =
     op_wrap SigningIndex (fa_sign env index_path ((blob_signing_options (fa_sign_defaults env) o')\<lparr>sb_bundle_path := evidence_path\<rparr>))"

definition sign_archive_in :: "('w, 'e, 'c, 'r) facade_env \<Rightarrow> signing_options \<Rightarrow> string \<Rightarrow> string \<Rightarrow> ('w, 'e facade_error, unit) op" where
  "sign_archive_in env o' source workspace =
     (let index_path = path_join [workspace, ''oci'', ''index.json'']; layout_path = path_join [workspace, ''oci''];
          evidence_path = path_join [workspace, bundle_signature_file_name] in
      op_bind (op_wrap (Step ''extracting'') (fa_extract env source workspace)) (\<lambda>_.
      op_bind (op_wrap (Step ''reading bundle index'') (hf_read (fa_fs env) index_path)) (\<lambda>ix.
      op_bind (op_lift (validate_local_bundle_index (fa_codec env) ix)) (\<lambda>_.
      op_bind (check_layout env layout_path ix) (\<lambda>_.
      op_bind (sign_bundle_index env index_path evidence_path o') (\<lambda>_.
      op_wrap ArchiveFailed (write_tar_zst (fa_archive env) source workspace)))))))"

text \<open>Signing an index in a workspace and publishing the evidence beside the index in the registry.\<close>

definition sign_and_publish :: "('w, 'e, 'c, 'r) facade_env \<Rightarrow> signing_options \<Rightarrow> ('w, 'e) registry \<Rightarrow> descriptor \<Rightarrow> string \<Rightarrow> string \<Rightarrow>
    ('w, 'e facade_error, unit) op" where
  "sign_and_publish env o' rg child ix workspace =
     (let index_path = path_join [workspace, ''index.json'']; evidence_path = path_join [workspace, bundle_signature_file_name] in
      op_bind (op_wrap (Step ''writing index for signing'') (hf_write (fa_fs env) index_path ix)) (\<lambda>_.
      op_bind (sign_bundle_index env index_path evidence_path o') (\<lambda>_.
      op_bind (op_wrap (Step ''reading signature evidence'') (hf_read (fa_fs env) evidence_path)) (\<lambda>evidence.
      op_wrap PublishingEvidence
        (publish_bundle_signature (fa_codec env) rg (te_pack (fa_transfer env) rg) child evidence (so_overwrite o'))))))"

definition sign_oci :: "('w, 'e, 'c, 'r) facade_env \<Rightarrow> config_options \<Rightarrow> signing_options \<Rightarrow> string \<Rightarrow> string \<Rightarrow> ('w, 'e facade_error, unit) op" where
  "sign_oci env opts o' tmp source =
     op_bind (op_wrap (Step ''connecting to registry'') (te_remote (fa_transfer env) opts (trim_scheme source))) (\<lambda>rg.
     op_bind (op_lift (map_error ResolvingChild (facade_identifier env source))) (\<lambda>reference.
     op_bind (op_wrap ResolvingChild (resolve_bundle_child (fa_codec env) rg reference (architecture opts))) (\<lambda>(child, ix).
     op_bind (op_lift (validate_bundle_index (fa_codec env) ix)) (\<lambda>_.
     with_workspace (fa_fs env) tmp ''uds-bundle-oci-sign-*'' (Step ''creating OCI signing workspace'') (sign_and_publish env o' rg child ix)))))"

text \<open>The registry branch needs the options of the configuration; the local one does not.\<close>

definition sign :: "('w, 'e, 'c, 'r) facade_env \<Rightarrow> 'f public_config option \<Rightarrow> signing_options \<Rightarrow> string \<Rightarrow> string \<Rightarrow>
    ('w, 'e facade_error, unit) op" where
  "sign env cfg o' tmp source =
     op_bind (op_lift (validate_sign_request source o')) (\<lambda>_.
     op_wrap (During SigningBundle)
       (if is_oci_reference source then
          op_bind (op_lift (validate_oci_reference env source)) (\<lambda>_.
          case Option.bind cfg pc_options of
            None \<Rightarrow> op_fail FacadeConfigRequired
          | Some opts \<Rightarrow> sign_oci env (copy_options opts) o' tmp source)
        else with_workspace (fa_fs env) tmp ''uds-bundle-sign-*'' (Step ''creating signing workspace'') (sign_archive_in env o' source)))"

end
