(* ===== verification/Reconfigure.thy ===== *)
theory Reconfigure
  imports Bundle_Signing
begin

text \<open>
  Reconfiguring a bundle, \<open>pkg/bundle/reconfigure.go\<close>: the splice of the suffix into the bundle
  definition, the rebuilt definition manifest, the checks of the source index, and \<open>Reconfigure\<close> on a
  local archive and on a registry, whose verification and signing are those of \<open>Bundle_Signing\<close>. The
  HCL parser is a parameter that reports the blocks of a source with the range of their attribute
  \<open>name\<close>.
\<close>

datatype 'e reconfigure_error =
    ReconfigureConfigInvalid config_error
  | InvalidSuffix string
  | ReconfigureSigningInvalid signing_options_error
  | ReconfigureSourceRequired
  | DefaultsFileRequired
  | ReconfigureFailed "'e reconfigure_error"
  | Facade "'e facade_error"
  | RStep string 'e
  | ReadingDefaultsFile 'e
  | ReconfigureTrustInvalid "'e trust_error"
  | DigestSource
  | NotATarZst string
  | OutputExists string
  | ParsingIndexFailed
  | SourceNotBundle string
  | MetadataTooLarge nat string int
  | PackageIdentityMissing nat
  | ParsingManifestFailed
  | LayerNotFound string
  | HCLUnparsable 'e
  | HCLBodyUnexpected
  | EmptyNameRange
  | NameNotFound
  | HCLLayerMissing
  | MarshalingManifest
  | MarshalingIndex
  | RStore "'e store_error"
  | ROci "'e oci_error"
  | RArchive "'e archive_error"
  | PruneEndless
  | OutputDirUnsupported
  | ArchitectureMissing string

subsection \<open>The bundle definition\<close>

text \<open>A block of the source: its type and the byte range of the expression of its attribute \<open>name\<close>.\<close>

type_synonym hcl_name_block = "string \<times> (nat \<times> nat) option"

definition splice_name_at :: "string \<Rightarrow> string \<Rightarrow> nat \<Rightarrow> nat \<Rightarrow> string" where
  "splice_name_at src sfx s e =
     (if drop (e - 1) (take e src) = [CHR 0x22] then take (e - 1) src @ sfx @ drop (e - 1) src
      else take s src @ [CHR 0x22] @ ''${'' @ drop s (take e src) @ ''}'' @ sfx @ [CHR 0x22] @ drop e src)"

fun splice_blocks :: "string \<Rightarrow> string \<Rightarrow> hcl_name_block list \<Rightarrow> ('e reconfigure_error, string) result" where
  "splice_blocks src sfx [] = Inl NameNotFound"
| "splice_blocks src sfx ((ty, name) # bs) =
     (if ty \<noteq> ''metadata'' then splice_blocks src sfx bs
      else case name of
        None \<Rightarrow> splice_blocks src sfx bs
      | Some (s, e) \<Rightarrow> if e \<le> s then Inl EmptyNameRange else Inr (splice_name_at src sfx s e))"

definition splice_hcl_name :: "(string \<Rightarrow> ('e, hcl_name_block list option) result) \<Rightarrow> string \<Rightarrow> string \<Rightarrow> ('e reconfigure_error, string) result" where
  "splice_hcl_name blocks src sfx = ebind (map_error HCLUnparsable (blocks src)) (\<lambda>body. case body of
       None \<Rightarrow> Inl HCLBodyUnexpected
     | Some bs \<Rightarrow> splice_blocks src sfx bs)"

definition layer_title :: "descriptor \<Rightarrow> string" where
  "layer_title l = annotation (d_annotations l) annotation_title"

definition replace_layer :: "descriptor \<Rightarrow> descriptor \<Rightarrow> descriptor \<Rightarrow> descriptor" where
  "replace_layer defaults hcl l =
     (if layer_title l = bundle_file_name then hcl else if layer_title l = bundle_defaults_file_name then defaults else l)"

definition rebuilt_layers :: "descriptor list \<Rightarrow> descriptor \<Rightarrow> descriptor \<Rightarrow> ('e reconfigure_error, descriptor list) result" where
  "rebuilt_layers layers defaults hcl =
     (let new = map (replace_layer defaults hcl) layers in
      if bundle_file_name \<notin> set (map layer_title layers) then Inl HCLLayerMissing
      else if bundle_defaults_file_name \<notin> set (map layer_title layers) then Inr (take 1 new @ [defaults] @ drop 1 new)
      else Inr new)"

definition rebuilt_manifest :: "manifest \<Rightarrow> descriptor list \<Rightarrow> string \<Rightarrow> manifest" where
  "rebuilt_manifest m layers digest = m\<lparr>mf_layers := layers,
     mf_annotations := (mf_annotations m)(annotation_created \<mapsto> epoch, annotation_reconfigured_from \<mapsto> digest)\<rparr>"

definition rebuild_definition_manifest :: "codec \<Rightarrow> manifest \<Rightarrow> descriptor \<Rightarrow> descriptor \<Rightarrow> string \<Rightarrow> ('e reconfigure_error, string) result" where
  "rebuild_definition_manifest cd m defaults hcl digest =
     ebind (rebuilt_layers (mf_layers m) defaults hcl) (\<lambda>layers. case cd_manifest_bytes cd (rebuilt_manifest m layers digest) of
       None \<Rightarrow> Inl MarshalingManifest
     | Some bytes \<Rightarrow> Inr bytes)"

definition find_layer_by_title :: "manifest \<Rightarrow> string \<Rightarrow> ('e reconfigure_error, descriptor) result" where
  "find_layer_by_title m title = (case find (\<lambda>l. layer_title l = title) (mf_layers m) of
       Some l \<Rightarrow> Inr l | None \<Rightarrow> Inl (LayerNotFound title))"

subsection \<open>Checks and names\<close>

fun oversized :: "nat \<Rightarrow> descriptor list \<Rightarrow> ('e reconfigure_error, unit) result" where
  "oversized i [] = Inr ()"
| "oversized i (m # ms) = (if d_size m > max_fetch_bytes_size then Inl (MetadataTooLarge i (d_digest m) (d_size m)) else oversized (Suc i) ms)"

definition validate_local_reconfigure_index :: "oci_index \<Rightarrow> ('e reconfigure_error, unit) result" where
  "validate_local_reconfigure_index ix = oversized 0 (ix_manifests ix)"

fun identities :: "nat \<Rightarrow> nat \<Rightarrow> descriptor list \<Rightarrow> ('e reconfigure_error, unit) result" where
  "identities i def_ix [] = Inr ()"
| "identities i def_ix (m # ms) =
     (if i = def_ix then identities (Suc i) def_ix ms
      else if annotation (d_annotations m) annotation_package_name = [] then Inl (PackageIdentityMissing i)
      else identities (Suc i) def_ix ms)"

definition validate_reconfigure_package_identities :: "oci_index \<Rightarrow> nat \<Rightarrow> ('e reconfigure_error, unit) result" where
  "validate_reconfigure_package_identities ix def_ix = identities 0 def_ix (ix_manifests ix)"

fun insert_before_arch :: "string list \<Rightarrow> string \<Rightarrow> string \<Rightarrow> string" where
  "insert_before_arch [] stem sfx = stem @ sfx @ ''.tar.zst''"
| "insert_before_arch (a # as) stem sfx = (case str_last_index stem (''-'' @ a @ ''-'') of
       Some i \<Rightarrow> take i stem @ sfx @ drop i stem @ ''.tar.zst''
     | None \<Rightarrow> insert_before_arch as stem sfx)"

definition reconfigured_file_output_name :: "string \<Rightarrow> string \<Rightarrow> string" where
  "reconfigured_file_output_name base sfx = insert_before_arch [''amd64'', ''arm64''] (trim_suffix base ''.tar.zst'') sfx"

text \<open>\<open>validSuffix\<close>: a hyphen and then one or more letters, digits, dots, underscores and hyphens.\<close>

definition valid_suffix :: "string \<Rightarrow> bool" where
  "valid_suffix s \<longleftrightarrow> (case s of c # cs \<Rightarrow> c = CHR ''-'' \<and> cs \<noteq> [] \<and> list_all safe_char cs | [] \<Rightarrow> False)"

subsection \<open>Environment\<close>

text \<open>
  \<open>rc_exists\<close> is \<open>os.Stat\<close>; \<open>rc_open\<close>, \<open>rc_create\<close>, \<open>rc_copy\<close> and \<open>rc_close\<close> are the calls that stage the
  input; \<open>rc_blocks\<close> is the HCL parser, \<open>rc_context\<close> the context of a reference, \<open>rc_defaults\<close> is
  \<open>MaterializeDefaultsFile\<close>; \<open>rc_valid\<close>, \<open>rc_delete\<close> and \<open>rc_walk\<close> are those of pruning.
\<close>

record ('w, 'e, 'c, 'r) reconfigure_env =
  rc_facade :: "('w, 'e, 'c, 'r) facade_env"
  rc_show :: "int \<Rightarrow> string"
  rc_exists :: "string \<Rightarrow> ('w, 'e, unit) op"
  rc_open :: "string \<Rightarrow> ('w, 'e, unit) op"
  rc_create :: "string \<Rightarrow> ('w, 'e, unit) op"
  rc_copy :: "string \<Rightarrow> string \<Rightarrow> ('w, 'e, unit) op"
  rc_close :: "string \<Rightarrow> ('w, 'e, unit) op"
  rc_blocks :: "string \<Rightarrow> ('e, hcl_name_block list option) result"
  rc_context :: "string \<Rightarrow> string"
  rc_defaults :: "string \<Rightarrow> ('e, string) result"
  rc_valid :: "string \<Rightarrow> 'e option"
  rc_delete :: "string \<Rightarrow> descriptor \<Rightarrow> ('w, 'e, unit) op"
  rc_walk :: "string \<Rightarrow> 'w \<Rightarrow> 'e walk_entry list"

abbreviation rc_codec :: "('w, 'e, 'c, 'r) reconfigure_env \<Rightarrow> codec" where
  "rc_codec env \<equiv> te_codec (fa_transfer (rc_facade env))"

abbreviation rc_fs :: "('w, 'e, 'c, 'r) reconfigure_env \<Rightarrow> ('w, 'e) host_fs" where
  "rc_fs env \<equiv> te_fs (fa_transfer (rc_facade env))"

abbreviation rc_layout :: "('w, 'e, 'c, 'r) reconfigure_env \<Rightarrow> ('w, 'e) layout_fs" where
  "rc_layout env \<equiv> te_layout (fa_transfer (rc_facade env))"

abbreviation rc_store :: "('w, 'e, 'c, 'r) reconfigure_env \<Rightarrow> string \<Rightarrow> ('w, 'e) registry" where
  "rc_store env \<equiv> te_store (fa_transfer (rc_facade env))"

record reconfigure_options =
  ro_suffix :: string
  ro_output_dir :: string
  ro_signing :: signing_options
  ro_verification :: verification_policy
  ro_skip :: bool

definition signs :: "signing_options \<Rightarrow> bool" where
  "signs o' \<longleftrightarrow> so_mode o' \<noteq> [] \<and> so_mode o' \<noteq> signing_mode_unsigned"

subsection \<open>A local archive\<close>

definition push_titled :: "codec \<Rightarrow> ('w, 'e) registry \<Rightarrow> string \<Rightarrow> string \<Rightarrow> string \<Rightarrow> ('w, 'e reconfigure_error, descriptor) op" where
  "push_titled cd rg what title data =
     op_bind (op_wrap (RStep what) (push_bytes cd rg media_type_bundle_hcl data Map.empty)) (\<lambda>d.
     op_return (d\<lparr>d_annotations := [annotation_title \<mapsto> title]\<rparr>))"

definition prune_source :: "('w, 'e, 'c, 'r) reconfigure_env \<Rightarrow> string \<Rightarrow> descriptor list \<Rightarrow> ('w, 'e reconfigure_error, unit) op" where
  "prune_source env root ms w =
     (case prune_unreferenced_blobs (fa_storage (rc_facade env) root w) (rc_layout env) (rc_valid env) (rc_delete env root) (rc_walk env root) root ms w of
        None \<Rightarrow> (Inl PruneEndless, w)
      | Some (r, w') \<Rightarrow> (map_error RStore r, w'))"

text \<open>The definition manifest of the extracted layout: its position, the manifest and its HCL source.\<close>

definition load_definition :: "('w, 'e, 'c, 'r) reconfigure_env \<Rightarrow> ('w, 'e) registry \<Rightarrow> oci_index \<Rightarrow>
    ('w, 'e reconfigure_error, nat \<times> manifest) op" where
  "load_definition env rg ix =
     op_bind (op_lift (map_error ROci (find_bundle_definition ix))) (\<lambda>(entry, pos).
     op_bind (op_lift (validate_reconfigure_package_identities ix pos)) (\<lambda>_.
     op_bind (op_wrap ROci (fetch_bytes rg entry)) (\<lambda>bytes. case cd_manifest (rc_codec env) bytes of
       None \<Rightarrow> op_fail ParsingManifestFailed
     | Some m \<Rightarrow> op_return (pos, m))))"

definition load_hcl :: "('w, 'e) registry \<Rightarrow> manifest \<Rightarrow> ('w, 'e reconfigure_error, string) op" where
  "load_hcl rg m =
     op_bind (op_lift (find_layer_by_title m bundle_file_name)) (\<lambda>l. op_wrap ROci (fetch_bytes rg l))"

text \<open>The index with the new definition manifest in the place of the old one.\<close>

definition reindex :: "('w, 'e, 'c, 'r) reconfigure_env \<Rightarrow> oci_index \<Rightarrow> nat \<Rightarrow> descriptor \<Rightarrow> oci_index" where
  "reindex env ix pos d = ix\<lparr>ix_manifests := sort_descriptors (rc_codec env) (rc_show env) ((ix_manifests ix)[pos := d])\<rparr>"

definition rewrite_layout :: "('w, 'e, 'c, 'r) reconfigure_env \<Rightarrow> string \<Rightarrow> string \<Rightarrow> string \<Rightarrow> oci_index \<Rightarrow> nat \<Rightarrow> manifest \<Rightarrow> string \<Rightarrow> string \<Rightarrow>
    ('w, 'e reconfigure_error, unit) op" where
  "rewrite_layout env oci_dir sfx defaults ix pos m hcl digest =
     op_bind (op_wrap RStore (open_store (rc_layout env) oci_dir)) (\<lambda>root.
     let store = rc_store env root in
     op_bind (push_titled (rc_codec env) store ''writing defaults blob'' bundle_defaults_file_name defaults) (\<lambda>defaults_desc.
     op_bind (op_lift (splice_hcl_name (rc_blocks env) hcl sfx)) (\<lambda>spliced.
     op_bind (push_titled (rc_codec env) store ''writing updated HCL blob'' bundle_file_name spliced) (\<lambda>hcl_desc.
     op_bind (op_lift (rebuild_definition_manifest (rc_codec env) m defaults_desc hcl_desc digest)) (\<lambda>bytes.
     op_bind (op_wrap (RStep ''writing manifest blob'') (push_manifest_bytes (rc_codec env) store media_type_image_manifest media_type_bundle_definition bytes)) (\<lambda>d.
     let ix' = reindex env ix pos d in
     op_bind (op_wrap ROci (write_index (rc_codec env) (hf_write (rc_fs env)) (path_join [oci_dir, ''index.json'']) ix')) (\<lambda>_.
     prune_source env root (ix_manifests ix'))))))))"

definition reconfigure_layout :: "('w, 'e, 'c, 'r) reconfigure_env \<Rightarrow> string \<Rightarrow> string \<Rightarrow> string \<Rightarrow> string \<Rightarrow>
    ('w, 'e reconfigure_error, unit) op" where
  "reconfigure_layout env source oci_dir sfx defaults =
     op_bind (op_wrap (RStep ''reading index.json'') (hf_read (rc_fs env) (path_join [oci_dir, ''index.json'']))) (\<lambda>bytes.
     case cd_index (rc_codec env) bytes of
       None \<Rightarrow> op_fail ParsingIndexFailed
     | Some ix \<Rightarrow>
         if \<not> is_bundle_index ix then op_fail (SourceNotBundle source)
         else
           op_bind (op_lift (validate_local_reconfigure_index ix)) (\<lambda>_.
           op_bind (op_wrap RStore (open_read_only_store (rc_layout env) oci_dir)) (\<lambda>root.
           op_bind (load_definition env (rc_store env root) ix) (\<lambda>(pos, m).
           op_bind (load_hcl (rc_store env root) m) (\<lambda>hcl.
           rewrite_layout env oci_dir sfx defaults ix pos m hcl (cd_digest (rc_codec env) bytes))))))"

definition remove_inherited_evidence :: "('w, 'e, 'c, 'r) reconfigure_env \<Rightarrow> string \<Rightarrow> ('w, 'e reconfigure_error, unit) op" where
  "remove_inherited_evidence env dir = op_bind (op_try (hf_remove (rc_fs env) (path_join [dir, bundle_signature_file_name]))) (\<lambda>r. case r of
       Inr _ \<Rightarrow> op_return ()
     | Inl e \<Rightarrow> if hf_not_exist (rc_fs env) e then op_return () else op_fail (RStep ''removing inherited bundle signature evidence'' e))"

definition ensure_output_absent :: "('w, 'e, 'c, 'r) reconfigure_env \<Rightarrow> string \<Rightarrow> ('w, 'e reconfigure_error, unit) op" where
  "ensure_output_absent env out = op_bind (op_try (rc_exists env out)) (\<lambda>r. case r of
       Inr _ \<Rightarrow> op_fail (OutputExists out)
     | Inl e \<Rightarrow> if hf_not_exist (rc_fs env) e then op_return () else op_fail (RStep ''checking output path'' e))"

definition reconfigure_local_artifact :: "('w, 'e, 'c, 'r) reconfigure_env \<Rightarrow> config_options \<Rightarrow> reconfigure_options \<Rightarrow> string \<Rightarrow> string \<Rightarrow>
    ('w, 'e reconfigure_error, string) op" where
  "reconfigure_local_artifact env opts ro source defaults =
     (let base = path_base source; out = path_join [ro_output_dir ro, reconfigured_file_output_name base (ro_suffix ro)] in
      if \<not> has_suffix base ''.tar.zst'' then op_fail (NotATarZst base)
      else
        op_bind (ensure_output_absent env out) (\<lambda>_.
        with_workspace (rc_fs env) (tmp_dir opts) ''uds-bundle-reconfigure-*'' (RStep ''creating temp dir'') (\<lambda>dir.
          op_bind (op_wrap (RStep ''extracting bundle'') (fa_extract (rc_facade env) source dir)) (\<lambda>_.
          op_bind (remove_inherited_evidence env dir) (\<lambda>_.
          op_bind (reconfigure_layout env source (path_join [dir, ''oci'']) (ro_suffix ro) defaults) (\<lambda>_.
          op_bind (op_wrap RArchive (write_tar_zst (fa_archive (rc_facade env)) out dir)) (\<lambda>_.
          op_return out)))))))"

text \<open>The source is copied into a workspace of its own; every failure removes the workspace.\<close>

definition copy_input :: "('w, 'e, 'c, 'r) reconfigure_env \<Rightarrow> string \<Rightarrow> string \<Rightarrow> ('w, 'e reconfigure_error, unit) op" where
  "copy_input env source staged =
     op_bind (op_wrap (RStep ''opening input bundle'') (rc_open env source)) (\<lambda>_.
     op_bind (op_wrap (RStep ''creating staged input bundle'') (rc_create env staged)) (\<lambda>_.
     op_bind (op_try (rc_copy env source staged)) (\<lambda>copied.
     op_bind (op_try (rc_close env staged)) (\<lambda>closed.
     op_bind (op_lift (map_error (RStep ''staging input bundle'') copied)) (\<lambda>_.
     op_lift (map_error (RStep ''closing staged input bundle'') closed))))))"

definition stage_reconfigure_local_input :: "('w, 'e, 'c, 'r) reconfigure_env \<Rightarrow> string \<Rightarrow> string \<Rightarrow>
    ('w, 'e reconfigure_error, string \<times> string) op" where
  "stage_reconfigure_local_input env tmp source =
     op_bind (op_wrap (RStep ''creating input workspace'') (hf_mkdir_temp (rc_fs env) tmp ''uds-bundle-reconfigure-input-*'')) (\<lambda>workspace.
     let staged = path_join [workspace, path_base source] in
     op_bind (op_try (copy_input env source staged)) (\<lambda>r. case r of
       Inl e \<Rightarrow> (\<lambda>w. (Inl e, snd (hf_remove_all (rc_fs env) workspace w)))
     | Inr _ \<Rightarrow> op_return (workspace, staged)))"

subsection \<open>A registry\<close>

text \<open>\<open>reconfigureState\<close> once a registry source is resolved.\<close>

record ('w, 'e) resolved_source =
  rs_remote :: "('w, 'e) registry"
  rs_child :: descriptor
  rs_index :: string

definition resolve_reconfigure_oci_input :: "('w, 'e, 'c, 'r) reconfigure_env \<Rightarrow> config_options \<Rightarrow> string \<Rightarrow>
    ('w, 'e reconfigure_error, ('w, 'e) resolved_source \<times> string) op" where
  "resolve_reconfigure_oci_input env opts source =
     (let te = fa_transfer (rc_facade env); trimmed = trim_scheme source in
      op_bind (op_lift (map_error (RStep ''parsing OCI reference'') (te_parse te trimmed))) (\<lambda>ref. case ref of
        DigestReference _ \<Rightarrow> op_fail DigestSource
      | TagReference tag \<Rightarrow>
          op_bind (op_wrap (RStep ''connecting to registry'') (te_remote te (copy_options opts) trimmed)) (\<lambda>rg.
          op_bind (op_wrap ROci (resolve_bundle_child (rc_codec env) rg tag (architecture opts))) (\<lambda>(child, ix).
          op_return (\<lparr>rs_remote = rg, rs_child = child, rs_index = ix\<rparr>, ''oci://'' @ rc_context env trimmed @ ''@'' @ d_digest child)))))"

text \<open>The registry and the child of the source, resolved unless verification has resolved them.\<close>

definition remote_repository :: "('w, 'e, 'c, 'r) reconfigure_env \<Rightarrow> config_options \<Rightarrow> string \<Rightarrow> ('w, 'e) resolved_source option \<Rightarrow>
    ('w, 'e reconfigure_error, ('w, 'e) registry) op" where
  "remote_repository env opts trimmed known = (case known of
       Some s \<Rightarrow> op_return (rs_remote s)
     | None \<Rightarrow> op_wrap (RStep ''connecting to registry'') (te_remote (fa_transfer (rc_facade env)) (copy_options opts) trimmed))"

definition child_source :: "('w, 'e, 'c, 'r) reconfigure_env \<Rightarrow> config_options \<Rightarrow> ('w, 'e) registry \<Rightarrow> string \<Rightarrow> ('w, 'e) resolved_source option \<Rightarrow>
    ('w, 'e reconfigure_error, descriptor \<times> string) op" where
  "child_source env opts rg tag known =
     (if (case known of Some s \<Rightarrow> d_digest (rs_child s) \<noteq> [] | None \<Rightarrow> False)
      then op_return (rs_child (the known), rs_index (the known))
      else op_wrap ROci (resolve_bundle_child (rc_codec env) rg tag (architecture opts)))"

text \<open>New content is pushed by digest: defaults, HCL, the definition manifest and the child index.\<close>

definition push_reconfigured :: "('w, 'e, 'c, 'r) reconfigure_env \<Rightarrow> ('w, 'e) registry \<Rightarrow> string \<Rightarrow> string \<Rightarrow> oci_index \<Rightarrow> string \<Rightarrow>
    ('w, 'e reconfigure_error, descriptor \<times> string) op" where
  "push_reconfigured env rg sfx defaults ix digest =
     op_bind (load_definition env rg ix) (\<lambda>(pos, m).
     op_bind (op_wrap (RStep ''pushing defaults blob'') (push_bytes (rc_codec env) rg media_type_bundle_hcl defaults [annotation_title \<mapsto> bundle_defaults_file_name])) (\<lambda>defaults_desc.
     op_bind (load_hcl rg m) (\<lambda>hcl.
     op_bind (op_lift (splice_hcl_name (rc_blocks env) hcl sfx)) (\<lambda>spliced.
     op_bind (op_wrap (RStep ''pushing HCL blob'') (push_bytes (rc_codec env) rg media_type_bundle_hcl spliced [annotation_title \<mapsto> bundle_file_name])) (\<lambda>hcl_desc.
     op_bind (op_lift (rebuild_definition_manifest (rc_codec env) m defaults_desc hcl_desc digest)) (\<lambda>bytes.
     op_bind (op_wrap (RStep ''pushing manifest'') (push_manifest_bytes (rc_codec env) rg media_type_image_manifest media_type_bundle_definition bytes)) (\<lambda>d.
     case cd_index_bytes (rc_codec env) (reindex env ix pos d) of
       None \<Rightarrow> op_fail MarshalingIndex
     | Some ix_bytes \<Rightarrow>
         let child = new_descriptor (rc_codec env) media_type_image_index ix_bytes in
         op_bind (op_wrap (RStep ''pushing index'') (push_descriptor_bytes rg child ix_bytes)) (\<lambda>_. op_return (child, ix_bytes)))))))))"

text \<open>The tag is written last.\<close>

definition publish_target :: "('w, 'e, 'c, 'r) reconfigure_env \<Rightarrow> ('w, 'e) registry \<Rightarrow> string \<Rightarrow> oci_index \<Rightarrow> string \<Rightarrow> descriptor \<Rightarrow>
    ('w, 'e reconfigure_error, unit) op" where
  "publish_target env rg source ix tag child =
     (let arch = annotation (ix_annotations ix) annotation_bundle_architecture in
      if arch = [] then op_fail (ArchitectureMissing source)
      else op_wrap ROci (publish_bundle_root_index (rc_codec env) rg tag (bundle_child_descriptor child arch)))"

definition sign_then_publish :: "('w, 'e, 'c, 'r) reconfigure_env \<Rightarrow> config_options \<Rightarrow> signing_options \<Rightarrow> ('w, 'e) registry \<Rightarrow> string \<Rightarrow> oci_index \<Rightarrow>
    string \<Rightarrow> descriptor \<Rightarrow> string \<Rightarrow> ('w, 'e reconfigure_error, unit) op" where
  "sign_then_publish env opts o' rg source ix tag child ix_bytes =
     (if signs o' then
        with_workspace (rc_fs env) (tmp_dir opts) ''uds-bundle-oci-reconfigure-sign-*'' (RStep ''creating signing workspace'') (\<lambda>workspace.
          op_bind (op_wrap Facade (sign_and_publish (rc_facade env) o' rg child ix_bytes workspace)) (\<lambda>_.
          publish_target env rg source ix tag child))
      else publish_target env rg source ix tag child)"

text \<open>The result is the reference of the target.\<close>

definition reconfigure_oci_artifact :: "('w, 'e, 'c, 'r) reconfigure_env \<Rightarrow> config_options \<Rightarrow> reconfigure_options \<Rightarrow>
    ('w, 'e) resolved_source option \<Rightarrow> string \<Rightarrow> string \<Rightarrow> ('w, 'e reconfigure_error, string) op" where
  "reconfigure_oci_artifact env opts ro known source defaults =
     (if ro_output_dir ro \<noteq> [] then op_fail OutputDirUnsupported
      else
        let trimmed = trim_scheme source in
        op_bind (op_lift (map_error ROci (tagged_derivative_reference (fa_reference (rc_facade env)) trimmed (ro_suffix ro)))) (\<lambda>(source_tag, target_tag, target_ref).
        op_bind (remote_repository env opts trimmed known) (\<lambda>rg.
        op_bind (child_source env opts rg source_tag known) (\<lambda>(source_child, ix_bytes).
        op_bind (op_wrap ROci (ensure_tag_available rg target_tag)) (\<lambda>_.
        case cd_index (rc_codec env) ix_bytes of
          None \<Rightarrow> op_fail ParsingIndexFailed
        | Some ix \<Rightarrow>
            op_bind (push_reconfigured env rg (ro_suffix ro) defaults ix (d_digest source_child)) (\<lambda>(child, new_bytes).
            op_bind (sign_then_publish env opts (ro_signing ro) rg source ix target_tag child new_bytes) (\<lambda>_.
            op_return target_ref)))))))"

subsection \<open>Reconfigure\<close>

definition validate_reconfigure :: "('w, 'e, 'c, 'r) reconfigure_env \<Rightarrow> 'f public_config option \<Rightarrow> reconfigure_options \<Rightarrow>
    ('e reconfigure_error, config_options) result" where
  "validate_reconfigure env cfg ro =
     ebind (map_error ReconfigureConfigInvalid (public_validate_config (te_lower (fa_transfer (rc_facade env))) (te_stat (fa_transfer (rc_facade env))) cfg)) (\<lambda>_.
     ebind (guard (valid_suffix (ro_suffix ro)) (InvalidSuffix (ro_suffix ro))) (\<lambda>_.
     ebind (map_error ReconfigureSigningInvalid (validate_signing_options (ro_signing ro))) (\<lambda>_.
     map_error ReconfigureConfigInvalid (validate_config_structure (to_internal_config cfg)))))"

text \<open>The policy of the call, or else that of the configuration.\<close>

definition effective_policy :: "verification_policy \<Rightarrow> 'f public_config option \<Rightarrow> verification_policy" where
  "effective_policy p cfg = (if trust_configured p then p else case Option.bind cfg pc_signature of Some q \<Rightarrow> q | None \<Rightarrow> p)"

definition verify_input :: "('w, 'e, 'c, 'r) reconfigure_env \<Rightarrow> 'f public_config option \<Rightarrow> verification_policy \<Rightarrow> string \<Rightarrow> string \<Rightarrow>
    ('w, 'e reconfigure_error, unit) op" where
  "verify_input env cfg p tmp source = op_wrap (\<lambda>e. ReconfigureFailed (Facade e)) (verify_bundle 2 (rc_facade env) cfg p tmp source)"

definition reconfigure_remote :: "('w, 'e, 'c, 'r) reconfigure_env \<Rightarrow> 'f public_config option \<Rightarrow> config_options \<Rightarrow> reconfigure_options \<Rightarrow> string \<Rightarrow> string \<Rightarrow>
    ('w, 'e reconfigure_error, string) op" where
  "reconfigure_remote env cfg opts ro source defaults =
     op_bind (if ro_skip ro then op_return None
        else let p = effective_policy (ro_verification ro) cfg in
          op_bind (op_lift (map_error ReconfigureTrustInvalid (validate_trust (fa_compile (rc_facade env)) p))) (\<lambda>_.
          op_bind (op_wrap ReconfigureFailed (resolve_reconfigure_oci_input env opts source)) (\<lambda>(known, pinned).
          op_bind (verify_input env cfg p (tmp_dir opts) pinned) (\<lambda>_. op_return (Some known))))) (\<lambda>known.
     op_wrap ReconfigureFailed (reconfigure_oci_artifact env opts ro known source defaults))"

text \<open>An unsigned output is removed when signing it fails.\<close>

definition sign_output :: "('w, 'e, 'c, 'r) reconfigure_env \<Rightarrow> 'f public_config option \<Rightarrow> config_options \<Rightarrow> signing_options \<Rightarrow> string \<Rightarrow>
    ('w, 'e reconfigure_error, string) op" where
  "sign_output env cfg opts o' out =
     (if \<not> signs o' then op_return out
      else op_bind (op_try (sign (rc_facade env) cfg o' (tmp_dir opts) out)) (\<lambda>r. case r of
          Inr _ \<Rightarrow> op_return out
        | Inl e \<Rightarrow> (\<lambda>w. (Inl (ReconfigureFailed (Facade e)), snd (hf_remove (rc_fs env) out w)))))"

definition reconfigure_file :: "('w, 'e, 'c, 'r) reconfigure_env \<Rightarrow> 'f public_config option \<Rightarrow> config_options \<Rightarrow> reconfigure_options \<Rightarrow> string \<Rightarrow> string \<Rightarrow>
    ('w, 'e reconfigure_error, string) op" where
  "reconfigure_file env cfg opts ro input defaults =
     op_bind (op_wrap ReconfigureFailed (reconfigure_local_artifact env opts ro input defaults)) (sign_output env cfg opts (ro_signing ro))"

definition reconfigure_local :: "('w, 'e, 'c, 'r) reconfigure_env \<Rightarrow> 'f public_config option \<Rightarrow> config_options \<Rightarrow> reconfigure_options \<Rightarrow> string \<Rightarrow> string \<Rightarrow>
    ('w, 'e reconfigure_error, string) op" where
  "reconfigure_local env cfg opts ro source defaults =
     (if ro_skip ro then reconfigure_file env cfg opts ro source defaults
      else let p = effective_policy (ro_verification ro) cfg in
        op_bind (op_lift (map_error ReconfigureTrustInvalid (validate_trust (fa_compile (rc_facade env)) p))) (\<lambda>_.
        op_bind (op_wrap ReconfigureFailed (stage_reconfigure_local_input env (tmp_dir opts) source)) (\<lambda>(workspace, staged).
        op_defer (\<lambda>w. snd (hf_remove_all (rc_fs env) workspace w))
          (op_bind (verify_input env cfg p (tmp_dir opts) staged) (\<lambda>_. reconfigure_file env cfg opts ro staged defaults)))))"

definition reconfigure :: "('w, 'e, 'c, 'r) reconfigure_env \<Rightarrow> 'f public_config option \<Rightarrow> reconfigure_options \<Rightarrow> string \<Rightarrow> string \<Rightarrow>
    ('w, 'e reconfigure_error, string) op" where
  "reconfigure env cfg ro source defaults_file =
     op_bind (op_lift (validate_reconfigure env cfg ro)) (\<lambda>opts.
     if source = [] then op_fail ReconfigureSourceRequired
     else if defaults_file = [] then op_fail DefaultsFileRequired
     else
       op_bind (if is_oci_reference source
           then op_lift (map_error (\<lambda>e. ReconfigureFailed (Facade e)) (validate_oci_reference (rc_facade env) source)) else op_return ()) (\<lambda>_.
       op_bind (op_lift (map_error ReadingDefaultsFile (rc_defaults env defaults_file))) (\<lambda>defaults.
       if is_oci_reference source then reconfigure_remote env cfg opts ro source defaults
       else reconfigure_local env cfg opts ro source defaults)))"

end
