(* ===== verification/Bundle_Signing_Properties.thy ===== *)
theory Bundle_Signing_Properties
  imports Bundle_Signing Path_Lemmas Oci_Transfer_Properties
begin

text \<open>
  What a successful verification of a bundle establishes. The file system reads back what was written
  and a write leaves other files alone; nothing is assumed of Cosign or of the registry.
\<close>

definition written_reads :: "('w, 'e) host_fs \<Rightarrow> bool" where
  "written_reads fs \<longleftrightarrow> (\<forall>p x w w'. hf_write fs p x w = (Inr (), w') \<longrightarrow> fst (hf_read fs p w') = Inr x \<and>
     (\<forall>q. q \<noteq> p \<longrightarrow> fst (hf_read fs q w') = fst (hf_read fs q w)))"

lemma written_readsD:
  assumes "written_reads fs" "hf_write fs p x w = (Inr u, w')"
  shows "fst (hf_read fs p w') = Inr x" "q \<noteq> p \<Longrightarrow> fst (hf_read fs q w') = fst (hf_read fs q w)"
  using assms unfolding written_reads_def by (cases u; blast)+

text \<open>The options ask Cosign for the identity or the key of the policy, read from the files they name.\<close>

definition trust_enforced :: "('w, 'e) host_fs \<Rightarrow> verification_policy \<Rightarrow> blob_verify_options \<Rightarrow> 'w \<Rightarrow> bool" where
  "trust_enforced fs p vo w \<longleftrightarrow>
     (if vp_public_key p \<noteq> [] then fst (hf_read fs (vo_key vo) w) = Inr (vp_public_key p)
      else case vp_keyless p of
        None \<Rightarrow> False
      | Some k \<Rightarrow> vo_identity vo = kv_certificate_identity k \<and> vo_identity_regexp vo = kv_certificate_identity_regexp k \<and>
          vo_issuer vo = kv_certificate_oidc_issuer k \<and> vo_issuer_regexp vo = kv_certificate_oidc_issuer_regexp k \<and>
          \<not> vo_ignore_tlog vo \<and> \<not> vo_ignore_sct vo \<and>
          (kv_trusted_root k \<noteq> [] \<longrightarrow> fst (hf_read fs (vo_trusted_root vo) w) = Inr (kv_trusted_root k)))"

text \<open>Cosign accepted the evidence for the index under options that enforce the policy.\<close>

definition authenticated :: "('w, 'e, 'c, 'r) facade_env \<Rightarrow> verification_policy \<Rightarrow> string \<Rightarrow> string \<Rightarrow> bool" where
  "authenticated env p ix evidence \<longleftrightarrow> (\<exists>index_path vo w1 w2.
     fa_verify env index_path vo w1 = (Inr (), w2) \<and> fst (hf_read (fa_fs env) index_path w1) = Inr ix \<and>
     fst (hf_read (fa_fs env) (bv_bundle_path vo) w1) = Inr evidence \<and> trust_enforced (fa_fs env) p vo w1)"

lemma material_names:
  "file_name ''index.json''" "file_name bundle_signature_file_name" "file_name ''bundle-public-key.pem''" "file_name ''trusted-root.json''"
  by (simp_all add: file_name_def bundle_signature_file_name_def)

lemma material_differs:
  "path_join [d, ''index.json''] \<noteq> path_join [d, bundle_signature_file_name]"
  "path_join [d, ''index.json''] \<noteq> path_join [d, ''bundle-public-key.pem'']"
  "path_join [d, ''index.json''] \<noteq> path_join [d, ''trusted-root.json'']"
  "path_join [d, bundle_signature_file_name] \<noteq> path_join [d, ''bundle-public-key.pem'']"
  "path_join [d, bundle_signature_file_name] \<noteq> path_join [d, ''trusted-root.json'']"
  by (simp_all add: path_join_file_inject material_names) (simp_all add: bundle_signature_file_name_def)

lemma validation_options_enforce:
  assumes "written_reads (fa_fs env)" "validation_options env p dir w = (Inr vo, w')"
  shows "trust_enforced (fa_fs env) p vo w'"
    and "fst (hf_read (fa_fs env) (path_join [dir, ''index.json'']) w') = fst (hf_read (fa_fs env) (path_join [dir, ''index.json'']) w)"
    and "fst (hf_read (fa_fs env) (path_join [dir, bundle_signature_file_name]) w') = fst (hf_read (fa_fs env) (path_join [dir, bundle_signature_file_name]) w)"
  using assms(2) written_readsD [OF assms(1)] material_differs
  by (auto simp: validation_options_def Let_def op_results trust_enforced_def keyless_trust_def split: if_splits option.splits)

lemma verify_signature_authenticates:
  assumes "written_reads (fa_fs env)" "verify_signature env ix evidence p tmp w = (Inr (), w')"
  shows "authenticated env p ix evidence"
proof -
  obtain dir w0 w'' where v: "verify_signature_in env ix evidence p dir w0 = (Inr (), w'')"
    using assms(2) by (auto simp: verify_signature_def with_workspace_def op_bind_Inr op_wrap_Inr op_defer_eq)
  let ?ip = "path_join [dir, ''index.json'']" and ?ep = "path_join [dir, bundle_signature_file_name]"
  obtain w1 w2 w3 vo where s: "hf_write (fa_fs env) ?ip ix w0 = (Inr (), w1)" "hf_write (fa_fs env) ?ep evidence w1 = (Inr (), w2)"
      "validation_options env p dir w2 = (Inr vo, w3)" "fa_verify env ?ip (vo\<lparr>bv_bundle_path := ?ep\<rparr>) w3 = (Inr (), w'')"
    using v by (auto simp: verify_signature_in_def Let_def op_bind_Inr op_wrap_Inr)
  note o = validation_options_enforce [OF assms(1) s(3)] and r1 = written_readsD [OF assms(1) s(1)] and r2 = written_readsD [OF assms(1) s(2)]
  have "fst (hf_read (fa_fs env) ?ip w3) = Inr ix" using o(2) r1(1) r2(2) [OF material_differs(1)] by simp
  moreover have "fst (hf_read (fa_fs env) ?ep w3) = Inr evidence" using o(3) r2(1) by simp
  moreover have "trust_enforced (fa_fs env) p (vo\<lparr>bv_bundle_path := ?ep\<rparr>) w3" using o(1) by (simp add: trust_enforced_def split: option.splits if_splits)
  ultimately show ?thesis using s(4) unfolding authenticated_def
    by (intro exI [of _ ?ip] exI [of _ "vo\<lparr>bv_bundle_path := ?ep\<rparr>"] exI [of _ w3] exI [of _ w'']) simp
qed

text \<open>
  An archive passes when its extraction has at most one evidence entry, a bundle index whose evidence
  Cosign accepts, and a layout in which everything the index reaches has its digest.
\<close>

definition archive_accepted :: "('w, 'e, 'c, 'r) facade_env \<Rightarrow> verification_policy \<Rightarrow> string \<Rightarrow> bool" where
  "archive_accepted env p archive \<longleftrightarrow> (\<exists>dir ix evidence n w1 w2 w3 w4 w5 w6 w7 w8.
     count_tar_zst_entries env archive bundle_signature_file_name w1 = (Inr n, w2) \<and> n \<le> 1 \<and>
     fa_extract env archive dir w2 = (Inr (), w3) \<and>
     hf_read (fa_fs env) (path_join [dir, ''oci'', ''index.json'']) w3 = (Inr ix, w4) \<and>
     (\<exists>i. cd_index (fa_codec env) ix = Some i \<and> is_bundle_index i) \<and>
     hf_read (fa_fs env) (path_join [dir, bundle_signature_file_name]) w5 = (Inr evidence, w6) \<and>
     authenticated env p ix evidence \<and>
     check_layout env (path_join [dir, ''oci'']) ix w7 = (Inr (), w8))"

lemma verify_archive_accepts:
  assumes "written_reads (fa_fs env)" "verify_archive env p tmp archive w = (Inr (), w')"
  shows "archive_accepted env p archive"
proof -
  obtain dir w1 w'' where v: "verify_archive_in env p tmp archive dir w1 = (Inr (), w'')"
    using assms(2) by (auto simp: verify_archive_def with_workspace_def op_bind_Inr op_wrap_Inr op_defer_eq)
  then obtain n w2 where n: "count_tar_zst_entries env archive bundle_signature_file_name w1 = (Inr n, w2)" "n \<le> 1"
    by (auto simp: verify_archive_in_def Let_def op_bind_Inr op_wrap_Inr split: if_splits)
  obtain ix evidence w3 w4 w5 w6 where s: "fa_extract env archive dir w2 = (Inr (), w3)"
      "hf_read (fa_fs env) (path_join [dir, ''oci'', ''index.json'']) w3 = (Inr ix, w4)"
      "validate_bundle_index (fa_codec env) ix = (Inr () :: ('b facade_error, unit) result)"
      "read_bundle_evidence env (path_join [dir, bundle_signature_file_name]) w4 = (Inr evidence, w5)"
      "verify_signature env ix evidence p tmp w5 = (Inr (), w6)" "check_layout env (path_join [dir, ''oci'']) ix w6 = (Inr (), w'')"
    using v n by (auto simp: verify_archive_in_def Let_def op_bind_Inr op_wrap_Inr split: if_splits)
  have "\<exists>i. cd_index (fa_codec env) ix = Some i \<and> is_bundle_index i"
    using s(3) by (auto simp: validate_bundle_index_def parse_bundle_index_def ebind_eq_Inr split: option.splits if_splits)
  moreover have "\<exists>w. hf_read (fa_fs env) (path_join [dir, bundle_signature_file_name]) w = (Inr evidence, w5)"
    using s(4) by (auto simp: read_bundle_evidence_def Let_def op_bind_Inr op_wrap_Inr split: if_splits)
  ultimately show ?thesis
    using n s(1,2,6) verify_signature_authenticates [OF assms(1) s(5)] unfolding archive_accepted_def by blast
qed

text \<open>A registry source is accepted for the archive that \<open>Pull\<close> made of it, under the same policy.\<close>

inductive source_accepted :: "('w, 'e, 'c, 'r) facade_env \<Rightarrow> 'f public_config option \<Rightarrow> verification_policy \<Rightarrow> string \<Rightarrow> bool"
  for env cfg p where
  local: "\<not> is_oci_reference source \<Longrightarrow> archive_accepted env p source \<Longrightarrow> source_accepted env cfg p source"
| pulled: "is_oci_reference source \<Longrightarrow> pull env cfg p False source workspace w = (Inr (ref, out), w') \<Longrightarrow>
    source_accepted env cfg p out \<Longrightarrow> source_accepted env cfg p source"

inductive_cases source_acceptedE: "source_accepted env cfg p source"

lemma verify_bundle_accepts:
  assumes "written_reads (fa_fs env)"
  shows "verify_bundle n env cfg p tmp source w = (Inr (), w') \<Longrightarrow>
    validate_trust (fa_compile env) p = Inr () \<and> source_accepted env cfg p source"
proof (induction n arbitrary: source w w')
  case (Suc n)
  have trust: "validate_trust (fa_compile env) p = Inr ()"
    using Suc.prems by (auto simp: op_bind_Inr split: if_splits)
  show ?case
  proof (cases "is_oci_reference source")
    case True
    then obtain workspace w1 w2 w3 w4 ref out where
        pull: "pull env cfg p False source workspace w1 = (Inr (ref, out), w2)" "verify_bundle n env cfg p tmp out w3 = (Inr (), w4)"
      using Suc.prems by (auto simp: with_workspace_def op_bind_Inr op_wrap_Inr op_defer_eq split: if_splits)
    show ?thesis using trust Suc.IH [OF pull(2)] pulled [OF True pull(1)] by blast
  next
    case False
    then have "verify_archive env p tmp source w = (Inr (), w')"
      using Suc.prems by (auto simp: op_bind_Inr op_wrap_Inr split: if_splits)
    then show ?thesis using trust local [OF False] verify_archive_accepts [OF assms] by blast
  qed
qed simp

text \<open>C12. \<open>Verify\<close> accepts only signed bundles: when it returns nil the policy is valid, and the archive it
  was given, or the one that \<open>Pull\<close> made of its reference under the same policy, holds at most one
  evidence entry, its index is a bundle index, Cosign accepted exactly that evidence for exactly that index
  under options that enforce the policy's key or keyless identity, and the traversal of the extracted
  layout found every reachable blob with its digest.\<close>

theorem verify_accepts_only_signed:
  assumes "written_reads (fa_fs env)" "verify_bundle n env cfg p tmp source w = (Inr (), w')"
  shows "validate_trust (fa_compile env) p = Inr () \<and> source_accepted env cfg p source"
  using verify_bundle_accepts [OF assms] .

text \<open>A file system of paths and contents, on which an archive extracts to an index and its evidence.\<close>

definition files_fs :: "(string \<rightharpoonup> string, string) host_fs" where
  "files_fs = \<lparr>hf_mkdir_temp = \<lambda>d p. op_return (''/t/'' @ p), hf_mkdir_all = \<lambda>p. op_return (),
     hf_read = \<lambda>p w. (case w p of None \<Rightarrow> Inl ''missing'' | Some x \<Rightarrow> Inr x, w), hf_write = \<lambda>p x w. (Inr (), w(p \<mapsto> x)),
     hf_remove = \<lambda>p w. (Inr (), w(p := None)), hf_remove_all = \<lambda>p. op_return (), hf_not_exist = \<lambda>e. True\<rparr>"

definition accepting_blobs :: "(string, unit) blob_store" where
  "accepting_blobs = \<lparr>bs_successors = \<lambda>d. Inr [], bs_fetch = \<lambda>d. Inr (), bs_copy = \<lambda>d r. None, bs_verify = \<lambda>d r. None, bs_close = \<lambda>r. None\<rparr>"

definition no_registry :: "(string \<rightharpoonup> string, string) registry" where
  "no_registry = \<lparr>rg_resolve = \<lambda>r. op_fail ''none'', rg_fetch = \<lambda>d. op_fail ''none'', rg_push = \<lambda>d b. op_return (), rg_exists = \<lambda>d. op_return False,
     rg_tag = \<lambda>d r. op_return (), rg_push_reference = None, rg_delete = None, rg_referrers = None, rg_not_found = \<lambda>e. True, rg_already_exists = \<lambda>e. True\<rparr>"

definition files_transfer :: "(string \<rightharpoonup> string, string, int) transfer_env" where
  "files_transfer = \<lparr>te_codec = sample_codec, te_lower = id, te_stat = \<lambda>p. StatDir, te_fs = files_fs,
     te_layout = \<lparr>lf_stat = \<lambda>p. op_return (), lf_mkdir = \<lambda>p. op_return (), lf_new = \<lambda>p. op_return ()\<rparr>,
     te_hook = None, te_remote = \<lambda>o' ref. op_return no_registry, te_copy_defaults = id, te_modify = None, te_store = \<lambda>d. no_registry,
     te_new_store = \<lambda>d. op_return (), te_copy_graph = \<lambda>src dst d c. op_return (), te_copy = \<lambda>src r dst r' c. op_fail ''none'',
     te_parse = \<lambda>ref. Inr (TagReference ''v1''), te_parse_registry = \<lambda>ref. Inr ref, te_pack = \<lambda>rg subject layers. op_return subject\<rparr>"

definition sample_sign_options :: blob_sign_options where
  "sample_sign_options = \<lparr>sb_bundle_path = [], sb_key = [], sb_password = [], sb_keyless = False, sb_identity_token = [], sb_fulcio_url = [],
     sb_auth_flow = [], sb_oidc_issuer = [], sb_oidc_client_id = [], sb_rekor_url = [], sb_tsa_server_url = [], sb_overwrite = False,
     sb_tlog_upload = False, sb_use_signing_config = False\<rparr>"

definition sample_blob_verify_options :: blob_verify_options where
  "sample_blob_verify_options = \<lparr>vo_temp_dir = [], vo_key = [], vo_identity = [], vo_identity_regexp = [], vo_issuer = [], vo_issuer_regexp = [],
     vo_ignore_tlog = False, vo_ignore_sct = False, vo_signed_timestamps = False, vo_trusted_root = [], bv_bundle_path = []\<rparr>"

definition sample_facade :: "(string \<rightharpoonup> string, string, int, unit) facade_env" where
  "sample_facade = \<lparr>fa_transfer = files_transfer,
     fa_archive = \<lparr>av_stat = \<lambda>p. op_fail [], av_not_exist = \<lambda>e. True, av_files = \<lambda>p. op_return [], av_create_temp = \<lambda>d p. op_return p,
       av_archive = \<lambda>p fs. op_return (), av_close = \<lambda>p. op_return (), av_chmod = \<lambda>p n. op_return (), av_remove = \<lambda>p. op_return (),
       av_rename = \<lambda>p q. op_return (), av_windows = False\<rparr>,
     fa_extract = \<lambda>src dir w. (Inr (), w(path_join [dir, ''oci'', ''index.json''] \<mapsto> ''amd'', path_join [dir, bundle_signature_file_name] \<mapsto> ''sig'')),
     fa_headers = \<lambda>src. op_return [Inr bundle_signature_file_name], fa_close = \<lambda>src. op_return (), fa_size = \<lambda>p. op_return 3,
     fa_storage = \<lambda>root w. accepting_blobs, fa_compile = \<lambda>s. None, fa_reference = \<lambda>s. None, fa_parse = \<lambda>a s. Inl ''none'',
     fa_sign_defaults = sample_sign_options, fa_sign = \<lambda>p o'. op_return (),
     fa_verify_defaults = sample_blob_verify_options,
     fa_verify = \<lambda>p vo w. (if w p = Some ''amd'' \<and> w (bv_bundle_path vo) = Some ''sig'' \<and> w (vo_key vo) = Some ''key'' then Inr () else Inl ''bad'', w),
     fa_error = \<lambda>e. ''failed''\<rparr>"

definition key_policy :: verification_policy where
  "key_policy = \<lparr>vp_public_key = ''key'', vp_keyless = None\<rparr>"

lemma files_written_reads: "written_reads (fa_fs sample_facade)"
  by (auto simp: written_reads_def sample_facade_def files_transfer_def files_fs_def)

lemma accepting_layout: "verify_graph accepting_blobs (ix_manifests sample_bundle_index) = Some (Inr ())"
  by (simp add: verify_graph_def reachable_digests_def sample_bundle_index_def reachable_loop.simps accepting_blobs_def verify_content_def)

lemma files_fs_simps [simp]:
  "hf_mkdir_temp files_fs d p w = (Inr (''/t/'' @ p), w)" "hf_write files_fs p x w = (Inr (), w(p \<mapsto> x))"
  "hf_read files_fs p w = (case w p of None \<Rightarrow> Inl ''missing'' | Some x \<Rightarrow> Inr x, w)" "hf_remove_all files_fs p w = (Inr (), w)"
  by (simp_all add: files_fs_def)

lemma sample_facade_simps [simp]:
  "te_fs (fa_transfer sample_facade) = files_fs" "te_codec (fa_transfer sample_facade) = sample_codec" "fa_size sample_facade p w = (Inr 3, w)"
  "fa_verify_defaults sample_facade = sample_blob_verify_options"
  by (simp_all add: sample_facade_def files_transfer_def)

lemma sample_key_valid: "validate_trust (fa_compile sample_facade) key_policy = Inr ()"
proof -
  have "trim_space ''key'' = ''key''" by code_simp
  then show ?thesis by (simp add: validate_trust_def key_policy_def)
qed

definition extracted_files :: "string \<rightharpoonup> string" where
  "extracted_files = [''/t/uds-bundle-verify-*/oci/index.json'' \<mapsto> ''amd'', ''/t/uds-bundle-verify-*/uds.bundle.sig'' \<mapsto> ''sig'']"

lemma sample_signature_accepted:
  "verify_signature sample_facade ''amd'' ''sig'' key_policy [] w =
     (Inr (), w(''/t/uds-bundle-signature-verify-*/index.json'' \<mapsto> ''amd'', ''/t/uds-bundle-signature-verify-*/uds.bundle.sig'' \<mapsto> ''sig'',
        ''/t/uds-bundle-signature-verify-*/bundle-public-key.pem'' \<mapsto> ''key''))"
proof -
  let ?d = "''/t/uds-bundle-signature-verify-*''"
  have "path_join [?d, ''index.json''] = ''/t/uds-bundle-signature-verify-*/index.json''"
    "path_join [?d, bundle_signature_file_name] = ''/t/uds-bundle-signature-verify-*/uds.bundle.sig''"
    "path_join [?d, ''bundle-public-key.pem''] = ''/t/uds-bundle-signature-verify-*/bundle-public-key.pem''" by code_simp+
  then show ?thesis
    by (simp add: verify_signature_def with_workspace_def verify_signature_in_def validation_options_def
        op_bind_def op_wrap_def op_defer_def key_policy_def sample_blob_verify_options_def Let_def)
      (simp add: sample_facade_def)
qed

lemma sample_archive_verified: "\<exists>w'. verify_archive sample_facade key_policy [] ''b.tar.zst'' Map.empty = (Inr (), w')"
proof -
  let ?d = "''/t/uds-bundle-verify-*''"
  have p: "path_join [?d, ''oci'', ''index.json''] = ''/t/uds-bundle-verify-*/oci/index.json''"
    "path_join [?d, bundle_signature_file_name] = ''/t/uds-bundle-verify-*/uds.bundle.sig''" by code_simp+
  have c: "path_clean bundle_signature_file_name = bundle_signature_file_name" by code_simp
  have count: "count_tar_zst_entries sample_facade ''b.tar.zst'' bundle_signature_file_name w = (Inr 1, w)" for w
    by (simp add: count_tar_zst_entries_def sample_facade_def op_bind_def op_try_def c)
  have unpacked: "fa_extract sample_facade ''b.tar.zst'' ?d Map.empty = (Inr (), extracted_files)"
    by (simp add: sample_facade_def p extracted_files_def)
  have reads: "extracted_files ''/t/uds-bundle-verify-*/oci/index.json'' = Some ''amd''"
    "extracted_files ''/t/uds-bundle-verify-*/uds.bundle.sig'' = Some ''sig''"
    by (simp_all add: extracted_files_def)
  have ix: "validate_bundle_index sample_codec ''amd'' = (Inr () :: (string facade_error, unit) result)"
    by (simp add: validate_bundle_index_def parse_bundle_index_def sample_codec_def sample_bundle_index_def is_bundle_index_def)
  have layout: "check_layout sample_facade root ''amd'' w = (Inr (), w)" if "root \<noteq> []" for root w
    using that accepting_layout by (simp add: check_layout_def verify_local_layout_graph_def sample_facade_def files_transfer_def sample_codec_def
        open_store_def op_bind_def op_wrap_def)
  have "path_join [?d, ''oci''] \<noteq> []" by code_simp
  then show ?thesis
    by (simp add: verify_archive_def with_workspace_def verify_archive_in_def count unpacked p reads ix read_bundle_evidence_def Let_def
        op_bind_def op_wrap_def op_defer_def sample_signature_accepted layout max_fetch_bytes_size_def)
qed

theorem verify_accepts_only_signed_witness:
  "source_accepted sample_facade (None :: unit public_config option) key_policy ''b.tar.zst''"
proof -
  have "\<not> is_oci_reference ''b.tar.zst''" by code_simp
  then have "\<exists>w'. verify_bundle 1 sample_facade (None :: unit public_config option) key_policy [] ''b.tar.zst'' Map.empty = (Inr (), w')"
    using sample_archive_verified sample_key_valid by (auto simp: op_bind_def op_wrap_def)
  then show ?thesis using verify_accepts_only_signed [OF files_written_reads] by blast
qed

text \<open>
  A policy may have a key of white space beside a keyless block: it is valid as a keyless policy, but
  the options ask for the blank key and no identity.
\<close>

lemma blank_key_shadows_keyless:
  assumes "vp_public_key p = '' ''" "vp_keyless p = Some k" "validate_trust (fa_compile env) p = Inr ()"
    "validation_options env p dir w = (Inr vo, w')"
  shows "vo_key vo = path_join [dir, ''bundle-public-key.pem''] \<and> vo_identity vo = vo_identity (fa_verify_defaults env) \<and> vo_ignore_tlog vo"
  using assms(1,4) by (auto simp: validation_options_def Let_def op_bind_Inr op_wrap_Inr)

end
