(* ===== verification/Reconfigure_Properties.thy ===== *)
theory Reconfigure_Properties
  imports Reconfigure Bundle_Signing_Properties Zarf_Signature_Properties
begin

text \<open>
  Properties of \<open>Reconfigure\<close>: the rebuilt definition manifest, the names it derives, what it may
  change in a registry and what it leaves behind of a local output.
\<close>

subsection \<open>The definition manifest\<close>

definition rewritten_titles :: "string set" where
  "rewritten_titles = {bundle_file_name, bundle_defaults_file_name}"

definition other_layer :: "descriptor \<Rightarrow> bool" where
  "other_layer l \<longleftrightarrow> layer_title l \<notin> rewritten_titles"

lemma titles_differ: "bundle_file_name \<noteq> bundle_defaults_file_name"
  by (simp add: bundle_file_name_def bundle_defaults_file_name_def)

lemma replace_layer_title:
  assumes "layer_title defaults = bundle_defaults_file_name" "layer_title hcl = bundle_file_name"
  shows "layer_title (replace_layer defaults hcl l) = layer_title l"
    "other_layer (replace_layer defaults hcl l) = other_layer l" "other_layer l \<Longrightarrow> replace_layer defaults hcl l = l"
    "\<not> other_layer defaults" "\<not> other_layer hcl"
  using assms by (auto simp: replace_layer_def other_layer_def rewritten_titles_def)

lemma filter_other_replaced:
  assumes "layer_title defaults = bundle_defaults_file_name" "layer_title hcl = bundle_file_name"
  shows "filter other_layer (map (replace_layer defaults hcl) ls) = filter other_layer ls"
  by (induction ls) (auto simp: replace_layer_title [OF assms])

lemma rebuilt_layers_exact:
  assumes "rebuilt_layers layers defaults hcl = Inr new"
    "layer_title defaults = bundle_defaults_file_name" "layer_title hcl = bundle_file_name"
  shows "filter other_layer new = filter other_layer layers"
    and "\<And>l. l \<in> set new \<Longrightarrow> layer_title l = bundle_file_name \<Longrightarrow> l = hcl"
    and "\<And>l. l \<in> set new \<Longrightarrow> layer_title l = bundle_defaults_file_name \<Longrightarrow> l = defaults"
    and "{defaults, hcl} \<subseteq> set new"
proof -
  let ?m = "map (replace_layer defaults hcl) layers"
  have hcl: "bundle_file_name \<in> layer_title ` set layers"
    and new: "new = (if bundle_defaults_file_name \<in> layer_title ` set layers then ?m else take 1 ?m @ [defaults] @ drop 1 ?m)"
    using assms(1) by (auto simp: rebuilt_layers_def Let_def split: if_splits)
  have "filter other_layer (take 1 ?m) @ filter other_layer (drop 1 ?m) = filter other_layer ?m"
    by (simp flip: filter_append)
  then show "filter other_layer new = filter other_layer layers"
    using filter_other_replaced [OF assms(2,3)] replace_layer_title(4) [OF assms(2,3)] by (auto simp: new)
  have sub: "set new \<subseteq> insert defaults (set ?m)" unfolding new by (auto dest: in_set_takeD in_set_dropD)
  have hcl_only: "l = hcl" if "l \<in> set ?m" "layer_title l = bundle_file_name" for l
    using that assms titles_differ by (auto simp: replace_layer_def split: if_splits)
  have defaults_only: "l = defaults" if "l \<in> set ?m" "layer_title l = bundle_defaults_file_name" for l
    using that assms titles_differ by (auto simp: replace_layer_def split: if_splits)
  show "l = hcl" if "l \<in> set new" "layer_title l = bundle_file_name" for l
    using hcl_only that sub assms(2) titles_differ by fastforce
  show "l = defaults" if "l \<in> set new" "layer_title l = bundle_defaults_file_name" for l
    using defaults_only that sub by blast
  have mem: "set ?m \<subseteq> set new"
  proof (cases "bundle_defaults_file_name \<in> layer_title ` set layers")
    case False
    have "set ?m = set (take 1 ?m) \<union> set (drop 1 ?m)" by (metis append_take_drop_id set_append)
    moreover have "new = take 1 ?m @ [defaults] @ drop 1 ?m" using new False by (simp only: if_False)
    ultimately show ?thesis by (simp only: set_append) blast
  qed (simp only: new if_True order_refl)
  obtain l where "bundle_file_name = layer_title l" "l \<in> set layers" using hcl by (rule imageE)
  then have "replace_layer defaults hcl l = hcl" by (simp add: replace_layer_def)
  moreover have "replace_layer defaults hcl l \<in> set ?m" unfolding set_map by (rule imageI) (rule \<open>l \<in> set layers\<close>)
  ultimately have "hcl \<in> set ?m" by (simp only:)
  moreover have "defaults \<in> set new"
  proof (cases "bundle_defaults_file_name \<in> layer_title ` set layers")
    case True
    then obtain k where "bundle_defaults_file_name = layer_title k" "k \<in> set layers" by (rule imageE)
    then have "replace_layer defaults hcl k = defaults" using titles_differ by (simp add: replace_layer_def)
    moreover have "replace_layer defaults hcl k \<in> set ?m" unfolding set_map by (rule imageI) (rule \<open>k \<in> set layers\<close>)
    ultimately have "defaults \<in> set ?m" by (simp only:)
    then show ?thesis using mem by blast
  qed (simp add: new)
  ultimately show "{defaults, hcl} \<subseteq> set new" using mem by blast
qed

lemma find_titled:
  assumes "\<And>l. l \<in> set ls \<Longrightarrow> layer_title l = t \<Longrightarrow> l = x" "x \<in> set ls" "layer_title x = t"
  shows "find (\<lambda>l. layer_title l = t) ls = Some x"
  using assms(1,2)
proof (induction ls)
  case (Cons a ls)
  show ?case
  proof (cases "layer_title a = t")
    case True
    then show ?thesis using Cons.prems(1) [of a] by simp
  next
    case False
    then have "x \<in> set ls" using Cons.prems(2) assms(3) by auto
    then show ?thesis using False Cons.IH Cons.prems(1) by simp
  qed
qed simp

text \<open>C31. The rebuilt definition manifest names the new HCL and the new defaults and is otherwise the old one:
  read back, its lookup by title finds exactly the two new layers, its other layers are those of the
  original in the same order, its media types and config are unchanged, and of the annotations only the
  creation time, pinned to the epoch, and the digest of the source are set.\<close>

theorem rebuilt_manifest_exact:
  assumes "\<forall>m bytes. cd_manifest_bytes cd m = Some bytes \<longrightarrow> cd_manifest cd bytes = Some m"
    "layer_title defaults = bundle_defaults_file_name" "layer_title hcl = bundle_file_name"
    "rebuild_definition_manifest cd m defaults hcl digest = Inr bytes"
  shows "\<exists>m'. cd_manifest cd bytes = Some m' \<and>
     find_layer_by_title m' bundle_file_name = (Inr hcl :: (unit reconfigure_error, descriptor) result) \<and>
     find_layer_by_title m' bundle_defaults_file_name = (Inr defaults :: (unit reconfigure_error, descriptor) result) \<and>
     filter other_layer (mf_layers m') = filter other_layer (mf_layers m) \<and>
     mf_config m' = mf_config m \<and> mf_media_type m' = mf_media_type m \<and> mf_artifact_type m' = mf_artifact_type m \<and>
     annotation (mf_annotations m') annotation_created = epoch \<and> annotation (mf_annotations m') annotation_reconfigured_from = digest \<and>
     (\<forall>k. k \<noteq> annotation_created \<longrightarrow> k \<noteq> annotation_reconfigured_from \<longrightarrow> mf_annotations m' k = mf_annotations m k)"
proof -
  obtain layers where l: "rebuilt_layers (mf_layers m) defaults hcl = (Inr layers :: ('a reconfigure_error, descriptor list) result)"
      and b: "cd_manifest_bytes cd (rebuilt_manifest m layers digest) = Some bytes"
    using assms(4) by (auto simp: rebuild_definition_manifest_def ebind_eq_Inr split: option.splits)
  note r = rebuilt_layers_exact [OF l assms(2,3)]
  have "annotation_created \<noteq> annotation_reconfigured_from" by (simp add: annotation_created_def annotation_reconfigured_from_def)
  moreover have "find (\<lambda>l. layer_title l = bundle_file_name) layers = Some hcl"
    by (rule find_titled [OF r(2)]) (use r(4) assms(3) in auto)
  moreover have "find (\<lambda>l. layer_title l = bundle_defaults_file_name) layers = Some defaults"
    by (rule find_titled [OF r(3)]) (use r(4) assms(2) in auto)
  ultimately show ?thesis using assms(1) b r(1)
    by (intro exI [of _ "rebuilt_manifest m layers digest"]) (auto simp: rebuilt_manifest_def find_layer_by_title_def annotation_def)
qed

definition titled :: "string \<Rightarrow> string \<Rightarrow> descriptor" where
  "titled digest title = no_descriptor\<lparr>d_media_type := media_type_bundle_hcl, d_digest := digest, d_size := 4,
     d_annotations := [annotation_title \<mapsto> title]\<rparr>"

definition reconfigured_sample :: manifest where
  "reconfigured_sample = \<lparr>mf_schema_version = 2, mf_media_type = media_type_image_manifest, mf_artifact_type = media_type_bundle_definition,
     mf_config = no_descriptor, mf_layers = [titled ''old'' bundle_file_name, titled ''values'' ''values/app/0.yaml''],
     mf_annotations = [''kept'' \<mapsto> ''yes'']\<rparr>"

definition sample_rebuilt :: manifest where
  "sample_rebuilt = rebuilt_manifest reconfigured_sample
     [titled ''new'' bundle_file_name, titled ''defaults'' bundle_defaults_file_name, titled ''values'' ''values/app/0.yaml''] ''sha256:a''"

definition manifest_codec :: codec where
  "manifest_codec = sample_codec\<lparr>cd_manifest_bytes := \<lambda>m. if m = sample_rebuilt then Some ''m'' else None,
     cd_manifest := \<lambda>b. if b = ''m'' then Some sample_rebuilt else None\<rparr>"

lemma titled_title: "layer_title (titled d t) = t"
  by (simp add: layer_title_def titled_def annotation_def)

lemma rebuilt_manifest_exact_witness:
  "\<exists>m'. cd_manifest manifest_codec ''m'' = Some m' \<and>
     filter other_layer (mf_layers m') = filter other_layer (mf_layers reconfigured_sample) \<and> annotation (mf_annotations m') annotation_reconfigured_from = ''sha256:a''"
proof -
  have "bundle_file_name \<noteq> ''values/app/0.yaml''" "bundle_defaults_file_name \<noteq> ''values/app/0.yaml''"
    by (simp_all add: bundle_file_name_def bundle_defaults_file_name_def)
  then have "rebuild_definition_manifest manifest_codec reconfigured_sample (titled ''defaults'' bundle_defaults_file_name) (titled ''new'' bundle_file_name)
      ''sha256:a'' = (Inr ''m'' :: (unit reconfigure_error, string) result)"
    using titles_differ by (simp add: rebuild_definition_manifest_def rebuilt_layers_def reconfigured_sample_def titled_title replace_layer_def Let_def)
      (simp add: manifest_codec_def sample_rebuilt_def reconfigured_sample_def)
  moreover have "\<forall>m bytes. cd_manifest_bytes manifest_codec m = Some bytes \<longrightarrow> cd_manifest manifest_codec bytes = Some m"
    by (simp add: manifest_codec_def)
  ultimately obtain m' where "cd_manifest manifest_codec ''m'' = Some m'"
      "filter other_layer (mf_layers m') = filter other_layer (mf_layers reconfigured_sample)" "annotation (mf_annotations m') annotation_reconfigured_from = ''sha256:a''"
    using rebuilt_manifest_exact [OF _ titled_title titled_title] by meson
  then show ?thesis by (intro exI conjI)
qed

subsection \<open>The bundle's name\<close>

text \<open>Only the expression of the name changes; a quoted name gets the suffix before its closing quote.\<close>

lemma splice_name_at_frame:
  assumes "s < e" "e \<le> length src"
  shows "\<exists>x. splice_name_at src sfx s e = take s src @ x @ drop e src \<and>
     (x = butlast (drop s (take e src)) @ sfx @ [CHR 0x22] \<and> last (drop s (take e src)) = CHR 0x22 \<or>
      x = [CHR 0x22] @ ''${'' @ drop s (take e src) @ ''}'' @ sfx @ [CHR 0x22])"
proof (cases "drop (e - 1) (take e src) = [CHR 0x22]")
  case True
  let ?x = "drop s (take e src)"
  have x: "?x \<noteq> []" "length ?x = e - s" using assms by simp_all
  have "drop (e - 1) (take e src) = drop (e - 1 - s) ?x" using assms by (simp add: drop_drop)
  then have tail: "drop (length ?x - 1) ?x = [CHR 0x22]" using True x(2) by (simp add: diff_commute)
  then have last: "last ?x = CHR 0x22" using x(1) by (metis last_drop last_ConsL length_greater_0_conv diff_less zero_less_one)
  have "take (e - 1) src = take s src @ butlast ?x"
  proof -
    have "take (e - 1) src = take s (take (e - 1) src) @ drop s (take (e - 1) src)" by (simp only: append_take_drop_id)
    also have "take s (take (e - 1) src) = take s src" using assms by simp
    also have "drop s (take (e - 1) src) = butlast ?x" using assms by (simp add: butlast_conv_take drop_take)
    finally show ?thesis .
  qed
  moreover have "drop (e - 1) src = [CHR 0x22] @ drop e src"
    using True assms by (metis append_take_drop_id diff_le_self drop_append drop_take length_take min.absorb2 append_Cons append_Nil diff_is_0_eq drop_0)
  ultimately show ?thesis using True last by (simp add: splice_name_at_def)
qed (simp add: splice_name_at_def)










text \<open>A bundle whose name holds the other architecture, and one without a version, are named differently.\<close>

lemma reconfigured_name_differs:
  "reconfigured_file_output_name ''uds-bundle-my-amd64-tools-arm64-1.0.tar.zst'' ''-dev'' = ''uds-bundle-my-dev-amd64-tools-arm64-1.0.tar.zst''"
  "reconfigured_file_output_name ''uds-bundle-app-amd64.tar.zst'' ''-dev'' = ''uds-bundle-app-amd64-dev.tar.zst''"
  by code_simp+

end
