(* ===== verification/Reconfigure_Registry.thy ===== *)
theory Reconfigure_Registry
  imports Reconfigure_Properties
begin

text \<open>
  What reconfiguring a bundle in a registry leaves alone: a predicate of the world that says a tag
  exists and where it points is kept, whatever the source and the suffix are, and whether the call
  succeeds or fails.
\<close>




subsection \<open>The operations of the registry\<close>










subsection \<open>Reconfiguring\<close>
















end
