(* ===== verification/Inspect.thy ===== *)
theory Inspect
  imports Bundle_Signing Dependency
begin

text \<open>
  Inspecting a built bundle, \<open>internal/artifact/inspect.go\<close> and \<open>pkg/bundle/inspect.go\<close>: the metadata of
  the index, of the bundle definition and of every package manifest, and the verification of the source
  before it is read. YAML and HCL parsing are parameters; logging is not modelled.
\<close>

datatype signing_status = SigningUnknown | SigningSigned | SigningUnsigned

datatype posture = PostureUnknown | PostureVerified | PostureSkipped

record signature_summary =
  ss_signed :: signing_status
  ss_verification :: posture

record inspect_result =
  in_bundle :: uds_bundle
  in_packages :: "package list"
  in_digest :: string
  in_reconfigured_from :: string
  in_signatures :: "string \<rightharpoonup> signature_summary"

datatype 'e inspect_error =
    InspectionWorkspace 'e
  | InspectExtract 'e
  | InspectReadIndex 'e
  | InspectStore "'e store_error"
  | ConnectSource 'e
  | InspectReference "'e oci_error"
  | ResolveSource "'e oci_error"
  | InspectParseIndex
  | InspectNotBundle
  | UnsupportedSchemaVersion string int
  | UnsupportedMediaType string string
  | MissingBundleArchitecture
  | InspectDefinition "'e oci_error"
  | MultipleDefinitions
  | FetchDefinition "'e oci_error"
  | ParseDefinitionManifest string
  | InspectLayerNotFound string
  | FetchDefinitionHCL "'e oci_error"
  | InspectParseBundle 'e
  | InspectInvalidBundle "spec_error list"
  | InspectGraph dep_error
  | InspectGraphEndless
  | InspectOrder dep_error
  | PackageEntryUnnamed nat
  | PackageEntryMediaType string string
  | MultiplePackageEntries string
  | PackageEntryMissing string string
  | FetchPackageManifest string "'e oci_error"
  | ParsePackageManifest string
  | FetchZarfYAML string "'e oci_error"
  | ParseZarfYAML string 'e

text \<open>
  \<open>ne_signed\<close> reads \<open>build.signed\<close> from a package's \<open>zarf.yaml\<close>; \<open>ne_ord\<close> gives the visiting orders of
  the maps of the dependency graph of a bundle.
\<close>

record ('w, 'e, 'c, 'r) inspect_env =
  ne_facade :: "('w, 'e, 'c, 'r) facade_env"
  ne_signed :: "string \<Rightarrow> ('e, bool option) result"
  ne_ord :: "uds_bundle \<Rightarrow> nat \<Rightarrow> string list"
  ne_open :: "string \<Rightarrow> ('w, 'e, unit) op"
  ne_create :: "string \<Rightarrow> ('w, 'e, unit) op"
  ne_copy :: "string \<Rightarrow> string \<Rightarrow> ('w, 'e, unit) op"
  ne_close :: "string \<Rightarrow> ('w, 'e, unit) op"

abbreviation ne_codec :: "('w, 'e, 'c, 'r) inspect_env \<Rightarrow> codec" where
  "ne_codec env \<equiv> te_codec (fa_transfer (ne_facade env))"

subsection \<open>Package signatures\<close>

fun find_entry :: "string \<Rightarrow> string \<Rightarrow> nat \<Rightarrow> descriptor option \<Rightarrow> descriptor list \<Rightarrow> ('e inspect_error, descriptor) result" where
  "find_entry name src i found [] = (case found of Some d \<Rightarrow> Inr d | None \<Rightarrow> Inl (PackageEntryMissing name src))"
| "find_entry name src i found (m # ms) =
     (if d_artifact_type m = media_type_bundle_definition then find_entry name src (Suc i) found ms
      else if annotation (d_annotations m) annotation_package_name = [] then Inl (PackageEntryUnnamed i)
      else if annotation (d_annotations m) annotation_package_name = name then
        (if \<not> is_image_manifest_media_type (d_media_type m) then Inl (PackageEntryMediaType name (d_media_type m))
         else if found \<noteq> None then Inl (MultiplePackageEntries name)
         else find_entry name src (Suc i) (Some m) ms)
      else find_entry name src (Suc i) found ms)"

definition find_package_manifest :: "oci_index \<Rightarrow> package \<Rightarrow> ('e inspect_error, descriptor) result" where
  "find_package_manifest ix p = find_entry (pkg_name p) (pkg_source p) 0 None (ix_manifests ix)"

definition titled_layer :: "manifest \<Rightarrow> string \<Rightarrow> descriptor option" where
  "titled_layer m title = find (\<lambda>l. annotation (d_annotations l) annotation_title = title) (mf_layers m)"

definition package_verification_status :: "package_signature_verification option \<Rightarrow> descriptor \<Rightarrow> posture" where
  "package_verification_status v m =
     (if annotation (d_annotations m) annotation_package_verification = package_verified then PostureVerified
      else case v of None \<Rightarrow> PostureUnknown
        | Some s \<Rightarrow> if sv_verify s = Some False then PostureSkipped else PostureUnknown)"

definition check_manifest :: "string \<Rightarrow> int \<Rightarrow> string \<Rightarrow> ('e inspect_error, unit) result" where
  "check_manifest what version media_type =
     (if version \<noteq> 2 then Inl (UnsupportedSchemaVersion what version)
      else if media_type \<noteq> [] \<and> \<not> is_image_manifest_media_type media_type then Inl (UnsupportedMediaType what media_type)
      else Inr ())"

definition signing_status_of :: "bool option \<Rightarrow> signing_status" where
  "signing_status_of s = (case s of None \<Rightarrow> SigningUnknown | Some b \<Rightarrow> if b then SigningSigned else SigningUnsigned)"

definition package_signing_status :: "('w, 'e, 'c, 'r) inspect_env \<Rightarrow> ('w, 'e) registry \<Rightarrow> string \<Rightarrow> manifest \<Rightarrow>
    ('w, 'e inspect_error, signing_status) op" where
  "package_signing_status env rg name m = (case titled_layer m ''zarf.yaml'' of
       None \<Rightarrow> op_return SigningUnknown
     | Some l \<Rightarrow>
         op_bind (op_wrap (FetchZarfYAML name) (fetch_bytes rg l)) (\<lambda>yaml.
         op_bind (op_lift (map_error (ParseZarfYAML name) (ne_signed env yaml))) (\<lambda>s. op_return (signing_status_of s))))"

definition inspect_package_signature :: "('w, 'e, 'c, 'r) inspect_env \<Rightarrow> ('w, 'e) registry \<Rightarrow> oci_index \<Rightarrow> package \<Rightarrow>
    ('w, 'e inspect_error, signature_summary) op" where
  "inspect_package_signature env rg ix p =
     op_bind (op_lift (find_package_manifest ix p)) (\<lambda>entry.
     op_bind (op_wrap (FetchPackageManifest (pkg_name p)) (fetch_bytes rg entry)) (\<lambda>bytes. case cd_manifest (ne_codec env) bytes of
       None \<Rightarrow> op_fail (ParsePackageManifest (pkg_name p))
     | Some m \<Rightarrow>
         op_bind (op_lift (check_manifest ''package manifest'' (mf_schema_version m) (mf_media_type m))) (\<lambda>_.
         op_bind (package_signing_status env rg (pkg_name p) m) (\<lambda>s.
         op_return \<lparr>ss_signed = s, ss_verification = package_verification_status (pkg_signature_verification p) entry\<rparr>))))"

subsection \<open>The index\<close>

definition check_index :: "oci_index \<Rightarrow> ('e inspect_error, string) result" where
  "check_index ix =
     (if \<not> is_bundle_index ix then Inl InspectNotBundle
      else if ix_schema_version ix \<noteq> 2 then Inl (UnsupportedSchemaVersion ''bundle index'' (ix_schema_version ix))
      else if ix_media_type ix \<noteq> [] \<and> ix_media_type ix \<noteq> media_type_image_index then Inl (UnsupportedMediaType ''bundle index'' (ix_media_type ix))
      else let arch = trim_space (annotation (ix_annotations ix) annotation_bundle_architecture) in
        if arch = [] then Inl MissingBundleArchitecture else Inr arch)"

text \<open>The only definition entry of the index.\<close>

definition definition_entry :: "oci_index \<Rightarrow> ('e inspect_error, descriptor) result" where
  "definition_entry ix =
     ebind (map_error InspectDefinition (find_bundle_definition ix)) (\<lambda>(entry, pos).
     if list_ex (\<lambda>(i, m). i \<noteq> pos \<and> d_artifact_type m = media_type_bundle_definition) (enumerate 0 (ix_manifests ix))
       then Inl MultipleDefinitions
     else if \<not> is_image_manifest_media_type (d_media_type entry)
       then Inl (UnsupportedMediaType ''bundle definition entry'' (d_media_type entry))
     else Inr entry)"

definition definition_hcl :: "manifest \<Rightarrow> ('e inspect_error, descriptor) result" where
  "definition_hcl m =
     ebind (check_manifest ''bundle definition manifest'' (mf_schema_version m) (mf_media_type m)) (\<lambda>_.
     case titled_layer m bundle_file_name of
       None \<Rightarrow> Inl (InspectLayerNotFound bundle_file_name)
     | Some l \<Rightarrow> if d_media_type l \<noteq> media_type_bundle_hcl then Inl (UnsupportedMediaType ''bundle definition HCL layer'' (d_media_type l))
         else Inr l)"

definition inspected_order :: "('w, 'e, 'c, 'r) inspect_env \<Rightarrow> uds_bundle \<Rightarrow> ('e inspect_error, package list) result" where
  "inspected_order env b =
     (if validate b \<noteq> [] then Inl (InspectInvalidBundle (validate b))
      else case build_dependency_graph (ne_ord env b 0) (ne_ord env b 1) b of
        None \<Rightarrow> Inl InspectGraphEndless
      | Some r \<Rightarrow> ebind (map_error InspectGraph r) (\<lambda>d. map_error InspectOrder (topological_sort (\<lambda>i. ne_ord env b (i + 2)) d)))"

fun inspect_signatures :: "('w, 'e, 'c, 'r) inspect_env \<Rightarrow> ('w, 'e) registry \<Rightarrow> oci_index \<Rightarrow> package list \<Rightarrow> (string \<rightharpoonup> signature_summary) \<Rightarrow>
    ('w, 'e inspect_error, string \<rightharpoonup> signature_summary) op" where
  "inspect_signatures env rg ix [] acc = op_return acc"
| "inspect_signatures env rg ix (p # ps) acc =
     op_bind (inspect_package_signature env rg ix p) (\<lambda>s. inspect_signatures env rg ix ps (acc(pkg_name p \<mapsto> s)))"

definition inspect_bundle_index :: "('w, 'e, 'c, 'r) inspect_env \<Rightarrow> ('w, 'e) registry \<Rightarrow> string \<Rightarrow> string \<Rightarrow>
    ('w, 'e inspect_error, inspect_result) op" where
  "inspect_bundle_index env rg bytes digest = (case cd_index (ne_codec env) bytes of
       None \<Rightarrow> op_fail InspectParseIndex
     | Some ix \<Rightarrow>
         op_bind (op_lift (check_index ix)) (\<lambda>arch.
         op_bind (op_lift (definition_entry ix)) (\<lambda>entry.
         op_bind (op_wrap FetchDefinition (fetch_bytes rg entry)) (\<lambda>def_bytes. case cd_manifest (ne_codec env) def_bytes of
           None \<Rightarrow> op_fail (ParseDefinitionManifest (d_digest entry))
         | Some m \<Rightarrow>
             op_bind (op_lift (definition_hcl m)) (\<lambda>l.
             op_bind (op_wrap FetchDefinitionHCL (fetch_bytes rg l)) (\<lambda>hcl.
             op_bind (op_lift (map_error InspectParseBundle (fa_parse (ne_facade env) arch hcl))) (\<lambda>b.
             op_bind (op_lift (inspected_order env b)) (\<lambda>ps.
             op_bind (inspect_signatures env rg ix (packages b) Map.empty) (\<lambda>sigs.
             op_return \<lparr>in_bundle = b, in_packages = ps, in_digest = digest,
               in_reconfigured_from = annotation (mf_annotations m) annotation_reconfigured_from, in_signatures = sigs\<rparr>)))))))))"

subsection \<open>Local archives and registries\<close>

definition inspect_local_artifact :: "('w, 'e, 'c, 'r) inspect_env \<Rightarrow> config_options \<Rightarrow> string \<Rightarrow> ('w, 'e inspect_error, inspect_result) op" where
  "inspect_local_artifact env opts source =
     (let fa = ne_facade env in
      with_workspace (fa_fs fa) (tmp_dir opts) ''uds-bundle-inspect-*'' InspectionWorkspace (\<lambda>workspace.
        op_bind (op_wrap InspectExtract (fa_extract fa source workspace)) (\<lambda>_.
        let oci_dir = path_join [workspace, ''oci''] in
        op_bind (op_wrap InspectReadIndex (hf_read (fa_fs fa) (path_join [oci_dir, ''index.json'']))) (\<lambda>bytes.
        op_bind (op_wrap InspectStore (open_read_only_store (te_layout (fa_transfer fa)) oci_dir)) (\<lambda>root.
        inspect_bundle_index env (te_store (fa_transfer fa) root) bytes (cd_digest (ne_codec env) bytes))))))"

definition inspect_oci_reference :: "('w, 'e, 'c, 'r) inspect_env \<Rightarrow> config_options \<Rightarrow> string \<Rightarrow> ('w, 'e inspect_error, inspect_result) op" where
  "inspect_oci_reference env opts source =
     (let fa = ne_facade env in
      op_bind (op_wrap ConnectSource (te_remote (fa_transfer fa) opts (trim_scheme source))) (\<lambda>rg.
      op_bind (op_lift (map_error InspectReference (facade_identifier fa source))) (\<lambda>reference.
      op_bind (op_wrap ResolveSource (resolve_bundle_child (ne_codec env) rg reference (architecture opts))) (\<lambda>(child, bytes).
      inspect_bundle_index env rg bytes (d_digest child)))))"

definition inspect_artifact :: "('w, 'e, 'c, 'r) inspect_env \<Rightarrow> config_options \<Rightarrow> string \<Rightarrow> ('w, 'e inspect_error, inspect_result) op" where
  "inspect_artifact env opts source =
     (if is_oci_reference source then inspect_oci_reference env opts source else inspect_local_artifact env opts source)"

subsection \<open>The public operation\<close>

datatype bundle_signature_status = StatusVerified | StatusNotChecked | StatusSkipped

record package_view =
  vw_name :: string
  vw_source :: string
  vw_namespace :: string
  vw_depends_on :: "string list"
  vw_values_files :: "string list"
  vw_signature :: signature_summary

record inspect_view =
  iv_name :: string
  iv_description :: string
  iv_version :: string
  iv_digest :: string
  iv_reconfigured_from :: string
  iv_status :: bundle_signature_status
  iv_packages :: "package_view list"

datatype 'e inspect_failure =
    InspectSourceRequired
  | InspectConfigInvalid config_error
  | InspectSourceKind
  | InspectFacade "'e facade_error"
  | InspectTrust "'e trust_error"
  | InspectStep string 'e
  | InspectEvidenceEntries nat
  | InspectEvidence "'e signature_error"
  | InspectResolve "'e oci_error"
  | Inspecting "'e inspect_error"
  | UninspectedPackage string

record inspect_options =
  io_source :: string
  io_verification :: verification_policy
  io_skip :: bool

definition inspect_policy :: "verification_policy \<Rightarrow> 'f public_config option \<Rightarrow> verification_policy" where
  "inspect_policy p cfg = (if trust_configured p then p else case Option.bind cfg pc_signature of Some q \<Rightarrow> q | None \<Rightarrow> p)"

definition validate_inspect :: "('w, 'e, 'c, 'r) inspect_env \<Rightarrow> 'f public_config option \<Rightarrow> inspect_options \<Rightarrow> ('e inspect_failure, config_options) result" where
  "validate_inspect env cfg io =
     (let fa = ne_facade env; te = fa_transfer fa; p = inspect_policy (io_verification io) cfg in
      if trim_space (io_source io) = [] then Inl InspectSourceRequired
      else
        ebind (map_error InspectConfigInvalid (public_validate_config (te_lower te) (te_stat te) cfg)) (\<lambda>_.
        ebind (guard (is_oci_reference (io_source io) \<or> is_tar_zst (io_source io)) InspectSourceKind) (\<lambda>_.
        ebind (if is_oci_reference (io_source io) then map_error InspectFacade (validate_oci_reference fa (io_source io)) else Inr ()) (\<lambda>_.
        ebind (if \<not> io_skip io \<and> trust_configured p then map_error InspectTrust (validate_trust (fa_compile fa) p) else Inr ()) (\<lambda>_.
        map_error InspectConfigInvalid (validate_config_structure (to_internal_config cfg)))))))"

text \<open>Without verification the evidence is still refused when there is more than one.\<close>

definition check_skipped_signature_evidence :: "('w, 'e, 'c, 'r) inspect_env \<Rightarrow> config_options \<Rightarrow> string \<Rightarrow> ('w, 'e inspect_failure, unit) op" where
  "check_skipped_signature_evidence env opts source =
     (let fa = ne_facade env in
      if \<not> is_oci_reference source then
        op_bind (op_wrap (InspectStep ''checking bundle signature evidence'') (count_tar_zst_entries fa source bundle_signature_file_name)) (\<lambda>n.
        if n > 1 then op_fail (InspectEvidenceEntries n) else op_return ())
      else
        op_bind (op_wrap (InspectStep ''checking bundle signature evidence'') (te_remote (fa_transfer fa) (copy_options opts) (trim_scheme source))) (\<lambda>rg.
        op_bind (op_lift (map_error InspectResolve (facade_identifier fa source))) (\<lambda>reference.
        op_bind (op_wrap InspectResolve (resolve_bundle_child (ne_codec env) rg reference (architecture opts))) (\<lambda>(child, _).
        op_bind (op_try (fetch_bundle_signature (ne_codec env) rg child)) (\<lambda>r. case r of
          Inl (BundleSignatureDuplicate n) \<Rightarrow> op_fail (InspectEvidence (BundleSignatureDuplicate n))
        | _ \<Rightarrow> op_return ())))))"

text \<open>The errors of closing are looked at in the order copy, output, input.\<close>

definition copy_inspected :: "('w, 'e, 'c, 'r) inspect_env \<Rightarrow> string \<Rightarrow> string \<Rightarrow> ('w, 'e, unit) op" where
  "copy_inspected env source staged =
     op_bind (ne_open env source) (\<lambda>_.
     op_bind (op_try (ne_create env staged)) (\<lambda>created. case created of
       Inl e \<Rightarrow> op_bind (op_try (ne_close env source)) (\<lambda>_. op_fail e)
     | Inr _ \<Rightarrow>
         op_bind (op_try (ne_copy env source staged)) (\<lambda>copied.
         op_bind (op_try (ne_close env staged)) (\<lambda>closed_output.
         op_bind (op_try (ne_close env source)) (\<lambda>closed_input.
         op_bind (op_lift copied) (\<lambda>_. op_bind (op_lift closed_output) (\<lambda>_. op_lift closed_input)))))))"

text \<open>What is done in the workspace; the result is the archive that was verified.\<close>

definition stage_verified :: "('w, 'e, 'c, 'r) inspect_env \<Rightarrow> 'f public_config option \<Rightarrow> config_options \<Rightarrow> verification_policy \<Rightarrow> string \<Rightarrow> string \<Rightarrow>
    ('w, 'e inspect_failure, string) op" where
  "stage_verified env cfg opts p source workspace =
     (let fa = ne_facade env in
      op_bind (if is_oci_reference source
        then op_bind (op_wrap InspectFacade (pull fa cfg p False source workspace)) (\<lambda>(_, out). op_return out)
        else (let staged = path_join [workspace, ''bundle.tar.zst''] in
          op_bind (op_wrap (InspectStep ''staging bundle for verification'') (copy_inspected env source staged)) (\<lambda>_. op_return staged))) (\<lambda>staged.
      op_bind (op_wrap InspectFacade (verify_bundle 2 fa cfg p (tmp_dir opts) staged)) (\<lambda>_. op_return staged)))"

definition posture_view :: "inspect_result \<Rightarrow> package \<Rightarrow> ('e inspect_failure, package_view) result" where
  "posture_view r p = (case in_signatures r (pkg_name p) of
       None \<Rightarrow> Inl (UninspectedPackage (pkg_name p))
     | Some s \<Rightarrow> Inr \<lparr>vw_name = pkg_name p, vw_source = pkg_source p, vw_namespace = pkg_namespace p,
         vw_depends_on = map ref_name (pkg_depends_on p), vw_values_files = pkg_values_files p, vw_signature = s\<rparr>)"

definition view_of :: "bundle_signature_status \<Rightarrow> inspect_result \<Rightarrow> ('e inspect_failure, inspect_view) result" where
  "view_of status r =
     ebind (emap (posture_view r) (in_packages r)) (\<lambda>ps. let m = metadata (in_bundle r) in
     Inr \<lparr>iv_name = md_name m, iv_description = md_description m, iv_version = md_version m, iv_digest = in_digest r,
       iv_reconfigured_from = in_reconfigured_from r, iv_status = status, iv_packages = ps\<rparr>)"

definition inspect_source :: "('w, 'e, 'c, 'r) inspect_env \<Rightarrow> config_options \<Rightarrow> bundle_signature_status \<Rightarrow> string \<Rightarrow>
    ('w, 'e inspect_failure, inspect_view) op" where
  "inspect_source env opts status source =
     op_bind (op_wrap Inspecting (inspect_artifact env opts source)) (\<lambda>r. op_lift (view_of status r))"

text \<open>The workspace of a verified source lives until the inspection returns.\<close>

definition inspect :: "('w, 'e, 'c, 'r) inspect_env \<Rightarrow> 'f public_config option \<Rightarrow> inspect_options \<Rightarrow> ('w, 'e inspect_failure, inspect_view) op" where
  "inspect env cfg io =
     op_bind (op_lift (validate_inspect env cfg io)) (\<lambda>opts.
     let p = inspect_policy (io_verification io) cfg in
     if io_skip io then
       op_bind (check_skipped_signature_evidence env opts (io_source io)) (\<lambda>_. inspect_source env opts StatusSkipped (io_source io))
     else if trust_configured p then
       with_workspace (fa_fs (ne_facade env)) (tmp_dir opts) ''uds-bundle-inspect-verified-*'' (InspectStep ''creating verification workspace'') (\<lambda>workspace.
         op_bind (stage_verified env cfg opts p (io_source io) workspace) (\<lambda>staged. inspect_source env opts StatusVerified staged))
     else inspect_source env opts StatusNotChecked (io_source io))"

end
