(* ===== verification/Inspect_Properties.thy ===== *)
theory Inspect_Properties
  imports Inspect Bundle_Signing_Properties Dependency_Properties
begin

text \<open>
  What an inspection shows: the packages of the bundle in an order of deployment, and a status that tells
  whether the very archive that is shown has been verified.
\<close>

subsection \<open>The packages shown\<close>

definition inspect_orders_ok :: "('w, 'e, 'c, 'r) inspect_env \<Rightarrow> bool" where
  "inspect_orders_ok env \<longleftrightarrow> (\<forall>b i. range_order (collect_packages (packages b)) (ne_ord env b i))"

text \<open>Every package once, after the packages it depends on.\<close>

definition deployment_order :: "uds_bundle \<Rightarrow> package list \<Rightarrow> bool" where
  "deployment_order b ps \<longleftrightarrow> set ps = set (packages b) \<and> distinct (map pkg_name ps) \<and>
     (\<forall>xs p ys. ps = xs @ p # ys \<longrightarrow> set (dep_names p) \<subseteq> pkg_name ` set xs)"

lemma inspected_order_deploys:
  assumes "inspect_orders_ok env" "inspected_order env b = Inr ps"
  shows "validate b = [] \<and> deployment_order b ps"
proof -
  have r: "range_order (collect_packages (packages b)) (ne_ord env b i)" for i using assms(1) by (simp add: inspect_orders_ok_def)
  obtain d where v: "validate b = []" and g: "build_dependency_graph (ne_ord env b 0) (ne_ord env b 1) b = Some (Inr d)"
      and t: "topological_sort (\<lambda>i. ne_ord env b (i + 2)) d = Inr ps"
    using assms(2) by (auto simp: inspected_order_def ebind_eq_Inr split: if_splits option.splits)
  note bp = built_plan [OF v r r g]
  have ok: "dag_ok d" using bp(1) by (simp add: dag_of_def)
  have ord: "orders_ok d (\<lambda>i. ne_ord env b (i + 2))" using bp(1) r by (simp add: orders_ok_def dag_of_def)
  obtain ls where ls: "topological_levels (\<lambda>i. ne_ord env b (i + 2)) d = Inr ls" "set (concat ls) = set (packages b)"
      "distinct (map pkg_name (concat ls))" and deps: "\<And>p. p \<in> set (packages b) \<Longrightarrow> deps_of d (pkg_name p) = dep_names p"
    using plan_of_bundle [OF bp(1-3) ord] by metis
  have ps: "ps = concat ls" using t ls(1) by (simp add: topological_sort_def)
  have "set (dep_names p) \<subseteq> pkg_name ` set xs" if "ps = xs @ p # ys" for xs p ys
  proof -
    have "p \<in> set (packages b)" using that ls(2) ps by (metis in_set_conv_decomp)
    then show ?thesis using topo.plan_prefix [of "(d, \<lambda>i. ne_ord env b (i + 2))" ls xs p ys] ls(1) ok ord deps that ps by simp
  qed
  then show ?thesis using v ls(2,3) ps by (simp add: deployment_order_def)
qed

text \<open>A valid bundle without cycles always has an order.\<close>

lemma inspected_order_total:
  assumes "inspect_orders_ok env" "validate b = []" "acyclic (declared_deps b)"
  shows "\<exists>ps. inspected_order env b = Inr ps"
proof -
  have r: "range_order (collect_packages (packages b)) (ne_ord env b i)" for i using assms(1) by (simp add: inspect_orders_ok_def)
  have ok: "bundle_ok b" using assms(2) validate_iff_bundle_ok by blast
  obtain d where g: "build_dependency_graph (ne_ord env b 0) (ne_ord env b 1) b = Some (Inr d)" and d: "dag_of b d"
    by (rule build_dependency_graph_cases [OF ok r r]) (use assms(3) in auto)
  have "acyclic (edge_rel d)" using dag_of_edge_rel [OF d] assms(3) by simp
  moreover have "orders_ok d (\<lambda>i. ne_ord env b (i + 2))" using d r by (simp add: orders_ok_def dag_of_def)
  ultimately obtain ls where "topological_levels (\<lambda>i. ne_ord env b (i + 2)) d = Inr ls" using plan_of_bundle [OF d ok] by metis
  then show ?thesis using assms(2) g by (simp add: inspected_order_def topological_sort_def)
qed

lemma inspect_bundle_index_order:
  assumes "inspect_orders_ok env" "inspect_bundle_index env rg bytes digest w = (Inr r, w')"
  shows "validate (in_bundle r) = [] \<and> deployment_order (in_bundle r) (in_packages r) \<and> in_digest r = digest"
  using assms(2) inspected_order_deploys [OF assms(1)]
  by (auto simp: inspect_bundle_index_def op_bind_Inr split: option.splits)

lemma inspect_artifact_order:
  assumes "inspect_orders_ok env" "inspect_artifact env opts source w = (Inr r, w')"
  shows "validate (in_bundle r) = [] \<and> deployment_order (in_bundle r) (in_packages r)"
  using assms(2) inspect_bundle_index_order [OF assms(1)]
  by (auto simp: inspect_artifact_def inspect_oci_reference_def inspect_local_artifact_def with_workspace_def Let_def
      op_bind_Inr op_wrap_Inr op_defer_eq split: if_splits)

text \<open>The view of a result.\<close>

definition shows_package :: "package \<Rightarrow> package_view \<Rightarrow> bool" where
  "shows_package p x \<longleftrightarrow> vw_name x = pkg_name p \<and> vw_source x = pkg_source p \<and> vw_depends_on x = dep_names p"

lemma posture_view_shows: "posture_view r p = Inr x \<Longrightarrow> shows_package p x \<and> in_signatures r (vw_name x) = Some (vw_signature x)"
  by (auto simp: posture_view_def shows_package_def split: option.splits)

lemma view_of_result:
  assumes "view_of status r = Inr v"
  shows "iv_status v = status" "iv_name v = md_name (metadata (in_bundle r))" "iv_version v = md_version (metadata (in_bundle r))"
    "list_all2 shows_package (in_packages r) (iv_packages v)"
    "\<forall>x \<in> set (iv_packages v). in_signatures r (vw_name x) = Some (vw_signature x)"
proof -
  obtain ps where ps: "list_all2 (\<lambda>p x. posture_view r p = (Inr x :: ('a inspect_failure, package_view) result)) (in_packages r) ps"
      and v: "v = \<lparr>iv_name = md_name (metadata (in_bundle r)), iv_description = md_description (metadata (in_bundle r)),
        iv_version = md_version (metadata (in_bundle r)), iv_digest = in_digest r,
        iv_reconfigured_from = in_reconfigured_from r, iv_status = status, iv_packages = ps\<rparr>"
    using assms by (auto simp: view_of_def ebind_eq_Inr Let_def emap_Inr_iff)
  show "iv_status v = status" "iv_name v = md_name (metadata (in_bundle r))" "iv_version v = md_version (metadata (in_bundle r))"
    by (simp_all add: v)
  show "list_all2 shows_package (in_packages r) (iv_packages v)"
    using list_all2_mono [OF ps, of shows_package] posture_view_shows by (auto simp: v)
  show "\<forall>x \<in> set (iv_packages v). in_signatures r (vw_name x) = Some (vw_signature x)"
    using ps posture_view_shows by (fastforce simp: v list_all2_conv_all_nth in_set_conv_nth)
qed

lemma shown_names: "list_all2 shows_package ps vs \<Longrightarrow> map vw_name vs = map pkg_name ps"
  by (induction rule: list_all2_induct) (simp_all add: shows_package_def)

lemma views_in_order:
  assumes "deployment_order b ps" "list_all2 shows_package ps vs"
  shows "distinct (map vw_name vs)" "vw_name ` set vs = pkg_name ` set (packages b)"
    "vs = xs @ x # ys \<Longrightarrow> set (vw_depends_on x) \<subseteq> vw_name ` set xs"
proof -
  have names: "map vw_name vs = map pkg_name ps" using assms(2) by (rule shown_names)
  show "distinct (map vw_name vs)" unfolding names using assms(1) by (simp add: deployment_order_def)
  have "vw_name ` set vs = set (map vw_name vs)" by simp
  also have "\<dots> = pkg_name ` set (packages b)" unfolding names using assms(1) by (simp add: deployment_order_def)
  finally show "vw_name ` set vs = pkg_name ` set (packages b)" .
  show "set (vw_depends_on x) \<subseteq> vw_name ` set xs" if vs: "vs = xs @ x # ys"
  proof -
    obtain us vs' where ps: "ps = us @ vs'" "list_all2 shows_package us xs" "list_all2 shows_package vs' (x # ys)"
      using assms(2) unfolding vs by (auto simp: list_all2_append2)
    then obtain p us' where p: "vs' = p # us'" "shows_package p x" by (auto simp: list_all2_Cons2)
    have "set (dep_names p) \<subseteq> pkg_name ` set us" using assms(1) ps(1) p(1) unfolding deployment_order_def by blast
    also have "\<dots> = set (map vw_name xs)" unfolding shown_names [OF ps(2)] by simp
    finally show ?thesis using p(2) by (simp add: shows_package_def)
  qed
qed

subsection \<open>The status shown\<close>

lemma inspect_source_view:
  assumes "inspect_orders_ok env" "inspect_source env opts status source w = (Inr v, w')"
  shows "iv_status v = status" "\<exists>b. validate b = [] \<and> iv_name v = md_name (metadata b) \<and> iv_version v = md_version (metadata b) \<and>
     distinct (map vw_name (iv_packages v)) \<and> vw_name ` set (iv_packages v) = pkg_name ` set (packages b) \<and>
     (\<forall>xs x ys. iv_packages v = xs @ x # ys \<longrightarrow> set (vw_depends_on x) \<subseteq> vw_name ` set xs)"
proof -
  obtain r where r: "inspect_artifact env opts source w = (Inr r, w')" "view_of status r = (Inr v :: ('b inspect_failure, inspect_view) result)"
    using assms(2) by (auto simp: inspect_source_def op_bind_Inr op_wrap_Inr)
  note v = view_of_result [OF r(2)] and o = inspect_artifact_order [OF assms(1) r(1)]
  show "iv_status v = status" by (rule v(1))
  show "\<exists>b. validate b = [] \<and> iv_name v = md_name (metadata b) \<and> iv_version v = md_version (metadata b) \<and>
     distinct (map vw_name (iv_packages v)) \<and> vw_name ` set (iv_packages v) = pkg_name ` set (packages b) \<and>
     (\<forall>xs x ys. iv_packages v = xs @ x # ys \<longrightarrow> set (vw_depends_on x) \<subseteq> vw_name ` set xs)"
    using o v(2,3) views_in_order [OF conjunct2 [OF o] v(4)] by (intro exI [of _ "in_bundle r"]) blast
qed

lemma inspect_cases:
  assumes "inspect env cfg io w = (Inr v, w')"
  obtains (skipped) opts w1 w2 where "io_skip io" "inspect_source env opts StatusSkipped (io_source io) w1 = (Inr v, w2)"
  | (not_checked) opts w1 w2 where "\<not> io_skip io" "\<not> trust_configured (inspect_policy (io_verification io) cfg)"
      "inspect_source env opts StatusNotChecked (io_source io) w1 = (Inr v, w2)"
  | (verified) opts staged w1 w2 w3 where "\<not> io_skip io" "trust_configured (inspect_policy (io_verification io) cfg)"
      "verify_bundle 2 (ne_facade env) cfg (inspect_policy (io_verification io) cfg) (tmp_dir opts) staged w1 = (Inr (), w2)"
      "inspect_source env opts StatusVerified staged w2 = (Inr v, w3)"
proof -
  obtain opts w0 where run: "(let p = inspect_policy (io_verification io) cfg in
     if io_skip io then
       op_bind (check_skipped_signature_evidence env opts (io_source io)) (\<lambda>_. inspect_source env opts StatusSkipped (io_source io))
     else if trust_configured p then
       with_workspace (fa_fs (ne_facade env)) (tmp_dir opts) ''uds-bundle-inspect-verified-*'' (InspectStep ''creating verification workspace'') (\<lambda>workspace.
         op_bind (stage_verified env cfg opts p (io_source io) workspace) (\<lambda>staged. inspect_source env opts StatusVerified staged))
     else inspect_source env opts StatusNotChecked (io_source io)) w0 = (Inr v, w')"
    using assms by (auto simp: inspect_def op_bind_Inr)
  consider "io_skip io" | "\<not> io_skip io" "trust_configured (inspect_policy (io_verification io) cfg)"
    | "\<not> io_skip io" "\<not> trust_configured (inspect_policy (io_verification io) cfg)" by blast
  then show thesis
  proof cases
    case 1
    then show thesis using run skipped by (auto simp: Let_def op_bind_Inr)
  next
    case 2
    then obtain workspace staged w1 w2 w3 where s: "stage_verified env cfg opts (inspect_policy (io_verification io) cfg) (io_source io) workspace w1 = (Inr staged, w2)"
        "inspect_source env opts StatusVerified staged w2 = (Inr v, w3)"
      using run by (auto simp: Let_def with_workspace_def op_bind_Inr op_wrap_Inr op_defer_eq)
    then obtain w4 where "verify_bundle 2 (ne_facade env) cfg (inspect_policy (io_verification io) cfg) (tmp_dir opts) staged w4 = (Inr (), w2)"
      by (auto simp: stage_verified_def Let_def op_bind_Inr op_wrap_Inr simp del: verify_bundle.simps)
    then show thesis using 2 s(2) verified by blast
  next
    case 3
    then show thesis using run not_checked by (auto simp: Let_def)
  qed
qed

text \<open>C34. A bundle is shown as verified exactly when verification was asked for by a policy and not skipped, and then
  what is shown is an archive that \<open>Verify\<close> accepted under that policy, read in the very state the
  verification left behind. Whatever the status, the packages shown are those of a valid bundle, each once
  and after all packages it depends on.\<close>

theorem inspect_shows_what_it_verified:
  assumes "inspect_orders_ok env" "written_reads (fa_fs (ne_facade env))" "inspect env cfg io w = (Inr v, w')"
  shows "((iv_status v = StatusVerified) = (\<not> io_skip io \<and> trust_configured (inspect_policy (io_verification io) cfg))) \<and>
     (iv_status v = StatusVerified \<longrightarrow> (\<exists>opts staged w1 w2 w3.
        source_accepted (ne_facade env) cfg (inspect_policy (io_verification io) cfg) staged \<and>
        verify_bundle 2 (ne_facade env) cfg (inspect_policy (io_verification io) cfg) (tmp_dir opts) staged w1 = (Inr (), w2) \<and>
        inspect_source env opts StatusVerified staged w2 = (Inr v, w3))) \<and>
     (\<exists>b. validate b = [] \<and> iv_name v = md_name (metadata b) \<and> iv_version v = md_version (metadata b) \<and>
        distinct (map vw_name (iv_packages v)) \<and> vw_name ` set (iv_packages v) = pkg_name ` set (packages b) \<and>
        (\<forall>xs x ys. iv_packages v = xs @ x # ys \<longrightarrow> set (vw_depends_on x) \<subseteq> vw_name ` set xs))"
  using assms(3)
proof (cases rule: inspect_cases)
  case (skipped opts w1 w2)
  then show ?thesis using inspect_source_view [OF assms(1) skipped(2)] by simp
next
  case (not_checked opts w1 w2)
  then show ?thesis using inspect_source_view [OF assms(1) not_checked(3)] by simp
next
  case (verified opts staged w1 w2 w3)
  have acc: "source_accepted (ne_facade env) cfg (inspect_policy (io_verification io) cfg) staged"
    using verify_bundle_accepts [OF assms(2) verified(3)] by (rule conjunct2)
  note v = inspect_source_view [OF assms(1) verified(4)]
  have "\<exists>opts staged w1 w2 w3. source_accepted (ne_facade env) cfg (inspect_policy (io_verification io) cfg) staged \<and>
        verify_bundle 2 (ne_facade env) cfg (inspect_policy (io_verification io) cfg) (tmp_dir opts) staged w1 = (Inr (), w2) \<and>
        inspect_source env opts StatusVerified staged w2 = (Inr v, w3)"
    using acc verified(3,4) by (intro exI conjI)
  then show ?thesis using verified(1,2) v by (simp del: verify_bundle.simps)
qed

subsection \<open>An inspection\<close>

definition inspected_bundle :: uds_bundle where
  "inspected_bundle = mk_bundle [sample_package ''a'' []]"

definition inspected_definition :: descriptor where
  "inspected_definition = no_descriptor\<lparr>d_media_type := media_type_image_manifest, d_artifact_type := media_type_bundle_definition, d_digest := ''def''\<rparr>"

definition inspected_package :: descriptor where
  "inspected_package = no_descriptor\<lparr>d_media_type := media_type_image_manifest, d_digest := ''pkg'', d_annotations := [annotation_package_name \<mapsto> ''a'']\<rparr>"

definition inspected_hcl :: descriptor where
  "inspected_hcl = no_descriptor\<lparr>d_media_type := media_type_bundle_hcl, d_digest := ''hcl'', d_annotations := [annotation_title \<mapsto> bundle_file_name]\<rparr>"

definition inspected_manifest :: "descriptor list \<Rightarrow> manifest" where
  "inspected_manifest ls = \<lparr>mf_schema_version = 2, mf_media_type = media_type_image_manifest, mf_artifact_type = [], mf_config = no_descriptor,
     mf_layers = ls, mf_annotations = Map.empty\<rparr>"

definition inspected_index :: oci_index where
  "inspected_index = \<lparr>ix_schema_version = 2, ix_media_type = media_type_image_index, ix_artifact_type = media_type_bundle,
     ix_manifests = [inspected_definition, inspected_package], ix_annotations = [annotation_bundle_architecture \<mapsto> ''amd64'']\<rparr>"

definition inspected_codec :: codec where
  "inspected_codec = sample_codec\<lparr>cd_index := \<lambda>b. if b = ''idx'' then Some inspected_index else None,
     cd_manifest := \<lambda>b. if b = ''def'' then Some (inspected_manifest [inspected_hcl]) else if b = ''pkg'' then Some (inspected_manifest []) else None\<rparr>"

definition inspected_facade :: "(string \<rightharpoonup> string, string, int, unit) facade_env" where
  "inspected_facade = sample_facade\<lparr>fa_transfer := files_transfer\<lparr>te_codec := inspected_codec, te_store := \<lambda>d. no_registry\<lparr>rg_fetch := \<lambda>d. op_return (d_digest d)\<rparr>\<rparr>,
     fa_extract := \<lambda>src dir w. (Inr (), w(path_join [dir, ''oci'', ''index.json''] \<mapsto> ''idx'')), fa_parse := \<lambda>a s. Inr inspected_bundle\<rparr>"

definition sample_inspect :: "(string \<rightharpoonup> string, string, int, unit) inspect_env" where
  "sample_inspect = \<lparr>ne_facade = inspected_facade, ne_signed = \<lambda>y. Inr None, ne_ord = \<lambda>b i. remdups (map pkg_name (packages b)),
     ne_open = \<lambda>p. op_return (), ne_create = \<lambda>p. op_return (), ne_copy = \<lambda>p q. op_return (), ne_close = \<lambda>p. op_return ()\<rparr>"

definition sample_inspect_options :: inspect_options where
  "sample_inspect_options = \<lparr>io_source = ''b.tar.zst'', io_verification = \<lparr>vp_public_key = [], vp_keyless = None\<rparr>, io_skip = True\<rparr>"

definition sample_public_config :: "unit public_config option" where
  "sample_public_config = Some \<lparr>pc_global = None, pc_options = Some sample_options, pc_signature = None, pc_variables = None\<rparr>"

lemma inspected_facade_simps [simp]:
  "te_fs (fa_transfer inspected_facade) = files_fs" "te_codec (fa_transfer inspected_facade) = inspected_codec"
  "te_store (fa_transfer inspected_facade) d = no_registry\<lparr>rg_fetch := \<lambda>d. op_return (d_digest d)\<rparr>"
  "fa_extract inspected_facade src dir w = (Inr (), w(path_join [dir, ''oci'', ''index.json''] \<mapsto> ''idx''))"
  "fa_parse inspected_facade a s = Inr inspected_bundle"
  by (simp_all add: inspected_facade_def files_transfer_def)

lemma sample_inspect_simps [simp]: "ne_facade sample_inspect = inspected_facade" "ne_signed sample_inspect y = Inr None"
  by (simp_all add: sample_inspect_def)

lemma sample_inspect_orders: "inspect_orders_ok sample_inspect"
  by (auto simp: inspect_orders_ok_def sample_inspect_def range_order_def)

lemma sample_inspected: "\<exists>ps. inspected_order sample_inspect inspected_bundle = (Inr ps :: (string inspect_error, package list) result) \<and> set ps = {sample_package ''a'' []}"
proof -
  have valid: "validate inspected_bundle = []"
    by (simp add: inspected_bundle_def mk_bundle_def sample_package_def validate_def validate_header_def supported_api_version_def contains_any_def)
  have "declared_deps inspected_bundle = {}" by (simp add: declared_deps_def inspected_bundle_def mk_bundle_def sample_package_def)
  then obtain ps where ps: "inspected_order sample_inspect inspected_bundle = (Inr ps :: (string inspect_error, package list) result)"
    using inspected_order_total [OF sample_inspect_orders valid] by (auto simp: acyclic_def)
  then show ?thesis
    using inspected_order_deploys [OF sample_inspect_orders ps] by (simp add: deployment_order_def inspected_bundle_def mk_bundle_def)
qed

lemma sample_index_inspected:
  "\<exists>r. inspect_bundle_index sample_inspect (no_registry\<lparr>rg_fetch := \<lambda>d. op_return (d_digest d)\<rparr>) ''idx'' digest w = (Inr r, w) \<and>
     set (in_packages r) = {sample_package ''a'' []} \<and> in_signatures r ''a'' \<noteq> None"
proof -
  obtain ps where ps: "inspected_order sample_inspect inspected_bundle = (Inr ps :: (string inspect_error, package list) result)" "set ps = {sample_package ''a'' []}"
    using sample_inspected by blast
  have c: "cd_index inspected_codec ''idx'' = Some inspected_index" "cd_manifest inspected_codec ''def'' = Some (inspected_manifest [inspected_hcl])"
    "cd_manifest inspected_codec ''pkg'' = Some (inspected_manifest [])" by (simp_all add: inspected_codec_def)
  have "trim_space ''amd64'' = ''amd64''" by code_simp
  then have ix: "check_index inspected_index = (Inr ''amd64'' :: (string inspect_error, string) result)"
    by (simp add: check_index_def inspected_index_def is_bundle_index_def annotation_def)
  have def: "definition_entry inspected_index = (Inr inspected_definition :: (string inspect_error, descriptor) result)"
    by (simp add: definition_entry_def find_bundle_definition_def inspected_index_def inspected_definition_def inspected_package_def
        is_image_manifest_media_type_def enumerate_eq_zip no_descriptor_def media_type_bundle_definition_def)
  have hcl: "definition_hcl (inspected_manifest [inspected_hcl]) = (Inr inspected_hcl :: (string inspect_error, descriptor) result)"
    by (simp add: definition_hcl_def check_manifest_def inspected_manifest_def titled_layer_def inspected_hcl_def annotation_def is_image_manifest_media_type_def)
  have fetch: "fetch_bytes (no_registry\<lparr>rg_fetch := \<lambda>d. op_return (d_digest d)\<rparr>) d w = (Inr (d_digest d), w)" if "d_size d = 0" for d
    using that by (simp add: fetch_bytes_def max_fetch_bytes_size_def)
  have sizes: "d_size inspected_definition = 0" "d_size inspected_hcl = 0" "d_size inspected_package = 0"
    "d_digest inspected_definition = ''def''" "d_digest inspected_package = ''pkg''"
    by (simp_all add: inspected_definition_def inspected_hcl_def inspected_package_def no_descriptor_def)
  have pkg: "find_package_manifest inspected_index (sample_package ''a'' []) = (Inr inspected_package :: (string inspect_error, descriptor) result)"
    by (simp add: find_package_manifest_def inspected_index_def inspected_definition_def inspected_package_def sample_package_def
        annotation_def is_image_manifest_media_type_def no_descriptor_def media_type_bundle_definition_def)
  have sig: "\<exists>s. inspect_package_signature sample_inspect (no_registry\<lparr>rg_fetch := \<lambda>d. op_return (d_digest d)\<rparr>) inspected_index (sample_package ''a'' []) w = (Inr s, w)"
    by (simp add: inspect_package_signature_def pkg fetch sizes c op_bind_def op_wrap_def check_manifest_def inspected_manifest_def
        package_signing_status_def titled_layer_def is_image_manifest_media_type_def)
  then obtain s where sig: "inspect_package_signature sample_inspect (no_registry\<lparr>rg_fetch := \<lambda>d. op_return (d_digest d)\<rparr>) inspected_index (sample_package ''a'' []) w = (Inr s, w)"
    by blast
  have "packages inspected_bundle = [sample_package ''a'' []]" "pkg_name (sample_package ''a'' []) = ''a''"
    by (simp_all add: inspected_bundle_def mk_bundle_def sample_package_def)
  then show ?thesis
    using ps(2) by (simp add: inspect_bundle_index_def c ix def hcl fetch sizes ps(1) sig op_bind_def op_wrap_def)
qed

lemma inspect_shows_what_it_verified_witness:
  "\<exists>v w'. inspect sample_inspect sample_public_config sample_inspect_options Map.empty = (Inr v, w') \<and> iv_status v \<noteq> StatusVerified \<and>
     distinct (map vw_name (iv_packages v)) \<and> vw_name ` set (iv_packages v) = {''a''}"
proof -
  have src: "\<not> is_oci_reference ''b.tar.zst''" "is_tar_zst ''b.tar.zst''" "trim_space ''b.tar.zst'' \<noteq> []" "trim_space [] = []" by code_simp+
  have c: "path_clean bundle_signature_file_name = bundle_signature_file_name" by code_simp
  have count: "count_tar_zst_entries inspected_facade ''b.tar.zst'' bundle_signature_file_name w = (Inr 1, w)" for w
    by (simp add: count_tar_zst_entries_def inspected_facade_def sample_facade_def op_bind_def op_try_def c)
  have valid: "validate_inspect sample_inspect sample_public_config sample_inspect_options = (Inr sample_options :: (string inspect_failure, config_options) result)"
    using src by (simp add: validate_inspect_def sample_inspect_options_def sample_public_config_def Let_def public_validate_config_def
        to_internal_config_def validate_config_def validate_config_structure_def validate_options_def validate_log_level_def
        validate_concurrency_def max_concurrency_def validate_tmp_dir_def sample_options_def inspected_facade_def sample_facade_def files_transfer_def guard_def)
  have skipped: "check_skipped_signature_evidence sample_inspect sample_options ''b.tar.zst'' w = (Inr () :: (string inspect_failure, unit) result, w)" for w
    by (simp add: check_skipped_signature_evidence_def src count op_bind_def op_wrap_def)
  have root: "open_read_only_store (te_layout (fa_transfer inspected_facade)) root w = (Inr root, w)" if "root \<noteq> []" for root w
    using that by (simp add: open_read_only_store_def inspected_facade_def files_transfer_def op_bind_def op_wrap_def)
  have "\<exists>r w'. inspect_local_artifact sample_inspect sample_options ''b.tar.zst'' Map.empty = (Inr r, w') \<and>
      set (in_packages r) = {sample_package ''a'' []} \<and> in_signatures r ''a'' \<noteq> None"
  proof -
    let ?d = "''/t/uds-bundle-inspect-*''"
    have p: "path_join [?d, ''oci'', ''index.json''] = ''/t/uds-bundle-inspect-*/oci/index.json''" "path_join [?d, ''oci''] = ''/t/uds-bundle-inspect-*/oci''"
      "path_join [''/t/uds-bundle-inspect-*/oci'', ''index.json''] = ''/t/uds-bundle-inspect-*/oci/index.json''" by code_simp+
    obtain r where "inspect_bundle_index sample_inspect (no_registry\<lparr>rg_fetch := \<lambda>d. op_return (d_digest d)\<rparr>) ''idx'' (cd_digest inspected_codec ''idx'')
        [''/t/uds-bundle-inspect-*/oci/index.json'' \<mapsto> ''idx''] = (Inr r, [''/t/uds-bundle-inspect-*/oci/index.json'' \<mapsto> ''idx''])"
      "set (in_packages r) = {sample_package ''a'' []}" "in_signatures r ''a'' \<noteq> None"
      using sample_index_inspected by blast
    then show ?thesis
      by (simp add: inspect_local_artifact_def with_workspace_def Let_def p root op_bind_def op_wrap_def op_defer_def)
  qed
  then obtain r w' where r: "inspect_local_artifact sample_inspect sample_options ''b.tar.zst'' Map.empty = (Inr r, w')"
      "set (in_packages r) = {sample_package ''a'' []}" "in_signatures r ''a'' \<noteq> None" by blast
  then have "\<exists>v. view_of StatusSkipped r = (Inr v :: (string inspect_failure, inspect_view) result) \<and> vw_name ` set (iv_packages v) = {''a''}"
  proof -
    obtain s where s: "in_signatures r ''a'' = Some s" using r(3) by blast
    define x where "x = \<lparr>vw_name = ''a'', vw_source = ''src'', vw_namespace = [], vw_depends_on = [], vw_values_files = [], vw_signature = s\<rparr>"
    have "posture_view r p = (Inr x :: (string inspect_failure, package_view) result)" if "p \<in> set (in_packages r)" for p
    proof -
      have "p = sample_package ''a'' []" using that unfolding r(2) by simp
      then show ?thesis using s by (simp add: posture_view_def sample_package_def x_def)
    qed
    then have "emap (posture_view r) (in_packages r) = (Inr (map (\<lambda>p. x) (in_packages r)) :: (string inspect_failure, package_view list) result)"
      by (rule emap_all_Inr)
    then show ?thesis by (simp add: view_of_def Let_def x_def r(2))
  qed
  then obtain v where view: "view_of StatusSkipped r = (Inr v :: (string inspect_failure, inspect_view) result)" and names: "vw_name ` set (iv_packages v) = {''a''}"
    by (elim exE conjE)
  have "inspect_source sample_inspect sample_options StatusSkipped ''b.tar.zst'' Map.empty = (Inr v, w')"
    using r(1) view by (simp add: inspect_source_def inspect_artifact_def src(1))
  moreover have "io_skip sample_inspect_options" "io_source sample_inspect_options = ''b.tar.zst''" by (simp_all add: sample_inspect_options_def)
  ultimately have v: "inspect sample_inspect sample_public_config sample_inspect_options Map.empty = (Inr v, w')"
    by (simp add: inspect_def valid skipped Let_def)
  have wr: "written_reads (fa_fs (ne_facade sample_inspect))" using files_written_reads by simp
  note shown = inspect_shows_what_it_verified [OF sample_inspect_orders wr v]
  have "iv_status v \<noteq> StatusVerified" using conjunct1 [OF shown] \<open>io_skip sample_inspect_options\<close> by simp
  moreover have "distinct (map vw_name (iv_packages v))" using conjunct2 [OF conjunct2 [OF shown]] by (elim exE conjE)
  ultimately show ?thesis using v names by (intro exI conjI)
qed

end
