(* ===== verification/Package_Layout.thy ===== *)
theory Package_Layout
  imports Prelude
begin

text \<open>
  The public view of a Zarf package layout, \<open>pkg/bundle/zarf.go\<close>: a deploy hook receives the names,
  images and image archives of the components and may change them; \<open>apply_public_package_layout\<close> puts
  the changes back into the layout, whose remaining fields the hook never sees. These fields are a type
  variable here, for a component (\<open>'d\<close>) and for a layout (\<open>'r\<close>).
\<close>

record image_archive =
  ia_path :: string
  ia_images :: "string list"

record 'd zarf_component =
  lc_name :: string
  lc_images :: "string list"
  lc_archives :: "image_archive list"
  lc_data :: 'd

record ('d, 'r) package_layout =
  yl_dir :: string
  yl_components :: "'d zarf_component list"
  yl_rest :: 'r

record public_component =
  qc_name :: string
  qc_images :: "string list"
  qc_archives :: "image_archive list"
  qc_private_id :: string

record public_layout =
  ql_directory :: string
  ql_partial :: bool
  ql_components :: "public_component list"
  ql_registry_digest :: string

text \<open>
  \<open>IsPushable\<close>, \<open>Digest\<close> and \<open>SetRegistryDigest\<close> of a layout, and the fields of an empty component.
\<close>

record ('d, 'r) layout_lib =
  yo_pushable :: "'r \<Rightarrow> bool"
  yo_digest :: "'r \<Rightarrow> string"
  yo_set_digest :: "string \<Rightarrow> 'r \<Rightarrow> 'r"
  yo_empty :: 'd

datatype layout_error =
    DuplicateComponent string
  | UnknownIdentity string
  | UnmatchedComponent string
  | IdentityReused string

subsection \<open>The public view\<close>

definition from_component :: "'d zarf_component \<Rightarrow> public_component" where
  "from_component c = \<lparr>qc_name = lc_name c, qc_images = lc_images c,
     qc_archives = map (\<lambda>a. \<lparr>ia_path = ia_path a, ia_images = ia_images a\<rparr>) (lc_archives c), qc_private_id = lc_name c\<rparr>"

definition from_zarf_package_layout :: "('d, 'r) layout_lib \<Rightarrow> ('d, 'r) package_layout \<Rightarrow> public_layout" where
  "from_zarf_package_layout lib y = \<lparr>ql_directory = yl_dir y, ql_partial = False,
     ql_components = map from_component (yl_components y),
     ql_registry_digest = (if \<not> yo_pushable lib (yl_rest y) \<and> yo_digest lib (yl_rest y) \<noteq> [] then yo_digest lib (yl_rest y) else [])\<rparr>"

text \<open>\<open>SetDeployedDigest\<close>, a method a hook may call.\<close>

definition set_deployed_digest :: "string \<Rightarrow> public_layout \<Rightarrow> public_layout" where
  "set_deployed_digest d q = q\<lparr>ql_registry_digest := d\<rparr>"

subsection \<open>Putting it back\<close>

text \<open>The map of the original components; of two with one name the later one stays.\<close>

definition originals :: "'d zarf_component list \<Rightarrow> string \<rightharpoonup> 'd zarf_component" where
  "originals cs = map_of (rev (map (\<lambda>c. (lc_name c, c)) cs))"

definition identity_of :: "public_component \<Rightarrow> string" where
  "identity_of q = (if qc_private_id q = [] then qc_name q else qc_private_id q)"

definition empty_component :: "('d, 'r) layout_lib \<Rightarrow> 'd zarf_component" where
  "empty_component lib = \<lparr>lc_name = [], lc_images = [], lc_archives = [], lc_data = yo_empty lib\<rparr>"

text \<open>The component with the hidden fields; \<open>staged\<close> says that the layout has components.\<close>

definition private_of :: "('d, 'r) layout_lib \<Rightarrow> (string \<rightharpoonup> 'd zarf_component) \<Rightarrow> bool \<Rightarrow> public_component \<Rightarrow>
    (layout_error, 'd zarf_component) result" where
  "private_of lib orig staged q = (case orig (identity_of q) of
       Some c \<Rightarrow> Inr c
     | None \<Rightarrow>
         if \<not> staged then Inr (empty_component lib)
         else if qc_private_id q \<noteq> [] then Inl (UnknownIdentity (qc_name q)) else Inl (UnmatchedComponent (qc_name q)))"

definition overwrite_component :: "'d zarf_component \<Rightarrow> public_component \<Rightarrow> 'd zarf_component" where
  "overwrite_component c q = c\<lparr>lc_name := qc_name q, lc_images := qc_images q,
     lc_archives := map (\<lambda>a. \<lparr>ia_path = ia_path a, ia_images = ia_images a\<rparr>) (qc_archives q)\<rparr>"

fun reconcile :: "('d, 'r) layout_lib \<Rightarrow> (string \<rightharpoonup> 'd zarf_component) \<Rightarrow> bool \<Rightarrow> string set \<Rightarrow> string set \<Rightarrow> public_component list \<Rightarrow>
    (layout_error, 'd zarf_component list) result" where
  "reconcile lib orig staged names used [] = Inr []"
| "reconcile lib orig staged names used (q # qs) =
     (if qc_name q \<in> names then Inl (DuplicateComponent (qc_name q))
      else ebind (private_of lib orig staged q) (\<lambda>c.
        if identity_of q \<in> used \<and> staged then Inl (IdentityReused (identity_of q))
        else ebind (reconcile lib orig staged (insert (qc_name q) names) (insert (identity_of q) used) qs) (\<lambda>cs.
          Inr (overwrite_component c q # cs))))"

definition apply_public_package_layout :: "('d, 'r) layout_lib \<Rightarrow> ('d, 'r) package_layout \<Rightarrow> public_layout \<Rightarrow>
    (layout_error, ('d, 'r) package_layout) result" where
  "apply_public_package_layout lib y q =
     ebind (reconcile lib (originals (yl_components y)) (yl_components y \<noteq> []) {} {} (ql_components q)) (\<lambda>cs.
     Inr (y\<lparr>yl_components := cs,
       yl_rest := (if ql_registry_digest q \<noteq> [] then yo_set_digest lib (ql_registry_digest q) (yl_rest y) else yl_rest y)\<rparr>))"

subsection \<open>Reconciliation\<close>

lemma copied_archive [simp]: "\<lparr>ia_path = ia_path a, ia_images = ia_images a\<rparr> = a"
  by simp

lemma overwrite_component_simps [simp]:
  "lc_name (overwrite_component c q) = qc_name q" "lc_images (overwrite_component c q) = qc_images q"
  "lc_archives (overwrite_component c q) = qc_archives q" "lc_data (overwrite_component c q) = lc_data c"
  by (simp_all add: overwrite_component_def)

lemma overwrite_from_component [simp]: "overwrite_component c (from_component c) = c"
  by (simp add: overwrite_component_def from_component_def)

lemma identity_from_component [simp]: "identity_of (from_component c) = lc_name c"
  by (simp add: identity_of_def from_component_def)

lemma originals_Some: "originals cs n = Some c \<Longrightarrow> c \<in> set cs \<and> lc_name c = n"
  unfolding originals_def by (drule map_of_SomeD) auto

lemma originals_distinct: "distinct (map lc_name cs) \<Longrightarrow> c \<in> set cs \<Longrightarrow> originals cs (lc_name c) = Some c"
  unfolding originals_def by (rule map_of_is_SomeI) (auto simp: rev_map [symmetric] o_def distinct_map inj_on_def)

text \<open>What a successful reconciliation has checked.\<close>

lemma reconcile_result:
  "reconcile lib orig staged names used qs = Inr cs \<Longrightarrow>
     list_all2 (\<lambda>q c. \<exists>p. private_of lib orig staged q = Inr p \<and> c = overwrite_component p q) qs cs \<and>
     distinct (map qc_name qs) \<and> qc_name ` set qs \<inter> names = {} \<and>
     (staged \<longrightarrow> distinct (map identity_of qs) \<and> identity_of ` set qs \<inter> used = {})"
proof (induction qs arbitrary: names used cs)
  case (Cons q qs)
  then obtain p cs' where *: "qc_name q \<notin> names" "private_of lib orig staged q = Inr p" "\<not> (identity_of q \<in> used \<and> staged)"
      "reconcile lib orig staged (insert (qc_name q) names) (insert (identity_of q) used) qs = Inr cs'"
      "cs = overwrite_component p q # cs'"
    by (auto simp: ebind_eq_Inr split: if_splits)
  show ?case using Cons.IH [OF *(4)] * by (auto simp: image_iff)
qed simp

lemma reconcile_unchanged:
  assumes "distinct (map lc_name all)"
  shows "set cs \<subseteq> set all \<Longrightarrow> distinct (map lc_name cs) \<Longrightarrow> lc_name ` set cs \<inter> names = {} \<Longrightarrow> lc_name ` set cs \<inter> used = {} \<Longrightarrow>
    reconcile lib (originals all) staged names used (map from_component cs) = Inr cs"
proof (induction cs arbitrary: names used)
  case (Cons c cs)
  have "originals all (lc_name c) = Some c" by (rule originals_distinct [OF assms]) (use Cons.prems in simp)
  then have "private_of lib (originals all) staged (from_component c) = Inr c" by (simp add: private_of_def)
  moreover have "qc_name (from_component c) = lc_name c" by (simp add: from_component_def)
  moreover have "reconcile lib (originals all) staged (insert (lc_name c) names) (insert (lc_name c) used) (map from_component cs) = Inr cs"
    by (rule Cons.IH) (use Cons.prems in auto)
  ultimately show ?case using Cons.prems by simp
qed simp

text \<open>C37. Reading the public view of a package layout and writing it back changes no component: with
  distinct component names every component keeps its images, archives and the fields that the view does
  not expose, and the layout differs at most by setting the digest that it already reports.\<close>

theorem public_layout_roundtrip:
  assumes "distinct (map lc_name (yl_components y))"
  shows "apply_public_package_layout lib y (from_zarf_package_layout lib y) =
     Inr (if \<not> yo_pushable lib (yl_rest y) \<and> yo_digest lib (yl_rest y) \<noteq> []
          then y\<lparr>yl_rest := yo_set_digest lib (yo_digest lib (yl_rest y)) (yl_rest y)\<rparr> else y)"
  using reconcile_unchanged [OF assms, of "yl_components y" "{}" "{}" lib "yl_components y \<noteq> []"] assms
  by (simp add: apply_public_package_layout_def from_zarf_package_layout_def)

definition sample_component :: "string \<Rightarrow> nat \<Rightarrow> nat zarf_component" where
  "sample_component n d = \<lparr>lc_name = n, lc_images = [n], lc_archives = [\<lparr>ia_path = n, ia_images = []\<rparr>], lc_data = d\<rparr>"

definition sample_layout_lib :: "(nat, string) layout_lib" where
  "sample_layout_lib = \<lparr>yo_pushable = (\<lambda>_. False), yo_digest = (\<lambda>d. d), yo_set_digest = (\<lambda>d _. d), yo_empty = 0\<rparr>"

definition sample_package_layout :: "(nat, string) package_layout" where
  "sample_package_layout = \<lparr>yl_dir = ''d'', yl_components = [sample_component ''a'' 1, sample_component ''b'' 2], yl_rest = ''x''\<rparr>"

lemma sample_names: "distinct (map lc_name (yl_components sample_package_layout))"
  by (simp add: sample_package_layout_def sample_component_def)

theorem public_layout_roundtrip_witness:
  "apply_public_package_layout sample_layout_lib sample_package_layout (from_zarf_package_layout sample_layout_lib sample_package_layout) =
     Inr sample_package_layout"
  using public_layout_roundtrip [OF sample_names, of sample_layout_lib]
  by (simp add: sample_layout_lib_def sample_package_layout_def)

text \<open>C36. Whatever a hook makes of the public view, a layout that is accepted for a staged package has
  components with distinct names whose hidden fields come from pairwise different original components:
  a component that came from the view keeps the fields of the component it was, under any new name, and
  one that the hook added takes those of the original of its name. Its name, images and archives are the
  hook's. Nothing else of the layout changes but the digest.\<close>

theorem accepted_layout_reconciles:
  assumes "apply_public_package_layout lib y q = Inr y'" "yl_components y \<noteq> []"
  shows "\<exists>ps. set ps \<subseteq> set (yl_components y) \<and> distinct (map lc_name ps) \<and> distinct (map lc_name (yl_components y')) \<and>
      map lc_name ps = map identity_of (ql_components q) \<and>
      yl_components y' = map2 overwrite_component ps (ql_components q) \<and> map lc_data (yl_components y') = map lc_data ps \<and>
      yl_dir y' = yl_dir y"
proof -
  let ?orig = "originals (yl_components y)" and ?qs = "ql_components q"
  obtain cs where cs: "reconcile lib ?orig True {} {} ?qs = Inr cs" and y': "yl_components y' = cs" "yl_dir y' = yl_dir y"
    using assms by (auto simp: apply_public_package_layout_def ebind_eq_Inr split: if_splits)
  have r: "list_all2 (\<lambda>q c. \<exists>p. private_of lib ?orig True q = Inr p \<and> c = overwrite_component p q) ?qs cs"
      "distinct (map qc_name ?qs)" "distinct (map identity_of ?qs)"
    using reconcile_result [OF cs] by auto
  define ps where "ps = map (\<lambda>q. the (?orig (identity_of q))) ?qs"
  have known: "?orig (identity_of q) = Some p" if "private_of lib ?orig True q = Inr p" for q p
    using that by (auto simp: private_of_def split: option.splits if_splits)
  have "list_all2 (\<lambda>q c. (\<exists>p. ?orig (identity_of q) = Some p) \<and> c = overwrite_component (the (?orig (identity_of q))) q) ?qs cs"
    using r(1) by (rule list_all2_mono) (use known in fastforce)
  then have "(\<forall>q\<in>set ?qs. \<exists>p. ?orig (identity_of q) = Some p) \<and>
      cs = map (\<lambda>q. overwrite_component (the (?orig (identity_of q))) q) ?qs"
    by (induction rule: list_all2_induct) auto
  then have some: "\<And>q. q \<in> set ?qs \<Longrightarrow> \<exists>p. ?orig (identity_of q) = Some p"
    and eq: "cs = map (\<lambda>q. overwrite_component (the (?orig (identity_of q))) q) ?qs" by blast+
  have name: "lc_name (the (?orig (identity_of q))) = identity_of q" "the (?orig (identity_of q)) \<in> set (yl_components y)"
    if "q \<in> set ?qs" for q
    using some [OF that] originals_Some by fastforce+
  have names: "map lc_name ps = map identity_of ?qs" by (simp add: ps_def name)
  have "set ps \<subseteq> set (yl_components y)" unfolding ps_def using name(2) by auto
  moreover have "cs = map2 overwrite_component ps ?qs" unfolding eq ps_def by (simp add: zip_map1 zip_same_conv_map)
  moreover have "map lc_data cs = map lc_data ps" by (simp add: eq ps_def)
  moreover have "map lc_name cs = map qc_name ?qs" by (simp add: eq)
  ultimately show ?thesis using names r(2,3) y' by (intro exI [of _ ps]) simp
qed

theorem accepted_layout_reconciles_witness:
  "\<exists>ps. set ps \<subseteq> set (yl_components sample_package_layout) \<and> map lc_name ps = [''a'', ''b'']"
proof -
  let ?q = "from_zarf_package_layout sample_layout_lib sample_package_layout"
  have a: "apply_public_package_layout sample_layout_lib sample_package_layout ?q = Inr sample_package_layout"
    by code_simp
  have "map identity_of (ql_components ?q) = [''a'', ''b'']"
    by (simp add: from_zarf_package_layout_def sample_package_layout_def sample_component_def)
  then show ?thesis using accepted_layout_reconciles [OF a] by (auto simp: sample_package_layout_def)
qed

end
