(* ===== verification/Layout_Staging.thy ===== *)
theory Layout_Staging
  imports Zarf_Source
begin

text \<open>
  Package layouts for a deploy, \<open>internal/zarf/layout.go\<close>: staging the blobs of an extracted artifact
  into a package directory, by hard link where that is safe and by an atomic copy otherwise, and loading
  a package from its declared source. A rooted directory of \<open>os.Root\<close> is named by its path. The
  cancellation of a context and the closing of a file that was read are not modelled.
\<close>

datatype 'e staging_error =
    PackageNotInArtifact string string
  | StagingOpenLayout string "'e store_error"
  | StagingReadManifest string "'e oci_error"
  | StagingParseManifest string
  | OpeningPackageDestination 'e
  | OpeningArtifactWorkspace 'e
  | MissingLayerTitle string string
  | RelatingLayerSource string
  | UnsafeStagingPath layer_path_error
  | RelatingLayerDestination string
  | CreateStagingDirectory string 'e
  | StageLayer string string "'e staging_error"
  | StagingCause 'e
  | TemporaryFileExhausted string
  | StagingLoad string 'e
  | SourceLoad string string "'e source_error"

text \<open>
  \<open>sg_lstat\<close> tells whether an entry is a symbolic link, \<open>sg_random\<close> the eight random bytes in
  hexadecimal, \<open>sg_create\<close> opens a new file exclusively, \<open>sg_exists\<close> is \<open>os.IsExist\<close>, \<open>sg_copy\<close> copies
  a file into the temporary file and \<open>sg_close\<close> closes that. \<open>sg_load\<close> is \<open>layout.LoadFromDir\<close>.
\<close>

record ('w, 'e, 'flt, 'lay) staging_env =
  sg_codec :: codec
  sg_cwd :: string
  sg_layout :: "('w, 'e) layout_fs"
  sg_store :: "string \<Rightarrow> ('w, 'e) registry"
  sg_open_root :: "string \<Rightarrow> ('w, 'e, unit) op"
  sg_mkdir :: "string \<Rightarrow> string \<Rightarrow> ('w, 'e, unit) op"
  sg_lstat :: "string \<Rightarrow> string \<Rightarrow> ('w, 'e, bool) op"
  sg_link :: "string \<Rightarrow> string \<Rightarrow> string \<Rightarrow> ('w, 'e, unit) op"
  sg_open :: "string \<Rightarrow> string \<Rightarrow> ('w, 'e, unit) op"
  sg_random :: "('w, 'e, string) op"
  sg_create :: "string \<Rightarrow> string \<Rightarrow> ('w, 'e, unit) op"
  sg_exists :: "'e \<Rightarrow> bool"
  sg_copy :: "string \<Rightarrow> string \<Rightarrow> string \<Rightarrow> string \<Rightarrow> ('w, 'e, unit) op"
  sg_close :: "string \<Rightarrow> string \<Rightarrow> ('w, 'e, unit) op"
  sg_remove :: "string \<Rightarrow> string \<Rightarrow> ('w, 'e, unit) op"
  sg_rename :: "string \<Rightarrow> string \<Rightarrow> string \<Rightarrow> ('w, 'e, unit) op"
  sg_for_deploy :: "string \<Rightarrow> 'flt"
  sg_load :: "string \<Rightarrow> 'flt layout_options \<Rightarrow> ('w, 'e, 'lay) op"

record artifact_loader =
  al_oci_dir :: string
  al_manifests :: "string \<rightharpoonup> descriptor"

definition package_staging_root :: "artifact_loader \<Rightarrow> string" where
  "package_staging_root l = (if al_oci_dir l = [] then [] else path_dir (path_clean (al_oci_dir l)))"

subsection \<open>One file\<close>

fun symlink_loop :: "('w, 'e, 'flt, 'lay) staging_env \<Rightarrow> string \<Rightarrow> string \<Rightarrow> string list \<Rightarrow> ('w, 'g, bool) op" where
  "symlink_loop env root path [] = op_return False"
| "symlink_loop env root path (c # cs) =
     (if c = ''.'' then symlink_loop env root path cs
      else let p = path_join [path, c] in
        op_bind (op_try (sg_lstat env root p)) (\<lambda>r. case r of
          Inl _ \<Rightarrow> op_return True
        | Inr symlink \<Rightarrow> if symlink then op_return True else symlink_loop env root p cs))"

definition root_path_contains_symlink :: "('w, 'e, 'flt, 'lay) staging_env \<Rightarrow> string \<Rightarrow> string \<Rightarrow> ('w, 'g, bool) op" where
  "root_path_contains_symlink env root name = symlink_loop env root ''.'' (split_on slash (path_clean name))"

text \<open>Ten attempts at a fresh name; an open that fails for another reason ends them.\<close>

fun create_root_temp_file :: "nat \<Rightarrow> ('w, 'e, 'flt, 'lay) staging_env \<Rightarrow> string \<Rightarrow> string \<Rightarrow> ('w, 'e staging_error, string) op" where
  "create_root_temp_file 0 env root dst = op_fail (TemporaryFileExhausted dst)"
| "create_root_temp_file (Suc n) env root dst =
     op_bind (op_wrap StagingCause (sg_random env)) (\<lambda>sfx.
     let tmp = path_join [path_dir dst, ''.uds-copy-'' @ sfx] in
     op_bind (op_try (sg_create env root tmp)) (\<lambda>r. case r of
       Inr _ \<Rightarrow> op_return tmp
     | Inl e \<Rightarrow> if sg_exists env e then create_root_temp_file n env root dst else op_fail (StagingCause e)))"

text \<open>The temporary file is removed when the copy or the close fails, then the error is returned.\<close>

definition discard_copy :: "('w, 'e, 'flt, 'lay) staging_env \<Rightarrow> string \<Rightarrow> string \<Rightarrow> 'e \<Rightarrow> ('w, 'e staging_error, unit) op" where
  "discard_copy env root tmp e = op_bind (op_try (sg_remove env root tmp)) (\<lambda>_. op_fail (StagingCause e))"

definition copy_file_contents_between_roots :: "('w, 'e, 'flt, 'lay) staging_env \<Rightarrow> string \<Rightarrow> string \<Rightarrow> string \<Rightarrow> string \<Rightarrow>
    ('w, 'e staging_error, unit) op" where
  "copy_file_contents_between_roots env src_root src dst_root dst =
     op_bind (op_wrap StagingCause (sg_open env src_root src)) (\<lambda>_.
     op_bind (create_root_temp_file 10 env dst_root dst) (\<lambda>tmp.
     op_bind (op_try (sg_copy env src_root src dst_root tmp)) (\<lambda>copied.
     op_bind (op_try (sg_close env dst_root tmp)) (\<lambda>closed. case copied of
       Inl e \<Rightarrow> discard_copy env dst_root tmp e
     | Inr _ \<Rightarrow> (case closed of
         Inl e \<Rightarrow> discard_copy env dst_root tmp e
       | Inr _ \<Rightarrow> op_wrap StagingCause (sg_rename env dst_root tmp dst))))))"

definition try_link :: "('w, 'e, 'flt, 'lay) staging_env \<Rightarrow> string \<Rightarrow> string \<Rightarrow> string \<Rightarrow> string \<Rightarrow> bool \<Rightarrow> ('w, 'g, bool) op" where
  "try_link env workspace src dst title can_link =
     (if can_link \<and> title \<noteq> ''images/index.json'' then
        op_bind (root_path_contains_symlink env workspace src) (\<lambda>symlink.
        if symlink then op_return False
        else op_bind (op_try (sg_link env workspace src dst)) (\<lambda>r. op_return (\<not> isl r)))
      else op_return False)"

definition stage_artifact_package_layer :: "('w, 'e, 'flt, 'lay) staging_env \<Rightarrow> string \<Rightarrow> string \<Rightarrow> string \<Rightarrow> string \<Rightarrow> string \<Rightarrow> bool \<Rightarrow>
    ('w, 'e staging_error, unit) op" where
  "stage_artifact_package_layer env workspace src dst_root dst title can_link =
     op_bind (try_link env workspace src dst title can_link) (\<lambda>linked.
     if linked then op_return () else copy_file_contents_between_roots env workspace src dst_root dst)"

subsection \<open>A package\<close>

text \<open>
  A layer is staged beneath the workspace when the destination is inside it, so that a link stays
  beneath one root, and beneath the destination otherwise.
\<close>

definition staging_target :: "string \<Rightarrow> string \<Rightarrow> string \<Rightarrow> string \<Rightarrow> string \<times> string \<times> bool" where
  "staging_target workspace dst_dir dst rel = (case path_rel workspace dst of
       Some wd \<Rightarrow> if wd \<noteq> ''..'' \<and> \<not> has_prefix wd (''..'' @ [slash]) then (workspace, wd, True) else (dst_dir, rel, False)
     | None \<Rightarrow> (dst_dir, rel, False))"

definition stage_layer :: "('w, 'e, 'flt, 'lay) staging_env \<Rightarrow> string \<Rightarrow> string \<Rightarrow> string \<Rightarrow> string \<Rightarrow> descriptor \<Rightarrow> ('w, 'e staging_error, unit) op" where
  "stage_layer env name workspace blob_dir dst_dir l =
     (let title = annotation (d_annotations l) annotation_title in
      if title = [] then op_fail (MissingLayerTitle name (d_digest l))
      else case path_rel workspace (path_join [blob_dir, digest_encoded (d_digest l)]) of
        None \<Rightarrow> op_fail (RelatingLayerSource title)
      | Some src \<Rightarrow>
          op_bind (op_lift (map_error UnsafeStagingPath (safe_layer_destination_path (sg_cwd env) dst_dir dst_dir title))) (\<lambda>dst.
          case path_rel dst_dir dst of
            None \<Rightarrow> op_fail (RelatingLayerDestination title)
          | Some rel \<Rightarrow>
              op_bind (op_wrap (CreateStagingDirectory title) (sg_mkdir env dst_dir (path_dir rel))) (\<lambda>_.
              let (root, target, can_link) = staging_target workspace dst_dir dst rel in
              op_wrap (StageLayer title name) (stage_artifact_package_layer env workspace src root target title can_link))))"

text \<open>The layout and whether it is partial, which a staged package always is.\<close>

definition load_artifact_package :: "('w, 'e, 'flt, 'lay) staging_env \<Rightarrow> artifact_loader \<Rightarrow> package \<Rightarrow> string \<Rightarrow>
    ('w, 'e staging_error, 'lay \<times> bool) op" where
  "load_artifact_package env l p dst = (case al_manifests l (pkg_name p) of
       None \<Rightarrow> op_fail (PackageNotInArtifact (pkg_name p) (pkg_source p))
     | Some d \<Rightarrow>
         let oci_dir = path_abs (sg_cwd env) (path_clean (al_oci_dir l));
             blob_dir = path_join [oci_dir, ''blobs'', ''sha256''];
             dst_dir = path_abs (sg_cwd env) (path_clean dst);
             workspace = path_dir oci_dir in
         op_bind (op_wrap (StagingOpenLayout (pkg_name p)) (open_read_only_store (sg_layout env) oci_dir)) (\<lambda>root.
         op_bind (op_wrap (StagingReadManifest (pkg_name p)) (fetch_bytes (sg_store env root) d)) (\<lambda>bytes. case cd_manifest (sg_codec env) bytes of
           None \<Rightarrow> op_fail (StagingParseManifest (pkg_name p))
         | Some m \<Rightarrow>
             op_bind (op_wrap OpeningPackageDestination (sg_open_root env dst_dir)) (\<lambda>_.
             op_bind (op_wrap OpeningArtifactWorkspace (sg_open_root env workspace)) (\<lambda>_.
             op_bind (op_for (stage_layer env (pkg_name p) workspace blob_dir dst_dir) (mf_layers m)) (\<lambda>_.
             op_bind (op_wrap (StagingLoad (pkg_name p)) (sg_load env dst
               (no_layout_options\<lparr>lo_filter := Some (build_component_filter (sg_for_deploy env) (pkg_optional_components p)),
                  lo_is_partial := True, lo_strategy := VerifyNever\<rparr>))) (\<lambda>lay.
             op_return (lay, True))))))))"

text \<open>
  The loader for a declared source; \<open>advise\<close> is \<open>advisoryVerifyPackage\<close>, which only warns. The result
  says whether the layout is partial, as the caller asked.
\<close>

definition load_source_package :: "codec \<Rightarrow> ('w, 'e, 'flt, 'lay, 'rem, 'comp) zarf_lib \<Rightarrow> (string \<Rightarrow> 'flt) \<Rightarrow>
    ('lay \<Rightarrow> package \<Rightarrow> ('w, 'e staging_error, advisory) op) \<Rightarrow> config_options \<Rightarrow> string \<Rightarrow> package \<Rightarrow> string \<Rightarrow> bool \<Rightarrow>
    ('w, 'e staging_error, 'lay \<times> bool) op" where
  "load_source_package cd lib for_deploy advise opts bundle_dir p dst partial =
     (let source = new_package_source cd lib (pkg_source p) opts bundle_dir in
      op_bind (op_wrap (SourceLoad (pkg_name p) (pkg_source p)) (ps_pull source dst
        (no_layout_options\<lparr>lo_filter := Some (build_component_filter for_deploy (pkg_optional_components p)),
           lo_is_partial := partial, lo_strategy := VerifyNever\<rparr>))) (\<lambda>lay.
      op_bind (advise lay p) (\<lambda>_. op_return (lay, partial))))"

end
