(* ===== verification/Layout_Staging_Properties.thy ===== *)
theory Layout_Staging_Properties
  imports Layout_Staging Path_Lemmas Oci_Transfer_Properties
begin

text \<open>
  Where staging a package of an extracted artifact may write. A path is given to an \<open>os.Root\<close> by a root
  and a relative path; the package directory is one root, the artifact's workspace the other.
\<close>

text \<open>The path names something beneath the directory \<open>d\<close>.\<close>

definition lands :: "string \<Rightarrow> string \<Rightarrow> string \<Rightarrow> bool" where
  "lands d root rel \<longleftrightarrow> inside rel \<and> (\<exists>ts. clean_components root @ components rel = clean_components d @ ts)"

definition temporary :: "string \<Rightarrow> bool" where
  "temporary rel \<longleftrightarrow> inside rel \<and> (\<exists>cs s. components rel = cs @ [''.uds-copy-'' @ s])"

subsection \<open>Paths\<close>

lemma inside_path_join:
  assumes "inside e" "file_name a"
  shows "inside (path_join [e, a]) \<and> components (path_join [e, a]) = components e @ [a]"
proof (cases "e = []")
  case True
  have "clean_components a = [a]" using assms(2) by (simp add: clean_components_def components_file_name resolve_id file_name_def)
  moreover have "\<not> is_abs a" using assms(2) by (cases a) (auto simp: file_name_def is_abs_def has_prefix_def)
  ultimately show ?thesis using True assms(2)
    by (auto simp: path_join_def inside_def components_path_clean components_nil file_name_def)
next
  case False
  have "components (e @ slash # a) = components e @ [a]" using assms(2) by (simp add: components_append_slash components_file_name)
  moreover have "\<not> is_abs (e @ slash # a)" using assms(1) False by (cases e) (auto simp: inside_def is_abs_def has_prefix_def)
  moreover have "clean_components (e @ slash # a) = components e @ [a]"
    using calculation assms resolve_id [of "components e @ [a]" False "[]"] by (auto simp: clean_components_def inside_def file_name_def)
  ultimately show ?thesis using False assms
    by (auto simp: path_join_def inside_def components_path_clean file_name_def)
qed

lemma is_abs_path_dir: "is_abs p \<Longrightarrow> is_abs (path_dir p)"
proof -
  assume "is_abs p"
  then obtain p' where p: "p = slash # p'" by (cases p) (auto simp: is_abs_def has_prefix_def)
  have "\<exists>q. dropWhile (\<lambda>c. c \<noteq> slash) (rev p' @ [slash]) = q @ [slash]" by (induction "rev p'") (auto simp: dropWhile_append)
  then obtain q where "dropWhile (\<lambda>c. c \<noteq> slash) (rev p) = q @ [slash]" by (auto simp: p)
  then show ?thesis by (simp add: path_dir_def, simp add: is_abs_def has_prefix_def)
qed

text \<open>A path relative to the workspace that does not start with dot-dot leads to the destination.\<close>

lemma path_rel_down:
  assumes "is_abs ws" "is_abs dst" "path_rel ws dst = Some wd" "wd \<noteq> ''..''" "\<not> has_prefix wd (''..'' @ [slash])"
  shows "inside wd \<and> clean_components ws @ components wd = clean_components dst"
proof -
  obtain bs ts where st: "strip_common (clean_components ws) (clean_components dst) = (bs, ts)" by fastforce
  then obtain cs where cs: "clean_components ws = cs @ bs" "clean_components dst = cs @ ts" using strip_common_prefix by blast
  have wd: "wd = path_string False (map (\<lambda>_. ''..'') bs @ ts)" using assms(3) st by (auto simp: path_rel_def split: if_splits)
  have ts: "plain ts" "''..'' \<notin> set ts"
    using plain_clean_components [of dst] clean_components_abs [OF assms(2)] cs(2) by auto
  have "bs = []" using path_string_escapes [OF ts, of bs] assms(4,5) wd by (simp add: Let_def)
  then show ?thesis using wd ts cs by (simp add: inside_def components_path_string is_abs_path_string)
qed

lemma staging_target_lands:
  assumes "is_abs ws" "is_abs d" "path_clean d = d" "safe_layer_destination_path cwd d d title = Inr dst" "path_rel d dst = Some rel"
    "staging_target ws d dst rel = (root, target, can_link)"
  shows "lands d root target" "root \<in> {d, ws}" "can_link \<Longrightarrow> root = ws"
proof -
  have rel: "inside rel" by (rule layer_destination_inside [OF assms(2-5)])
  obtain ts where ts: "clean_components dst = clean_components d @ ts"
    using assms(4) unfolding safe_layer_destination_path_cases [OF assms(2,3)] by (auto split: if_splits)
  have "is_abs dst"
  proof -
    have "dst = path_join [d, title]" using assms(4) unfolding safe_layer_destination_path_cases [OF assms(2,3)] by (auto split: if_splits)
    then show ?thesis unfolding path_join_abs(1) [OF assms(2,3)]
      by (auto intro!: is_abs_path_string [THEN iffD2] simp: resolve_plain plain_components plain_clean_components)
  qed
  then have "lands d ws wd" if "path_rel ws dst = Some wd" "wd \<noteq> ''..''" "\<not> has_prefix wd (''..'' @ [slash])" for wd
    using path_rel_down [OF assms(1) _ that] ts by (simp add: lands_def)
  moreover have "lands d d rel" using rel by (auto simp: lands_def)
  ultimately show "lands d root target" "root \<in> {d, ws}" "can_link \<Longrightarrow> root = ws"
    using assms(6) by (auto simp: staging_target_def split: option.splits if_splits)
qed

subsection \<open>What staging may do\<close>

text \<open>
  \<open>P\<close> is kept by reading, by making directories in the package directory \<open>d\<close>, by temporary files in either
  root, and by linking or renaming to a path that lands beneath \<open>d\<close>.
\<close>

definition staging_keeps :: "('w \<Rightarrow> bool) \<Rightarrow> ('w, 'e, 'flt, 'lay) staging_env \<Rightarrow> string \<Rightarrow> string \<Rightarrow> bool" where
  "staging_keeps P env d ws \<longleftrightarrow>
     (\<forall>p. op_keeps P (lf_stat (sg_layout env) p)) \<and> (\<forall>r. reads_keep P (sg_store env r)) \<and> (\<forall>p. op_keeps P (sg_open_root env p)) \<and>
     (\<forall>r p. op_keeps P (sg_lstat env r p)) \<and> (\<forall>r p. op_keeps P (sg_open env r p)) \<and> op_keeps P (sg_random env) \<and>
     (\<forall>p o'. op_keeps P (sg_load env p o')) \<and> (\<forall>rel. inside rel \<longrightarrow> op_keeps P (sg_mkdir env d rel)) \<and>
     (\<forall>root rel src. root \<in> {d, ws} \<longrightarrow> temporary rel \<longrightarrow> op_keeps P (sg_create env root rel) \<and> op_keeps P (sg_copy env ws src root rel) \<and>
        op_keeps P (sg_close env root rel) \<and> op_keeps P (sg_remove env root rel)) \<and>
     (\<forall>root rel tmp src. root \<in> {d, ws} \<longrightarrow> lands d root rel \<longrightarrow> op_keeps P (sg_link env root src rel) \<and>
        (temporary tmp \<longrightarrow> op_keeps P (sg_rename env root tmp rel)))"

lemma staging_keepsD:
  assumes "staging_keeps P env d ws"
  shows "op_keeps P (lf_stat (sg_layout env) p)" "reads_keep P (sg_store env r)" "op_keeps P (sg_open_root env p)" "op_keeps P (sg_lstat env r p)"
    "op_keeps P (sg_open env r p)" "op_keeps P (sg_random env)" "op_keeps P (sg_load env p o')" "inside rel \<Longrightarrow> op_keeps P (sg_mkdir env d rel)"
    "root \<in> {d, ws} \<Longrightarrow> temporary rel \<Longrightarrow> op_keeps P (sg_create env root rel)" "root \<in> {d, ws} \<Longrightarrow> temporary rel \<Longrightarrow> op_keeps P (sg_copy env ws src root rel)"
    "root \<in> {d, ws} \<Longrightarrow> temporary rel \<Longrightarrow> op_keeps P (sg_close env root rel)" "root \<in> {d, ws} \<Longrightarrow> temporary rel \<Longrightarrow> op_keeps P (sg_remove env root rel)"
    "root \<in> {d, ws} \<Longrightarrow> lands d root rel \<Longrightarrow> op_keeps P (sg_link env root src rel)"
    "root \<in> {d, ws} \<Longrightarrow> lands d root rel \<Longrightarrow> temporary tmp \<Longrightarrow> op_keeps P (sg_rename env root tmp rel)"
  using assms unfolding staging_keeps_def by (simp_all del: insert_iff)

definition random_names :: "('w, 'e, 'flt, 'lay) staging_env \<Rightarrow> bool" where
  "random_names env \<longleftrightarrow> (\<forall>w s w'. sg_random env w = (Inr s, w') \<longrightarrow> slash \<notin> set s)"

lemma temporary_in_dir:
  assumes "inside dst" "slash \<notin> set s"
  shows "temporary (path_join [path_dir dst, ''.uds-copy-'' @ s])"
proof -
  have "file_name (''.uds-copy-'' @ s)" using assms(2) by (simp add: file_name_def)
  then show ?thesis using inside_path_join [OF inside_path_dir [OF assms(1)]] by (auto simp: temporary_def)
qed

lemma created_temporary:
  assumes "random_names env" "inside dst"
  shows "create_root_temp_file n env root dst w = (Inr tmp, w') \<Longrightarrow> temporary tmp"
proof (induction n arbitrary: w)
  case (Suc n)
  then obtain s w1 w2 r where s: "sg_random env w = (Inr s, w1)" and r: "sg_create env root (path_join [path_dir dst, ''.uds-copy-'' @ s]) w1 = (r, w2)"
      and rest: "(case r of Inr _ \<Rightarrow> op_return (path_join [path_dir dst, ''.uds-copy-'' @ s])
        | Inl e \<Rightarrow> if sg_exists env e then create_root_temp_file n env root dst else op_fail (StagingCause e)) w2 = (Inr tmp, w')"
    by (auto simp: op_bind_Inr op_wrap_Inr op_try_eq Let_def simp del: append_Cons)
  have "slash \<notin> set s" using assms(1) s by (auto simp: random_names_def)
  from temporary_in_dir [OF assms(2) this] show ?case
    using Suc.IH rest by (auto simp del: append_Cons split: sum.splits if_splits)
qed simp

lemma keeps_create_temp:
  assumes "staging_keeps P env d ws" "random_names env" "inside dst" "root \<in> {d, ws}"
  shows "op_keeps P (create_root_temp_file n env root dst)"
proof (induction n)
  case (Suc n)
  have "op_keeps P (sg_create env root (path_join [path_dir dst, ''.uds-copy-'' @ s]))" if "op_wrap StagingCause (sg_random env) w = (Inr s, w')" for s w w'
    using that assms(2) by (intro staging_keepsD(9) [OF assms(1,4)] temporary_in_dir [OF assms(3)]) (auto simp: random_names_def op_wrap_Inr)
  then have "op_keeps P (let tmp = path_join [path_dir dst, ''.uds-copy-'' @ s] in op_bind (op_try (sg_create env root tmp)) (\<lambda>r. case r of
       Inr _ \<Rightarrow> op_return tmp
     | Inl e \<Rightarrow> if sg_exists env e then create_root_temp_file n env root dst else op_fail (StagingCause e)))"
    if "op_wrap StagingCause (sg_random env) w = (Inr s, w')" for s w w'
    using that Suc.IH by (auto simp: Let_def simp del: append_Cons intro!: inv_intros split: sum.splits)
  then show ?case unfolding create_root_temp_file.simps
    by (intro op_keeps_bind_result [OF op_keeps_wrap [OF staging_keepsD(6) [OF assms(1)]]])
qed (simp add: op_keeps_def)

lemma keeps_copy_file:
  assumes k: "staging_keeps P env d ws" and r: "random_names env" "root \<in> {d, ws}" "lands d root dst"
  shows "op_keeps P (copy_file_contents_between_roots env ws src root dst)"
proof -
  have dst: "inside dst" using r(3) by (simp add: lands_def)
  have rest: "op_keeps P (op_bind (op_try (sg_copy env ws src root tmp)) (\<lambda>copied.
     op_bind (op_try (sg_close env root tmp)) (\<lambda>closed. case copied of
       Inl e \<Rightarrow> discard_copy env root tmp e
     | Inr _ \<Rightarrow> (case closed of
         Inl e \<Rightarrow> discard_copy env root tmp e
       | Inr _ \<Rightarrow> op_wrap StagingCause (sg_rename env root tmp dst)))))" if "temporary tmp" for tmp
    using staging_keepsD(10-12) [OF k r(2) that] staging_keepsD(14) [OF k r(2,3) that]
    by (auto simp: discard_copy_def intro!: inv_intros split: sum.splits)
  show ?thesis
    unfolding copy_file_contents_between_roots_def
    by (intro op_keeps_bind op_keeps_wrap staging_keepsD(5) [OF k] op_keeps_bind_result [OF keeps_create_temp [OF k r(1) dst r(2)]] rest)
      (erule created_temporary [OF r(1) dst])
qed

lemma keeps_symlink_loop: "(\<And>p. op_keeps P (sg_lstat env root p)) \<Longrightarrow> op_keeps P (symlink_loop env root path cs)"
  by (induction cs arbitrary: path) (auto simp: Let_def intro!: inv_intros split: sum.splits)

lemma keeps_stage_file:
  assumes k: "staging_keeps P env d ws" and r: "random_names env" "root \<in> {d, ws}" "lands d root dst" and link: "can_link \<Longrightarrow> root = ws"
  shows "op_keeps P (stage_artifact_package_layer env ws src root dst title can_link)"
proof -
  have "op_keeps P (try_link env ws src dst title can_link)"
    using staging_keepsD(4,13) [OF k] r(3) link unfolding try_link_def root_path_contains_symlink_def
    by (auto intro!: inv_intros keeps_symlink_loop)
  then show ?thesis unfolding stage_artifact_package_layer_def by (auto intro!: inv_intros keeps_copy_file [OF k r])
qed

lemma keeps_stage_layer:
  assumes k: "staging_keeps P env d ws" and r: "random_names env" and d: "is_abs d" "path_clean d = d" and ws: "is_abs ws"
  shows "op_keeps P (stage_layer env name ws blob_dir d l)"
proof -
  let ?title = "annotation (d_annotations l) annotation_title"
  have "op_keeps P (case path_rel d dst of
            None \<Rightarrow> op_fail (RelatingLayerDestination ?title)
          | Some rel \<Rightarrow>
              op_bind (op_wrap (CreateStagingDirectory ?title) (sg_mkdir env d (path_dir rel))) (\<lambda>_.
              let (root, target, can_link) = staging_target ws d dst rel in
              op_wrap (StageLayer ?title name) (stage_artifact_package_layer env ws src root target ?title can_link)))"
    if dst: "safe_layer_destination_path (sg_cwd env) d d ?title = Inr dst" for src dst
  proof (cases "path_rel d dst")
    case (Some rel)
    obtain root target can_link where t: "staging_target ws d dst rel = (root, target, can_link)" using prod_cases3 by blast
    note l = staging_target_lands [OF ws d dst Some t]
    show ?thesis using Some t inside_path_dir [OF layer_destination_inside [OF d dst Some]]
      by (auto intro!: inv_intros staging_keepsD(8) [OF k] keeps_stage_file [OF k r l(2,1,3)])
  qed (simp add: inv_intros)
  then show ?thesis unfolding stage_layer_def Let_def
    by (auto intro!: inv_intros op_keeps_bind_result split: option.splits)
qed

text \<open>C35. Staging a package of an extracted artifact writes only into the package's directory: whatever titles the
  layers of its manifest have, directories are made inside that directory, files are linked or renamed to
  paths that land beneath it, and the copies on the way are temporary files with paths that cannot leave their root. So
  whatever such writes keep is kept, also when staging fails half-way.\<close>

theorem staging_contained:
  assumes "is_abs (sg_cwd env)" "random_names env"
    "staging_keeps P env (path_abs (sg_cwd env) (path_clean dst)) (path_dir (path_abs (sg_cwd env) (path_clean (al_oci_dir loader))))"
  shows "op_keeps P (load_artifact_package env loader p dst)"
proof -
  note d = path_abs_clean [OF assms(1)]
  note k = staging_keepsD [OF assms(3)]
  have "op_keeps P (stage_layer env name (path_dir (path_abs (sg_cwd env) (path_clean (al_oci_dir loader)))) blob_dir (path_abs (sg_cwd env) (path_clean dst)) l)" for name blob_dir l
    by (rule keeps_stage_layer [OF assms(3,2) d is_abs_path_dir [OF d(1)]])
  then show ?thesis
    using k(1,2,3,7) unfolding load_artifact_package_def Let_def open_read_only_store_def
    by (auto intro!: inv_intros keeps_fetch_bytes split: option.splits)
qed

text \<open>The world lists what has been linked or renamed to; the manifest has a layer that tries to leave the package.\<close>

definition sample_staging :: "((string \<times> string) list, string, unit, unit) staging_env" where
  "sample_staging = \<lparr>sg_codec = sample_codec\<lparr>cd_manifest := \<lambda>b. Some \<lparr>mf_schema_version = 2, mf_media_type = [], mf_artifact_type = [],
       mf_config = no_descriptor, mf_layers = map (\<lambda>t. no_descriptor\<lparr>d_digest := ''sha256:ab'', d_annotations := [annotation_title \<mapsto> t]\<rparr>)
         [''zarf.yaml'', ''images/index.json'', ''../x''], mf_annotations = Map.empty\<rparr>\<rparr>, sg_cwd = ''/w'',
     sg_layout = \<lparr>lf_stat = \<lambda>p. op_return (), lf_mkdir = \<lambda>p. op_return (), lf_new = \<lambda>p. op_return ()\<rparr>,
     sg_store = \<lambda>r. \<lparr>rg_resolve = \<lambda>r. op_fail ''none'', rg_fetch = \<lambda>d. op_return ''m'', rg_push = \<lambda>d b. op_return (), rg_exists = \<lambda>d. op_return False,
       rg_tag = \<lambda>d r. op_return (), rg_push_reference = None, rg_delete = None, rg_referrers = None, rg_not_found = \<lambda>e. True, rg_already_exists = \<lambda>e. True\<rparr>,
     sg_open_root = \<lambda>p. op_return (), sg_mkdir = \<lambda>r p. op_return (), sg_lstat = \<lambda>r p. op_return False,
     sg_link = \<lambda>r s p w. (Inr (), (r, p) # w), sg_open = \<lambda>r p. op_return (), sg_random = op_return ''00ff'', sg_create = \<lambda>r p. op_return (),
     sg_exists = \<lambda>e. False, sg_copy = \<lambda>a b c d. op_return (), sg_close = \<lambda>r p. op_return (), sg_remove = \<lambda>r p. op_return (),
     sg_rename = \<lambda>r s p w. (Inr (), (r, p) # w), sg_for_deploy = \<lambda>s. (), sg_load = \<lambda>p o'. op_return ()\<rparr>"

lemma staging_contained_witness:
  "op_keeps (\<lambda>w. \<forall>(r, p) \<in> set w. lands ''/w/t/app'' r p)
     (load_artifact_package sample_staging \<lparr>al_oci_dir = ''/w/t/oci'', al_manifests = [''app'' \<mapsto> no_descriptor]\<rparr> (sample_package ''app'' []) ''t/app'')"
proof (rule staging_contained)
  show "is_abs (sg_cwd sample_staging)" by (simp add: sample_staging_def is_abs_def has_prefix_def)
  show "random_names sample_staging" by (auto simp: random_names_def sample_staging_def)
  have d: "path_abs ''/w'' (path_clean ''t/app'') = ''/w/t/app''" by code_simp
  have "sg_cwd sample_staging = ''/w''" by (simp add: sample_staging_def)
  then show "staging_keeps (\<lambda>w. \<forall>(r, p) \<in> set w. lands ''/w/t/app'' r p) sample_staging (path_abs (sg_cwd sample_staging) (path_clean ''t/app''))
     (path_dir (path_abs (sg_cwd sample_staging) (path_clean (al_oci_dir \<lparr>al_oci_dir = ''/w/t/oci'', al_manifests = [''app'' \<mapsto> no_descriptor]\<rparr>))))"
    by (auto simp: d staging_keeps_def op_keeps_def reads_keep_def) (auto simp: sample_staging_def)
qed

end
