(* ===== verification/Deploy_Source.thy ===== *)
theory Deploy_Source
  imports Layout_Staging Artifact_Extract Deploy Remove Bundle_Parser
begin

text \<open>
  The public deploy and remove operations, \<open>pkg/bundle/deploy.go\<close> and \<open>pkg/bundle/remove.go\<close>: preparing a
  source from a directory or from an archive, the values files of an extracted artifact, the defaults,
  the safety check of a selection, and the hand-over to the deployer and the remover. Logging is not
  modelled.
\<close>

subsection \<open>Sources\<close>

text \<open>\<open>sr_workspace\<close> is the directory that \<open>Close\<close> removes.\<close>

record deploy_source =
  sr_bundle_path :: string
  sr_defaults_path :: string
  sr_bundle :: "uds_bundle option"
  sr_loader :: "artifact_loader option"
  sr_workspace :: "string option"

datatype ('e, 'd) source_failure =
    EmptySourcePath
  | DiscoverDefaults
  | DeployWorkspace 'e
  | ExtractSource "'e artifact_error"
  | CollectValues "'e artifact_error"
  | ReadDefinition 'e
  | ParseDefinition "'d bundle_error"
  | RelateValues string

text \<open>\<open>sp_stat\<close> is \<open>os.Stat\<close> in a world.\<close>

record ('w, 'e, 'r, 'd) source_env =
  sp_extract :: "('w, 'e, 'r) extract_env"
  sp_stat :: "'w \<Rightarrow> string \<Rightarrow> stat_result"
  sp_parse :: "string \<Rightarrow> string \<Rightarrow> ('d bundle_error, uds_bundle) result"

abbreviation sp_fs :: "('w, 'e, 'r, 'd) source_env \<Rightarrow> ('w, 'e) host_fs" where
  "sp_fs env \<equiv> xe_fs (sp_extract env)"

fun relate_paths :: "string \<Rightarrow> string list \<Rightarrow> (('e, 'd) source_failure, string list) result" where
  "relate_paths dir [] = Inr []"
| "relate_paths dir (p # ps) = (case path_rel dir p of
       None \<Rightarrow> Inl (RelateValues p)
     | Some r \<Rightarrow> ebind (relate_paths dir ps) (\<lambda>rs. Inr (r # rs)))"

definition artifact_values_of :: "(string \<rightharpoonup> string list) \<Rightarrow> string \<Rightarrow> package \<Rightarrow> (('e, 'd) source_failure, package) result" where
  "artifact_values_of values dir p = (case values (pkg_name p) of
       None \<Rightarrow> Inr (p\<lparr>pkg_values_files := []\<rparr>)
     | Some paths \<Rightarrow> ebind (relate_paths dir paths) (\<lambda>rs. Inr (p\<lparr>pkg_values_files := rs\<rparr>)))"

definition apply_artifact_values_files :: "uds_bundle \<Rightarrow> (string \<rightharpoonup> string list) \<Rightarrow> string \<Rightarrow> (('e, 'd) source_failure, uds_bundle) result" where
  "apply_artifact_values_files b values dir =
     ebind (emap (artifact_values_of values dir) (packages b)) (\<lambda>ps. Inr (b\<lparr>packages := ps\<rparr>))"

definition source_of_path :: "(string \<Rightarrow> stat_result) \<Rightarrow> string \<Rightarrow> (('e, 'd) source_failure, deploy_source) result" where
  "source_of_path stat path =
     (let bundle_path = resolve_bundle_path stat path in case adjacent_defaults_path stat (path_dir bundle_path) of
        None \<Rightarrow> Inl DiscoverDefaults
      | Some d \<Rightarrow> Inr \<lparr>sr_bundle_path = bundle_path, sr_defaults_path = d, sr_bundle = None, sr_loader = None, sr_workspace = None\<rparr>)"

text \<open>What is done inside the workspace; every failure removes it.\<close>

definition source_of_archive :: "('w, 'e, 'r, 'd) source_env \<Rightarrow> string \<Rightarrow> string \<Rightarrow> string \<Rightarrow> ('w, ('e, 'd) source_failure, deploy_source) op" where
  "source_of_archive env path arch workspace =
     op_bind (op_wrap ExtractSource (extract_artifact (sp_extract env) path workspace)) (\<lambda>x.
     op_bind (op_wrap CollectValues (values_files_by_package (sp_extract env) x)) (\<lambda>values.
     op_bind (op_wrap ReadDefinition (hf_read (sp_fs env) (xb_definition_path x))) (\<lambda>bytes.
     op_bind (op_lift (map_error ParseDefinition (sp_parse env arch bytes))) (\<lambda>b.
     op_bind (op_lift (apply_artifact_values_files b values (xb_dir x))) (\<lambda>b'.
     (\<lambda>w. case adjacent_defaults_path (sp_stat env w) (path_dir (xb_definition_path x)) of
        None \<Rightarrow> (Inl DiscoverDefaults, w)
      | Some d \<Rightarrow> (Inr \<lparr>sr_bundle_path = xb_definition_path x, sr_defaults_path = d, sr_bundle = Some b',
          sr_loader = Some \<lparr>al_oci_dir = xb_oci_dir x, al_manifests = xb_manifests x\<rparr>, sr_workspace = Some workspace\<rparr>, w)))))))"

definition prepare_deploy_source :: "('w, 'e, 'r, 'd) source_env \<Rightarrow> string \<Rightarrow> string \<Rightarrow> string \<Rightarrow>
    ('w, ('e, 'd) source_failure, deploy_source) op" where
  "prepare_deploy_source env path tmp arch =
     (if path = [] then op_fail EmptySourcePath
      else if \<not> is_tar_zst path then (\<lambda>w. (source_of_path (sp_stat env w) path, w))
      else
        op_bind (op_wrap DeployWorkspace (hf_mkdir_temp (sp_fs env) tmp ''uds-bundle-deploy-*'')) (\<lambda>workspace.
        op_bind (op_try (source_of_archive env path arch workspace)) (\<lambda>r. case r of
          Inr s \<Rightarrow> op_return s
        | Inl e \<Rightarrow> (\<lambda>w. (Inl e, snd (hf_remove_all (sp_fs env) workspace w))))))"

definition close_source :: "('w, 'e, 'r, 'd) source_env \<Rightarrow> deploy_source option \<Rightarrow> ('w, 'e, unit) op" where
  "close_source env s = (case Option.bind s sr_workspace of
       None \<Rightarrow> op_return ()
     | Some workspace \<Rightarrow> hf_remove_all (sp_fs env) workspace)"

subsection \<open>Safety of a selection\<close>

datatype ('e, 'd) facade_failure =
    OptionsInvalid config_error
  | NoSource
  | NoBundleInput
  | EmbeddedDefaults "'d parse_error"
  | EmbeddedDefaultsPanic
  | ReadSource string 'd
  | ParseSource "'d bundle_error"
  | SourceInvalid "spec_error list"
  | ValidateDependencies dep_error
  | DependencyViolation "string \<rightharpoonup> string list"
  | GraphEndless
  | DeployFailed "'e bundle_deploy_error"
  | RemoveFailure "'e remove_error"

text \<open>\<open>None\<close> is a construction of the graph that does not end, which does not occur.\<close>

definition validate_safety :: "(dep_error, string \<rightharpoonup> string list) result option \<Rightarrow> (('e, 'd) facade_failure, unit) result" where
  "validate_safety violations = (case violations of
       None \<Rightarrow> Inl GraphEndless
     | Some (Inl e) \<Rightarrow> Inl (ValidateDependencies e)
     | Some (Inr v) \<Rightarrow> if v = Map.empty then Inr () else Inl (DependencyViolation v))"

definition require_source :: "deploy_source option \<Rightarrow> (('e, 'd) facade_failure, deploy_source) result" where
  "require_source source = (case source of
       None \<Rightarrow> Inl NoSource
     | Some s \<Rightarrow> if sr_bundle_path s = [] \<and> sr_bundle s = None then Inl NoBundleInput else Inr s)"

text \<open>The definition of a source with a loader was extracted, and its HCL may not call \<open>file\<close>.\<close>

definition source_bundle :: "('x, 'v, 'd, 'file, 'b) parser_lib \<Rightarrow> string \<Rightarrow> deploy_source \<Rightarrow> (('e, 'd) facade_failure, uds_bundle) result" where
  "source_bundle lib arch s = (case sr_bundle s of
       Some b \<Rightarrow> Inr b
     | None \<Rightarrow>
         if sr_loader s \<noteq> None
         then ebind (map_error (ReadSource (sr_bundle_path s)) (fn_read (pl_files lib) (sr_bundle_path s))) (\<lambda>bytes.
           map_error ParseSource (parse_bundle_bytes lib arch bytes))
         else map_error ParseSource (parse_bundle_file lib arch (sr_bundle_path s)))"

subsection \<open>Deploy\<close>

definition source_config :: "('n \<Rightarrow> 'f) \<Rightarrow> ('d, 'file2, 'expr, 'n) hcl \<Rightarrow> 'f public_config \<Rightarrow> deploy_source \<Rightarrow>
    (('e, 'd) facade_failure, 'f public_config) result" where
  "source_config f64 h cfg s =
     (if sr_defaults_path s = [] then Inr cfg
      else case apply_embedded_defaults f64 h cfg (sr_defaults_path s) (sr_loader s \<noteq> None) of
        None \<Rightarrow> Inl EmbeddedDefaultsPanic
      | Some r \<Rightarrow> map_error EmbeddedDefaults r)"

definition to_zarf_deploy_options :: "'f public_config \<Rightarrow> deploy_source \<Rightarrow> string list \<Rightarrow> 'f bundle_options" where
  "to_zarf_deploy_options cfg s names = \<lparr>bo_config = to_zarf_config (Some cfg), bo_bundle_path = sr_bundle_path s,
     bo_bundle_dir = path_dir (sr_bundle_path s), bo_packages = names\<rparr>"

text \<open>A public bundle hook sees and may change the public form of the options; only the configuration comes back.\<close>

definition zarf_pre_hook :: "('f public_config option \<Rightarrow> string list \<Rightarrow> ('e, 'f public_config option) result) \<Rightarrow>
    'f bundle_options \<Rightarrow> ('e, 'f bundle_options) result" where
  "zarf_pre_hook hook o' = ebind (hook (from_zarf_config (bo_config o')) (bo_packages o')) (\<lambda>cfg. Inr (o'\<lparr>bo_config := to_zarf_config cfg\<rparr>))"

text \<open>
  \<open>ord\<close> gives the visiting orders of the maps of a bundle: 0, 1 and 2 for the safety check, the others for the
  deployer.
\<close>

definition deploy_facade :: "(string \<Rightarrow> string) \<Rightarrow> (string \<Rightarrow> stat_result) \<Rightarrow> ('n \<Rightarrow> 'f) \<Rightarrow> ('d, 'file2, 'expr, 'n) hcl \<Rightarrow>
    ('x, 'v, 'd, 'file, 'b) parser_lib \<Rightarrow> (uds_bundle \<Rightarrow> nat \<Rightarrow> string list) \<Rightarrow> string list \<Rightarrow>
    ('f public_config option \<Rightarrow> string list \<Rightarrow> ('e, 'f public_config option) result) option \<Rightarrow> 'e option option \<Rightarrow>
    (package list list \<Rightarrow> int \<Rightarrow> 'f package_options \<Rightarrow> 'e run_result \<times> string set) \<Rightarrow>
    deploy_source option \<Rightarrow> 'f public_config option \<Rightarrow> string list \<Rightarrow> bool \<Rightarrow>
    (deploy_result option \<times> ('e, 'd) facade_failure option) \<times> bundle_event list" where
  "deploy_facade lower stat f64 h lib ord sel_ord pre post run source cfg names force =
     (case ebind (map_error OptionsInvalid (public_validate_config lower stat cfg)) (\<lambda>_.
           ebind (require_source source) (\<lambda>s.
           ebind (source_config f64 h (the cfg) s) (\<lambda>cfg'.
           ebind (source_bundle lib (architecture (the (pc_options cfg'))) s) (\<lambda>b.
           ebind (guard (validate b = []) (SourceInvalid (validate b))) (\<lambda>_.
           ebind (if force then Inr () else validate_safety (deploy_violations (ord b 0) (ord b 1) (ord b 2) b names)) (\<lambda>_.
           Inr (s, cfg', b))))))) of
        Inl e \<Rightarrow> ((None, Some e), [])
      | Inr (s, cfg', b) \<Rightarrow>
          (case public_validate_config lower stat (Some cfg') of
             Inl e \<Rightarrow> ((None, Some (OptionsInvalid e)), [])
           | Inr _ \<Rightarrow>
             (let ((r, e), evs) = deploy_bundle lower stat (\<lambda>i. ord b (i + 3)) sel_ord (map_option zarf_pre_hook pre) post run (Some b)
                (to_zarf_deploy_options cfg' s names)
              in ((r, map_option DeployFailed e), evs))))"

subsection \<open>Remove\<close>

definition remove_facade :: "(string \<Rightarrow> string) \<Rightarrow> (string \<Rightarrow> stat_result) \<Rightarrow> ('x, 'v, 'd, 'file, 'b) parser_lib \<Rightarrow> (uds_bundle \<Rightarrow> nat \<Rightarrow> string list) \<Rightarrow> string list \<Rightarrow>
    ('e, 'w, 'z) remove_env \<Rightarrow> deploy_source option \<Rightarrow> 'f public_config option \<Rightarrow> string list \<Rightarrow> bool \<Rightarrow> 'w remover \<Rightarrow>
    (('e, 'd) facade_failure, remove_result) result \<times> 'w remover" where
  "remove_facade lower stat lib ord sel_ord env source cfg names force st =
     (case ebind (map_error OptionsInvalid (public_validate_config lower stat cfg)) (\<lambda>_.
           ebind (require_source source) (\<lambda>s.
           ebind (case sr_bundle s of
               Some b \<Rightarrow> Inr b
             | None \<Rightarrow> map_error ParseSource (parse_bundle_file lib (architecture (the (Option.bind cfg pc_options))) (sr_bundle_path s))) (\<lambda>b.
           ebind (guard (validate b = []) (SourceInvalid (validate b))) (\<lambda>_.
           ebind (if force then Inr () else validate_safety (removal_violations (ord b 0) (ord b 1) (ord b 2) b names)) (\<lambda>_.
           Inr b))))) of
        Inl e \<Rightarrow> (Inl e, st)
      | Inr b \<Rightarrow>
          (case remove_bundle lower stat (\<lambda>i. ord b (i + 3)) sel_ord env (to_zarf_config cfg) (Some b) names st of
             (r, st') \<Rightarrow> (map_error RemoveFailure r, st')))"

definition count_removal_results :: "remove_package_result list \<Rightarrow> nat \<times> nat" where
  "count_removal_results rs = (length (filter (\<lambda>r. rp_status r = Removed) rs), length (filter (\<lambda>r. rp_status r = Skipped) rs))"

end
