(* ===== verification/Deploy_Source_Properties.thy ===== *)
theory Deploy_Source_Properties
  imports Deploy_Source Deploy_Properties Remove_Properties
begin

text \<open>
  The public Deploy and Remove from the options to the deployer and the remover: what a call without
  \<open>--force\<close> can have deployed or removed.
\<close>

subsection \<open>Safe selections\<close>







subsection \<open>Deploy\<close>



subsection \<open>Remove\<close>



subsection \<open>A deployment and a removal\<close>










end
