(* ===== verification/Spec2Isabelle.thy ===== *)
theory Spec2Isabelle
  imports Dependency_Properties Orchestrator_Properties Config_Properties Deploy_Properties Remove_Properties Oci_Transfer_Properties Oci_Store_Properties Artifact_Properties Bundle_Parser_Properties
    Reconfigure_Registry Inspect_Properties Package_Layout Layout_Staging_Properties Deploy_Source_Properties
begin

text \<open>
  UDS CLI: a verification development.

  UDS CLI assembles Zarf packages into a bundle, moves bundles between archives and OCI registries, signs
  and verifies them, and deploys them to a Kubernetes cluster and removes them. The theories beside this
  one model the Go code of \<open>internal/\<close> and \<open>pkg/bundle\<close>; each opens with a note on what it holds.

  \<^bold>\<open>The program and its model.\<close>

  A bundle is a file \<open>bundle.uds.hcl\<close>. \<open>Locals\<close> and \<open>Bundle_Parser\<close> (\<open>internal/bundle/bundle.go\<close>,
  \<open>expressions.go\<close>) read it into the data model of \<open>Bundle_Spec\<close> (\<open>pkg/bundle/spec\<close>), whose \<open>validate\<close>
  is \<open>UDSBundle.Validate\<close>. \<open>Variables\<close>, \<open>Config\<close> and \<open>Config_Resolver\<close> model the configuration, its
  layers of defaults, file and flags (\<open>internal/bundle/configuration.go\<close>, \<open>internal/cli/bundle/config_resolver.go\<close>)
  and its three representations.

  \<open>Dependency\<close> (\<open>internal/bundle/dependency.go\<close>) builds the graph of the packages and its levels.
  \<open>Selection\<close> is the plan that deploying and removing share. \<open>Orchestrator\<close>
  (\<open>internal/zarf/deploy_orchestrator.go\<close>) runs the levels with bounded parallelism, as a step relation of
  interleaved goroutines; \<open>Deploy\<close> and \<open>Remove\<close> (\<open>internal/zarf/deploy.go\<close>, \<open>remove.go\<close>) deploy and
  remove one package and one bundle. \<open>Layout_Staging\<close> (\<open>internal/zarf/layout.go\<close>) and \<open>Package_Layout\<close>
  (\<open>pkg/bundle/zarf.go\<close>) produce the layouts that are deployed. \<open>Deploy_Source\<close> (\<open>pkg/bundle/deploy.go\<close>,
  \<open>remove.go\<close>) is the public operation over all of these.

  \<open>Zarf_Signature\<close> and \<open>Zarf_Source\<close> (\<open>internal/zarf/signature.go\<close>, \<open>source.go\<close>, \<open>local.go\<close>,
  \<open>remote.go\<close>, \<open>package.go\<close>) are the signature policy of a package and the sources a package is taken
  from. \<open>Artifact_Create\<close>, \<open>Artifact_Extract\<close> and \<open>Artifact_Archive\<close> (\<open>internal/artifact\<close>) build and
  unpack a bundle. \<open>Oci\<close>, \<open>Oci_Store\<close> and \<open>Oci_Transfer\<close> (\<open>internal/oci\<close>) hold its OCI structures, the
  layout on disk and the transfer to and from a registry. \<open>Bundle_Signing\<close>, \<open>Reconfigure\<close> and \<open>Inspect\<close>
  (\<open>pkg/bundle\<close>, with \<open>internal/artifact/inspect.go\<close>) are the public operations on a built bundle.

  \<^bold>\<open>How code becomes definitions.\<close>

  A Go call with a value and an error is \<open>Inl\<close> the error or \<open>Inr\<close> the value; a call that touches the
  outside world is an \<open>op\<close> of theory \<open>Effects\<close>, a function from the world to a result and a world,
  sequenced in the order of the code, with its deferred calls. File systems, registries, Cosign, Zarf,
  the HCL and YAML libraries, JSON, SHA-256 and the cluster are fields of records that every definition
  takes as an argument, over a type variable for the world; nothing is assumed about them except what a
  theorem names. A Go map is a partial function or a key-sorted list, and a loop over one takes its
  visiting order as an argument. A panic is \<open>None\<close> or an error value of its own.

  \<^bold>\<open>What the lemmas show.\<close>

  \<^item> \<open>Dependency_Cycles\<close>, \<open>Dependency_Levels\<close>, \<open>Dependency_Plan\<close>: construction fails exactly on cycles, the
    levels refine the set-wise \<open>waves\<close>, and the locale \<open>deployment_plan\<close> is what the clients rely on.
  \<^item> \<open>Orchestrator_Inv\<close>, \<open>Orchestrator_Properties\<close>: invariants of the step relation by rule induction, dependencies first,
    bounded parallelism, what each result means, and that every execution ends.
  \<^item> \<open>Deploy_Properties\<close>, \<open>Remove_Properties\<close>, \<open>Deploy_Source_Properties\<close>: what deploying and removing may touch and in which
    order, and that temporary files and directories are removed on every path.
  \<^item> \<open>Variables_Merge\<close>, \<open>Config_Properties\<close>: the merge described key by key, conversions as round trips, precedence
    of the layers, validation.
  \<^item> \<open>Locals_Properties\<close>, \<open>Bundle_Parser_Properties\<close>: locals are ordered and evaluated in scope.
  \<^item> \<open>Oci_Properties\<close>, \<open>Oci_Store_Properties\<close>, \<open>Oci_Transfer_Properties\<close>: canonical indexes, publishing that keeps other
    architectures, traversal and pruning, push and pull.
  \<^item> \<open>Zarf_Signature_Properties\<close>, \<open>Zarf_Source_Properties\<close>, \<open>Artifact_Properties\<close>: enforced policies, the contract of a package source
    as a locale, artifacts as round trips, and writes that stay inside their directory.
  \<^item> \<open>Bundle_Signing_Properties\<close>, \<open>Reconfigure_Properties\<close>, \<open>Reconfigure_Registry\<close>, \<open>Inspect_Properties\<close>,
    \<open>Layout_Staging_Properties\<close>, \<open>Package_Layout\<close>: what acceptance by Verify means, what reconfiguring may change,
    that what is shown as verified was verified, containment of staged layers, and reconciled layouts.
  \<^item> \<open>Prelude\<close>, \<open>Effects\<close>, \<open>Paths\<close>, \<open>Path_Lemmas\<close>: the shared vocabulary. \<open>op_keeps\<close> with the collection
    \<open>inv_intros\<close> carries the arguments of the form "no path of this operation breaks P".

  \<^bold>\<open>Bounds.\<close>

  The depth-first search over packages has the number of packages as fuel, that over locals one more
  than the number of locals; theorems show that neither runs out. \<open>reachable_digests\<close> is a
  \<open>partial_function\<close>, as nothing bounds the graph it walks, and ends on finitely many digests by a
  theorem. \<open>verify_bundle\<close> calls itself once on the archive it pulled, so its callers give it fuel 2.
  \<open>create_root_temp_file\<close> makes the ten attempts of the code.

  \<^bold>\<open>Not modelled.\<close>

  Log output and its streams; cancellation of a context outside the orchestrator; closing a file that was
  only read; the printers and the cobra commands of \<open>internal/cli\<close>, which parse flags and print results;
  the construction of network clients. The code under \<open>pkg/legacy\<close> and \<open>internal/legacy\<close> is the previous generation of the
  tool, kept for old bundles. \<open>Verify\<close> tests for an unsigned bundle twice; the second test cannot succeed, as \<open>Pull\<close>
  has made it already, and is left out.
\<close>

end
